(* ===== verification/Prelude.thy ===== *)
theory Prelude
  imports Main "HOL-Library.Sublist"
begin

text \<open>
  The generic layer of the development: the collections of facts the component theories
  extend, list operations with the semantics of the JavaScript array methods the frontend
  calls, and the string literals that are not ASCII.

  A JavaScript string is modelled as the \<open>char list\<close> of its UTF-8 encoding. On ASCII text
  this is the string itself; the operations that count code units (\<open>slice\<close>, \<open>charAt\<close>)
  therefore agree with the source on ASCII text only, everything else (equality,
  concatenation, prefix tests, \<open>split\<close> and \<open>join\<close> on ASCII separators) on every text.
\<close>

named_theorems js_simps \<open>evaluation rules of the JavaScript library functions\<close>
named_theorems step_simps \<open>equations of the components' handlers\<close>
named_theorems view_simps \<open>equations that compute what a rendered view offers\<close>

section \<open>Characters that are not ASCII\<close>

abbreviation em_dash :: string where
  "em_dash \<equiv> [CHR 0xE2, CHR 0x80, CHR 0x94]"

abbreviation ellipsis :: string where
  "ellipsis \<equiv> [CHR 0xE2, CHR 0x80, CHR 0xA6]"

abbreviation times_sign :: string where
  "times_sign \<equiv> [CHR 0xC3, CHR 0x97]"

abbreviation right_arrow :: string where
  "right_arrow \<equiv> [CHR 0xE2, CHR 0x86, CHR 0x92]"

abbreviation up_arrow :: string where
  "up_arrow \<equiv> [CHR 0xE2, CHR 0x86, CHR 0x91]"

abbreviation down_arrow :: string where
  "down_arrow \<equiv> [CHR 0xE2, CHR 0x86, CHR 0x93]"

abbreviation degree_sign :: string where
  "degree_sign \<equiv> [CHR 0xC2, CHR 0xB0]"

abbreviation middle_dot :: string where
  "middle_dot \<equiv> [CHR 0xC2, CHR 0xB7]"

abbreviation bullet3 :: string where
  "bullet3 \<equiv> [CHR 0xE2, CHR 0x80, CHR 0xA2, CHR 0xE2, CHR 0x80, CHR 0xA2,
    CHR 0xE2, CHR 0x80, CHR 0xA2]"

text \<open>
  The six characters backslash, u, 2, 0, 1, 4: what JSX text and JSX attribute strings show
  for the source characters \<^verbatim>\<open>\u2014\<close>, because escapes are not processed there.
\<close>

abbreviation raw_u2014 :: string where
  "raw_u2014 \<equiv> CHR 0x5C # ''u2014''"

abbreviation raw_u2026 :: string where
  "raw_u2026 \<equiv> CHR 0x5C # ''u2026''"

abbreviation quote :: string where
  "quote \<equiv> [CHR 0x22]"

section \<open>Array methods\<close>

text \<open>\<open>xs.slice(-n)\<close>: the last \<open>n\<close> elements, but all of them for \<open>n = 0\<close>, since \<open>-0\<close> is 0.\<close>

definition slice_last :: "nat \<Rightarrow> 'a list \<Rightarrow> 'a list" where
  "slice_last n xs = (if n = 0 then xs else drop (length xs - n) xs)"

lemma length_slice_last: "0 < n \<Longrightarrow> length (slice_last n xs) = min n (length xs)"
  by (simp add: slice_last_def)

lemma slice_last_short: "length xs \<le> n \<Longrightarrow> slice_last n xs = xs"
  by (simp add: slice_last_def)

lemma slice_last_append_slice_last:
  "slice_last n (slice_last n xs @ [x]) = slice_last n (xs @ [x])"
proof (cases "n \<le> length xs")
  case True
  then show ?thesis by (auto simp: slice_last_def Suc_diff_le)
next
  case False
  then show ?thesis by (simp add: slice_last_def)
qed

lemma suffix_slice_last: "suffix (slice_last n xs) xs"
  by (simp add: slice_last_def suffix_drop)

text \<open>Conditional children of a JSX element, \<open>{c && x}\<close> with a boolean \<open>c\<close>.\<close>

definition vwhen :: "bool \<Rightarrow> 'a list \<Rightarrow> 'a list" where
  "vwhen c xs = (if c then xs else [])"

lemma vwhen_simps [simp]: "vwhen True xs = xs" "vwhen False xs = []"
  by (simp_all add: vwhen_def)

lemma set_vwhen [simp]: "set (vwhen c xs) = (if c then set xs else {})"
  by (simp add: vwhen_def)

lemma map_vwhen: "map f (vwhen c xs) = vwhen c (map f xs)"
  by (simp add: vwhen_def)

text \<open>\<open>s || d\<close> on strings (the empty string is falsy), \<open>o ?? d\<close> and \<open>o || d\<close> on optional ones.\<close>

definition str_or :: "string \<Rightarrow> string \<Rightarrow> string" where
  "str_or s d = (if s = [] then d else s)"

definition opt_or :: "'a option \<Rightarrow> 'a \<Rightarrow> 'a" where
  "opt_or v d = (case v of None \<Rightarrow> d | Some x \<Rightarrow> x)"

definition opt_str :: "string option \<Rightarrow> string" where
  "opt_str v = opt_or v []"

lemma str_or_simps [simp]:
  "str_or [] d = d" "str_or (c # cs) d = c # cs"
  by (simp_all add: str_or_def)

lemma str_or_Nil [simp]: "str_or s [] = s"
  by (simp add: str_or_def)

lemma str_or_eq_Nil [simp]: "str_or s d = [] \<longleftrightarrow> s = [] \<and> d = []"
  by (simp add: str_or_def)

lemma opt_or_simps [simp]: "opt_or None d = d" "opt_or (Some x) d = x"
  by (simp_all add: opt_or_def)

lemma opt_str_simps [simp]: "opt_str None = []" "opt_str (Some s) = s"
  by (simp_all add: opt_str_def)

section \<open>List lemmas the components share\<close>

lemma find_SomeD: "find P xs = Some x \<Longrightarrow> x \<in> set xs \<and> P x"
  by (induction xs) (auto split: if_splits)

lemma find_NoneD: "find P xs = None \<Longrightarrow> x \<in> set xs \<Longrightarrow> \<not> P x"
  by (induction xs) (auto split: if_splits)

lemma find_distinct_key:
  "distinct (map f xs) \<Longrightarrow> find (\<lambda>x. f x = k) xs = Some y \<longleftrightarrow> y \<in> set xs \<and> f y = k"
  by (induction xs) (auto simp: image_iff dest: find_SomeD)

lemma map_eq_append_singleD:
  "map f xs = ys @ [y] \<Longrightarrow> \<exists>zs z. xs = zs @ [z] \<and> map f zs = ys \<and> f z = y"
  by (auto simp: map_eq_append_conv)

end
