(* ===== verification/JS_Numbers.thy ===== *)
theory JS_Numbers
  imports JS_Strings Complex_Main
begin

text \<open>
  JavaScript numbers. A finite double is a rational, so a finite value is modelled as the
  rational it denotes; \<open>NaN\<close> and the infinities are values of their own. Arithmetic on
  finite values is exact here, the rounding of an inexact double operation is left out.
  The theory has \<open>String(n)\<close> on integers, \<open>Number(s)\<close>, \<open>toFixed\<close>, \<open>Math.floor\<close>,
  \<open>Math.ceil\<close> and \<open>Math.round\<close>, \<open>Math.min\<close> and \<open>Math.max\<close>.
\<close>

section \<open>Decimal text of a natural number\<close>

definition digit_char :: "nat \<Rightarrow> char" where
  "digit_char n = char_of (48 + n)"

definition digit_val :: "char \<Rightarrow> nat" where
  "digit_val c = code c - 48"

fun show_nat :: "nat \<Rightarrow> string" where
  "show_nat n = (if n < 10 then [digit_char n] else show_nat (n div 10) @ [digit_char (n mod 10)])"

declare show_nat.simps [simp del]

lemma digit_char_table [simp]:
  "digit_char 0 = CHR ''0''" "digit_char (Suc 0) = CHR ''1''" "digit_char 2 = CHR ''2''" "digit_char 3 = CHR ''3''"
  "digit_char 4 = CHR ''4''" "digit_char 5 = CHR ''5''" "digit_char 6 = CHR ''6''" "digit_char 7 = CHR ''7''"
  "digit_char 8 = CHR ''8''" "digit_char 9 = CHR ''9''"
  by (simp_all add: digit_char_def char_of_def bit_0)

text \<open>Conditional equations that evaluate \<open>show_nat\<close> on numerals.\<close>

lemma show_nat_eval:
  "n < 10 \<Longrightarrow> show_nat n = [digit_char n]"
  "10 \<le> n \<Longrightarrow> show_nat n = show_nat (n div 10) @ [digit_char (n mod 10)]"
  by (subst show_nat.simps; simp)+

definition show_int :: "int \<Rightarrow> string" where
  "show_int z = (if z < 0 then CHR ''-'' # show_nat (nat (- z)) else show_nat (nat z))"

definition digits_val :: "string \<Rightarrow> nat" where
  "digits_val s = foldl (\<lambda>n c. 10 * n + digit_val c) 0 s"

lemma digit_val_digit_char [simp]: "n < 10 \<Longrightarrow> digit_val (digit_char n) = n"
  by (simp add: digit_val_def digit_char_def of_char_of)

lemma is_digit_digit_char [simp]: "n < 10 \<Longrightarrow> is_digit (digit_char n)"
  by (simp add: is_digit_def digit_char_def of_char_of)

lemma digits_val_snoc: "digits_val (s @ [c]) = 10 * digits_val s + digit_val c"
  by (simp add: digits_val_def)

lemma digits_val_show_nat [simp]: "digits_val (show_nat n) = n"
proof (induction n rule: show_nat.induct)
  case (1 n)
  show ?case
  proof (cases "n < 10")
    case True
    then show ?thesis by (simp add: show_nat.simps [of n] digits_val_def)
  next
    case False
    with 1 show ?thesis by (simp add: show_nat.simps [of n] digits_val_snoc)
  qed
qed

lemma show_nat_digits: "c \<in> set (show_nat n) \<Longrightarrow> is_digit c"
proof (induction n arbitrary: c rule: show_nat.induct)
  case (1 n)
  then show ?case by (subst (asm) show_nat.simps) (auto split: if_splits)
qed

lemma show_nat_nonempty [simp]: "show_nat n \<noteq> []"
  by (subst show_nat.simps) simp

lemma show_nat_inj: "show_nat m = show_nat n \<longleftrightarrow> m = n"
  by (metis digits_val_show_nat)

section \<open>Numbers\<close>

datatype jsnum = Fin rat | PInf | NInf | NaN

primrec is_finite :: "jsnum \<Rightarrow> bool" where
  "is_finite (Fin q) = True"
| "is_finite PInf = False"
| "is_finite NInf = False"
| "is_finite NaN = False"

text \<open>
  \<open>Math.max(lo, \<dots>)\<close> and \<open>Math.min(hi, \<dots>)\<close> with a finite first argument: \<open>NaN\<close> wins.
\<close>

fun js_max :: "rat \<Rightarrow> jsnum \<Rightarrow> jsnum" where
  "js_max a (Fin b) = Fin (max a b)"
| "js_max a PInf = PInf"
| "js_max a NInf = Fin a"
| "js_max a NaN = NaN"

fun js_min :: "rat \<Rightarrow> jsnum \<Rightarrow> jsnum" where
  "js_min a (Fin b) = Fin (min a b)"
| "js_min a PInf = Fin a"
| "js_min a NInf = NInf"
| "js_min a NaN = NaN"

text \<open>A magnitude from \<open>2\<^sup>1\<^sup>0\<^sup>2\<^sup>4 - 2\<^sup>9\<^sup>7\<^sup>0\<close> on rounds to an infinity.\<close>

definition overflow_edge :: rat where
  "overflow_edge = 2 ^ 1024 - 2 ^ 970"

definition to_double :: "rat \<Rightarrow> jsnum" where
  "to_double q = (if overflow_edge \<le> q then PInf else if q \<le> - overflow_edge then NInf else Fin q)"

section \<open>Number(s)\<close>

definition radix_digit :: "nat \<Rightarrow> char \<Rightarrow> nat option" where
  "radix_digit r c =
     (let v = (if is_digit c then Some (code c - 48)
               else if is_lower c then Some (code c - 87)
               else if is_upper c then Some (code c - 55)
               else None)
      in case v of None \<Rightarrow> None | Some n \<Rightarrow> if n < r then Some n else None)"

fun radix_val :: "nat \<Rightarrow> nat \<Rightarrow> string \<Rightarrow> nat option" where
  "radix_val r acc [] = Some acc"
| "radix_val r acc (c # s) =
     (case radix_digit r c of None \<Rightarrow> None | Some d \<Rightarrow> radix_val r (r * acc + d) s)"

definition exponent :: "string \<Rightarrow> int option" where
  "exponent s =
     (let (neg, ds) = (case s of c # r \<Rightarrow> if c = CHR ''-'' then (True, r)
                                          else if c = CHR ''+'' then (False, r) else (False, s)
                               | [] \<Rightarrow> (False, s))
      in if ds = [] \<or> \<not> list_all is_digit ds then None
         else Some (if neg then - int (digits_val ds) else int (digits_val ds)))"

definition scale10 :: "rat \<Rightarrow> int \<Rightarrow> rat" where
  "scale10 q e = (if 0 \<le> e then q * 10 ^ nat e else q / 10 ^ nat (- e))"

text \<open>An unsigned decimal literal: digits, an optional fraction, an optional exponent.\<close>

definition unsigned_decimal :: "string \<Rightarrow> rat option" where
  "unsigned_decimal s =
     (let ip = takeWhile is_digit s; r = dropWhile is_digit s;
          (fp, r2) = (case r of c # r' \<Rightarrow> if c = CHR ''.'' then (takeWhile is_digit r', dropWhile is_digit r')
                                          else ([], r)
                              | [] \<Rightarrow> ([], r));
          m = of_nat (digits_val (ip @ fp)) / 10 ^ length fp
      in if ip = [] \<and> fp = [] then None
         else (case r2 of
             [] \<Rightarrow> Some m
           | c # e \<Rightarrow> if c = CHR ''e'' \<or> c = CHR ''E'' then map_option (scale10 m) (exponent e) else None))"

definition signed_literal :: "bool \<Rightarrow> string \<Rightarrow> jsnum" where
  "signed_literal neg s =
     (if s = ''Infinity'' then (if neg then NInf else PInf)
      else (case unsigned_decimal s of
          None \<Rightarrow> NaN
        | Some q \<Rightarrow> to_double (if neg then - q else q)))"

definition radix_literal :: "nat \<Rightarrow> string \<Rightarrow> jsnum" where
  "radix_literal r s =
     (if s = [] then NaN
      else (case radix_val r 0 s of None \<Rightarrow> NaN | Some n \<Rightarrow> to_double (of_nat n)))"

definition js_number :: "string \<Rightarrow> jsnum" where
  "js_number s =
     (let t = js_trim s in
      case t of
        [] \<Rightarrow> Fin 0
      | c # r \<Rightarrow>
          if prefix ''0x'' t \<or> prefix ''0X'' t then radix_literal 16 (drop 2 t)
          else if prefix ''0o'' t \<or> prefix ''0O'' t then radix_literal 8 (drop 2 t)
          else if prefix ''0b'' t \<or> prefix ''0B'' t then radix_literal 2 (drop 2 t)
          else if c = CHR ''-'' then signed_literal True r
          else if c = CHR ''+'' then signed_literal False r
          else signed_literal False t)"

text \<open>
  \<open>String(x)\<close>: exact for integers below \<open>10\<^sup>2\<^sup>1\<close>. The shortest decimal text of any other
  number is left as the parameter \<open>shortest\<close>.
\<close>

fun num_string :: "(rat \<Rightarrow> string) \<Rightarrow> jsnum \<Rightarrow> string" where
  "num_string shortest (Fin q) =
     (if of_int \<lfloor>q\<rfloor> = q \<and> \<bar>q\<bar> < 10 ^ 21 then show_int \<lfloor>q\<rfloor> else shortest q)"
| "num_string shortest PInf = ''Infinity''"
| "num_string shortest NInf = ''-Infinity''"
| "num_string shortest NaN = ''NaN''"

lemma digit_not_special:
  "is_digit c \<Longrightarrow> \<not> is_ws c \<and> c \<noteq> CHR ''x'' \<and> c \<noteq> CHR ''X'' \<and> c \<noteq> CHR ''o'' \<and> c \<noteq> CHR ''O''
    \<and> c \<noteq> CHR ''b'' \<and> c \<noteq> CHR ''B'' \<and> c \<noteq> CHR ''-'' \<and> c \<noteq> CHR ''+'' \<and> c \<noteq> CHR ''I''"
  by (auto simp: is_digit_def is_ws_def)

lemma unsigned_decimal_digits:
  assumes "ds \<noteq> []" "\<forall>c \<in> set ds. is_digit c"
  shows "unsigned_decimal ds = Some (of_nat (digits_val ds))"
proof -
  have tw: "takeWhile is_digit ds = ds" and dw: "dropWhile is_digit ds = []"
    using assms(2) by auto
  show ?thesis
    unfolding unsigned_decimal_def Let_def tw dw using assms(1) by simp
qed

lemma js_number_digits:
  assumes "ds \<noteq> []" "\<forall>c \<in> set ds. is_digit c"
  shows "js_number ds = to_double (of_nat (digits_val ds))"
proof -
  obtain c r where ds: "ds = c # r" using assms(1) by (cases ds) auto
  have dig: "\<And>x. x \<in> set ds \<Longrightarrow> is_digit x" using assms(2) by blast
  have "trimmed ds"
    using assms digit_not_special by (auto simp: trimmed_def)
  then have t: "js_trim ds = ds" by (rule js_trim_trimmed)
  have np: "\<not> prefix [y, x] ds" if "\<not> is_digit x" for x y
  proof
    assume "prefix [y, x] ds"
    then have "x \<in> set ds" by (auto simp: prefix_def)
    with that dig show False by blast
  qed
  have "is_digit c" using dig ds by simp
  then have c: "c \<noteq> CHR ''-''" "c \<noteq> CHR ''+''" "c \<noteq> CHR ''I''"
    using digit_not_special by blast+
  then have sp: "ds \<noteq> ''Infinity''" using ds by (metis list.inject)
  have "\<not> is_digit (CHR ''x'')" "\<not> is_digit (CHR ''X'')" "\<not> is_digit (CHR ''o'')"
    "\<not> is_digit (CHR ''O'')" "\<not> is_digit (CHR ''b'')" "\<not> is_digit (CHR ''B'')"
    by (simp_all add: is_digit_def)
  then have np': "\<not> prefix ''0x'' ds" "\<not> prefix ''0X'' ds" "\<not> prefix ''0o'' ds"
    "\<not> prefix ''0O'' ds" "\<not> prefix ''0b'' ds" "\<not> prefix ''0B'' ds"
    by (simp_all add: np)
  have "js_number ds = signed_literal False ds"
    unfolding js_number_def Let_def t using np' c ds by (simp only: list.case if_False simp_thms)
  also have "\<dots> = to_double (of_nat (digits_val ds))"
    unfolding signed_literal_def using sp unsigned_decimal_digits [OF assms] by simp
  finally show ?thesis .
qed

lemma js_number_show_nat:
  assumes "of_nat n < overflow_edge"
  shows "js_number (show_nat n) = Fin (of_nat n)"
proof -
  have "0 < overflow_edge" by (simp add: overflow_edge_def)
  then have "\<not> of_nat n \<le> - overflow_edge"
    by (metis neg_less_0_iff_less not_le of_nat_0_le_iff order.strict_trans1)
  with assms show ?thesis
    using show_nat_digits by (simp add: js_number_digits to_double_def)
qed

section \<open>Rounding and toFixed\<close>

lemma floor_rat_numeral [simp]: "\<lfloor>(numeral a :: rat) / numeral b\<rfloor> = numeral a div numeral b"
  by (metis floor_divide_of_int_eq of_int_numeral)

text \<open>\<open>Math.round\<close> rounds a half up, towards plus infinity.\<close>

definition math_round :: "rat \<Rightarrow> int" where
  "math_round q = \<lfloor>q + 1 / 2\<rfloor>"

text \<open>
  \<open>x.toFixed(f)\<close> below \<open>10\<^sup>2\<^sup>1\<close>: the sign of a negative number first, then the integer nearest
  to \<open>|x| * 10\<^sup>f\<close>, the larger one at a tie, with \<open>f\<close> digits behind the point.
\<close>

definition pad_zeros :: "nat \<Rightarrow> string \<Rightarrow> string" where
  "pad_zeros n s = replicate (n - length s) (CHR ''0'') @ s"

definition to_fixed :: "nat \<Rightarrow> rat \<Rightarrow> string" where
  "to_fixed f x =
     (let sgn = (if x < 0 then ''-'' else []); n = nat \<lfloor>\<bar>x\<bar> * 10 ^ f + 1 / 2\<rfloor>
      in sgn @ (if f = 0 then show_nat n
                else show_nat (n div 10 ^ f) @ ''.'' @ pad_zeros f (show_nat (n mod 10 ^ f))))"

text \<open>The number a \<open>toFixed\<close> text denotes.\<close>

definition fixed_value :: "nat \<Rightarrow> rat \<Rightarrow> rat" where
  "fixed_value f x = of_int \<lfloor>x * 10 ^ f + 1 / 2\<rfloor> / 10 ^ f"

lemma fixed_value_error: "\<bar>fixed_value f x - x\<bar> \<le> 1 / (2 * 10 ^ f)"
proof -
  let ?n = "of_int \<lfloor>x * 10 ^ f + 1 / 2\<rfloor> :: rat"
  have "\<bar>?n - x * 10 ^ f\<bar> \<le> 1 / 2"
    using floor_correct [of "x * 10 ^ f + 1 / 2"] by linarith
  then have "\<bar>?n - x * 10 ^ f\<bar> / 10 ^ f \<le> (1 / 2) / 10 ^ f"
    by (rule divide_right_mono) simp
  moreover have "fixed_value f x - x = (?n - x * 10 ^ f) / 10 ^ f"
    by (simp add: fixed_value_def diff_divide_distrib)
  ultimately show ?thesis by simp
qed

lemma math_round_error: "\<bar>of_int (math_round q) - q\<bar> \<le> 1 / 2"
  using floor_correct [of "q + 1 / 2"] unfolding math_round_def by linarith

lemma math_round_int [simp]: "math_round (of_int z) = z"
  unfolding math_round_def by linarith

lemma to_fixed_nonempty [simp]: "to_fixed f x \<noteq> []"
  by (simp add: to_fixed_def Let_def)

end
