(* ===== verification/React_View.thy ===== *)
theory React_View
  imports JS_Numbers
begin

text \<open>
  What a React component renders, as a value. An element has its tag or component name, the
  props that carry behaviour or content, and its children. A handler prop holds the action
  the component's page performs when it fires: \<open>Act\<close> without an argument, \<open>ActS\<close> and \<open>ActB\<close>
  with the new text or the new boolean of the control. Purely presentational props (static
  class names, sizes, SVG attributes, React keys) are left out everywhere; a class name that
  depends on the state is kept as a prop.

  \<open>set_view v\<close> is the set of all actions wired into a view. \<open>offered v\<close> is the subset a user
  can trigger: a closed overlay (\<open>isOpen={false}\<close>) shows none of its children, a disabled
  or pending control fires nothing.
\<close>

datatype 'a attr =
    PS string
  | PN jsnum
  | PB bool
  | Act 'a
  | ActS "string \<Rightarrow> 'a"
  | ActB "bool \<Rightarrow> 'a"

datatype 'a view =
    El string "(string \<times> 'a attr) list" "'a view list"
  | Txt string

abbreviation PI :: "int \<Rightarrow> 'a attr" where
  "PI n \<equiv> PN (Fin (of_int n))"

definition prop_is :: "string \<Rightarrow> bool \<Rightarrow> (string \<times> 'a attr) list \<Rightarrow> bool" where
  "prop_is k b ps \<longleftrightarrow> (case map_of ps k of Some (PB c) \<Rightarrow> c = b | _ \<Rightarrow> False)"

definition inert :: "(string \<times> 'a attr) list \<Rightarrow> bool" where
  "inert ps \<longleftrightarrow> prop_is ''isDisabled'' True ps \<or> prop_is ''isPending'' True ps"

fun offered :: "'a view \<Rightarrow> 'a set" where
  "offered (Txt s) = {}"
| "offered (El t ps vs) =
     (if prop_is ''isOpen'' False ps then {}
      else (if inert ps then {} else (\<Union>(k, p) \<in> set ps. set_attr p)) \<union> (\<Union>v \<in> set vs. offered v))"

lemma offered_subset: "offered v \<subseteq> set_view v"
proof (induction v)
  case (El t ps vs)
  then show ?case by (fastforce split: if_splits)
next
  case (Txt s)
  then show ?case by simp
qed

declare offered.simps(2) [simp del]

lemma offered_Txt_list [simp]: "(\<Union>v \<in> set (map Txt ss). offered v) = {}"
  by auto

lemma offered_plain [view_simps]:
  "offered (El t [] vs) = (\<Union>v \<in> set vs. offered v)"
  by (simp add: offered.simps inert_def prop_is_def)

lemma offered_El [view_simps]:
  "offered (El t (p # ps) vs) =
     (if prop_is ''isOpen'' False (p # ps) then {}
      else (if inert (p # ps) then {} else set_attr (snd p) \<union> (\<Union>q \<in> set ps. set_attr (snd q)))
        \<union> (\<Union>v \<in> set vs. offered v))"
  by (auto simp: offered.simps split_beta)

lemmas prop_simps [view_simps] = prop_is_def inert_def

section \<open>Text content\<close>

text \<open>The text nodes of a view in document order, with closed overlays left out.\<close>

fun text_of :: "'a view \<Rightarrow> string list" where
  "text_of (Txt s) = [s]"
| "text_of (El t ps vs) = (if prop_is ''isOpen'' False ps then [] else concat (map text_of vs))"

section \<open>JSON bodies and responses\<close>

datatype json = JNull | JBool bool | JNum jsnum | JStr string | JArr "json list" | JObj "(string \<times> json) list"

abbreviation JInt :: "int \<Rightarrow> json" where
  "JInt n \<equiv> JNum (Fin (of_int n))"

text \<open>
  The outcome of a \<open>fetch\<close>: it rejects with an error message, or it resolves to a status
  and a body. \<open>r_json\<close> is the body parsed by \<open>resp.json()\<close>, \<open>None\<close> when that rejects;
  \<open>r_text\<close> is \<open>resp.text()\<close>. \<open>resp.ok\<close> is a status from 200 to 299.
\<close>

record 'j response =
  r_status :: nat
  r_status_text :: string
  r_text :: string
  r_json :: "'j option"

definition resp_ok :: "('j, 'z) response_scheme \<Rightarrow> bool" where
  "resp_ok r \<longleftrightarrow> 200 \<le> r_status r \<and> r_status r \<le> 299"

datatype 'j outcome = Rejected string | Resolved "'j response"

text \<open>
  The envelope of the mutating endpoints as the pages read it: \<open>data.success\<close>,
  \<open>data.message\<close> and \<open>data.error\<close> (optional fields as options).
\<close>

record envelope =
  env_success :: bool
  env_message :: "string option"
  env_error :: "string option"

text \<open>Observable effects of the pages' handlers.\<close>

datatype toast_kind = Success | Error | Warning | Info | Loading

datatype effect =
    Fetch string string "json option"
  | Toast toast_kind string
  | ToastDesc toast_kind string string
  | After int string
  | Navigate string
  | OpenWindow string
  | Clipboard string
  | Download string string

end
