(* ===== verification/Api_Types.thy ===== *)
theory Api_Types
  imports React_View
begin

text \<open>
  The wire types of the daemon's HTTP API, \<^verbatim>\<open>api-types/index.ts\<close> (the frontend's
  \<^verbatim>\<open>src/types.gen.ts\<close> is the same file). Every interface is a record of the same name;
  field \<open>f\<close> of an interface carries the interface's initials in front, \<open>si_unit_name\<close> for
  \<open>unit_name\<close> of \<open>ServiceInfo\<close>. An optional field is an option, a Go integer an \<open>int\<close>, a Go
  float the rational it denotes (JSON has no infinities and no NaN), and an object used as a
  dictionary the list of its entries in the order \<open>Object.entries\<close> gives.
  An array the daemon sends as \<open>null\<close> (a nil Go slice) is read as the empty list, as the
  \<open>|| []\<close> and \<open>?? []\<close> guards of the frontend read it.
\<close>

section \<open>backups.go\<close>

record Backup =
  bk_unit :: string
  bk_enabled :: bool
  bk_schedule :: string
  bk_depends_on :: "string list"
  bk_requires_mount :: "string list"
  bk_healthcheck_uuid :: string
  bk_pause_service :: string

record BackupStatus =
  bs_unit :: string
  bs_enabled :: bool
  bs_schedule :: string
  bs_depends_on :: "string list"
  bs_requires_mount :: "string list"
  bs_healthcheck_uuid :: string
  bs_pause_service :: string
  bs_active_state :: string
  bs_result :: string
  bs_last_run_start :: string
  bs_last_run_end :: string
  bs_next_run :: string

record PatchBackupRequest =
  pbq_enabled :: "bool option"
  pbq_schedule :: "string option"
  pbq_healthcheck_uuid :: "string option"
  pbq_pause_service :: "string option"
  pbq_depends_on :: "(string list) option"

record PatchBackupResponse =
  pbr_success :: bool
  pbr_backup :: Backup

section \<open>common.go\<close>

record SuccessResponse =
  sr_success :: bool
  sr_error :: "string option"

record BulkResult =
  br_success :: bool
  br_total :: int
  br_failed :: int

record ErrorResponse =
  er_error :: string
  er_message :: "string option"
  er_code :: "string option"

section \<open>logviewer.go\<close>

record LogViewerField =
  lvf_name :: string
  lvf_label :: string
  lvf_type :: string
  lvf_values :: "(string list) option"

record LogViewerServiceConfig =
  lvs_id :: string
  lvs_label :: string
  lvs_selector :: string
  lvs_fields :: "LogViewerField list"
  lvs_format :: string

record LogViewerConfig =
  lvc_defaultMode :: string
  lvc_defaultWindow :: string
  lvc_maxLines :: int
  lvc_services :: "LogViewerServiceConfig list"

section \<open>qbittorrent.go\<close>

record QbitTorrent =
  qt_hash :: string
  qt_name :: string
  qt_size :: int
  qt_progress :: rat
  qt_dlspeed :: int
  qt_upspeed :: int
  qt_eta :: int
  qt_state :: string
  qt_instance :: string

record QbitStatus =
  qs_enabled :: bool
  qs_error :: "string option"
  qs_torrents :: "QbitTorrent list"

section \<open>secrets.go\<close>

record SecretEntry =
  se_name :: string
  se_description :: string
  se_services :: "string list"
  se_runPath :: string

record SecretStatus =
  ses_SecretEntry :: SecretEntry
  ses_present :: bool
  ses_modified_at :: "string option"
  ses_preview :: "string option"

record SecretsListResponse =
  slr_secrets :: "SecretStatus list"
  slr_deploy_pending :: bool

record SecretSetRequest =
  ssq_value :: string

record SecretMutationResponse =
  smr_success :: bool
  smr_deploy_pending :: bool

record DeployEvent =
  de_type :: string
  de_message :: string

section \<open>services.go\<close>

record PortMapping =
  pm_container_port :: int
  pm_host_port :: int
  pm_protocol :: string
  pm_host_ip :: "string option"

record Service =
  svc_unit :: string
  svc_enabled :: bool
  svc_order :: int
  svc_boot_delay :: int
  svc_depends_on :: "string list"
  svc_requires_mount :: "string list"
  svc_restart :: string
  svc_restart_delay :: int
  svc_icon_url :: "string option"
  svc_homepage_url :: "string option"

record ServiceStatus =
  sst_unit :: string
  sst_enabled :: bool
  sst_active :: bool
  sst_active_state :: string
  sst_sub_state :: string
  sst_description :: string
  sst_user_stopped :: bool
  sst_restart :: string
  sst_order :: int
  sst_boot_delay :: int
  sst_restart_delay :: int
  sst_depends_on :: "string list"
  sst_requires_mount :: "string list"
  sst_failure_count :: int
  sst_backoff_until :: string
  sst_blocked_reason :: string
  sst_icon_url :: "string option"
  sst_homepage_url :: "string option"

record PatchServiceRequest =
  psq_enabled :: "bool option"
  psq_order :: "int option"
  psq_boot_delay :: "int option"
  psq_depends_on :: "(string list) option"
  psq_restart :: "string option"
  psq_restart_delay :: "int option"

record PatchServiceResponse =
  psr_success :: bool
  psr_service :: Service

record ServiceInfo =
  si_name :: string
  si_type :: string
  si_image :: "string option"
  si_active_state :: string
  si_sub_state :: string
  si_description :: string
  si_unit_name :: string
  si_update_available :: bool
  si_current_version :: "string option"
  si_remote_version :: "string option"
  si_daemon_managed :: bool
  si_restart_policy :: string
  si_boot_order :: int
  si_boot_delay :: int
  si_restart_delay :: int
  si_depends_on :: "string list"
  si_user_stopped :: bool
  si_daemon_enabled :: bool
  si_failure_count :: int
  si_backoff_seconds :: int
  si_blocked_reason :: string
  si_requires_mount :: "string list"
  si_icon_url :: "string option"
  si_homepage_url :: "string option"
  si_started_at :: "string option"
  si_port_mappings :: "(PortMapping list) option"

section \<open>stats.go\<close>

record DiskStat =
  ds_Mountpoint :: string
  ds_Total :: int
  ds_Used :: int
  ds_Percent :: rat
  ds_UsedStr :: string
  ds_TotalStr :: string

record ProcessStat =
  ps_PID :: int
  ps_Name :: string
  ps_CPU :: rat
  ps_Memory :: rat

record HostInfo =
  hi_Hostname :: string
  hi_OS :: string
  hi_KernelVersion :: string
  hi_Uptime :: int
  hi_CPUModel :: string
  hi_CPUCores :: int
  hi_Motherboard :: string
  hi_Packages :: int

record GpuStats =
  gpu_RenderBusy :: rat
  gpu_VideoBusy :: rat
  gpu_FreqMHz :: rat
  gpu_PowerW :: rat
  gpu_RC6Pct :: rat
  gpu_Available :: bool
  gpu_ErrMsg :: string

record StatsSnapshot =
  st_CPUUsage :: rat
  st_CPUTemp :: rat
  st_NVMeTemp :: rat
  st_MemTotal :: int
  st_MemUsed :: int
  st_MemPercent :: rat
  st_Disks :: "DiskStat list"
  st_NetSentRate :: rat
  st_NetRecvRate :: rat
  st_TopCPU :: "ProcessStat list"
  st_TopMem :: "ProcessStat list"
  st_System :: HostInfo
  st_Gpu :: GpuStats
  st_MemUsedStr :: string
  st_MemTotalStr :: string
  st_UptimeStr :: string

section \<open>storage.go\<close>

record DiskIOStats =
  io_device_name :: string
  io_read_ios :: int
  io_write_ios :: int
  io_read_sectors :: int
  io_write_sectors :: int
  io_io_in_progress :: int

record PoolUsage =
  pu_total_bytes :: int
  pu_used_bytes :: int
  pu_available_bytes :: int
  pu_used_percent :: rat

record Disk =
  dk_name :: string
  dk_path :: string
  dk_size :: int
  dk_type :: string
  dk_model :: string
  dk_serial :: string
  dk_fstype :: string
  dk_mountpoint :: string
  dk_label :: string
  dk_has_children :: "bool option"
  dk_bcachefs_label :: string
  dk_data_target :: string
  dk_metadata_target :: string
  dk_io :: "DiskIOStats option"
  dk_friendly_name :: string

record Pool =
  pool_uuid :: string
  pool_name :: string
  pool_state :: string
  pool_mountdir :: string
  pool_label :: string
  pool_data_replicas :: int
  pool_metadata_replicas :: int
  pool_disks :: "Disk list"
  pool_usage :: "PoolUsage option"

record Subvolume =
  sv_id :: string
  sv_path :: string
  sv_used_bytes :: int

record StorageStatus =
  ss_pools :: "Pool list"
  ss_unassigned :: "Disk list"
  ss_subvolumes :: "Subvolume list"

record StoragePoolConfig =
  spc_uuid :: string
  spc_mountpoint :: string
  spc_options :: string
  spc_auto_mount :: bool
  spc_name :: "string option"

record MountRequest =
  mrq_devices :: "string list"
  mrq_mountpoint :: string

record UnmountRequest =
  urq_mountpoint :: string

record CheckRequest =
  crq_devices :: "string list"
  crq_mountdir :: string
  crq_fix :: bool

record BalanceRequest =
  brq_mountdir :: string

record SubvolumeUsageRequest =
  suq_paths :: "string list"

record SubvolumeUsageResponse =
  sur_success :: bool
  sur_usage :: "(string \<times> int) list"

record StorageConfigPatch =
  scp_pools :: "StoragePoolConfig list"

record SubvolumeRequest =
  svq_path :: string

record InitFoldersRequest =
  ifq_mountpoint :: string

record CommandResult =
  cr_success :: bool
  cr_error :: "string option"
  cr_output :: string

record UnmountConflict =
  uc_error :: string
  uc_message :: string
  uc_active_deps :: "string list"

section \<open>updates.go\<close>

record UpdateInfo =
  ui_has_update :: bool
  ui_current_version :: string
  ui_remote_version :: string
  ui_local_id :: string
  ui_remote_id :: string

record MetadataEntry =
  me_image :: string
  me_description :: string
  me_revision_url :: string

record UpdatesStatus =
  us_updates :: "(string \<times> UpdateInfo) list"
  us_metadata :: "(string \<times> MetadataEntry) list"

section \<open>version.go\<close>

definition Version :: string where
  "Version = ''v1''"

definition APIPrefix :: string where
  "APIPrefix = ''/api/'' @ Version"

definition SocketPath :: string where
  "SocketPath = ''/run/homelab-daemon/daemon.sock''"

record VersionResponse =
  vr_version :: string
  vr_apiVersion :: string
  vr_prefix :: string

section \<open>vms.go\<close>

record VMInfo =
  vm_name :: string
  vm_state :: string
  vm_memory :: string
  vm_cpus :: int

definition VMStateRunning :: string where
  "VMStateRunning = ''Running''"

definition VMStatePaused :: string where
  "VMStatePaused = ''Paused''"

definition VMStateShutOff :: string where
  "VMStateShutOff = ''Shut Off''"

definition VMStateShuttingDown :: string where
  "VMStateShuttingDown = ''Shutting Down''"

definition VMStateCrashed :: string where
  "VMStateCrashed = ''Crashed''"

definition VMStateNoState :: string where
  "VMStateNoState = ''No State''"

definition VMStateBlocked :: string where
  "VMStateBlocked = ''Blocked''"

definition VMStatePMSuspended :: string where
  "VMStatePMSuspended = ''PM Suspended''"

definition VMStateUnknown :: string where
  "VMStateUnknown = ''Unknown''"

section \<open>vpn.go\<close>

record VPNStatus =
  vpn_Enabled :: bool
  vpn_Connected :: bool
  vpn_Provider :: string
  vpn_Type :: string
  vpn_ServerCountry :: string
  vpn_PublicIP :: string
  vpn_Country :: string
  vpn_ForwardedPort :: int
  vpn_LastHandshake :: string
  vpn_FailureCount :: int
  vpn_ErrMsg :: "string option"

end
