(* ===== verification/Local_Storage.thy ===== *)
theory Local_Storage
  imports JS_Numbers
begin

text \<open>
  The browser's \<open>localStorage\<close> as the frontend uses it. Reading and writing can throw (a
  blocked or full store); every use in the sources catches that, so a read is an option over
  the stored text and a write that throws leaves the store as it was. The locale is the
  contract the stored preferences rest on, poll interval, view mode and theme.
\<close>

record local_storage =
  ls_readable :: bool
  ls_writable :: bool
  ls_items :: "string \<rightharpoonup> string"

text \<open>\<open>None\<close>: the call throws. \<open>Some None\<close>: it returns \<open>null\<close>.\<close>

definition getItem :: "local_storage \<Rightarrow> string \<Rightarrow> string option option" where
  "getItem ls k = (if ls_readable ls then Some (ls_items ls k) else None)"

definition setItem :: "local_storage \<Rightarrow> string \<Rightarrow> string \<Rightarrow> local_storage" where
  "setItem ls k v =
     (if ls_writable ls then ls\<lparr>ls_items := (ls_items ls)(k \<mapsto> v)\<rparr> else ls)"

locale preference_store =
  fixes get :: "'s \<Rightarrow> string \<Rightarrow> string option option"
    and set :: "'s \<Rightarrow> string \<Rightarrow> string \<Rightarrow> 's"
    and usable :: "'s \<Rightarrow> bool"
  assumes get_set_same: "usable s \<Longrightarrow> get (set s k v) k = Some (Some v)"
    and get_set_other: "k \<noteq> k' \<Longrightarrow> get (set s k v) k' = get s k'"
    and usable_set: "usable (set s k v) = usable s"
begin

text \<open>
  A preference is a text decoded with a default; saving the text of a value and loading
  it again gives the value, whatever else was saved in between under other keys.
\<close>

definition load :: "string \<Rightarrow> (string \<Rightarrow> 'a option) \<Rightarrow> 'a \<Rightarrow> 's \<Rightarrow> 'a" where
  "load k dec d s =
     (case get s k of Some (Some v) \<Rightarrow> (case dec v of Some x \<Rightarrow> x | None \<Rightarrow> d) | _ \<Rightarrow> d)"

lemma load_set: "usable s \<Longrightarrow> dec v = Some x \<Longrightarrow> load k dec d (set s k v) = x"
  by (simp add: load_def get_set_same)

lemma load_set_other: "k \<noteq> k' \<Longrightarrow> load k' dec d (set s k v) = load k' dec d s"
  by (simp add: load_def get_set_other)

lemma load_in_range:
  "\<lbrakk> P d; \<And>v x. dec v = Some x \<Longrightarrow> P x \<rbrakk> \<Longrightarrow> P (load k dec d s)"
  by (auto simp: load_def split: option.splits)

end

interpretation browser: preference_store getItem setItem "\<lambda>ls. ls_readable ls \<and> ls_writable ls"
  by unfold_locales (auto simp: getItem_def setItem_def)

end
