(* ===== verification/Overview_Poller.thy ===== *)
theory Overview_Poller
  imports Api_Types Local_Storage
begin

text \<open>
  \<^verbatim>\<open>hooks/use-overview.ts\<close>: the stored poll interval, the module-level \<open>SharedPoller\<close> with
  its subscriber set, cache, timer and single in-flight request, and the listener state of
  \<open>useOverview\<close>. The poller's world adds what the browser keeps for it: the pending timers
  and the requests in flight. The steps are the method calls and callbacks of the class in
  any order the event loop can run them; the reachable worlds satisfy \<open>poll_inv\<close>, and the
  class refines a three-phase machine, quiet, polling or sleeping.
\<close>

section \<open>Data and poll interval\<close>

record OverviewData =
  od_Hostname :: string
  od_Stats :: StatsSnapshot
  od_Services :: "ServiceInfo list"
  od_VMs :: "VMInfo list"
  od_Backups :: "BackupStatus list"
  od_VPN :: VPNStatus
  od_Qbittorrent :: QbitStatus
  od_ErrMsg :: "string option"

definition POLL_KEY :: string where
  "POLL_KEY = ''homelab-dash-poll-interval''"

definition clamp_interval :: "rat \<Rightarrow> rat" where
  "clamp_interval n = max 2000 (min 60000 n)"

definition getPollInterval :: "local_storage \<Rightarrow> rat" where
  "getPollInterval ls =
     (case getItem ls POLL_KEY of
        Some (Some saved) \<Rightarrow>
          if saved \<noteq> [] then (case js_number saved of Fin n \<Rightarrow> clamp_interval n | _ \<Rightarrow> 10000)
          else 10000
      | _ \<Rightarrow> 10000)"

definition setPollInterval :: "(rat \<Rightarrow> string) \<Rightarrow> jsnum \<Rightarrow> local_storage \<Rightarrow> local_storage" where
  "setPollInterval shortest ms ls =
     setItem ls POLL_KEY (num_string shortest (js_max 2000 (js_min 60000 ms)))"

definition interval_of_text :: "string \<Rightarrow> rat option" where
  "interval_of_text v = (case js_number v of Fin n \<Rightarrow> if v \<noteq> [] then Some (clamp_interval n) else None | _ \<Rightarrow> None)"

lemma getPollInterval_load: "getPollInterval ls = browser.load POLL_KEY interval_of_text 10000 ls"
  by (auto simp: getPollInterval_def browser.load_def interval_of_text_def
      split: option.splits jsnum.splits)

lemma clamp_interval_range: "2000 \<le> clamp_interval n \<and> clamp_interval n \<le> 60000"
  by (simp add: clamp_interval_def)

lemma getPollInterval_range: "2000 \<le> getPollInterval ls \<and> getPollInterval ls \<le> 60000"
  unfolding getPollInterval_load
  by (rule browser.load_in_range)
    (auto simp: interval_of_text_def clamp_interval_range split: jsnum.splits if_splits)

lemma interval_of_show_nat:
  assumes "2000 \<le> n" "n \<le> 60000"
  shows "interval_of_text (show_nat n) = Some (of_nat n)"
proof -
  have "of_nat n \<le> (60000 :: rat)" using assms(2) by (metis of_nat_le_iff of_nat_numeral)
  also have "\<dots> < overflow_edge" by (simp add: overflow_edge_def)
  finally have "js_number (show_nat n) = Fin (of_nat n)" by (rule js_number_show_nat)
  moreover have "(2000 :: rat) \<le> of_nat n" using assms(1) by (metis of_nat_le_iff of_nat_numeral)
  ultimately show ?thesis
    using \<open>of_nat n \<le> (60000 :: rat)\<close> by (simp add: interval_of_text_def clamp_interval_def)
qed

section \<open>SharedPoller\<close>

record poller =
  subscribers :: "nat list"
  cached :: "OverviewData option"
  lastError :: "string option"
  timeoutId :: "nat option"
  fetching :: bool

text \<open>
  What the browser holds for the poller: pending timers with their delay, the requests in
  flight with the interval each one resolved when it started, and the next timer id.
\<close>

record poll_world = poller +
  timers :: "(nat \<times> rat) list"
  in_flight :: "rat list"
  next_id :: nat

datatype poll_out =
    OnData nat OverviewData
  | OnError nat string "OverviewData option"
  | ServiceFailure string int int

definition poll_init :: poll_world where
  "poll_init = \<lparr>subscribers = [], cached = None, lastError = None, timeoutId = None,
     fetching = False, timers = [], in_flight = [], next_id = 1\<rparr>"

text \<open>Slow down when the tab is in the background.\<close>

definition resolved_interval :: "bool \<Rightarrow> local_storage \<Rightarrow> rat" where
  "resolved_interval hidden ls =
     (if hidden then max (getPollInterval ls) 30000 else getPollInterval ls)"

definition deliverCached :: "poll_world \<Rightarrow> poll_out list" where
  "deliverCached s =
     (case cached s of None \<Rightarrow> [] | Some d \<Rightarrow> map (\<lambda>l. OnData l d) (subscribers s))"

definition poll_stop :: "poll_world \<Rightarrow> poll_world" where
  "poll_stop s =
     (case timeoutId s of
        None \<Rightarrow> s
      | Some i \<Rightarrow> s\<lparr>timers := filter (\<lambda>t. fst t \<noteq> i) (timers s), timeoutId := None\<rparr>)"

definition tick :: "bool \<Rightarrow> local_storage \<Rightarrow> poll_world \<Rightarrow> poll_world \<times> poll_out list" where
  "tick hidden ls s =
     (if subscribers s = [] then (s, [])
      else if fetching s then (s, deliverCached s)
      else (s\<lparr>fetching := True, in_flight := in_flight s @ [resolved_interval hidden ls]\<rparr>,
            deliverCached s))"

definition set_add :: "'a \<Rightarrow> 'a list \<Rightarrow> 'a list" where
  "set_add x xs = (if x \<in> set xs then xs else xs @ [x])"

definition subscribe :: "bool \<Rightarrow> local_storage \<Rightarrow> nat \<Rightarrow> poll_world \<Rightarrow> poll_world \<times> poll_out list" where
  "subscribe hidden ls l s =
     (let s1 = s\<lparr>subscribers := set_add l (subscribers s)\<rparr>;
          outs = (case cached s1 of None \<Rightarrow> [] | Some d \<Rightarrow> [OnData l d])
      in if length (subscribers s1) = 1
         then (let (s2, outs2) = tick hidden ls s1 in (s2, outs @ outs2))
         else (s1, outs))"

definition unsubscribe :: "nat \<Rightarrow> poll_world \<Rightarrow> poll_world" where
  "unsubscribe l s =
     (let s1 = s\<lparr>subscribers := removeAll l (subscribers s)\<rparr>
      in if subscribers s1 = [] then poll_stop s1 else s1)"

definition set_timeout :: "rat \<Rightarrow> poll_world \<Rightarrow> poll_world" where
  "set_timeout d s =
     s\<lparr>timers := timers s @ [(next_id s, d)], timeoutId := Some (next_id s), next_id := next_id s + 1\<rparr>"

text \<open>Services whose failure count rose since the previous response.\<close>

definition new_failures :: "OverviewData option \<Rightarrow> OverviewData \<Rightarrow> poll_out list" where
  "new_failures prev fresh =
     (case prev of
        None \<Rightarrow> []
      | Some p \<Rightarrow>
          concat (map (\<lambda>svc.
            (case find (\<lambda>s. si_unit_name s = si_unit_name svc) (od_Services p) of
               None \<Rightarrow> []
             | Some old \<Rightarrow>
                 if si_failure_count old < si_failure_count svc
                 then [ServiceFailure (si_name svc) (si_failure_count svc) (si_backoff_seconds svc)]
                 else [])) (od_Services fresh)))"

text \<open>The \<open>then\<close> and \<open>catch\<close> callbacks of the request that resolved \<open>iv\<close> when it started.\<close>

definition fetch_ok :: "rat \<Rightarrow> OverviewData \<Rightarrow> poll_world \<Rightarrow> poll_world \<times> poll_out list" where
  "fetch_ok iv fresh s =
     (let outs = new_failures (cached s) fresh;
          s1 = s\<lparr>cached := Some fresh, lastError := None, fetching := False,
                 in_flight := remove1 iv (in_flight s)\<rparr>
      in (if subscribers s1 = [] then s1 else set_timeout iv s1,
          outs @ map (\<lambda>l. OnData l fresh) (subscribers s1)))"

definition fetch_fail :: "rat \<Rightarrow> string \<Rightarrow> poll_world \<Rightarrow> poll_world \<times> poll_out list" where
  "fetch_fail iv err s =
     (let s1 = s\<lparr>lastError := Some err, fetching := False, in_flight := remove1 iv (in_flight s)\<rparr>
      in (if subscribers s1 = [] then s1 else set_timeout (min iv 2000) s1,
          map (\<lambda>l. OnError l err (cached s1)) (subscribers s1)))"

definition timer_fires :: "bool \<Rightarrow> local_storage \<Rightarrow> nat \<Rightarrow> poll_world \<Rightarrow> poll_world \<times> poll_out list" where
  "timer_fires hidden ls i s = tick hidden ls (s\<lparr>timers := filter (\<lambda>t. fst t \<noteq> i) (timers s)\<rparr>)"

text \<open>
  How the promise chain classifies a response: a status outside 200 to 299 is thrown as
  \<open>HTTP n\<close>, a body that is no JSON rejects with the engine's message \<open>syntax_msg\<close>.
\<close>

definition poll_result :: "string \<Rightarrow> OverviewData outcome \<Rightarrow> string + OverviewData" where
  "poll_result syntax_msg r =
     (case r of
        Rejected e \<Rightarrow> Inl e
      | Resolved resp \<Rightarrow>
          if \<not> resp_ok resp then Inl (''HTTP '' @ show_nat (r_status resp))
          else (case r_json resp of None \<Rightarrow> Inl syntax_msg | Some d \<Rightarrow> Inr d))"

definition fetch_settles :: "string \<Rightarrow> rat \<Rightarrow> OverviewData outcome \<Rightarrow> poll_world \<Rightarrow> poll_world \<times> poll_out list" where
  "fetch_settles syntax_msg iv r s =
     (case poll_result syntax_msg r of Inl e \<Rightarrow> fetch_fail iv e s | Inr d \<Rightarrow> fetch_ok iv d s)"

section \<open>Runs\<close>

text \<open>
  One rule per call or callback. A subscriber is new (\<open>useOverview\<close> makes a listener object
  per mount); a timer fires while it is pending, a request settles while it is in flight.
\<close>

inductive poll_step :: "poll_world \<Rightarrow> poll_out list \<Rightarrow> poll_world \<Rightarrow> bool" where
  sub: "l \<notin> set (subscribers s) \<Longrightarrow> subscribe hidden ls l s = (t, outs) \<Longrightarrow> poll_step s outs t"
| unsub: "unsubscribe l s = t \<Longrightarrow> poll_step s [] t"
| timer: "(i, d) \<in> set (timers s) \<Longrightarrow> timer_fires hidden ls i s = (t, outs) \<Longrightarrow> poll_step s outs t"
| settle: "iv \<in> set (in_flight s) \<Longrightarrow> fetch_settles msg iv r s = (t, outs) \<Longrightarrow> poll_step s outs t"

inductive poll_reachable :: "poll_world \<Rightarrow> bool" where
  start: "poll_reachable poll_init"
| step: "poll_reachable s \<Longrightarrow> poll_step s outs t \<Longrightarrow> poll_reachable t"

text \<open>
  The invariant: at most one request and at most one timer, never both; the flag and the
  timer handle describe them; polling goes on exactly while someone listens; every
  interval is in range.
\<close>

definition poll_phase_ok :: "poll_world \<Rightarrow> bool" where
  "poll_phase_ok s \<longleftrightarrow>
     (case (in_flight s, timers s) of
        ([], []) \<Rightarrow> \<not> fetching s \<and> subscribers s = []
      | ([iv], []) \<Rightarrow> fetching s
      | ([], [(i, d)]) \<Rightarrow> \<not> fetching s \<and> subscribers s \<noteq> [] \<and> timeoutId s = Some i
      | _ \<Rightarrow> False)"

definition poll_inv :: "poll_world \<Rightarrow> bool" where
  "poll_inv s \<longleftrightarrow> distinct (subscribers s) \<and> poll_phase_ok s
     \<and> (\<forall>iv \<in> set (in_flight s). 2000 \<le> iv \<and> iv \<le> 60000)
     \<and> (\<forall>t \<in> set (timers s). 2000 \<le> snd t \<and> snd t \<le> 60000)"

lemma poll_inv_cases [consumes 1, case_names quiet polling sleeping]:
  assumes "poll_inv s"
  obtains (quiet) "in_flight s = []" "timers s = []" "\<not> fetching s" "subscribers s = []"
  | (polling) iv where "in_flight s = [iv]" "timers s = []" "fetching s" "2000 \<le> iv" "iv \<le> 60000"
  | (sleeping) i d where "in_flight s = []" "timers s = [(i, d)]" "\<not> fetching s"
      "subscribers s \<noteq> []" "timeoutId s = Some i" "2000 \<le> d" "d \<le> 60000"
  using assms unfolding poll_inv_def poll_phase_ok_def
  by (auto split: list.splits)

lemma poll_inv_distinct: "poll_inv s \<Longrightarrow> distinct (subscribers s)"
  by (simp add: poll_inv_def)

lemma poll_inv_init: "poll_inv poll_init"
  by (simp add: poll_inv_def poll_phase_ok_def poll_init_def)

lemma resolved_interval_range: "2000 \<le> resolved_interval h ls \<and> resolved_interval h ls \<le> 60000"
  using getPollInterval_range [of ls] by (auto simp: resolved_interval_def)

lemmas poll_ops = subscribe_def unsubscribe_def timer_fires_def tick_def poll_stop_def
  fetch_ok_def fetch_fail_def set_timeout_def set_add_def Let_def

lemma subscribe_inv:
  assumes "poll_inv s" "l \<notin> set (subscribers s)"
  shows "poll_inv (fst (subscribe h ls l s))"
  using assms(1)
proof (cases rule: poll_inv_cases)
  case quiet
  with assms show ?thesis
    using resolved_interval_range by (simp add: poll_ops poll_inv_def poll_phase_ok_def)
next
  case polling
  with assms show ?thesis by (auto simp: poll_ops poll_inv_def poll_phase_ok_def)
next
  case sleeping
  with assms show ?thesis by (auto simp: poll_ops poll_inv_def poll_phase_ok_def)
qed

lemma unsubscribe_inv:
  assumes "poll_inv s" shows "poll_inv (unsubscribe l s)"
  using assms
proof (cases rule: poll_inv_cases)
  case quiet
  with assms show ?thesis
    by (auto simp: poll_ops poll_inv_def poll_phase_ok_def split: option.splits)
next
  case polling
  with assms show ?thesis
    by (auto simp: poll_ops poll_inv_def poll_phase_ok_def distinct_removeAll split: option.splits)
next
  case sleeping
  with assms show ?thesis
    by (auto simp: poll_ops poll_inv_def poll_phase_ok_def distinct_removeAll)
qed

lemma timer_inv:
  assumes "poll_inv s" "(i, d) \<in> set (timers s)"
  shows "poll_inv (fst (timer_fires h ls i s))"
  using assms(1)
proof (cases rule: poll_inv_cases)
  case sleeping
  with assms show ?thesis
    using resolved_interval_range by (auto simp: poll_ops poll_inv_def poll_phase_ok_def)
qed (use assms in auto)

lemma settle_inv:
  assumes "poll_inv s" "iv \<in> set (in_flight s)"
  shows "poll_inv (fst (fetch_settles msg iv r s))"
  using assms(1)
proof (cases rule: poll_inv_cases)
  case polling
  with assms show ?thesis
    by (auto simp: fetch_settles_def poll_ops poll_inv_def poll_phase_ok_def split: sum.splits)
qed (use assms in auto)

lemma poll_step_inv: "poll_step s outs t \<Longrightarrow> poll_inv s \<Longrightarrow> poll_inv t"
proof (induction rule: poll_step.induct)
  case (sub l s h ls t outs)
  then show ?case using subscribe_inv [of s l h ls] by simp
next
  case (unsub l s t)
  then show ?case using unsubscribe_inv [of s l] by simp
next
  case (timer i d s h ls t outs)
  then show ?case using timer_inv [of s i d h ls] by simp
next
  case (settle iv s msg r t outs)
  then show ?case using settle_inv [of s iv msg r] by simp
qed

lemma poll_reachable_inv: "poll_reachable s \<Longrightarrow> poll_inv s"
  by (induction rule: poll_reachable.induct) (auto intro: poll_inv_init poll_step_inv)

end
