(* ===== verification/Overview_Feed.thy ===== *)
theory Overview_Feed
  imports Overview_Poller
begin

text \<open>
  The listener side of \<^verbatim>\<open>hooks/use-overview.ts\<close>: the state of a mounted \<open>useOverview\<close>,
  the contract the hook relies on (a locale, interpreted on \<open>SharedPoller\<close>), and the
  refinement of the poller to its three phases.
\<close>

section \<open>The state of useOverview\<close>

record overview_hook =
  h_data :: "OverviewData option"
  h_error :: "string option"
  h_stale :: bool

definition hook_init :: overview_hook where
  "hook_init = \<lparr>h_data = None, h_error = None, h_stale = True\<rparr>"

definition onData :: "OverviewData \<Rightarrow> overview_hook \<Rightarrow> overview_hook" where
  "onData fresh h = h\<lparr>h_data := Some fresh, h_error := None, h_stale := False\<rparr>"

definition onError :: "string \<Rightarrow> OverviewData option \<Rightarrow> overview_hook \<Rightarrow> overview_hook" where
  "onError err c h =
     (case c of
        None \<Rightarrow> h\<lparr>h_error := Some err\<rparr>
      | Some d \<Rightarrow> h\<lparr>h_error := Some err, h_data := Some d, h_stale := True\<rparr>)"

text \<open>A listener hears the deliveries addressed to it.\<close>

fun hook_event :: "nat \<Rightarrow> poll_out \<Rightarrow> overview_hook \<Rightarrow> overview_hook" where
  "hook_event l (OnData l' d) h = (if l' = l then onData d h else h)"
| "hook_event l (OnError l' e c) h = (if l' = l then onError e c h else h)"
| "hook_event l (ServiceFailure n k b) h = h"

text \<open>What the hook returns, with a selector and without one.\<close>

definition useOverview :: "(OverviewData \<Rightarrow> 'a option) \<Rightarrow> overview_hook \<Rightarrow> 'a option" where
  "useOverview selector h = (case h_data h of None \<Rightarrow> None | Some d \<Rightarrow> selector d)"

lemmas hook_defs = onData_def onError_def hook_init_def

text \<open>
  A source of deliveries and one listener: a run of the source together with the hook's
  state, which starts afresh when its listener subscribes.
\<close>

inductive hook_run :: "('s \<Rightarrow> poll_out list \<Rightarrow> 's \<Rightarrow> bool) \<Rightarrow> 's \<Rightarrow> ('s \<Rightarrow> nat set) \<Rightarrow> nat \<Rightarrow> 's \<Rightarrow> overview_hook \<Rightarrow> bool"
  for trans init subs l where
  hook_start: "hook_run trans init subs l init hook_init"
| hook_step: "hook_run trans init subs l s h \<Longrightarrow> trans s outs t \<Longrightarrow>
     hook_run trans init subs l t (fold (hook_event l) outs (if l \<in> subs s then h else hook_init))"

definition payloads_are :: "nat \<Rightarrow> OverviewData option \<Rightarrow> poll_out list \<Rightarrow> bool" where
  "payloads_are l c outs \<longleftrightarrow>
     (\<forall>d. OnData l d \<in> set outs \<longrightarrow> c = Some d) \<and> (\<forall>e c'. OnError l e c' \<in> set outs \<longrightarrow> c' = c)"

lemma payloads_are_Cons:
  "payloads_are l c (x # xs) \<longleftrightarrow> payloads_are l c [x] \<and> payloads_are l c xs"
  by (auto simp: payloads_are_def)

lemma hook_event_data:
  "payloads_are l c [x] \<Longrightarrow> h_data h = c \<Longrightarrow> h_data (hook_event l x h) = c"
  by (cases x) (auto simp: payloads_are_def hook_defs split: option.splits)

lemma hook_event_onData:
  "payloads_are l c [OnData l d] \<Longrightarrow> h_data (hook_event l (OnData l d) h) = c"
  by (auto simp: payloads_are_def hook_defs)

lemma fold_hook_data:
  "payloads_are l c outs \<Longrightarrow> h_data h = c \<Longrightarrow> h_data (fold (hook_event l) outs h) = c"
proof (induction outs arbitrary: h)
  case (Cons x xs)
  then show ?case by (metis fold_simps(2) hook_event_data payloads_are_Cons)
qed simp

lemma fold_hook_delivered:
  "payloads_are l c outs \<Longrightarrow> OnData l d \<in> set outs \<Longrightarrow> h_data (fold (hook_event l) outs h) = c"
proof (induction outs arbitrary: h)
  case (Cons x xs)
  then have px: "payloads_are l c [x]" and pxs: "payloads_are l c xs"
    by (simp_all add: payloads_are_Cons [of l c x xs])
  show ?case
  proof (cases "x = OnData l d")
    case True
    with px have "h_data (hook_event l x h) = c" by (simp only: hook_event_onData)
    with pxs show ?thesis by (simp add: fold_hook_data)
  next
    case False
    with Cons.prems have "OnData l d \<in> set xs" by simp
    with pxs show ?thesis by (simp add: Cons.IH)
  qed
qed simp

section \<open>The contract between the poller and its listeners\<close>

locale overview_feed =
  fixes trans :: "'s \<Rightarrow> poll_out list \<Rightarrow> 's \<Rightarrow> bool"
    and init :: 's
    and subs :: "'s \<Rightarrow> nat set"
    and cache :: "'s \<Rightarrow> OverviewData option"
  assumes nobody_at_start: "subs init = {}"
    and payload_current: "trans s outs t \<Longrightarrow> payloads_are l (cache t) outs"
    and change_delivered: "\<lbrakk> trans s outs t; l \<in> subs t; l \<in> subs s; cache t \<noteq> cache s \<rbrakk>
      \<Longrightarrow> \<exists>d. OnData l d \<in> set outs"
    and join_delivered: "\<lbrakk> trans s outs t; l \<in> subs t; l \<notin> subs s; cache t \<noteq> None \<rbrakk>
      \<Longrightarrow> \<exists>d. OnData l d \<in> set outs"
begin

lemma shows_cache: "hook_run trans init subs l s h \<Longrightarrow> l \<in> subs s \<Longrightarrow> h_data h = cache s"
proof (induction rule: hook_run.induct)
  case hook_start
  then show ?case by (simp add: nobody_at_start)
next
  case (hook_step s h outs t)
  let ?h = "if l \<in> subs s then h else hook_init"
  have pay: "payloads_are l (cache t) outs" using hook_step.hyps(2) by (rule payload_current)
  show ?case
  proof (cases "h_data ?h = cache t")
    case True
    with pay show ?thesis by (rule fold_hook_data)
  next
    case False
    then obtain d where "OnData l d \<in> set outs"
      using hook_step change_delivered [of s outs t l] join_delivered [of s outs t l]
      by (cases "l \<in> subs s"; cases "cache t") (auto simp: hook_init_def)
    with pay show ?thesis by (rule fold_hook_delivered)
  qed
qed

end

section \<open>SharedPoller keeps the contract\<close>

lemma deliverCached_set:
  "OnData l d \<in> set (deliverCached s) \<longleftrightarrow> cached s = Some d \<and> l \<in> set (subscribers s)"
  by (auto simp: deliverCached_def split: option.splits)

lemma deliverCached_no_error: "OnError l e c \<notin> set (deliverCached s)"
  by (auto simp: deliverCached_def split: option.splits)

lemma new_failures_only:
  "OnData l d \<notin> set (new_failures p f)" "OnError l e c \<notin> set (new_failures p f)"
  by (auto simp: new_failures_def split: option.splits if_splits)

lemmas delivery_simps = deliverCached_set deliverCached_no_error new_failures_only

lemma tick_frame:
  "tick h ls s = (t, outs) \<Longrightarrow> cached t = cached s \<and> subscribers t = subscribers s"
  by (auto simp: tick_def split: if_splits)

lemma tick_outs:
  "tick h ls s = (t, outs) \<Longrightarrow> outs = (if subscribers s = [] then [] else deliverCached s)"
  by (auto simp: tick_def split: if_splits)

lemma tick_payloads: "tick h ls s = (t, outs) \<Longrightarrow> payloads_are l (cached s) outs"
  by (auto simp: payloads_are_def delivery_simps dest!: tick_outs split: if_splits)

lemma stop_frame [simp]: "cached (poll_stop s) = cached s" "subscribers (poll_stop s) = subscribers s"
  by (simp_all add: poll_stop_def split: option.splits)

lemma subscribe_frame:
  "subscribe h ls l s = (t, outs) \<Longrightarrow>
     cached t = cached s \<and> set (subscribers t) = insert l (set (subscribers s))"
  by (auto simp: subscribe_def set_add_def Let_def split: if_splits prod.splits dest!: tick_frame)

lemma subscribe_payloads:
  "subscribe h ls l s = (t, outs) \<Longrightarrow> payloads_are l' (cached s) outs"
  by (auto simp: subscribe_def set_add_def payloads_are_def Let_def delivery_simps
      split: if_splits prod.splits option.splits dest!: tick_outs)

lemma subscribe_delivers:
  "subscribe h ls l s = (t, outs) \<Longrightarrow> cached s = Some d \<Longrightarrow> OnData l d \<in> set outs"
  by (auto simp: subscribe_def Let_def split: if_splits prod.splits)

lemma settles_frame:
  "fetch_settles msg iv r s = (t, outs) \<Longrightarrow> subscribers t = subscribers s"
  by (auto simp: fetch_settles_def fetch_ok_def fetch_fail_def set_timeout_def Let_def split: sum.splits if_splits)

lemma settles_payloads:
  "fetch_settles msg iv r s = (t, outs) \<Longrightarrow> payloads_are l (cached t) outs"
  by (auto simp: fetch_settles_def fetch_ok_def fetch_fail_def set_timeout_def payloads_are_def
      Let_def delivery_simps split: sum.splits if_splits)

lemma settles_delivers:
  "fetch_settles msg iv r s = (t, outs) \<Longrightarrow> cached t \<noteq> cached s \<Longrightarrow> l \<in> set (subscribers s)
     \<Longrightarrow> \<exists>d. OnData l d \<in> set outs"
  by (fastforce simp: fetch_settles_def fetch_ok_def fetch_fail_def set_timeout_def Let_def
      split: sum.splits if_splits)

interpretation shared: overview_feed poll_step poll_init "\<lambda>s. set (subscribers s)" cached
proof
  show "set (subscribers poll_init) = {}" by (simp add: poll_init_def)
next
  fix s outs t l
  assume "poll_step s outs t"
  then show "payloads_are l (cached t) outs"
  proof (cases rule: poll_step.cases)
    case (sub l' h ls)
    then show ?thesis using subscribe_payloads subscribe_frame by metis
  next
    case unsub
    then show ?thesis by (simp add: payloads_are_def)
  next
    case (timer i d h ls)
    then show ?thesis using tick_payloads tick_frame by (fastforce simp: timer_fires_def)
  next
    case (settle iv msg r)
    then show ?thesis using settles_payloads by metis
  qed
next
  fix s outs t l
  assume "poll_step s outs t" "l \<in> set (subscribers t)" "l \<in> set (subscribers s)" "cached t \<noteq> cached s"
  then show "\<exists>d. OnData l d \<in> set outs"
  proof (cases rule: poll_step.cases)
    case (timer i d h ls)
    then show ?thesis using \<open>cached t \<noteq> cached s\<close> by (auto simp: timer_fires_def dest!: tick_frame)
  qed (auto simp: unsubscribe_def Let_def dest: subscribe_frame settles_delivers split: if_splits)
next
  fix s outs t l
  assume "poll_step s outs t" "l \<in> set (subscribers t)" "l \<notin> set (subscribers s)" "cached t \<noteq> None"
  then show "\<exists>d. OnData l d \<in> set outs"
  proof (cases rule: poll_step.cases)
    case (sub l' h ls)
    then show ?thesis
      using \<open>cached t \<noteq> None\<close> \<open>l \<in> set (subscribers t)\<close> \<open>l \<notin> set (subscribers s)\<close>
        subscribe_frame [of h ls l' s t outs] subscribe_delivers [of h ls l' s t outs] by auto
  next
    case (timer i d h ls)
    then show ?thesis using \<open>l \<in> set (subscribers t)\<close> \<open>l \<notin> set (subscribers s)\<close>
      by (auto simp: timer_fires_def dest!: tick_frame)
  qed (auto simp: unsubscribe_def Let_def dest: settles_frame split: if_splits)
qed

end
