(* ===== verification/Samples.thy ===== *)
theory Samples
  imports Overview_Poller
begin

text \<open>Concrete values of the wire types, the inputs at which the witnesses apply the theorems.\<close>

definition sample_host :: HostInfo where
  "sample_host = \<lparr>hi_Hostname = ''lab'', hi_OS = ''NixOS'', hi_KernelVersion = ''6.12'',
     hi_Uptime = 7200, hi_CPUModel = ''N100'', hi_CPUCores = 4, hi_Motherboard = [], hi_Packages = 1800\<rparr>"

definition sample_gpu :: GpuStats where
  "sample_gpu = \<lparr>gpu_RenderBusy = 12, gpu_VideoBusy = 0, gpu_FreqMHz = 750, gpu_PowerW = 3,
     gpu_RC6Pct = 80, gpu_Available = True, gpu_ErrMsg = []\<rparr>"

definition sample_stats :: "rat \<Rightarrow> StatsSnapshot" where
  "sample_stats cpu = \<lparr>st_CPUUsage = cpu, st_CPUTemp = 48, st_NVMeTemp = 39, st_MemTotal = 16000,
     st_MemUsed = 4000, st_MemPercent = 25, st_Disks = [], st_NetSentRate = 2048, st_NetRecvRate = 512,
     st_TopCPU = [], st_TopMem = [], st_System = sample_host, st_Gpu = sample_gpu,
     st_MemUsedStr = ''4 GB'', st_MemTotalStr = ''16 GB'', st_UptimeStr = ''2h''\<rparr>"

definition sample_service :: "string \<Rightarrow> string \<Rightarrow> int \<Rightarrow> ServiceInfo" where
  "sample_service n st fails = \<lparr>si_name = n, si_type = ''Native'', si_image = None,
     si_active_state = st, si_sub_state = ''running'', si_description = [],
     si_unit_name = n @ ''.service'', si_update_available = False, si_current_version = None,
     si_remote_version = None, si_daemon_managed = True, si_restart_policy = ''on-failure'',
     si_boot_order = 1, si_boot_delay = 0, si_restart_delay = 5, si_depends_on = [],
     si_user_stopped = False, si_daemon_enabled = True, si_failure_count = fails,
     si_backoff_seconds = 30, si_blocked_reason = [], si_requires_mount = [], si_icon_url = None,
     si_homepage_url = None, si_started_at = None, si_port_mappings = None\<rparr>"

lemma sample_service_sel [simp]:
  "si_name (sample_service n st k) = n" "si_unit_name (sample_service n st k) = n @ ''.service''"
  "si_active_state (sample_service n st k) = st" "si_failure_count (sample_service n st k) = k"
  "si_image (sample_service n st k) = None" "si_daemon_enabled (sample_service n st k) = True"
  "si_type (sample_service n st k) = ''Native''"
  by (simp_all add: sample_service_def)

definition sample_vpn :: VPNStatus where
  "sample_vpn = \<lparr>vpn_Enabled = True, vpn_Connected = True, vpn_Provider = ''p'', vpn_Type = ''wg'',
     vpn_ServerCountry = ''SE'', vpn_PublicIP = ''1.2.3.4'', vpn_Country = ''SE'',
     vpn_ForwardedPort = 0, vpn_LastHandshake = [], vpn_FailureCount = 0, vpn_ErrMsg = None\<rparr>"

definition sample_overview :: "ServiceInfo list \<Rightarrow> rat \<Rightarrow> OverviewData" where
  "sample_overview svcs cpu = \<lparr>od_Hostname = ''lab'', od_Stats = sample_stats cpu, od_Services = svcs,
     od_VMs = [], od_Backups = [], od_VPN = sample_vpn,
     od_Qbittorrent = \<lparr>qs_enabled = False, qs_error = None, qs_torrents = []\<rparr>, od_ErrMsg = None\<rparr>"

definition empty_storage :: local_storage where
  "empty_storage = \<lparr>ls_readable = True, ls_writable = True, ls_items = (\<lambda>k. None)\<rparr>"

end
