(* ===== verification/Overview_Properties.thy ===== *)
theory Overview_Properties
  imports Overview_Feed Samples
begin

text \<open>
  What \<^verbatim>\<open>hooks/use-overview.ts\<close> promises: polling never stalls and never doubles, the class
  refines a three-phase machine, every mounted hook shows the poller's cache, failures are
  reported exactly when a count rises, and the stored interval survives a round trip.
\<close>

section \<open>The three-phase machine\<close>

datatype phase = Quiet | Polling | Sleeping rat

type_synonym poll_spec = "nat set \<times> OverviewData option \<times> phase"

text \<open>
  The promise: the first listener starts a request, the last one to leave ends the sleep, a
  response becomes the cache and is followed by a sleep of 2 to 60 seconds, an error leaves
  the cache and is followed by a sleep of exactly 2 seconds.
\<close>

inductive spec_step :: "poll_spec \<Rightarrow> poll_spec \<Rightarrow> bool" where
  join_first: "spec_step ({}, c, p) ({l}, c, Polling)"
| join: "L \<noteq> {} \<Longrightarrow> l \<notin> L \<Longrightarrow> spec_step (L, c, p) (insert l L, c, p)"
| leave: "L - {l} \<noteq> {} \<Longrightarrow> spec_step (L, c, p) (L - {l}, c, p)"
| leave_last: "L \<subseteq> {l} \<Longrightarrow> spec_step (L, c, p) ({}, c, if p = Polling then Polling else Quiet)"
| wake: "spec_step (L, c, Sleeping d) (L, c, Polling)"
| success: "2000 \<le> iv \<Longrightarrow> iv \<le> 60000 \<Longrightarrow>
     spec_step (L, c, Polling) (L, Some d, if L = {} then Quiet else Sleeping iv)"
| failure: "spec_step (L, c, Polling) (L, c, if L = {} then Quiet else Sleeping 2000)"

definition abs_phase :: "poll_world \<Rightarrow> phase" where
  "abs_phase s =
     (case in_flight s of iv # ivs \<Rightarrow> Polling
      | [] \<Rightarrow> (case timers s of [] \<Rightarrow> Quiet | t # ts \<Rightarrow> Sleeping (snd t)))"

definition abs_poll :: "poll_world \<Rightarrow> poll_spec" where
  "abs_poll s = (set (subscribers s), cached s, abs_phase s)"

lemma abs_phase_subscribers [simp]: "abs_phase (s\<lparr>subscribers := x\<rparr>) = abs_phase s"
  by (simp add: abs_phase_def cong: list.case_cong)

lemma refines_subscribe:
  assumes "poll_inv s" "l \<notin> set (subscribers s)"
  shows "spec_step (abs_poll s) (abs_poll (fst (subscribe h ls l s)))"
  using assms(1)
proof (cases rule: poll_inv_cases)
  case quiet
  with assms show ?thesis
    using spec_step.join_first [of "cached s" Quiet l]
    by (simp add: poll_ops abs_poll_def abs_phase_def)
next
  case (polling iv)
  show ?thesis
  proof (cases "subscribers s = []")
    case True
    with polling show ?thesis
      using spec_step.join_first [of "cached s" Polling l]
      by (simp add: poll_ops abs_poll_def abs_phase_def)
  next
    case False
    with polling assms show ?thesis
      using spec_step.join [of "set (subscribers s)" l "cached s" Polling]
      by (simp add: poll_ops abs_poll_def abs_phase_def)
  qed
next
  case (sleeping i d)
  with assms show ?thesis
    using spec_step.join [of "set (subscribers s)" l "cached s" "Sleeping d"]
    by (simp add: poll_ops abs_poll_def abs_phase_def)
qed

lemma abs_stop:
  assumes "poll_inv s" "subscribers s' = []" "in_flight s' = in_flight s" "timers s' = timers s"
    "timeoutId s' = timeoutId s" "cached s' = cached s"
  shows "abs_poll (poll_stop s') = ({}, cached s, if abs_phase s = Polling then Polling else Quiet)"
  using assms(1)
  by (cases rule: poll_inv_cases)
    (use assms in \<open>auto simp: abs_poll_def abs_phase_def poll_stop_def split: option.splits\<close>)

lemma refines_unsubscribe:
  assumes "poll_inv s"
  shows "spec_step (abs_poll s) (abs_poll (unsubscribe l s))"
proof (cases "removeAll l (subscribers s) = []")
  case True
  then have "set (subscribers s) \<subseteq> {l}" by (auto simp: removeAll_filter_not_eq filter_empty_conv)
  then have "spec_step (abs_poll s) ({}, cached s, if abs_phase s = Polling then Polling else Quiet)"
    unfolding abs_poll_def by (rule spec_step.leave_last)
  with True show ?thesis
    using abs_stop [OF assms, of "s\<lparr>subscribers := []\<rparr>"] by (simp add: unsubscribe_def Let_def)
next
  case False
  then have "set (subscribers s) - {l} \<noteq> {}" by (metis set_empty set_removeAll)
  then have "spec_step (abs_poll s) (set (subscribers s) - {l}, cached s, abs_phase s)"
    unfolding abs_poll_def by (rule spec_step.leave)
  with False show ?thesis
    by (simp add: unsubscribe_def Let_def abs_poll_def)
qed

lemma refines_timer:
  assumes "poll_inv s" "(i, d) \<in> set (timers s)"
  shows "spec_step (abs_poll s) (abs_poll (fst (timer_fires h ls i s)))"
  using assms(1)
proof (cases rule: poll_inv_cases)
  case (sleeping i' d')
  with assms show ?thesis
    using spec_step.wake [of "set (subscribers s)" "cached s" d']
    by (simp add: poll_ops abs_poll_def abs_phase_def)
qed (use assms in auto)

lemma refines_settle:
  assumes "poll_inv s" "iv \<in> set (in_flight s)"
  shows "spec_step (abs_poll s) (abs_poll (fst (fetch_settles msg iv r s)))"
  using assms(1)
proof (cases rule: poll_inv_cases)
  case (polling iv')
  then have iv: "iv' = iv" "2000 \<le> iv" "iv \<le> 60000" using assms(2) by auto
  show ?thesis
  proof (cases "poll_result msg r")
    case (Inl e)
    with polling iv show ?thesis
      using spec_step.failure [of "set (subscribers s)" "cached s"]
      by (auto simp: fetch_settles_def fetch_fail_def set_timeout_def Let_def abs_poll_def abs_phase_def min_def)
  next
    case (Inr d)
    with polling iv show ?thesis
      using spec_step.success [of iv "set (subscribers s)" "cached s" d]
      by (auto simp: fetch_settles_def fetch_ok_def set_timeout_def Let_def abs_poll_def abs_phase_def)
  qed
qed (use assms in auto)

text \<open>C1. The \<open>SharedPoller\<close> class refines the three-phase machine: from every reachable state, each
  of its calls and callbacks (subscribe, unsubscribe, timer, settled request) is a step of
  the machine on the listener set, the cached response and the phase.\<close>

theorem poller_refines_spec:
  assumes "poll_reachable s" "poll_step s outs t"
  shows "spec_step (abs_poll s) (abs_poll t)"
proof -
  have inv: "poll_inv s" using assms(1) by (rule poll_reachable_inv)
  from assms(2) show ?thesis
  proof (cases rule: poll_step.cases)
    case (sub l h ls)
    then show ?thesis using refines_subscribe [OF inv, of l h ls] by simp
  next
    case (unsub l)
    then show ?thesis using refines_unsubscribe [OF inv, of l] by simp
  next
    case (timer i d h ls)
    then show ?thesis using refines_timer [OF inv, of i d h ls] by simp
  next
    case (settle iv msg r)
    then show ?thesis using refines_settle [OF inv, of iv msg r] by simp
  qed
qed


section \<open>Concrete runs\<close>

text \<open>A listener joins, its first request answers, the next one fails.\<close>

definition sample_fetching :: poll_world where
  "sample_fetching = fst (subscribe False empty_storage 0 poll_init)"

definition sample_reply :: "OverviewData outcome" where
  "sample_reply = Resolved \<lparr>r_status = 200, r_status_text = ''OK'', r_text = [],
     r_json = Some (sample_overview [sample_service ''a'' ''active'' 1] 50)\<rparr>"

definition sample_sleeping :: poll_world where
  "sample_sleeping = fst (fetch_settles [] 10000 sample_reply sample_fetching)"

definition sample_refetching :: poll_world where
  "sample_refetching = fst (timer_fires False empty_storage 1 sample_sleeping)"

definition sample_failed :: poll_world where
  "sample_failed = fst (fetch_settles [] 10000 (Rejected ''offline'') sample_refetching)"

lemma default_interval: "getPollInterval empty_storage = 10000"
  by (simp add: getPollInterval_def getItem_def empty_storage_def)

lemma sample_fetching_eq:
  "sample_fetching = \<lparr>subscribers = [0], cached = None, lastError = None, timeoutId = None,
     fetching = True, timers = [], in_flight = [10000], next_id = 1\<rparr>"
  by (simp add: sample_fetching_def poll_ops poll_init_def resolved_interval_def default_interval)

lemma sample_sleeping_eq:
  "sample_sleeping = \<lparr>subscribers = [0],
     cached = Some (sample_overview [sample_service ''a'' ''active'' 1] 50), lastError = None,
     timeoutId = Some 1, fetching = False, timers = [(1, 10000)], in_flight = [], next_id = 2\<rparr>"
  by (simp add: sample_sleeping_def sample_reply_def sample_fetching_eq fetch_settles_def
      poll_result_def resp_ok_def fetch_ok_def set_timeout_def Let_def)

lemma sample_refetching_eq:
  "sample_refetching = sample_sleeping\<lparr>fetching := True, in_flight := [10000], timers := []\<rparr>"
  by (simp add: sample_refetching_def sample_sleeping_eq poll_ops resolved_interval_def default_interval)

lemma sample_failed_eq:
  "sample_failed = sample_sleeping\<lparr>lastError := Some ''offline'', timers := [(2, 2000)],
     timeoutId := Some 2, next_id := 3\<rparr>"
  by (simp add: sample_failed_def sample_refetching_eq sample_sleeping_eq fetch_settles_def
      poll_result_def fetch_fail_def set_timeout_def Let_def)

lemma sample_steps:
  "\<exists>outs. poll_step poll_init outs sample_fetching"
  "\<exists>outs. poll_step sample_fetching outs sample_sleeping"
  "\<exists>outs. poll_step sample_sleeping outs sample_refetching"
  "\<exists>outs. poll_step sample_refetching outs sample_failed"
proof -
  have "poll_step poll_init (snd (subscribe False empty_storage 0 poll_init)) sample_fetching"
    unfolding sample_fetching_def by (rule poll_step.sub) (simp_all add: poll_init_def)
  then show "\<exists>outs. poll_step poll_init outs sample_fetching" ..
  have "poll_step sample_fetching (snd (fetch_settles [] 10000 sample_reply sample_fetching)) sample_sleeping"
    unfolding sample_sleeping_def by (rule poll_step.settle) (simp_all add: sample_fetching_eq)
  then show "\<exists>outs. poll_step sample_fetching outs sample_sleeping" ..
  have "poll_step sample_sleeping (snd (timer_fires False empty_storage 1 sample_sleeping)) sample_refetching"
    unfolding sample_refetching_def
    by (rule poll_step.timer [where d = 10000]) (simp_all add: sample_sleeping_eq)
  then show "\<exists>outs. poll_step sample_sleeping outs sample_refetching" ..
  have "poll_step sample_refetching
      (snd (fetch_settles [] 10000 (Rejected ''offline'') sample_refetching)) sample_failed"
    unfolding sample_failed_def by (rule poll_step.settle) (simp_all add: sample_refetching_eq)
  then show "\<exists>outs. poll_step sample_refetching outs sample_failed" ..
qed

lemma sample_reachable:
  "poll_reachable sample_fetching" "poll_reachable sample_sleeping"
  "poll_reachable sample_refetching" "poll_reachable sample_failed"
proof -
  show 1: "poll_reachable sample_fetching"
    using sample_steps(1) poll_reachable.start by (blast intro: poll_reachable.step)
  show 2: "poll_reachable sample_sleeping"
    using sample_steps(2) 1 by (blast intro: poll_reachable.step)
  show 3: "poll_reachable sample_refetching"
    using sample_steps(3) 2 by (blast intro: poll_reachable.step)
  show "poll_reachable sample_failed"
    using sample_steps(4) 3 by (blast intro: poll_reachable.step)
qed

theorem poller_refines_spec_witness:
  "spec_step (abs_poll sample_refetching) (abs_poll sample_failed)"
  using sample_steps(4) sample_reachable(3) by (blast intro: poller_refines_spec)

section \<open>Polling neither stalls nor doubles\<close>

text \<open>C2. In every reachable state of the poller at most one of "a request is in flight" and
  "a retry timer is pending" holds, with the \<open>fetching\<close> flag exact; with a listener exactly one
  of them holds, so polling never stalls; without one no timer is left; and every pending
  delay lies between 2 and 60 seconds.\<close>

theorem poller_single_flight:
  assumes "poll_reachable s"
  shows "length (in_flight s) + length (timers s) \<le> 1
    \<and> (fetching s \<longleftrightarrow> in_flight s \<noteq> [])
    \<and> (subscribers s \<noteq> [] \<longrightarrow> length (in_flight s) + length (timers s) = 1)
    \<and> (subscribers s = [] \<longrightarrow> timers s = [])
    \<and> (\<forall>t \<in> set (timers s). 2000 \<le> snd t \<and> snd t \<le> 60000)"
  using poll_reachable_inv [OF assms] by (cases rule: poll_inv_cases) simp_all

theorem poller_single_flight_witness:
  "length (in_flight sample_failed) + length (timers sample_failed) = 1"
  using poller_single_flight [OF sample_reachable(4)]
  by (simp add: sample_failed_eq sample_sleeping_eq)



section \<open>What a mounted hook shows\<close>

text \<open>C4. Whatever the order of joins, leaves, timers and responses, a mounted \<open>useOverview\<close>
  holds exactly the poller's cached response, so all widgets show the same data.\<close>

theorem hook_shows_cache:
  assumes "hook_run poll_step poll_init (\<lambda>s. set (subscribers s)) l s h" "l \<in> set (subscribers s)"
  shows "h_data h = cached s"
  using assms by (rule shared.shows_cache)

theorem hook_shows_cache_witness:
  "\<exists>h. hook_run poll_step poll_init (\<lambda>s. set (subscribers s)) 0 sample_sleeping h
     \<and> h_data h = cached sample_sleeping"
proof -
  let ?subs = "\<lambda>s. set (subscribers s)"
  obtain o1 where "poll_step poll_init o1 sample_fetching" using sample_steps(1) by blast
  with hook_run.hook_start obtain h1 where
    "hook_run poll_step poll_init ?subs 0 sample_fetching h1"
    using hook_run.hook_step by metis
  moreover obtain o2 where "poll_step sample_fetching o2 sample_sleeping" using sample_steps(2) by blast
  ultimately obtain h2 where "hook_run poll_step poll_init ?subs 0 sample_sleeping h2"
    using hook_run.hook_step by metis
  moreover from this have "h_data h2 = cached sample_sleeping"
    by (rule hook_shows_cache) (simp add: sample_sleeping_eq)
  ultimately show ?thesis by blast
qed

text \<open>C5. A retry tick after a failed request re-delivers the cached response as if it were
  fresh: each listener's error is cleared and its stale flag reset while the poller's last
  request is still the failed one and its error is still recorded.\<close>

theorem retry_hides_error:
  assumes "poll_reachable s" "lastError s = Some e" "cached s = Some d"
    and "(i, w) \<in> set (timers s)" "l \<in> set (subscribers s)"
    and "timer_fires hidden ls i s = (t, outs)"
  shows "lastError t = Some e
    \<and> fold (hook_event l) outs \<lparr>h_data = Some d, h_error = Some e, h_stale = True\<rparr>
        = \<lparr>h_data = Some d, h_error = None, h_stale = False\<rparr>"
proof -
  have inv: "poll_inv s" using assms(1) by (rule poll_reachable_inv)
  then have "\<not> fetching s" using assms(4) by (cases rule: poll_inv_cases) auto
  with assms have t: "lastError t = Some e" "outs = map (\<lambda>l. OnData l d) (subscribers s)"
    by (auto simp: timer_fires_def tick_def deliverCached_def split: if_splits)
  have "fold (hook_event l) (map (\<lambda>l. OnData l d) ls) h
      = (if l \<in> set ls then onData d h else h)" for ls h
    by (induction ls arbitrary: h) (auto simp: onData_def)
  with t assms(5) show ?thesis by (simp add: onData_def)
qed

theorem retry_hides_error_witness:
  "lastError (fst (timer_fires False empty_storage 2 sample_failed)) = Some ''offline''"
  using retry_hides_error [OF sample_reachable(4), of "''offline''"
      "sample_overview [sample_service ''a'' ''active'' 1] 50" 2 2000 0 False empty_storage
      "fst (timer_fires False empty_storage 2 sample_failed)"
      "snd (timer_fires False empty_storage 2 sample_failed)"]
  by (simp add: sample_failed_eq sample_sleeping_eq)

section \<open>Failure events\<close>

text \<open>With unit names unique in the previous response, a service-failure event goes out for
  exactly the services whose failure count is higher than it was there, with the new count
  and the new backoff; the first response raises none.\<close>

lemma failure_events:
  assumes "distinct (map si_unit_name (od_Services p))"
  shows "set (new_failures (Some p) fresh) =
      {ServiceFailure (si_name n) (si_failure_count n) (si_backoff_seconds n) | n old.
         n \<in> set (od_Services fresh) \<and> old \<in> set (od_Services p)
         \<and> si_unit_name old = si_unit_name n \<and> si_failure_count old < si_failure_count n}
    \<and> new_failures None fresh = []"
proof -
  have f: "find (\<lambda>s. si_unit_name s = u) (od_Services p) = Some old \<longleftrightarrow>
      old \<in> set (od_Services p) \<and> si_unit_name old = u" for u old
    using assms by (rule find_distinct_key)
  have f': "(Some old = find (\<lambda>s. si_unit_name s = u) (od_Services p)) \<longleftrightarrow>
      old \<in> set (od_Services p) \<and> si_unit_name old = u" for u old
    using f by metis
  show ?thesis
    unfolding new_failures_def
    by (intro conjI set_eqI) (fastforce simp: f f' split: option.splits if_splits, simp)
qed

lemma failure_events_witness:
  "ServiceFailure ''a'' 2 30 \<in> set (new_failures
     (Some (sample_overview [sample_service ''a'' ''active'' 1] 50))
     (sample_overview [sample_service ''a'' ''failed'' 2] 50))"
  by (subst conjunct1 [OF failure_events])
    (auto simp: sample_overview_def sample_service_def)

section \<open>The stored interval\<close>

text \<open>Saving an interval of any whole number of milliseconds in a usable store and reading
  it back gives that number clamped to 2 to 60 seconds; whatever the store holds or refuses,
  the interval read is in that range.\<close>

lemma interval_roundtrip:
  "(ls_readable ls \<and> ls_writable ls \<longrightarrow>
     getPollInterval (setPollInterval sh (Fin (of_nat n)) ls) = clamp_interval (of_nat n))
   \<and> 2000 \<le> getPollInterval ls \<and> getPollInterval ls \<le> 60000"
proof -
  have c: "clamp_interval (of_nat n) = of_nat (max 2000 (min 60000 n))"
    by (simp add: clamp_interval_def of_nat_max of_nat_min)
  let ?k = "max 2000 (min 60000 n)"
  have small: "\<bar>of_nat ?k :: rat\<bar> < 10 ^ 21"
  proof -
    have "(of_nat ?k :: rat) \<le> of_nat 60000" by (rule of_nat_mono) simp
    then show ?thesis by simp
  qed
  have "js_max 2000 (js_min 60000 (Fin (of_nat n))) = Fin (of_nat ?k)"
    by (simp add: of_nat_max of_nat_min)
  moreover have "num_string sh (Fin (of_nat ?k)) = show_nat ?k"
    using small by (simp add: show_int_def)
  ultimately have s: "setPollInterval sh (Fin (of_nat n)) ls = setItem ls POLL_KEY (show_nat ?k)"
    by (simp only: setPollInterval_def)
  have "interval_of_text (show_nat ?k) = Some (of_nat ?k)" by (rule interval_of_show_nat) simp_all
  then have "ls_readable ls \<and> ls_writable ls \<longrightarrow>
      getPollInterval (setItem ls POLL_KEY (show_nat ?k)) = of_nat ?k"
    by (simp add: getPollInterval_load browser.load_set)
  with s c getPollInterval_range show ?thesis by simp
qed

lemma interval_roundtrip_witness:
  "getPollInterval (setPollInterval (\<lambda>q. []) (Fin 5000) empty_storage) = 5000"
  using interval_roundtrip [of empty_storage "\<lambda>q. []" 5000]
  by (simp add: empty_storage_def clamp_interval_def)

end
