(* ===== verification/Async_Calls.thy ===== *)
theory Async_Calls
  imports React_View
begin

text \<open>
  The shape of the frontend's asynchronous handlers: a part that runs when the handler is
  called, up to its first \<open>await\<close>, and a part that runs when the request settles. The locale
  is the contract the busy flags rest on; the handlers of the pages are its instances.
\<close>

section \<open>Handlers with a busy flag\<close>

locale busy_handler =
  fixes start :: "'a \<Rightarrow> 's \<Rightarrow> 's \<times> 'e list"
    and settle :: "'a \<Rightarrow> 'r \<Rightarrow> 's \<Rightarrow> 's \<times> 'e list"
    and busy :: "'s \<Rightarrow> bool"
  assumes start_busy: "busy (fst (start a s))"
    and settle_idle: "\<not> busy (fst (settle a r s))"
begin

text \<open>A run with the calls that have started and not settled.\<close>

inductive calls :: "'s \<Rightarrow> 'a list \<Rightarrow> 's \<Rightarrow> bool" for init where
  none: "calls init [] init"
| start_call: "calls init as s \<Longrightarrow> calls init (a # as) (fst (start a s))"
| settle_call: "calls init (xs @ a # ys) s \<Longrightarrow> calls init (xs @ ys) (fst (settle a r s))"

text \<open>Once every call has settled the page is not busy, whatever the responses were.\<close>

lemma idle_when_settled: "calls init as s \<Longrightarrow> \<not> busy init \<Longrightarrow> as = [] \<Longrightarrow> \<not> busy s"
  by (induction rule: calls.induct) (auto simp: settle_idle)

text \<open>A busy page has a call outstanding, so a control disabled while busy is enabled again.\<close>

lemma busy_outstanding: "calls init as s \<Longrightarrow> \<not> busy init \<Longrightarrow> busy s \<Longrightarrow> as \<noteq> []"
  using idle_when_settled by blast

lemma round_trip_idle: "\<not> busy (fst (settle a r (fst (start a s))))"
  by (rule settle_idle)

end

section \<open>Bodies that carry an error\<close>

text \<open>
  A parsed body as the callers look at it: its \<open>error\<close> field when it has one, otherwise a
  payload.
\<close>

datatype 'p api_json = Payload 'p | ErrorBody "string option"

primrec json_error :: "'p api_json \<Rightarrow> string option" where
  "json_error (Payload p) = None"
| "json_error (ErrorBody e) = e"

section \<open>Dialogs that load a log\<close>

text \<open>
  A dialog opened on an item shows a placeholder until the response of its request is there.
  The response is written into whatever the dialog shows by then: the contract that the
  dialogs of the backups and diagnostics pages meet.
\<close>

locale log_dialog =
  fixes show_log :: "'k \<Rightarrow> 's \<Rightarrow> 's"
    and log_arrives :: "'r \<Rightarrow> 's \<Rightarrow> 's"
    and title :: "'s \<Rightarrow> string"
    and content :: "'s \<Rightarrow> string"
    and label :: "'k \<Rightarrow> string"
    and body :: "'r \<Rightarrow> string"
  assumes title_show: "title (show_log k s) = label k"
    and title_arrives: "title (log_arrives r s) = title s"
    and content_arrives: "content (log_arrives r s) = body r"
begin

lemma shows_own_log: "title (log_arrives r (show_log k s)) = label k \<and> content (log_arrives r (show_log k s)) = body r"
  by (simp add: title_show title_arrives content_arrives)

text \<open>A response that comes after the dialog was opened on another item is shown under that item.\<close>

lemma shows_foreign_log:
  "title (log_arrives r1 (show_log k2 (show_log k1 s))) = label k2
     \<and> content (log_arrives r1 (show_log k2 (show_log k1 s))) = body r1"
  by (simp add: title_show title_arrives content_arrives)

end

end
