(* ===== verification/Hooks.thy ===== *)
theory Hooks
  imports Async_Calls Overview_Feed
begin

text \<open>
  The small hooks: \<^verbatim>\<open>use-api.ts\<close>, \<^verbatim>\<open>use-json-config.ts\<close>, \<^verbatim>\<open>use-mobile.ts\<close>,
  \<^verbatim>\<open>use-sparkline.ts\<close>, and the stand-alone \<open>fetcher\<close> of \<^verbatim>\<open>use-overview.ts\<close>.
\<close>

section \<open>fetcher\<close>

text \<open>\<open>body.error ?? resp.statusText\<close>, where an unreadable body counts as the status text.\<close>

definition failed_message :: "'p api_json response \<Rightarrow> string" where
  "failed_message resp =
     (case r_json resp of
        None \<Rightarrow> r_status_text resp
      | Some body \<Rightarrow> opt_or (json_error body) (r_status_text resp))"

definition fetcher :: "string \<Rightarrow> 'p api_json outcome \<Rightarrow> string + 'p api_json" where
  "fetcher syntax_msg r =
     (case r of
        Rejected e \<Rightarrow> Inl e
      | Resolved resp \<Rightarrow>
          if \<not> resp_ok resp then Inl (failed_message resp)
          else (case r_json resp of None \<Rightarrow> Inl syntax_msg | Some d \<Rightarrow> Inr d))"

section \<open>useAPI\<close>

record api_state =
  api_loading :: bool
  api_error :: "string option"

record api_options =
  ao_method :: "string option"
  ao_body :: "json option"

definition json_truthy :: "json \<Rightarrow> bool" where
  "json_truthy j =
     (case j of
        JNull \<Rightarrow> False
      | JBool b \<Rightarrow> b
      | JNum n \<Rightarrow> n \<noteq> Fin 0 \<and> n \<noteq> NaN
      | JStr s \<Rightarrow> s \<noteq> []
      | JArr js \<Rightarrow> True
      | JObj fs \<Rightarrow> True)"

definition api_call :: "string \<times> api_options option \<Rightarrow> api_state \<Rightarrow> api_state \<times> effect list" where
  "api_call c s =
     (case c of (url, opts) \<Rightarrow>
       (s\<lparr>api_loading := True, api_error := None\<rparr>,
        [Fetch (case opts of None \<Rightarrow> ''GET'' | Some os \<Rightarrow> opt_or (ao_method os) ''GET'') url
           (case opts of None \<Rightarrow> None
            | Some os \<Rightarrow> (case ao_body os of None \<Rightarrow> None | Some j \<Rightarrow> if json_truthy j then Some j else None))]))"

text \<open>
  What the call gives its caller. \<open>resp.json()\<close> is returned and not awaited, so its
  rejection reaches the caller without passing the \<open>catch\<close>.
\<close>

definition api_result :: "string \<Rightarrow> 'p api_json outcome \<Rightarrow> string + 'p api_json" where
  "api_result syntax_msg r = fetcher syntax_msg r"

definition api_settle ::
  "string \<times> api_options option \<Rightarrow> 'p api_json outcome \<Rightarrow> api_state \<Rightarrow> api_state \<times> effect list" where
  "api_settle c r s =
     ((case r of
        Rejected e \<Rightarrow> s\<lparr>api_error := Some e, api_loading := False\<rparr>
      | Resolved resp \<Rightarrow>
          if \<not> resp_ok resp then s\<lparr>api_error := Some (failed_message resp), api_loading := False\<rparr>
          else s\<lparr>api_loading := False\<rparr>), [])"

interpretation api: busy_handler api_call api_settle api_loading
  by unfold_locales (auto simp: api_call_def api_settle_def split: outcome.splits prod.splits)

section \<open>useJsonConfig\<close>

text \<open>
  The hook's state with the run of its effect that is not cancelled: a new \<open>url\<close> cancels the
  run before and starts the next, an unmount leaves none.
\<close>

record 'p config_state =
  jc_data :: "'p option"
  jc_error :: "string option"
  jc_loading :: bool
  jc_runs :: nat
  jc_live :: "nat option"

definition config_init :: "'p config_state" where
  "config_init = \<lparr>jc_data = None, jc_error = None, jc_loading = True, jc_runs = 0, jc_live = None\<rparr>"

definition config_effect :: "string \<Rightarrow> 'p config_state \<Rightarrow> 'p config_state \<times> effect list" where
  "config_effect url s =
     (s\<lparr>jc_loading := True, jc_error := None, jc_live := Some (jc_runs s), jc_runs := jc_runs s + 1\<rparr>,
      [Fetch ''GET'' url None])"

definition config_unmount :: "'p config_state \<Rightarrow> 'p config_state" where
  "config_unmount s = s\<lparr>jc_live := None\<rparr>"

definition config_result :: "string \<Rightarrow> 'p outcome \<Rightarrow> string + 'p" where
  "config_result syntax_msg r =
     (case r of
        Rejected e \<Rightarrow> Inl e
      | Resolved resp \<Rightarrow>
          if \<not> resp_ok resp then Inl (''HTTP '' @ show_nat (r_status resp))
          else (case r_json resp of None \<Rightarrow> Inl syntax_msg | Some d \<Rightarrow> Inr d))"

definition config_settle :: "string \<Rightarrow> nat \<Rightarrow> 'p outcome \<Rightarrow> 'p config_state \<Rightarrow> 'p config_state" where
  "config_settle syntax_msg run r s =
     (if jc_live s = Some run
      then (case config_result syntax_msg r of
              Inr d \<Rightarrow> s\<lparr>jc_data := Some d, jc_loading := False\<rparr>
            | Inl e \<Rightarrow> s\<lparr>jc_error := Some e, jc_loading := False\<rparr>)
      else s)"

text \<open>Runs of the hook: each started request settles at most once, in any order.\<close>

inductive config_run :: "'p config_state \<Rightarrow> nat set \<Rightarrow> bool" where
  mount: "config_run config_init {}"
| effect: "config_run s P \<Longrightarrow> config_effect url s = (t, es) \<Longrightarrow> config_run t (insert (jc_runs s) P)"
| settled: "config_run s P \<Longrightarrow> run \<in> P \<Longrightarrow> config_run (config_settle msg run r s) (P - {run})"
| unmount: "config_run s P \<Longrightarrow> config_run (config_unmount s) P"

lemma config_run_pending:
  "config_run s P \<Longrightarrow> (\<forall>n \<in> P. n < jc_runs s)
     \<and> (\<forall>n. jc_live s = Some n \<longrightarrow> n < jc_runs s \<and> (jc_loading s \<longleftrightarrow> n \<in> P))"
  by (induction rule: config_run.induct)
    (auto simp: config_init_def config_effect_def config_settle_def config_unmount_def
      less_Suc_eq split: sum.splits)

section \<open>useIsMobile\<close>

definition MOBILE_BREAKPOINT :: nat where
  "MOBILE_BREAKPOINT = 768"

text \<open>The effect and every \<open>change\<close> event read the window width into the state.\<close>

definition onChange_width :: "nat \<Rightarrow> bool option \<Rightarrow> bool option" where
  "onChange_width width s = Some (width < MOBILE_BREAKPOINT)"

definition useIsMobile :: "bool option \<Rightarrow> bool" where
  "useIsMobile s = (case s of None \<Rightarrow> False | Some b \<Rightarrow> b)"

lemma useIsMobile_after: "useIsMobile (onChange_width w s) \<longleftrightarrow> w \<le> 767"
  by (auto simp: useIsMobile_def onChange_width_def MOBILE_BREAKPOINT_def)

section \<open>useSparkline\<close>

text \<open>
  The buffer, the reference of the last response that was looked at, and the points that are
  drawn. A response is compared by reference; \<open>nat\<close> stands for the reference.
\<close>

record sparkline =
  bufferRef :: "rat list"
  lastDataRef :: "nat option"
  points :: "rat list"

definition sparkline_init :: sparkline where
  "sparkline_init = \<lparr>bufferRef = [], lastDataRef = None, points = []\<rparr>"

definition finite_value :: "jsnum option \<Rightarrow> rat option" where
  "finite_value v = (case v of Some (Fin q) \<Rightarrow> Some q | _ \<Rightarrow> None)"

text \<open>The effect, run after a render in which the hook holds \<open>data\<close>.\<close>

definition sparkline_effect ::
  "('d \<Rightarrow> jsnum option) \<Rightarrow> nat \<Rightarrow> (nat \<times> 'd) option \<Rightarrow> sparkline \<Rightarrow> sparkline" where
  "sparkline_effect selector maxPoints data s =
     (case data of
        None \<Rightarrow> s
      | Some (ref, d) \<Rightarrow>
          if lastDataRef s = Some ref then s
          else (let s1 = s\<lparr>lastDataRef := Some ref\<rparr>
                in case finite_value (selector d) of
                     None \<Rightarrow> s1
                   | Some q \<Rightarrow>
                       (let b = slice_last maxPoints (bufferRef s1 @ [q])
                        in s1\<lparr>bufferRef := b, points := b\<rparr>)))"

text \<open>The responses that count: those whose reference differs from the one before.\<close>

fun genuine :: "nat option \<Rightarrow> (nat \<times> 'd) option list \<Rightarrow> 'd list" where
  "genuine prev [] = []"
| "genuine prev (None # rs) = genuine prev rs"
| "genuine prev (Some (ref, d) # rs) =
     (if prev = Some ref then genuine prev rs else d # genuine (Some ref) rs)"

text \<open>Their finite values.\<close>

definition sampled :: "('d \<Rightarrow> jsnum option) \<Rightarrow> 'd list \<Rightarrow> rat list" where
  "sampled sel ds = concat (map (\<lambda>d. case finite_value (sel d) of None \<Rightarrow> [] | Some q \<Rightarrow> [q]) ds)"

lemma sampled_simps [simp]:
  "sampled sel [] = []"
  "sampled sel (d # ds) = (case finite_value (sel d) of None \<Rightarrow> [] | Some q \<Rightarrow> [q]) @ sampled sel ds"
  by (simp_all add: sampled_def)

lemma slice_last_fold:
  "slice_last n (slice_last n xs @ ys) = slice_last n (xs @ ys)"
proof (induction ys rule: rev_induct)
  case Nil
  then show ?case by (simp add: slice_last_def)
next
  case (snoc y ys)
  then show ?case by (metis append_assoc slice_last_append_slice_last)
qed

lemma sparkline_fold:
  assumes "slice_last n (bufferRef s) = bufferRef s" "points s = bufferRef s"
  shows "points (fold (sparkline_effect sel n) rs s)
     = slice_last n (bufferRef s @ sampled sel (genuine (lastDataRef s) rs))"
  using assms
proof (induction rs arbitrary: s)
  case Nil
  then show ?case by simp
next
  case (Cons r rs)
  show ?case
  proof (cases r)
    case None
    with Cons show ?thesis by (simp add: sparkline_effect_def)
  next
    case (Some p)
    obtain ref d where p: "r = Some (ref, d)" using Some by (cases p) auto
    show ?thesis
    proof (cases "lastDataRef s = Some ref")
      case True
      with Cons p show ?thesis by (simp add: sparkline_effect_def)
    next
      case False
      let ?s1 = "sparkline_effect sel n r s"
      have s1: "slice_last n (bufferRef ?s1) = bufferRef ?s1" "points ?s1 = bufferRef ?s1"
        "lastDataRef ?s1 = Some ref"
        using Cons.prems False p slice_last_fold [of n _ "[]"]
        by (auto simp: sparkline_effect_def Let_def split: option.splits)
      have "points (fold (sparkline_effect sel n) (r # rs) s)
          = slice_last n (bufferRef ?s1 @ sampled sel (genuine (Some ref) rs))"
        using Cons.IH [OF s1(1,2)] s1(3) by simp
      also have "\<dots> = slice_last n (bufferRef s @
          sampled sel (genuine (lastDataRef s) (r # rs)))"
        using False p
        by (simp add: sparkline_effect_def Let_def slice_last_fold split: option.splits)
      finally show ?thesis .
    qed
  qed
qed

lemma sparkline_values:
  "points (fold (sparkline_effect sel n) rs sparkline_init)
     = slice_last n (sampled sel (genuine None rs))"
  using sparkline_fold [of n sparkline_init sel rs]
  by (simp add: sparkline_init_def slice_last_def)

section \<open>Properties\<close>

text \<open>Over any sequence of renders \<open>useSparkline\<close> draws the last \<open>maxPoints\<close> finite values of
  the genuinely new responses, in order, and never more points than that: re-renders with the
  same response push no duplicates.\<close>

lemma sparkline_window:
  assumes "0 < maxPoints"
  shows "points (fold (sparkline_effect sel maxPoints) rs sparkline_init)
      = slice_last maxPoints (sampled sel (genuine None rs))
    \<and> length (points (fold (sparkline_effect sel maxPoints) rs sparkline_init)) \<le> maxPoints"
  using assms by (simp add: sparkline_values length_slice_last)

lemma sparkline_window_witness:
  "points (fold (sparkline_effect Some 2)
     [Some (0, Fin 1), Some (0, Fin 1), Some (1, Fin 2), Some (2, NaN), Some (3, Fin 4)] sparkline_init)
   = [2, 4]"
  using sparkline_window [of 2 Some
      "[Some (0, Fin 1), Some (0, Fin 1), Some (1, Fin 2), Some (2, NaN), Some (3, Fin 4)]"]
  by (simp add: finite_value_def slice_last_def)

text \<open>C7. In \<open>useJsonConfig\<close> the response of a cancelled run changes nothing, and while a run is live
  the loading flag is exactly "its request has not settled"; once it has settled well the hook
  shows its data and no error, once it has failed its error.\<close>

theorem config_latest:
  assumes "config_run s P"
  shows "(jc_live s \<noteq> Some run \<longrightarrow> config_settle msg run r s = s)
    \<and> (jc_live s = Some run \<longrightarrow> (jc_loading s \<longleftrightarrow> run \<in> P)
        \<and> \<not> jc_loading (config_settle msg run r s)
        \<and> (case config_result msg r of
             Inr d \<Rightarrow> jc_data (config_settle msg run r s) = Some d
                \<and> jc_error (config_settle msg run r s) = jc_error s
           | Inl e \<Rightarrow> jc_error (config_settle msg run r s) = Some e
                \<and> jc_data (config_settle msg run r s) = jc_data s))"
  using config_run_pending [OF assms] by (auto simp: config_settle_def split: sum.splits)

theorem config_latest_witness:
  "jc_error (config_settle [] 0 (Rejected ''down'')
     (fst (config_effect ''/nav.json'' (config_init :: nat config_state)))) = Some ''down''"
proof -
  let ?s = "fst (config_effect ''/nav.json'' (config_init :: nat config_state))"
  have "config_run ?s (insert (jc_runs (config_init :: nat config_state)) {})"
    by (rule config_run.effect [OF config_run.mount]) (simp add: prod_eq_iff)
  from config_latest [OF this, of 0 "[]" "Rejected ''down''"] show ?thesis
    by (simp add: config_effect_def config_init_def config_result_def)
qed

text \<open>A call of \<open>useAPI\<close> first sets loading and clears the error; when it settles, loading is
  cleared and the recorded error is the one the caller gets, with one exception: a successful
  status whose body is no JSON rejects at the caller and leaves no error.\<close>

lemma useAPI_reports:
  "api_loading (fst (api_call c s)) \<and> api_error (fst (api_call c s)) = None
   \<and> \<not> api_loading (fst (api_settle c r (fst (api_call c s))))
   \<and> api_error (fst (api_settle c r (fst (api_call c s)))) =
       (case api_result msg r of
          Inr d \<Rightarrow> None
        | Inl e \<Rightarrow> if \<exists>resp. r = Resolved resp \<and> resp_ok resp \<and> r_json resp = None then None else Some e)"
  using api.start_busy [of c s] api.round_trip_idle [of c r s]
  by (auto simp: api_call_def api_settle_def api_result_def fetcher_def
      split: outcome.splits option.splits prod.splits)

end
