(* ===== verification/Collation.thy ===== *)
theory Collation
  imports JS_Numbers "HOL-Library.Multiset"
begin

text \<open>
  What \<open>useTable\<close> uses of the language: \<open>Array.prototype.sort\<close>, a stable sort by a comparator
  function, and \<open>localeCompare\<close> with \<open>sensitivity: "base"\<close>. The contract of a comparator is a
  locale; sorting is correct for each of its instances, and the comparator the tables use is
  one.
\<close>

section \<open>Array.prototype.sort\<close>

fun insert_by :: "('a \<Rightarrow> 'a \<Rightarrow> int) \<Rightarrow> 'a \<Rightarrow> 'a list \<Rightarrow> 'a list" where
  "insert_by cmp x [] = [x]"
| "insert_by cmp x (y # ys) = (if cmp x y \<le> 0 then x # y # ys else y # insert_by cmp x ys)"

definition js_sort :: "('a \<Rightarrow> 'a \<Rightarrow> int) \<Rightarrow> 'a list \<Rightarrow> 'a list" where
  "js_sort cmp xs = foldr (insert_by cmp) xs []"

lemma mset_insert_by [simp]: "mset (insert_by cmp x ys) = add_mset x (mset ys)"
  by (induction ys) auto

lemma mset_js_sort [simp]: "mset (js_sort cmp xs) = mset xs"
  by (induction xs) (auto simp: js_sort_def)

lemma set_js_sort [simp]: "set (js_sort cmp xs) = set xs"
  by (metis mset_js_sort set_mset_mset)

lemma length_js_sort [simp]: "length (js_sort cmp xs) = length xs"
  by (metis mset_js_sort size_mset)

lemma insert_by_front: "(\<And>y. y \<in> set ys \<Longrightarrow> cmp x y \<le> 0) \<Longrightarrow> insert_by cmp x ys = x # ys"
  by (cases ys) auto

lemma js_sort_indifferent:
  "(\<And>x y. x \<in> set xs \<Longrightarrow> y \<in> set xs \<Longrightarrow> cmp x y = 0) \<Longrightarrow> js_sort cmp xs = xs"
proof (induction xs)
  case (Cons x xs)
  then have "js_sort cmp xs = xs" by simp
  then have "js_sort cmp (x # xs) = insert_by cmp x xs" by (simp add: js_sort_def)
  also have "\<dots> = x # xs" using Cons.prems by (intro insert_by_front) simp
  finally show ?case .
qed (simp add: js_sort_def)

locale consistent_comparator =
  fixes cmp :: "'a \<Rightarrow> 'a \<Rightarrow> int"
  assumes cmp_antisym: "cmp x y \<le> 0 \<longleftrightarrow> 0 \<le> cmp y x"
    and cmp_trans: "cmp x y \<le> 0 \<Longrightarrow> cmp y z \<le> 0 \<Longrightarrow> cmp x z \<le> 0"
begin

lemma cmp_refl: "cmp x x = 0"
  using cmp_antisym [of x x] by linarith

lemma cmp_total: "cmp x y \<le> 0 \<or> cmp y x \<le> 0"
  using cmp_antisym [of x y] cmp_antisym [of y x] by linarith

lemma sorted_insert_by:
  "sorted_wrt (\<lambda>a b. cmp a b \<le> 0) ys \<Longrightarrow> sorted_wrt (\<lambda>a b. cmp a b \<le> 0) (insert_by cmp x ys)"
proof (induction ys)
  case (Cons y ys)
  have set_ins: "set (insert_by cmp x ys) = insert x (set ys)"
    by (metis mset_insert_by set_mset_add_mset_insert set_mset_mset)
  show ?case
    using Cons cmp_total [of x y] cmp_trans [of x y] by (auto simp: set_ins)
qed simp

lemma sorted_js_sort: "sorted_wrt (\<lambda>a b. cmp a b \<le> 0) (js_sort cmp xs)"
  by (induction xs) (auto simp: js_sort_def sorted_insert_by)

lemma insert_by_stable:
  "sorted_wrt (\<lambda>a b. cmp a b \<le> 0) ys \<Longrightarrow>
     filter (\<lambda>a. cmp a k = 0) (insert_by cmp x ys) = filter (\<lambda>a. cmp a k = 0) (x # ys)"
proof (induction ys)
  case (Cons y ys)
  show ?case
  proof (cases "cmp x y \<le> 0")
    case False
    have "\<not> (cmp x k = 0 \<and> cmp y k = 0)"
      using False cmp_trans [of x k y] cmp_antisym [of k y] by auto
    with False Cons show ?thesis by auto
  qed simp
qed simp

text \<open>Stability: the elements that compare equal to a given one keep their order.\<close>

lemma js_sort_stable: "filter (\<lambda>a. cmp a k = 0) (js_sort cmp xs) = filter (\<lambda>a. cmp a k = 0) xs"
proof (induction xs)
  case (Cons x xs)
  have "filter (\<lambda>a. cmp a k = 0) (js_sort cmp (x # xs))
      = filter (\<lambda>a. cmp a k = 0) (insert_by cmp x (js_sort cmp xs))"
    by (simp add: js_sort_def)
  also have "\<dots> = filter (\<lambda>a. cmp a k = 0) (x # js_sort cmp xs)"
    by (intro insert_by_stable sorted_js_sort)
  finally show ?case using Cons.IH by simp
qed (simp add: js_sort_def)

lemma reversed: "consistent_comparator (\<lambda>x y. - cmp x y)"
proof
  fix x y z
  show "- cmp x y \<le> 0 \<longleftrightarrow> 0 \<le> - cmp y x" using cmp_antisym [of y x] by linarith
  show "- cmp x y \<le> 0 \<Longrightarrow> - cmp y z \<le> 0 \<Longrightarrow> - cmp x z \<le> 0"
    using cmp_trans [of z y x] cmp_antisym [of y x] cmp_antisym [of z y] cmp_antisym [of z x] by linarith
qed

lemma on_keys: "consistent_comparator (\<lambda>x y. cmp (f x) (f y))"
  using cmp_antisym cmp_trans by unfold_locales blast+

end

section \<open>localeCompare\<close>

text \<open>
  The order of the root collation on ASCII at base strength: punctuation, symbols, digits,
  letters regardless of case; other bytes follow in their own order. Texts compare by their
  weights from the left, a proper prefix first.
\<close>

definition base_order :: string where
  "base_order = [CHR 0x09, CHR 0x0A, CHR 0x0B, CHR 0x0C, CHR 0x0D]
     @ '' _-,;:!?.'' @ [CHR 0x27, CHR 0x22] @ ''()[]{}@*/'' @ [CHR 0x5C] @ ''&#%`^+<=>|~$0123456789''
     @ ''abcdefghijklmnopqrstuvwxyz''"

fun index_of :: "'a \<Rightarrow> 'a list \<Rightarrow> nat" where
  "index_of x [] = 0"
| "index_of x (y # ys) = (if x = y then 0 else Suc (index_of x ys))"

definition base_weight :: "char \<Rightarrow> nat" where
  "base_weight c =
     (if to_lower c \<in> set base_order then index_of (to_lower c) base_order else 128 + code c)"

fun compare_weights :: "nat list \<Rightarrow> nat list \<Rightarrow> int" where
  "compare_weights [] [] = 0"
| "compare_weights [] (y # ys) = -1"
| "compare_weights (x # xs) [] = 1"
| "compare_weights (x # xs) (y # ys) =
     (if x < y then -1 else if y < x then 1 else compare_weights xs ys)"

definition localeCompare_base :: "string \<Rightarrow> string \<Rightarrow> int" where
  "localeCompare_base a b = compare_weights (map base_weight a) (map base_weight b)"

lemma compare_weights_antisym: "compare_weights ys xs = - compare_weights xs ys"
  by (induction xs ys rule: compare_weights.induct) auto

lemma compare_weights_trans:
  "compare_weights xs ys \<le> 0 \<Longrightarrow> compare_weights ys zs \<le> 0 \<Longrightarrow> compare_weights xs zs \<le> 0"
proof (induction xs ys arbitrary: zs rule: compare_weights.induct)
  case (1 zs)
  then show ?case by simp
next
  case (2 y ys zs)
  then show ?case by (cases zs) simp_all
next
  case (3 x xs zs)
  then show ?case by simp
next
  case (4 x xs y ys zs)
  show ?case
  proof (cases zs)
    case Nil
    with 4 show ?thesis by simp
  next
    case (Cons z zs')
    consider "x < y" | "y < x" | "x = y" by linarith
    then show ?thesis
    proof cases
      case 3
      with 4(1) [of zs'] 4(2,3) Cons show ?thesis by (simp split: if_split_asm)
    qed (use 4(2,3) Cons in \<open>simp_all split: if_split_asm\<close>)
  qed
qed

interpretation collator: consistent_comparator localeCompare_base
proof
  fix a b c
  show "localeCompare_base a b \<le> 0 \<longleftrightarrow> 0 \<le> localeCompare_base b a"
    unfolding localeCompare_base_def
    using compare_weights_antisym [of "map base_weight a" "map base_weight b"] by simp
  show "localeCompare_base a b \<le> 0 \<Longrightarrow> localeCompare_base b c \<le> 0 \<Longrightarrow> localeCompare_base a c \<le> 0"
    unfolding localeCompare_base_def by (rule compare_weights_trans)
qed

end
