(* ===== verification/Data_Table.thy ===== *)
theory Data_Table
  imports React_View Collation
begin

text \<open>
  \<^verbatim>\<open>components/data-table.tsx\<close>: the filter and sort of \<open>useTable\<close>, the context-menu state of
  \<open>PageShell\<close> and what it renders, \<open>RowActions\<close>. A row is read by field name, as the code
  does: \<open>field c row\<close> is the text \<open>String\<close> gives for the value, \<open>None\<close> for a missing field.
  Handler props hold the list of calls the handler makes.
\<close>

section \<open>useTable\<close>

datatype sort_direction = Ascending | Descending

record SortState =
  so_column :: string
  so_direction :: sort_direction

record table_state =
  filterText :: string
  sortDescriptor :: SortState

definition table_init :: "SortState option \<Rightarrow> table_state" where
  "table_init defaultSort =
     \<lparr>filterText = [], sortDescriptor = opt_or defaultSort \<lparr>so_column = ''name'', so_direction = Ascending\<rparr>\<rparr>"

definition filter_matches :: "(string \<Rightarrow> 'a \<Rightarrow> string option) \<Rightarrow> string \<Rightarrow> string \<Rightarrow> 'a \<Rightarrow> bool" where
  "filter_matches field f q item = js_includes q (toLowerCase (opt_or (field f item) ''undefined''))"

definition filtered ::
  "(string \<Rightarrow> 'a \<Rightarrow> string option) \<Rightarrow> string option \<Rightarrow> table_state \<Rightarrow> 'a list option \<Rightarrow> 'a list option" where
  "filtered field filterField s data =
     (case data of
        None \<Rightarrow> None
      | Some rows \<Rightarrow>
          if filterText s = [] \<or> opt_str filterField = [] then Some rows
          else Some (filter (filter_matches field (opt_str filterField) (toLowerCase (filterText s))) rows))"

definition row_compare :: "(string \<Rightarrow> 'a \<Rightarrow> string option) \<Rightarrow> SortState \<Rightarrow> 'a \<Rightarrow> 'a \<Rightarrow> int" where
  "row_compare field sd a b =
     (let cmp = localeCompare_base (opt_str (field (so_column sd) a)) (opt_str (field (so_column sd) b))
      in if so_direction sd = Descending then - cmp else cmp)"

definition sorted_rows ::
  "(string \<Rightarrow> 'a \<Rightarrow> string option) \<Rightarrow> string option \<Rightarrow> table_state \<Rightarrow> 'a list option \<Rightarrow> 'a list" where
  "sorted_rows field filterField s data =
     js_sort (row_compare field (sortDescriptor s)) (opt_or (filtered field filterField s data) [])"

definition table_isEmpty ::
  "(string \<Rightarrow> 'a \<Rightarrow> string option) \<Rightarrow> string option \<Rightarrow> table_state \<Rightarrow> 'a list option \<Rightarrow> bool" where
  "table_isEmpty field filterField s data =
     (case data of
        None \<Rightarrow> False
      | Some rows \<Rightarrow> rows = [] \<or> (filterText s \<noteq> [] \<and> filtered field filterField s data = Some []))"

definition totalCount :: "'a list option \<Rightarrow> nat" where
  "totalCount data = (case data of None \<Rightarrow> 0 | Some rows \<Rightarrow> length rows)"

interpretation rows: consistent_comparator "row_compare field sd" for field sd
proof -
  let ?key = "\<lambda>a. opt_str (field (so_column sd) a)"
  show "consistent_comparator (row_compare field sd)"
  proof (cases "so_direction sd")
    case Ascending
    then have "row_compare field sd = (\<lambda>a b. localeCompare_base (?key a) (?key b))"
      by (simp add: row_compare_def Let_def fun_eq_iff)
    then show ?thesis using collator.on_keys [of ?key] by simp
  next
    case Descending
    then have "row_compare field sd = (\<lambda>a b. - localeCompare_base (?key a) (?key b))"
      by (simp add: row_compare_def Let_def fun_eq_iff)
    then show ?thesis
      using consistent_comparator.reversed [OF collator.on_keys [of ?key]] by simp
  qed
qed

lemma sorted_rows_set:
  "set (sorted_rows field f s data) =
     {r \<in> set (opt_or data []). filterText s = [] \<or> opt_str f = []
        \<or> filter_matches field (opt_str f) (toLowerCase (filterText s)) r}"
  by (auto simp: sorted_rows_def filtered_def split: option.splits)

lemma sorted_rows_subset: "set (sorted_rows field f s data) \<subseteq> set (opt_or data [])"
  by (auto simp: sorted_rows_set)

text \<open>Sorting by a column no row has leaves the order of the data.\<close>

lemma sorted_rows_missing_column:
  assumes "\<And>r. field (so_column (sortDescriptor s)) r = None"
  shows "sorted_rows field f s data = opt_or (filtered field f s data) []"
  unfolding sorted_rows_def
  by (rule js_sort_indifferent) (simp add: row_compare_def assms collator.cmp_refl)

section \<open>PageShell\<close>

record 'a shell_state =
  ctxPoint :: "(int \<times> int) option"
  ctxRow :: "'a option"

definition shell_init :: "'a shell_state" where
  "shell_init = \<lparr>ctxPoint = None, ctxRow = None\<rparr>"

text \<open>The handler of a row (\<open>useRowContextMenu\<close>) at the mouse position, and the click that closes.\<close>

definition onRowContextMenu :: "'a \<Rightarrow> int \<times> int \<Rightarrow> 'a shell_state \<Rightarrow> 'a shell_state" where
  "onRowContextMenu item point s = s\<lparr>ctxPoint := Some point, ctxRow := Some item\<rparr>"

definition document_click :: "'a shell_state \<Rightarrow> 'a shell_state" where
  "document_click s = (if ctxPoint s = None then s else s\<lparr>ctxPoint := None\<rparr>)"

record ('r, 'a) PageShellProps =
  ps_data :: "'r list option"
  ps_title :: string
  ps_description :: "(nat \<Rightarrow> string \<Rightarrow> string) option"
  ps_searchable :: bool
  ps_filter :: "string option"
  ps_onFilterChange :: "string \<Rightarrow> 'a"
  ps_filterPlaceholder :: "string option"
  ps_emptyMessage :: "string option"
  ps_emptyDescription :: "string option"
  ps_contextMenu :: "('r \<Rightarrow> 'a view list) option"
  ps_beforeTable :: "'a view list"
  ps_children :: "'a view list"

text \<open>\<^verbatim>\<open>ui/context-menu.tsx\<close>: the content is there while a point (or a trigger offset) is set.\<close>

definition ContextMenuContent :: "(int \<times> int) option \<Rightarrow> 'a view list \<Rightarrow> 'a view list" where
  "ContextMenuContent point children =
     (case point of
        None \<Rightarrow> []
      | Some p \<Rightarrow> [El ''ContextMenuContent'' [(''x'', PI (fst p)), (''y'', PI (snd p))] children])"

definition shell_header :: "('r, 'a) PageShellProps \<Rightarrow> string \<Rightarrow> 'a view" where
  "shell_header p desc =
     El ''CardHeader'' []
       (El ''CardTitle'' [] [Txt (ps_title p)]
        # vwhen (desc \<noteq> []) [El ''CardDescription'' [] [Txt desc]]
        @ vwhen (ps_searchable p)
            [El ''CardAction'' []
              [El ''SearchField''
                 [(''aria-label'', PS (''Filter '' @ ps_title p)),
                  (''onChange'', ActS (ps_onFilterChange p)),
                  (''value'', PS (opt_or (ps_filter p) []))]
                 [El ''SearchInput''
                    [(''placeholder'', PS (opt_or (ps_filterPlaceholder p) (''Filter'' @ ellipsis)))] []]]])"

definition PageShell :: "('r, 'a) PageShellProps \<Rightarrow> 'r shell_state \<Rightarrow> 'a view" where
  "PageShell p s =
     (case ps_data p of
        None \<Rightarrow>
          El ''Skeleton'' [(''isLoading'', PB True)]
            [El ''div'' [] [El ''div'' []
              [El ''CardHeader'' [(''title'', PS (ps_title p)), (''description'', PS (''Loading'' @ ellipsis))] [],
               El ''div'' [] []]]]
      | Some rows \<Rightarrow>
          (let desc = (case ps_description p of None \<Rightarrow> [] | Some d \<Rightarrow> d (length rows) (opt_or (ps_filter p) []));
               isEmpty = (rows = [] \<or> (opt_or (ps_filter p) [] \<noteq> [] \<and> rows = []))
           in El ''div'' []
                (ps_beforeTable p
                 @ [El ''div'' []
                     [shell_header p desc,
                      if isEmpty
                      then El ''div'' []
                             (El ''p'' [] [Txt (opt_or (ps_emptyMessage p) ''No items found'')]
                              # (case ps_emptyDescription p of
                                   None \<Rightarrow> []
                                 | Some d \<Rightarrow> vwhen (d \<noteq> []) [El ''p'' [] [Txt d]]))
                      else El ''ContextMenu'' []
                             (ps_children p
                              @ (case (ctxRow s, ps_contextMenu p) of
                                   (Some r, Some menu) \<Rightarrow> ContextMenuContent (ctxPoint s) (menu r)
                                 | _ \<Rightarrow> []))]])))"

text \<open>
  What a user can trigger on a page: what is above the table, the filter, the children while
  there are rows, and the open context menu of the row it was opened on.
\<close>

lemma offered_PageShell:
  "offered (PageShell p s) \<subseteq>
     (\<Union>v \<in> set (ps_beforeTable p). offered v) \<union> (\<Union>v \<in> set (ps_children p). offered v)
     \<union> range (ps_onFilterChange p)
     \<union> (case (ctxRow s, ps_contextMenu p) of
          (Some r, Some menu) \<Rightarrow> (\<Union>v \<in> set (menu r). offered v) | _ \<Rightarrow> {})"
proof (cases "ps_data p")
  case None
  then show ?thesis by (simp add: PageShell_def view_simps)
next
  case (Some rows)
  then show ?thesis
    by (auto simp: PageShell_def shell_header_def ContextMenuContent_def Let_def vwhen_def view_simps
        split: option.splits if_splits)
qed

lemma offered_PageShell_in:
  assumes "\<And>v. v \<in> set (ps_beforeTable p) \<Longrightarrow> offered v \<subseteq> H"
    and "\<And>v. v \<in> set (ps_children p) \<Longrightarrow> offered v \<subseteq> H"
    and "\<And>t. ps_onFilterChange p t \<in> H"
    and "\<And>r menu v. ctxRow s = Some r \<Longrightarrow> ps_contextMenu p = Some menu \<Longrightarrow> v \<in> set (menu r) \<Longrightarrow> offered v \<subseteq> H"
  shows "offered (PageShell p s) \<subseteq> H"
proof (rule order_trans [OF offered_PageShell])
  have "(\<Union>v \<in> set (ps_beforeTable p). offered v) \<subseteq> H" using assms(1) by (rule UN_least)
  moreover have "(\<Union>v \<in> set (ps_children p). offered v) \<subseteq> H" using assms(2) by (rule UN_least)
  moreover have "range (ps_onFilterChange p) \<subseteq> H" using assms(3) by (rule image_subsetI)
  moreover have "(case (ctxRow s, ps_contextMenu p) of
      (Some r, Some menu) \<Rightarrow> (\<Union>v \<in> set (menu r). offered v) | _ \<Rightarrow> {}) \<subseteq> H"
    using assms(4) by (simp add: UN_least split: option.split)
  ultimately show "(\<Union>v \<in> set (ps_beforeTable p). offered v) \<union> (\<Union>v \<in> set (ps_children p). offered v)
      \<union> range (ps_onFilterChange p)
      \<union> (case (ctxRow s, ps_contextMenu p) of
          (Some r, Some menu) \<Rightarrow> (\<Union>v \<in> set (menu r). offered v) | _ \<Rightarrow> {}) \<subseteq> H"
    by (intro Un_least)
qed

text \<open>With rows in the data every child is shown.\<close>

lemma offered_children:
  assumes "ps_data p = Some (r # rs)" "v \<in> set (ps_children p)"
  shows "offered v \<subseteq> offered (PageShell p s)"
  using assms by (auto simp: PageShell_def Let_def view_simps split: option.splits)

lemma PageShell_empty_offers:
  assumes "ps_data p = Some []"
  shows "offered (PageShell p s) \<subseteq>
     (\<Union>v \<in> set (ps_beforeTable p). offered v) \<union> range (ps_onFilterChange p)"
  using assms
  by (auto simp: PageShell_def shell_header_def Let_def vwhen_def view_simps split: option.splits if_splits)

section \<open>RowActions\<close>

definition RowActions :: "string \<Rightarrow> 'a view list \<Rightarrow> 'a view" where
  "RowActions label children =
     El ''div'' []
       [El ''Menu'' []
         [El ''MenuTrigger'' [(''aria-label'', PS label)] [El ''MoreVertical'' [] []],
          El ''MenuContent'' [] children]]"

lemma offered_RowActions [view_simps]:
  "offered (RowActions label children) = (\<Union>v \<in> set children. offered v)"
  by (simp add: RowActions_def view_simps)

text \<open>\<open>contextMenu(ctxRow)\<close> shows the row as it was when the menu was opened.\<close>

lemma context_menu_row_frozen:
  "ctxRow (onRowContextMenu r pt s) = Some r"
  "ctxRow (document_click s) = ctxRow s"
  "ctxPoint (document_click s) = None"
  by (simp_all add: onRowContextMenu_def document_click_def)

end
