(* ===== verification/Service_Parts.thy ===== *)
theory Service_Parts
  imports Data_Table Api_Types
begin

text \<open>
  The components under \<^verbatim>\<open>pages/ServicesPage/\<close> that render a service: state badge, port
  chips, action menu, confirmation dialogs, bulk bar, configuration sheet, card and card
  grid. They own no data; their callbacks are parameters, and every handler prop is the list
  of calls it makes.
\<close>

section \<open>StateBadge\<close>

definition fmtBackoff :: "int \<Rightarrow> string" where
  "fmtBackoff secs =
     (if 3600 \<le> secs then show_int \<lceil>rat_of_int secs / 3600\<rceil> @ ''h''
      else if 60 \<le> secs then show_int \<lceil>rat_of_int secs / 60\<rceil> @ ''m''
      else show_int secs @ ''s'')"

record StateBadgeProps =
  sb_state :: string
  sb_subState :: string
  sb_userStopped :: bool
  sb_failureCount :: int
  sb_backoffSeconds :: int
  sb_blockedReason :: string

definition badge_tone :: "StateBadgeProps \<Rightarrow> string \<times> string" where
  "badge_tone p =
     (if sb_state p = ''active'' then (''success'', sb_state p)
      else if sb_userStopped p then (''warning'', ''stopped'')
      else if sb_state p = ''failed'' then (''danger'', sb_state p)
      else (''secondary'', sb_state p))"

definition badge_label :: "StateBadgeProps \<Rightarrow> string" where
  "badge_label p =
     (let label = snd (badge_tone p)
      in if sb_subState p \<noteq> [] \<and> sb_subState p \<noteq> ''dead'' \<and> sb_subState p \<noteq> ''running''
         then label @ '' ('' @ sb_subState p @ '')'' else label)"

definition badge_caption :: "StateBadgeProps \<Rightarrow> string" where
  "badge_caption p =
     (if sb_backoffSeconds p > 0
      then ''retry in '' @ fmtBackoff (sb_backoffSeconds p) @ '' ('' @ times_sign @ show_int (sb_failureCount p) @ '')''
      else ''retrying'' @ ellipsis @ '' ('' @ times_sign @ show_int (sb_failureCount p) @ '')'')"

definition StateBadge :: "StateBadgeProps \<Rightarrow> 'a view" where
  "StateBadge p =
     (let isActive = (sb_state p = ''active'')
      in El ''div'' []
           (El ''span'' [] [El ''StatusDot'' [(''intent'', PS (fst (badge_tone p)))] [], Txt (badge_label p)]
            # vwhen (sb_blockedReason p \<noteq> [] \<and> \<not> isActive) [El ''span'' [] [Txt (sb_blockedReason p)]]
            @ vwhen (sb_blockedReason p = [] \<and> sb_failureCount p > 0 \<and> \<not> isActive)
                [El ''span'' [] [Txt (badge_caption p)]]))"

lemma offered_StateBadge [view_simps]: "offered (StateBadge p) = {}"
  by (simp add: StateBadge_def Let_def vwhen_def view_simps)

section \<open>PortChips\<close>

definition MAX_VISIBLE :: nat where
  "MAX_VISIBLE = 3"

definition port_label :: "PortMapping \<Rightarrow> string" where
  "port_label p = show_int (pm_container_port p) @ ''/'' @ pm_protocol p"

definition port_line :: "PortMapping \<Rightarrow> string" where
  "port_line p =
     port_label p @ (if opt_str (pm_host_ip p) \<noteq> []
       then '' '' @ right_arrow @ '' '' @ opt_str (pm_host_ip p) @ '':'' @ show_int (pm_host_port p)
       else '' '' @ right_arrow @ '' '' @ show_int (pm_host_port p))"

definition PortChips :: "PortMapping list \<Rightarrow> 'a view list" where
  "PortChips ports =
     (if ports = [] then []
      else (let visible = take MAX_VISIBLE ports; overflow = int (length ports) - int MAX_VISIBLE
        in [El ''span'' []
             (map (\<lambda>p. El ''span'' [] [Txt (port_label p)]) visible
              @ vwhen (overflow > 0)
                  [El ''Tooltip'' []
                    [El ''TooltipTrigger'' [] [El ''span'' [] [Txt (''+'' @ show_int overflow)]],
                     El ''TooltipContent'' []
                       [El ''div'' [] (map (\<lambda>p. El ''span'' [] [Txt (port_line p)]) (drop MAX_VISIBLE ports))]]])]))"

lemma offered_PortChips: "(\<Union>v \<in> set (PortChips ports). offered v) = {}"
  by (simp add: PortChips_def Let_def vwhen_def view_simps)

text \<open>Every port is listed exactly once, in order, in a chip or in the overflow tooltip.\<close>

lemma PortChips_complete:
  "take MAX_VISIBLE ports @ drop MAX_VISIBLE ports = ports"
  "length (drop MAX_VISIBLE ports) = length ports - 3"
  by (simp_all add: MAX_VISIBLE_def)

section \<open>ServiceActionsMenu\<close>

record ServiceActionItem =
  sa_unit_name :: string
  sa_name :: string
  sa_state :: string
  sa_type :: string
  sa_daemon_enabled :: bool
  sa_image :: "string option"
  sa_boot_order :: int
  sa_boot_delay :: int
  sa_restart_delay :: int
  sa_depends_on :: "(string list) option"

record 'a ServiceActionsCallbacks =
  cb_onStopConfirm :: "string \<Rightarrow> string \<Rightarrow> 'a"
  cb_onStopAndDisable :: "string \<Rightarrow> string \<Rightarrow> 'a"
  cb_onRestart :: "string \<Rightarrow> 'a"
  cb_onStart :: "string \<Rightarrow> 'a"
  cb_onEnableAutoStart :: "string \<Rightarrow> 'a"
  cb_onShowLogs :: "string \<Rightarrow> 'a"
  cb_onConfigure :: "ServiceActionItem \<Rightarrow> 'a"
  cb_onPull :: "string \<Rightarrow> string \<Rightarrow> 'a"
  cb_afterAction :: "'a option"

record 'a menu_entries =
  me_isRunning :: bool
  me_isDocker :: bool
  me_stop :: "'a list"
  me_stopDisable :: "'a list"
  me_restart :: "'a list"
  me_start :: "'a list"
  me_enable :: "'a list"
  me_showLogs :: "'a list"
  me_configure :: "'a list"
  me_pull :: "'a list"

definition buildEntries :: "ServiceActionItem \<Rightarrow> 'a ServiceActionsCallbacks \<Rightarrow> 'a menu_entries" where
  "buildEntries item cb =
     (let after = (case cb_afterAction cb of None \<Rightarrow> [] | Some a \<Rightarrow> [a])
      in \<lparr>me_isRunning = (sa_state item = ''active'' \<or> sa_state item = ''activating''),
          me_isDocker = (sa_type item = ''Docker''),
          me_stop = cb_onStopConfirm cb (sa_unit_name item) (sa_name item) # after,
          me_stopDisable = cb_onStopAndDisable cb (sa_unit_name item) (sa_name item) # after,
          me_restart = cb_onRestart cb (sa_unit_name item) # after,
          me_start = cb_onStart cb (sa_unit_name item) # after,
          me_enable = cb_onEnableAutoStart cb (sa_unit_name item) # after,
          me_showLogs = cb_onShowLogs cb (sa_unit_name item) # after,
          me_configure = cb_onConfigure cb item # after,
          me_pull = cb_onPull cb (sa_unit_name item) (opt_str (sa_image item)) # after\<rparr>)"

definition danger_item :: "string \<Rightarrow> 'a list \<Rightarrow> string \<Rightarrow> 'a list view" where
  "danger_item tag acts label = El tag [(''intent'', PS ''danger''), (''onAction'', Act acts)] [Txt label]"

definition plain_item :: "string \<Rightarrow> 'a list \<Rightarrow> string \<Rightarrow> 'a list view" where
  "plain_item tag acts label = El tag [(''onAction'', Act acts)] [Txt label]"

definition renderMenuItems ::
  "ServiceActionItem \<Rightarrow> 'a ServiceActionsCallbacks \<Rightarrow> 'a list view list" where
  "renderMenuItems item cb =
     (let e = buildEntries item cb in
      (if me_isRunning e
       then [danger_item ''MenuItem'' (me_stop e) ''Stop'',
             danger_item ''MenuItem'' (me_stopDisable e) ''Stop & Disable'',
             danger_item ''MenuItem'' (me_restart e) ''Restart'']
       else plain_item ''MenuItem'' (me_start e) ''Start''
            # vwhen (\<not> sa_daemon_enabled item) [plain_item ''MenuItem'' (me_enable e) ''Enable (auto-start)''])
      @ [plain_item ''MenuItem'' (me_showLogs e) ''Logs'',
         plain_item ''MenuItem'' (me_configure e) ''Configure'']
      @ vwhen (me_isDocker e) [plain_item ''MenuItem'' (me_pull e) ''Pull''])"

definition renderContextMenuItems ::
  "ServiceActionItem \<Rightarrow> 'a ServiceActionsCallbacks \<Rightarrow> 'a list view list" where
  "renderContextMenuItems item cb =
     (let e = buildEntries item cb in
      (if me_isRunning e
       then [danger_item ''ContextMenuItem'' (me_stop e) ''Stop'',
             danger_item ''ContextMenuItem'' (me_stopDisable e) ''Stop & Disable'',
             danger_item ''ContextMenuItem'' (me_restart e) ''Restart'']
       else plain_item ''ContextMenuItem'' (me_start e) ''Start''
            # vwhen (\<not> sa_daemon_enabled item) [plain_item ''ContextMenuItem'' (me_enable e) ''Enable (auto-start)''])
      @ [plain_item ''ContextMenuItem'' (me_showLogs e) ''Logs'',
         plain_item ''ContextMenuItem'' (me_configure e) ''Configure'']
      @ vwhen (me_isDocker e) [plain_item ''ContextMenuItem'' (me_pull e) ''Pull''])"

text \<open>What the menu of a service offers, by its state, enablement and type.\<close>

definition menu_actions :: "ServiceActionItem \<Rightarrow> 'a ServiceActionsCallbacks \<Rightarrow> 'a list set" where
  "menu_actions item cb =
     (let e = buildEntries item cb in
      (if me_isRunning e then {me_stop e, me_stopDisable e, me_restart e}
       else {me_start e} \<union> (if sa_daemon_enabled item then {} else {me_enable e}))
      \<union> {me_showLogs e, me_configure e} \<union> (if me_isDocker e then {me_pull e} else {}))"

lemma offered_menu:
  "(\<Union>v \<in> set (renderMenuItems item cb). offered v) = menu_actions item cb"
  "(\<Union>v \<in> set (renderContextMenuItems item cb). offered v) = menu_actions item cb"
  by (auto simp: renderMenuItems_def renderContextMenuItems_def menu_actions_def danger_item_def
      plain_item_def Let_def vwhen_def view_simps split: if_splits)

section \<open>ConfirmDialogs\<close>

record ConfirmAction =
  ca_unit :: string
  ca_action :: string
  ca_label :: string

record 'a ConfirmDialogsProps =
  cd_totalCount :: nat
  cd_confirmBulkStop :: bool
  cd_setConfirmBulkStop :: "bool \<Rightarrow> 'a"
  cd_confirmAction :: "ConfirmAction option"
  cd_setConfirmAction :: "ConfirmAction option \<Rightarrow> 'a"
  cd_onConfirmBulkStop :: 'a
  cd_onConfirmAction :: "ConfirmAction \<Rightarrow> 'a"

definition bulk_stop_dialog :: "'a ConfirmDialogsProps \<Rightarrow> 'a list view" where
  "bulk_stop_dialog p =
     El ''ModalContent''
       [(''isOpen'', PB (cd_confirmBulkStop p)), (''onOpenChange'', ActB (\<lambda>b. [cd_setConfirmBulkStop p b]))]
       [El ''ModalHeader'' [] [El ''ModalTitle'' [] [Txt ''Stop all services?'']],
        El ''ModalBody'' []
          [El ''p'' []
            [Txt (''This will stop all '' @ show_nat (cd_totalCount p)
                  @ '' tracked services (except homelab-dash). Services will stay stopped until you press ''),
             El ''strong'' [] [Txt ''Start All''],
             Txt ('' '' @ em_dash @ '' systemd will not restart them automatically.'')]],
        El ''ModalFooter'' []
          [El ''ModalClose'' [] [Txt ''Cancel''],
           El ''Button'' [(''intent'', PS ''danger''), (''onPress'', Act [cd_onConfirmBulkStop p])] [Txt ''Stop All'']]]"

text \<open>The dialog's texts when nothing is to be confirmed are those of the value \<open>undefined\<close>.\<close>

definition action_dialog :: "'a ConfirmDialogsProps \<Rightarrow> 'a list view" where
  "action_dialog p =
     (let act = (case cd_confirmAction p of None \<Rightarrow> ''undefined'' | Some a \<Rightarrow> ca_action a);
          lbl = (case cd_confirmAction p of None \<Rightarrow> ''undefined'' | Some a \<Rightarrow> ca_label a)
      in El ''ModalContent''
           [(''isOpen'', PB (cd_confirmAction p \<noteq> None)), (''onOpenChange'', ActB (\<lambda>b. [cd_setConfirmAction p None]))]
           [El ''ModalHeader'' []
              [El ''ModalTitle'' [] [Txt (if act = ''stop'' then ''Stop service?'' else ''Run '' @ act @ ''?'')]],
            El ''ModalBody'' []
              [El ''p'' [] [Txt (if act = ''stop''
                 then ''This will stop '' @ quote @ lbl @ quote @ ''. It will be unavailable until started again.''
                 else ''This will '' @ act @ '' '' @ quote @ lbl @ quote @ ''.'')]],
            El ''ModalFooter'' []
              [El ''ModalClose'' [] [Txt ''Cancel''],
               El ''Button''
                 [(''intent'', PS (if act = ''stop'' then ''danger'' else ''primary'')),
                  (''onPress'', Act (case cd_confirmAction p of None \<Rightarrow> [] | Some a \<Rightarrow> [cd_onConfirmAction p a]))]
                 [Txt (if act = ''stop'' then ''Stop'' else ''Confirm'')]]])"

definition ConfirmDialogs :: "'a ConfirmDialogsProps \<Rightarrow> 'a list view list" where
  "ConfirmDialogs p = [bulk_stop_dialog p, action_dialog p]"

lemma offered_ConfirmDialogs:
  "(\<Union>v \<in> set (ConfirmDialogs p). offered v) =
     (if cd_confirmBulkStop p then range (\<lambda>b. [cd_setConfirmBulkStop p b]) \<union> {[cd_onConfirmBulkStop p]} else {})
     \<union> (case cd_confirmAction p of None \<Rightarrow> {}
        | Some a \<Rightarrow> {[cd_setConfirmAction p None], [cd_onConfirmAction p a]})"
  by (auto simp: ConfirmDialogs_def bulk_stop_dialog_def action_dialog_def Let_def view_simps split: option.splits)

section \<open>BulkControlBar\<close>

datatype ViewMode = Table_View | Cards_View

datatype bulk_action = Bulk_Stop | Bulk_Start

primrec bulk_name :: "bulk_action \<Rightarrow> string" where
  "bulk_name Bulk_Stop = ''stop''"
| "bulk_name Bulk_Start = ''start''"

record 'a BulkControlBarProps =
  bb_activeCount :: nat
  bb_totalCount :: nat
  bb_bulkLoading :: "bulk_action option"
  bb_viewMode :: ViewMode
  bb_onStartAll :: 'a
  bb_onRequestStopAll :: 'a
  bb_onToggleView :: 'a

definition BulkControlBar :: "'a BulkControlBarProps \<Rightarrow> 'a list view" where
  "BulkControlBar p =
     El ''div'' []
       [El ''p'' [] [Txt (case bb_bulkLoading p of
            Some Bulk_Stop \<Rightarrow> ''Stopping all services'' @ ellipsis
          | Some Bulk_Start \<Rightarrow> ''Starting all services'' @ ellipsis
          | None \<Rightarrow> show_nat (bb_activeCount p) @ '' of '' @ show_nat (bb_totalCount p) @ '' services running'')],
        El ''div'' []
          [El ''Button''
             [(''onPress'', Act [bb_onToggleView p]),
              (''aria-label'', PS (if bb_viewMode p = Cards_View then ''Switch to table view'' else ''Switch to card view''))]
             [if bb_viewMode p = Cards_View then El ''LayoutList'' [] [] else El ''LayoutGrid'' [] []],
           El ''Button''
             [(''intent'', PS ''primary''), (''onPress'', Act [bb_onStartAll p]),
              (''isDisabled'', PB (bb_bulkLoading p \<noteq> None)), (''id'', PS ''btn-start-all'')]
             (vwhen (bb_bulkLoading p = Some Bulk_Start) [El ''RefreshCw'' [] []] @ [Txt ''Start All'']),
           El ''Button''
             [(''intent'', PS ''danger''), (''onPress'', Act [bb_onRequestStopAll p]),
              (''isDisabled'', PB (bb_bulkLoading p \<noteq> None)), (''id'', PS ''btn-stop-all'')]
             (vwhen (bb_bulkLoading p = Some Bulk_Stop) [El ''RefreshCw'' [] []] @ [Txt ''Stop All''])]]"

lemma offered_BulkControlBar:
  "offered (BulkControlBar p) =
     insert [bb_onToggleView p]
       (if bb_bulkLoading p = None then {[bb_onStartAll p], [bb_onRequestStopAll p]} else {})"
  by (auto simp: BulkControlBar_def vwhen_def view_simps)

section \<open>ServiceConfigSheet\<close>

text \<open>The number fields hold what \<open>Number(e.target.value)\<close> gives.\<close>

record ServiceConfigDraft =
  cf_open :: bool
  cf_unit :: string
  cf_name :: string
  cf_boot_order :: jsnum
  cf_boot_delay :: jsnum
  cf_restart_delay :: jsnum
  cf_depends_on :: string

definition number_field :: "string \<Rightarrow> jsnum \<Rightarrow> (string \<Rightarrow> 'a list) \<Rightarrow> string \<Rightarrow> 'a list view" where
  "number_field label v change hint =
     El ''div'' []
       [El ''label'' [] [Txt label],
        El ''Input'' [(''type'', PS ''number''), (''value'', PN v), (''onChange'', ActS change)] [],
        El ''span'' [] [Txt hint]]"

lemma offered_number_field [view_simps]: "offered (number_field label v change hint) = range change"
  by (auto simp: number_field_def view_simps)

definition ServiceConfigSheet ::
  "ServiceConfigDraft option \<Rightarrow> (ServiceConfigDraft \<Rightarrow> 'a) \<Rightarrow> 'a \<Rightarrow> 'a \<Rightarrow> 'a list view" where
  "ServiceConfigSheet draft onChange onClose onSave =
     El ''Sheet''
       [(''isOpen'', PB (draft \<noteq> None)), (''onOpenChange'', ActB (\<lambda>open. if open then [] else [onClose]))]
       [El ''SheetContent'' [(''side'', PS ''right'')]
         (case draft of None \<Rightarrow> [] | Some d \<Rightarrow>
           [El ''SheetHeader'' [] [El ''SheetTitle'' [] [Txt (''Configure '' @ cf_name d)]],
            El ''SheetBody'' []
              [number_field ''Boot Order'' (cf_boot_order d)
                 (\<lambda>v. [onChange (d\<lparr>cf_boot_order := js_number v\<rparr>)])
                 ''Lower numbers start first (e.g. Caddy has order 1)'',
               number_field ''Boot Delay (seconds)'' (cf_boot_delay d)
                 (\<lambda>v. [onChange (d\<lparr>cf_boot_delay := js_number v\<rparr>)])
                 ''Time to wait after dependencies are running'',
               number_field ''Restart Delay (seconds)'' (cf_restart_delay d)
                 (\<lambda>v. [onChange (d\<lparr>cf_restart_delay := js_number v\<rparr>)])
                 ''Delay before restarting crashed/failed services'',
               El ''div'' []
                 [El ''label'' [] [Txt ''Dependencies (Depends On)''],
                  El ''Input''
                    [(''type'', PS ''text''), (''value'', PS (cf_depends_on d)),
                     (''onChange'', ActS (\<lambda>v. [onChange (d\<lparr>cf_depends_on := v\<rparr>)])),
                     (''placeholder'', PS ''e.g. postgresql.service, caddy.service'')] [],
                  El ''span'' [] [Txt ''Comma-separated list of systemd service names'']],
               El ''div'' []
                 [El ''Button'' [(''intent'', PS ''secondary''), (''onPress'', Act [onClose])] [Txt ''Cancel''],
                  El ''Button'' [(''intent'', PS ''primary''), (''onPress'', Act [onSave])] [Txt ''Save Changes'']]]])]"

lemma offered_ServiceConfigSheet_closed:
  "offered (ServiceConfigSheet None onChange onClose onSave) = {}"
  by (simp add: ServiceConfigSheet_def view_simps)

lemma offered_ServiceConfigSheet_open:
  "offered (ServiceConfigSheet (Some d) onChange onClose onSave) \<subseteq>
     {[], [onClose], [onSave]} \<union> {[onChange d'] | d'. cf_unit d' = cf_unit d}"
  by (auto simp: ServiceConfigSheet_def view_simps)

end
