(* ===== verification/Service_Cards.thy ===== *)
theory Service_Cards
  imports Service_Parts
begin

text \<open>
  \<^verbatim>\<open>pages/ServicesPage/ServiceCard.tsx\<close>, \<^verbatim>\<open>ServiceCardsGrid.tsx\<close> and \<^verbatim>\<open>LogsDialog.tsx\<close>:
  the card views of services and the read-only log dialog.
\<close>

text \<open>The icon shown for a service without one: pieces of a data URL, each but the last followed by a quote.\<close>

definition FALLBACK_ICON :: string where
  "FALLBACK_ICON =
     concat (map (\<lambda>t. t @ [CHR 0x27]) [''data:image/svg+xml,%3Csvg xmlns='',
      ''http://www.w3.org/2000/svg'',
      '' viewBox='',
      ''0 0 24 24'',
      '' fill='',
      ''none'',
      '' stroke='',
      ''currentColor'',
      '' stroke-width='',
      ''2'',
      ''%3E%3Crect x='',
      ''2'',
      '' y='',
      ''2'',
      '' width='',
      ''20'',
      '' height='',
      ''8'',
      '' rx='',
      ''2'',
      ''/%3E%3Crect x='',
      ''2'',
      '' y='',
      ''14'',
      '' width='',
      ''20'',
      '' height='',
      ''8'',
      '' rx='',
      ''2'']) @ ''/%3E%3C/svg%3E''"

record ServiceCardRow = ServiceActionItem +
  sc_subState :: string
  sc_user_stopped :: bool
  sc_failure_count :: int
  sc_backoff_seconds :: int
  sc_blocked_reason :: string
  sc_icon_url :: string
  sc_homepage_url :: string
  sc_update_available :: bool
  sc_remote_version :: string

definition card_badge :: "ServiceCardRow \<Rightarrow> StateBadgeProps" where
  "card_badge item =
     \<lparr>sb_state = sa_state item, sb_subState = sc_subState item, sb_userStopped = sc_user_stopped item,
      sb_failureCount = sc_failure_count item, sb_backoffSeconds = sc_backoff_seconds item,
      sb_blockedReason = sc_blocked_reason item\<rparr>"

definition card_item :: "ServiceCardRow \<Rightarrow> ServiceActionItem" where
  "card_item item = ServiceActionItem.truncate item"

definition ServiceCard ::
  "ServiceCardRow \<Rightarrow> 'a ServiceActionsCallbacks \<Rightarrow> (string \<Rightarrow> 'a) \<Rightarrow> (ServiceCardRow \<Rightarrow> 'a) \<Rightarrow> 'a list view" where
  "ServiceCard item callbacks onTriggerUpdate onRowCtx =
     (let isRunning = (sa_state item = ''active'' \<or> sa_state item = ''activating'')
      in El ''div'' [(''onContextMenu'', Act [onRowCtx item])]
       [El ''div'' []
         [El ''div'' []
           [if sc_icon_url item \<noteq> []
            then El ''img'' [(''src'', PS (sc_icon_url item)), (''alt'', PS (sa_name item)),
                   (''className'', PS (if \<not> isRunning then ''opacity-40 grayscale'' else []))] []
            else El ''div'' [(''className'', PS (if \<not> isRunning then ''opacity-40'' else []))]
                   [Txt (case sa_name item of [] \<Rightarrow> ''?'' | c # cs \<Rightarrow> toUpperCase [c])]],
          El ''div'' []
           (vwhen (sc_update_available item)
             [El ''Tooltip'' []
               [El ''TooltipTrigger'' []
                 [El ''StatusDot'' [(''intent'', PS ''warning''), (''onClick'', Act [onTriggerUpdate (sa_unit_name item)])] []],
                El ''TooltipContent'' []
                 [Txt (''Update available'' @ (if sc_remote_version item \<noteq> []
                    then '' '' @ em_dash @ '' '' @ sc_remote_version item else []))]]])],
        El ''div'' [(''title'', PS (sa_name item))] [Txt (sa_name item)],
        StateBadge (card_badge item),
        El ''div'' []
         ([El ''Tooltip'' []
            [El ''TooltipTrigger'' []
              [El ''Button''
                 [(''aria-label'', PS ''View logs''), (''onPress'', Act [cb_onShowLogs callbacks (sa_unit_name item)])]
                 [El ''ScrollText'' [] []]],
             El ''TooltipContent'' [] [Txt ''Logs'']]]
          @ vwhen (sc_homepage_url item \<noteq> [])
              [El ''a'' [(''href'', PS (sc_homepage_url item)), (''target'', PS ''_blank''),
                 (''rel'', PS ''noopener noreferrer''), (''aria-label'', PS (''Open '' @ sa_name item)),
                 (''title'', PS (sc_homepage_url item))] [El ''ExternalLink'' [] []]]
          @ [El ''div'' []
              [RowActions (''Actions for '' @ sa_name item) (renderMenuItems (card_item item) callbacks)]])])"

lemma offered_ServiceCard:
  "offered (ServiceCard item cb upd ctx) =
     {[ctx item], [cb_onShowLogs cb (sa_unit_name item)]}
     \<union> (if sc_update_available item then {[upd (sa_unit_name item)]} else {})
     \<union> menu_actions (card_item item) cb"
  by (auto simp: ServiceCard_def Let_def vwhen_def view_simps offered_menu split: if_splits)

definition grid_card ::
  "'a ServiceActionsCallbacks \<Rightarrow> (string \<Rightarrow> bool \<Rightarrow> 'a) \<Rightarrow> ServiceCardRow \<Rightarrow> 'a list view" where
  "grid_card menuCallbacks toggleAutoStart item =
     (let isActive = (sa_state item = ''active'')
      in El ''div'' [(''className'', PS (if isActive then ''bg-bg hover:bg-accent/10'' else ''bg-muted/10 opacity-70''))]
       [El ''div'' []
         ([El ''Menu'' []
            [El ''Tooltip'' []
              [El ''TooltipTrigger'' []
                [El ''MenuTrigger'' [(''aria-label'', PS (''Actions for '' @ sa_name item))]
                  [El ''img''
                     [(''src'', PS (str_or (sc_icon_url item) FALLBACK_ICON)), (''alt'', PS (sa_name item)),
                      (''className'', PS (if \<not> isActive then ''grayscale opacity-60'' else [])),
                      (''data-fallback'', PS (if sc_icon_url item = [] then ''true'' else ''undefined''))] []]],
               El ''TooltipContent'' [] [Txt ''Click for actions'']],
             El ''MenuContent'' [] (renderMenuItems (card_item item) menuCallbacks)],
           El ''span'' [] [El ''span'' [] [Txt (sa_name item)]]]
          @ vwhen (sc_homepage_url item \<noteq> [])
              [El ''a'' [(''href'', PS (sc_homepage_url item)), (''target'', PS ''_blank''),
                 (''rel'', PS ''noopener noreferrer''), (''onClick'', Act []),
                 (''aria-label'', PS (''Open '' @ sa_name item))] [El ''ExternalLink'' [] []]]),
        StateBadge (card_badge item),
        El ''div'' []
         [El ''span'' [] [Txt ''AutoStart''],
          El ''Switch''
            [(''isSelected'', PB (sa_daemon_enabled item)),
             (''onChange'', ActB (\<lambda>selected. [toggleAutoStart (sa_unit_name item) selected])),
             (''aria-label'', PS ''AutoStart toggle'')] []]])"

definition ServiceCardsGrid ::
  "ServiceCardRow list \<Rightarrow> 'a ServiceActionsCallbacks \<Rightarrow> (string \<Rightarrow> bool \<Rightarrow> 'a) \<Rightarrow> 'a list view" where
  "ServiceCardsGrid items menuCallbacks toggleAutoStart =
     El ''div'' [] (map (grid_card menuCallbacks toggleAutoStart) items)"

lemma offered_grid_card:
  "offered (grid_card cb toggle item) =
     (if sc_homepage_url item \<noteq> [] then {[]} else {})
     \<union> range (\<lambda>b. [toggle (sa_unit_name item) b]) \<union> menu_actions (card_item item) cb"
  by (auto simp: grid_card_def Let_def vwhen_def view_simps offered_menu split: if_splits)

lemma offered_ServiceCardsGrid:
  "offered (ServiceCardsGrid items cb toggle) = (\<Union>item \<in> set items. offered (grid_card cb toggle item))"
  by (simp add: ServiceCardsGrid_def view_simps)

section \<open>LogsDialog\<close>

definition LogsDialog :: "bool \<Rightarrow> string \<Rightarrow> string \<Rightarrow> 'a \<Rightarrow> (bool \<Rightarrow> 'a) \<Rightarrow> bool \<Rightarrow> 'a list view list" where
  "LogsDialog isOpen name content onClose setIsBugOpen isBugOpen =
     [El ''ModalContent'' [(''isOpen'', PB isOpen), (''onOpenChange'', ActB (\<lambda>b. [onClose]))]
        [El ''ModalHeader'' []
          [El ''ModalTitle'' [] [Txt (''Logs: '' @ name)],
           El ''button'' [(''onClick'', Act [setIsBugOpen True]), (''title'', PS ''Report Bug with these logs'')]
             [El ''Bug'' [] []]],
         El ''ModalBody'' [] [El ''pre'' [] [Txt content]]],
      El ''BugReportModal''
        [(''isOpen'', PB isBugOpen), (''onOpenChange'', ActB (\<lambda>b. [setIsBugOpen b])),
         (''defaultService'', PS name), (''defaultLogs'', PS content)] []]"

end
