(* ===== verification/Pull_Dialog.thy ===== *)
theory Pull_Dialog
  imports React_View
begin

text \<open>
  \<^verbatim>\<open>pages/ServicesPage/PullDialog.tsx\<close>: the dialog that streams a pull over its own
  \<open>EventSource\<close>. The state is that of the component with its open stream; the steps are a
  render with given dependencies (the effect runs when one of them changed, after the
  cleanup of the run before) and the events of a stream that is still open.
\<close>

datatype pull_status = Pull_Idle | Pull_Running | Pull_Done | Pull_Error

text \<open>The dependencies of the effect. \<open>pp_onRestart\<close> is the identity of the callback.\<close>

record pull_deps =
  pp_open :: bool
  pp_unit :: string
  pp_name :: string
  pp_autoRestart :: bool
  pp_onRestart :: nat

record pull_dialog =
  pd_lines :: "string list"
  pd_status :: pull_status
  pd_deps :: "pull_deps option"
  pd_source :: "pull_deps option"

datatype pull_out =
    Open_Stream string
  | Close_Stream
  | Pull_Toast toast_kind string
  | Call_onRestart string

definition pull_dialog_init :: pull_dialog where
  "pull_dialog_init = \<lparr>pd_lines = [], pd_status = Pull_Idle, pd_deps = None, pd_source = None\<rparr>"

definition pull_url :: "string \<Rightarrow> string" where
  "pull_url unit = ''/api/services/'' @ unit @ ''/pull-stream''"

definition pull_cleanup :: "pull_dialog \<Rightarrow> pull_dialog \<times> pull_out list" where
  "pull_cleanup s =
     (s\<lparr>pd_source := None\<rparr>,
      case pd_deps s of Some d \<Rightarrow> vwhen (pp_open d) [Close_Stream] | None \<Rightarrow> [])"

definition pull_effect :: "pull_deps \<Rightarrow> pull_dialog \<Rightarrow> pull_dialog \<times> pull_out list" where
  "pull_effect d s =
     (let s1 = s\<lparr>pd_deps := Some d\<rparr>
      in if \<not> pp_open d then (s1, [])
         else (s1\<lparr>pd_lines := [], pd_status := Pull_Running, pd_source := Some d\<rparr>,
               [Open_Stream (pull_url (pp_unit d))]))"

definition pull_render :: "pull_deps \<Rightarrow> pull_dialog \<Rightarrow> pull_dialog \<times> pull_out list" where
  "pull_render d s =
     (if pd_deps s = Some d then (s, [])
      else (let (s1, outs1) = pull_cleanup s; (s2, outs2) = pull_effect d s1 in (s2, outs1 @ outs2)))"

text \<open>Listeners; a closed stream delivers nothing.\<close>

definition on_log :: "string \<Rightarrow> pull_dialog \<Rightarrow> pull_dialog \<times> pull_out list" where
  "on_log line s =
     (case pd_source s of
        None \<Rightarrow> (s, [])
      | Some d \<Rightarrow> (s\<lparr>pd_lines := slice_last 200 (pd_lines s) @ [line]\<rparr>, []))"

definition on_done :: "pull_dialog \<Rightarrow> pull_dialog \<times> pull_out list" where
  "on_done s =
     (case pd_source s of
        None \<Rightarrow> (s, [])
      | Some d \<Rightarrow>
          (s\<lparr>pd_status := Pull_Done, pd_source := None\<rparr>,
           [Close_Stream, Pull_Toast Success (''Pull complete: '' @ pp_name d)]
           @ vwhen (pp_autoRestart d) [Call_onRestart (pp_unit d)]))"

definition on_pull_error :: "string \<Rightarrow> pull_dialog \<Rightarrow> pull_dialog \<times> pull_out list" where
  "on_pull_error msg s =
     (case pd_source s of
        None \<Rightarrow> (s, [])
      | Some d \<Rightarrow>
          (s\<lparr>pd_status := Pull_Error, pd_source := None\<rparr>,
           [Close_Stream, Pull_Toast Error (''Pull failed: '' @ msg)]))"

lemmas pull_defs = pull_render_def pull_cleanup_def pull_effect_def on_log_def on_done_def on_pull_error_def

inductive pull_step :: "pull_dialog \<Rightarrow> pull_out list \<Rightarrow> pull_dialog \<Rightarrow> bool" where
  render: "pull_render d s = (t, outs) \<Longrightarrow> pull_step s outs t"
| log: "on_log line s = (t, outs) \<Longrightarrow> pull_step s outs t"
| finished: "on_done s = (t, outs) \<Longrightarrow> pull_step s outs t"
| failed: "on_pull_error msg s = (t, outs) \<Longrightarrow> pull_step s outs t"

inductive pull_reachable :: "pull_dialog \<Rightarrow> bool" where
  pull_start: "pull_reachable pull_dialog_init"
| pull_next: "pull_reachable s \<Longrightarrow> pull_step s outs t \<Longrightarrow> pull_reachable t"

inductive_cases pull_stepE: "pull_step s outs t"

text \<open>
  A stream is open exactly while a pull runs, it is the stream of the current dependencies,
  and at most 201 lines are kept.
\<close>

definition pull_inv :: "pull_dialog \<Rightarrow> bool" where
  "pull_inv s \<longleftrightarrow>
     length (pd_lines s) \<le> 201
     \<and> (\<forall>d. pd_source s = Some d \<longrightarrow> pd_deps s = Some d \<and> pp_open d \<and> pd_status s = Pull_Running)"

lemma pull_step_inv: "pull_step s outs t \<Longrightarrow> pull_inv s \<Longrightarrow> pull_inv t"
  by (erule pull_stepE)
    (auto simp: pull_defs pull_inv_def length_slice_last Let_def split: option.splits if_splits)

lemma pull_reachable_inv: "pull_reachable s \<Longrightarrow> pull_inv s"
proof (induction rule: pull_reachable.induct)
  case pull_start
  show ?case by (simp add: pull_inv_def pull_dialog_init_def)
next
  case pull_next
  then show ?case using pull_step_inv by blast
qed

text \<open>What the log shows after \<open>ls\<close> arrived on an open stream.\<close>

lemma pull_log_fold:
  assumes "pd_source s = Some d" "pd_lines s = []"
  shows "pd_lines (fold (\<lambda>l s. fst (on_log l s)) ls s) = slice_last 201 ls"
proof -
  have "pd_source (fold (\<lambda>l s. fst (on_log l s)) ls s) = Some d
      \<and> pd_lines (fold (\<lambda>l s. fst (on_log l s)) ls s) = slice_last 201 ls"
  proof (induction ls rule: rev_induct)
    case Nil
    then show ?case using assms by (simp add: slice_last_def)
  next
    case (snoc l ls)
    have "slice_last 200 (slice_last 201 ls) @ [l] = slice_last 201 (ls @ [l])"
    proof (cases "length ls \<le> 201")
      case False
      then have "length ls - 200 = Suc (length ls - 201)" by simp
      then show ?thesis using False by (simp add: slice_last_def)
    qed (simp add: slice_last_def)
    with snoc show ?case by (simp add: on_log_def)
  qed
  then show ?thesis by simp
qed

section \<open>View\<close>

definition pull_text :: "pull_dialog \<Rightarrow> string" where
  "pull_text s =
     str_or (js_join [CHR 0x0A] (pd_lines s))
       (if pd_status s = Pull_Running then ''Starting pull...'' else [])"

definition PullDialog :: "pull_deps \<Rightarrow> string \<Rightarrow> 'a \<Rightarrow> pull_dialog \<Rightarrow> 'a view" where
  "PullDialog p img onClose s =
     El ''ModalContent'' [(''isOpen'', PB (pp_open p)), (''onOpenChange'', ActB (\<lambda>b. onClose))]
       [El ''ModalHeader'' []
          [El ''ModalTitle'' []
             ([Txt (''Pull: '' @ pp_name p)]
              @ vwhen (pd_status s = Pull_Running) [El ''RefreshCw'' [] []]
              @ vwhen (pd_status s = Pull_Done)
                  [El ''span'' []
                    [El ''StatusDot'' [(''intent'', PS ''success'')] [],
                     Txt (''Done'' @ (if pp_autoRestart p then '' '' @ em_dash @ '' restarting'' else []))]]
              @ vwhen (pd_status s = Pull_Error)
                  [El ''span'' [] [El ''StatusDot'' [(''intent'', PS ''danger'')] [], Txt ''Error'']])],
        El ''ModalBody'' []
          [El ''p'' [] [Txt img], El ''pre'' [] [Txt (pull_text s)]]]"

lemma offered_PullDialog [view_simps]:
  "offered (PullDialog p img onClose s) = (if pp_open p then {onClose} else {})"
  by (auto simp: PullDialog_def vwhen_def view_simps)

end
