(* ===== verification/Services_Page.thy ===== *)
theory Services_Page
  imports Service_Cards Pull_Dialog Async_Calls Overview_Feed
begin

text \<open>
  \<^verbatim>\<open>pages/ServicesPage.tsx\<close>: the row model, the uptime text, the stored view mode, the
  handlers and what the page renders. A handler that awaits a request is split at the await:
  its first part returns the new state and the effects, its second part takes the outcome.
  A response body is the envelope the code reads; \<open>r_json\<close> is \<open>None\<close> when \<open>resp.json()\<close>
  rejects.
\<close>

section \<open>Rows\<close>

record ServiceRow =
  row_id :: string
  row_name :: string
  row_type :: string
  row_state :: string
  row_subState :: string
  row_description :: string
  row_unit_name :: string
  row_update_available :: bool
  row_current_version :: string
  row_remote_version :: string
  row_image :: string
  row_daemon_enabled :: bool
  row_restart_policy :: string
  row_boot_order :: int
  row_boot_delay :: int
  row_restart_delay :: int
  row_depends_on :: "string list"
  row_user_stopped :: bool
  row_failure_count :: int
  row_backoff_seconds :: int
  row_blocked_reason :: string
  row_requires_mount :: "string list"
  row_icon_url :: string
  row_homepage_url :: string
  row_port_mappings :: "PortMapping list"
  row_started_at :: string

definition toRow :: "ServiceInfo \<Rightarrow> ServiceRow" where
  "toRow svc =
     \<lparr>row_id = si_unit_name svc, row_name = si_name svc, row_type = si_type svc,
      row_state = si_active_state svc, row_subState = si_sub_state svc,
      row_description = str_or (si_description svc) em_dash, row_unit_name = si_unit_name svc,
      row_update_available = si_update_available svc,
      row_current_version = opt_str (si_current_version svc),
      row_remote_version = opt_str (si_remote_version svc), row_image = opt_str (si_image svc),
      row_daemon_enabled = si_daemon_enabled svc, row_restart_policy = si_restart_policy svc,
      row_boot_order = si_boot_order svc, row_boot_delay = si_boot_delay svc,
      row_restart_delay = si_restart_delay svc, row_depends_on = si_depends_on svc,
      row_user_stopped = si_user_stopped svc, row_failure_count = si_failure_count svc,
      row_backoff_seconds = si_backoff_seconds svc, row_blocked_reason = si_blocked_reason svc,
      row_requires_mount = si_requires_mount svc, row_icon_url = opt_str (si_icon_url svc),
      row_homepage_url = opt_str (si_homepage_url svc),
      row_port_mappings = opt_or (si_port_mappings svc) [],
      row_started_at = opt_str (si_started_at svc)\<rparr>"

text \<open>\<open>String(row[c])\<close> for the fields a column or the filter can name.\<close>

definition bool_string :: "bool \<Rightarrow> string" where
  "bool_string b = (if b then ''true'' else ''false'')"

definition row_field :: "string \<Rightarrow> ServiceRow \<Rightarrow> string option" where
  "row_field c r =
     map_of
      [(''id'', row_id r), (''name'', row_name r), (''type'', row_type r), (''state'', row_state r),
       (''subState'', row_subState r), (''description'', row_description r), (''unit_name'', row_unit_name r),
       (''update_available'', bool_string (row_update_available r)),
       (''current_version'', row_current_version r), (''remote_version'', row_remote_version r),
       (''image'', row_image r), (''daemon_enabled'', bool_string (row_daemon_enabled r)),
       (''restart_policy'', row_restart_policy r), (''boot_order'', show_int (row_boot_order r)),
       (''boot_delay'', show_int (row_boot_delay r)), (''restart_delay'', show_int (row_restart_delay r)),
       (''depends_on'', js_join '','' (row_depends_on r)), (''user_stopped'', bool_string (row_user_stopped r)),
       (''failure_count'', show_int (row_failure_count r)), (''backoff_seconds'', show_int (row_backoff_seconds r)),
       (''blocked_reason'', row_blocked_reason r), (''requires_mount'', js_join '','' (row_requires_mount r)),
       (''icon_url'', row_icon_url r), (''homepage_url'', row_homepage_url r), (''started_at'', row_started_at r)] c"

definition row_card :: "ServiceRow \<Rightarrow> ServiceCardRow" where
  "row_card r =
     \<lparr>sa_unit_name = row_unit_name r, sa_name = row_name r, sa_state = row_state r, sa_type = row_type r,
      sa_daemon_enabled = row_daemon_enabled r, sa_image = Some (row_image r),
      sa_boot_order = row_boot_order r, sa_boot_delay = row_boot_delay r,
      sa_restart_delay = row_restart_delay r, sa_depends_on = Some (row_depends_on r),
      sc_subState = row_subState r, sc_user_stopped = row_user_stopped r,
      sc_failure_count = row_failure_count r, sc_backoff_seconds = row_backoff_seconds r,
      sc_blocked_reason = row_blocked_reason r, sc_icon_url = row_icon_url r,
      sc_homepage_url = row_homepage_url r, sc_update_available = row_update_available r,
      sc_remote_version = row_remote_version r\<rparr>"

section \<open>Uptime\<close>

text \<open>
  \<open>now\<close> is \<open>Date.now()\<close>; \<open>parsed\<close> is \<open>new Date(startedAt).getTime()\<close>, \<open>None\<close> for \<open>NaN\<close>: then every
  comparison is false and the arithmetic gives \<open>NaN\<close> again.
\<close>

definition uptime_text :: "int \<Rightarrow> string" where
  "uptime_text diff =
     (if diff < 60 then ''< 1m''
      else if diff < 3600 then show_int (diff div 60) @ ''m''
      else if diff < 86400
      then (let h = diff div 3600; m = (diff mod 3600) div 60
            in if m > 0 then show_int h @ ''h '' @ show_int m @ ''m'' else show_int h @ ''h'')
      else (let d = diff div 86400; h = (diff mod 86400) div 3600
            in if h > 0 then show_int d @ ''d '' @ show_int h @ ''h'' else show_int d @ ''d''))"

definition fmtUptime :: "(string \<Rightarrow> int option) \<Rightarrow> int \<Rightarrow> string \<Rightarrow> string" where
  "fmtUptime date_parse now startedAt =
     (if startedAt = [] then em_dash
      else case date_parse startedAt of
          None \<Rightarrow> ''NaNd''
        | Some t \<Rightarrow> uptime_text ((now - t) div 1000))"

section \<open>View mode\<close>

definition VIEW_KEY :: string where
  "VIEW_KEY = ''homelab-services-view''"

primrec view_text :: "ViewMode \<Rightarrow> string" where
  "view_text Table_View = ''table''"
| "view_text Cards_View = ''cards''"

definition view_of_text :: "string \<Rightarrow> ViewMode option" where
  "view_of_text v = (if v = ''cards'' then Some Cards_View else if v = ''table'' then Some Table_View else None)"

definition loadViewMode :: "local_storage \<Rightarrow> ViewMode" where
  "loadViewMode ls =
     (case getItem ls VIEW_KEY of
        Some (Some v) \<Rightarrow> (case view_of_text v of Some m \<Rightarrow> m | None \<Rightarrow> Table_View)
      | _ \<Rightarrow> Table_View)"

definition other_view :: "ViewMode \<Rightarrow> ViewMode" where
  "other_view v = (if v = Table_View then Cards_View else Table_View)"

lemma loadViewMode_load: "loadViewMode ls = browser.load VIEW_KEY view_of_text Table_View ls"
  by (simp add: loadViewMode_def browser.load_def)

lemma view_of_text_view_text: "view_of_text (view_text m) = Some m"
  by (cases m) (simp_all add: view_of_text_def)

section \<open>State\<close>

record pull_request =
  pr_open :: bool
  pr_unit :: string
  pr_name :: string
  pr_image :: string
  pr_autoRestart :: bool

record services_page =
  sp_services :: "ServiceInfo list option"
  sp_pull :: pull_request
  sp_loadingAction :: "string option"
  sp_confirmAction :: "ConfirmAction option"
  sp_confirmBulkStop :: bool
  sp_bulkLoading :: "bulk_action option"
  sp_configDrawer :: "ServiceConfigDraft option"
  sp_viewMode :: ViewMode
  sp_table :: table_state
  sp_shell :: "ServiceRow shell_state"
  sp_storage :: local_storage

definition services_init :: "local_storage \<Rightarrow> services_page" where
  "services_init ls =
     \<lparr>sp_services = None,
      sp_pull = \<lparr>pr_open = False, pr_unit = [], pr_name = [], pr_image = [], pr_autoRestart = False\<rparr>,
      sp_loadingAction = None, sp_confirmAction = None, sp_confirmBulkStop = False, sp_bulkLoading = None,
      sp_configDrawer = None, sp_viewMode = loadViewMode ls,
      sp_table = table_init (Some \<lparr>so_column = ''name'', so_direction = Ascending\<rparr>),
      sp_shell = shell_init, sp_storage = ls\<rparr>"

definition toggleViewMode :: "services_page \<Rightarrow> services_page" where
  "toggleViewMode s =
     (let m = other_view (sp_viewMode s)
      in s\<lparr>sp_viewMode := m, sp_storage := setItem (sp_storage s) VIEW_KEY (view_text m)\<rparr>)"

text \<open>The two effects on the overview hook: new data replaces the services, an error clears them.\<close>

definition on_overview_data :: "ServiceInfo list option \<Rightarrow> services_page \<Rightarrow> services_page" where
  "on_overview_data d s = (case d of None \<Rightarrow> s | Some svcs \<Rightarrow> s\<lparr>sp_services := Some svcs\<rparr>)"

definition on_overview_error :: "string option \<Rightarrow> services_page \<Rightarrow> services_page" where
  "on_overview_error e s = (case e of None \<Rightarrow> s | Some m \<Rightarrow> s\<lparr>sp_services := None\<rparr>)"

definition failure_toast :: "string \<Rightarrow> int \<Rightarrow> int \<Rightarrow> effect" where
  "failure_toast name attempts backoff =
     ToastDesc Error (name @ '' failed to start (attempt '' @ show_int attempts @ '')'')
       (if backoff > 0 then ''Backing off '' @ em_dash @ '' retry in '' @ fmtBackoff backoff
        else ''Retrying shortly'')"

definition find_service :: "string \<Rightarrow> ServiceInfo list \<Rightarrow> ServiceInfo option" where
  "find_service unit svcs = find (\<lambda>s. si_unit_name s = unit) svcs"

definition update_unit ::
  "string \<Rightarrow> (ServiceInfo \<Rightarrow> ServiceInfo) \<Rightarrow> services_page \<Rightarrow> services_page" where
  "update_unit unit f s =
     s\<lparr>sp_services := map_option (map (\<lambda>svc. if si_unit_name svc = unit then f svc else svc)) (sp_services s)\<rparr>"

section \<open>Handlers\<close>

definition refetch_start :: "effect list" where
  "refetch_start = [Fetch ''GET'' ''/api/v1/overview'' None]"

text \<open>
  The status is not looked at. The body is what the handler reads of it, its field \<open>Services\<close>: a missing or null
  field is stored as it is, and the page treats \<open>undefined\<close> and \<open>null\<close> alike, as no data. A body that is null
  makes the handler reject like one that is no JSON.
\<close>

definition refetch_settle :: "(ServiceInfo list) option outcome \<Rightarrow> services_page \<Rightarrow> services_page" where
  "refetch_settle r s =
     (case r of
        Rejected e \<Rightarrow> s
      | Resolved resp \<Rightarrow>
          (case r_json resp of None \<Rightarrow> s | Some svcs \<Rightarrow> s\<lparr>sp_services := svcs\<rparr>))"

definition doAction :: "string \<times> string \<Rightarrow> services_page \<Rightarrow> services_page \<times> effect list" where
  "doAction c s =
     (case c of (unit, act) \<Rightarrow>
       (s\<lparr>sp_confirmAction := None, sp_loadingAction := Some (unit @ '':'' @ act)\<rparr>,
        [Fetch ''POST'' (''/api/'' @ act @ ''/'' @ unit) None]))"

definition doAction_settle ::
  "string \<times> string \<Rightarrow> envelope outcome \<Rightarrow> services_page \<Rightarrow> services_page \<times> effect list" where
  "doAction_settle c r s =
     (case c of (unit, act) \<Rightarrow>
       (s\<lparr>sp_loadingAction := None\<rparr>,
        (case r of
           Rejected e \<Rightarrow> [Toast Error (act @ '' failed (network error)'')]
         | Resolved resp \<Rightarrow>
             if \<not> resp_ok resp
             then [Toast Error (act @ '' failed: HTTP '' @ show_nat (r_status resp)
                     @ (if r_text resp \<noteq> [] then '' '' @ em_dash @ '' '' @ take 120 (r_text resp) else []))]
             else (case r_json resp of
                     None \<Rightarrow> [Toast Error (act @ '' failed (network error)'')]
                   | Some d \<Rightarrow>
                       if env_success d
                       then [Toast Success (opt_or (env_message d) (act @ '' succeeded'')), After 1000 ''refetchServices'']
                       else [Toast Error (opt_or (env_error d) ''Action failed'')]))))"

definition toggleAutoStart :: "string \<Rightarrow> bool \<Rightarrow> effect list" where
  "toggleAutoStart unit enabled =
     [Fetch ''PATCH'' (''/api/config/'' @ unit) (Some (JObj [(''enabled'', JBool enabled)]))]"

definition toggleAutoStart_settle ::
  "string \<Rightarrow> bool \<Rightarrow> envelope outcome \<Rightarrow> services_page \<Rightarrow> services_page \<times> effect list" where
  "toggleAutoStart_settle unit enabled r s =
     (case r of
        Rejected e \<Rightarrow> (s, [Toast Error ''Failed to toggle AutoStart''])
      | Resolved resp \<Rightarrow>
          (case r_json resp of
             None \<Rightarrow> (s, [Toast Error ''Failed to toggle AutoStart''])
           | Some d \<Rightarrow>
               if env_success d
               then (update_unit unit (\<lambda>svc. svc\<lparr>si_daemon_enabled := enabled\<rparr>) s,
                     [Toast Success (''AutoStart '' @ (if enabled then ''enabled'' else ''disabled'') @ '' for '' @ unit)])
               else (s, [Toast Error (opt_or (env_error d) ''Failed to toggle AutoStart'')])))"

text \<open>
  Stop and disable makes two requests; the response to the first is not looked at, only a
  rejection ends the handler.
\<close>

definition stopAndDisable :: "string \<times> string \<Rightarrow> services_page \<Rightarrow> services_page \<times> effect list" where
  "stopAndDisable c s =
     (case c of (unit, name) \<Rightarrow>
       (s\<lparr>sp_loadingAction := Some (unit @ '':stop-disable'')\<rparr>, [Fetch ''POST'' (''/api/stop/'' @ unit) None]))"

definition stopped_and_disabled :: "ServiceInfo \<Rightarrow> ServiceInfo" where
  "stopped_and_disabled svc =
     svc\<lparr>si_daemon_enabled := False, si_active_state := ''inactive'', si_sub_state := ''dead'', si_user_stopped := True\<rparr>"

definition disable_settle ::
  "string \<times> string \<Rightarrow> envelope outcome \<Rightarrow> services_page \<Rightarrow> services_page \<times> effect list" where
  "disable_settle c r s =
     (case c of (unit, name) \<Rightarrow>
       (let s1 = s\<lparr>sp_loadingAction := None\<rparr> in
        case r of
          Rejected e \<Rightarrow> (s1, [Toast Error ''Failed to stop and disable''])
        | Resolved resp \<Rightarrow>
            (case r_json resp of
               None \<Rightarrow> (s1, [Toast Error ''Failed to stop and disable''])
             | Some d \<Rightarrow>
                 if env_success d
                 then (update_unit unit stopped_and_disabled s1, [Toast Success (name @ '' stopped and disabled'')])
                 else (s1, [Toast Error (opt_or (env_error d) ''Failed to disable'')]))))"

definition stopAndDisable_settle ::
  "string \<times> string \<Rightarrow> envelope outcome \<times> envelope outcome \<Rightarrow> services_page \<Rightarrow> services_page \<times> effect list" where
  "stopAndDisable_settle c rs s =
     (case rs of (r_stop, r_config) \<Rightarrow>
       (case r_stop of
          Rejected e \<Rightarrow> (s\<lparr>sp_loadingAction := None\<rparr>, [Toast Error ''Failed to stop and disable''])
        | Resolved resp \<Rightarrow>
            (let (t, es) = disable_settle c r_config s
             in (t, Fetch ''PATCH'' (''/api/config/'' @ fst c) (Some (JObj [(''enabled'', JBool False)])) # es))))"

definition parse_depends :: "string \<Rightarrow> string list" where
  "parse_depends t = filter (\<lambda>d. length d > 0) (map js_trim (split_on (CHR '','') t))"

definition saveConfig :: "services_page \<Rightarrow> effect list" where
  "saveConfig s =
     (case sp_configDrawer s of
        None \<Rightarrow> []
      | Some d \<Rightarrow>
          [Fetch ''PATCH'' (''/api/config/'' @ cf_unit d)
            (Some (JObj [(''order'', JNum (cf_boot_order d)), (''boot_delay'', JNum (cf_boot_delay d)),
               (''restart_delay'', JNum (cf_restart_delay d)),
               (''depends_on'', JArr (map JStr (parse_depends (cf_depends_on d))))]))])"

definition saveConfig_settle ::
  "ServiceConfigDraft \<Rightarrow> envelope outcome \<Rightarrow> services_page \<Rightarrow> services_page \<times> effect list" where
  "saveConfig_settle draft r s =
     (case r of
        Rejected e \<Rightarrow> (s, [Toast Error ''Failed to save configuration''])
      | Resolved resp \<Rightarrow>
          (case r_json resp of
             None \<Rightarrow> (s, [Toast Error ''Failed to save configuration''])
           | Some d \<Rightarrow>
               if env_success d
               then (s\<lparr>sp_configDrawer := None\<rparr>,
                     Toast Success (''Configuration saved for '' @ cf_name draft) # refetch_start)
               else (s, [Toast Error (opt_or (env_error d) ''Failed to save configuration'')])))"

record bulk_result =
  bulk_total :: nat
  bulk_failed :: nat

definition doBulkAction :: "bulk_action \<Rightarrow> services_page \<Rightarrow> services_page \<times> effect list" where
  "doBulkAction act s =
     (s\<lparr>sp_confirmBulkStop := False, sp_bulkLoading := Some act\<rparr>,
      [Fetch ''POST'' (''/api/'' @ bulk_name act @ ''-all'') None])"

definition doBulkAction_settle ::
  "bulk_action \<Rightarrow> bulk_result outcome \<Rightarrow> services_page \<Rightarrow> services_page \<times> effect list" where
  "doBulkAction_settle act r s =
     (s\<lparr>sp_bulkLoading := None\<rparr>,
      (case r of
         Rejected e \<Rightarrow> [Toast Error (''Bulk '' @ bulk_name act @ '' failed'')]
       | Resolved resp \<Rightarrow>
           if \<not> resp_ok resp
           then [Toast Error (''Bulk '' @ bulk_name act @ '' failed: HTTP '' @ show_nat (r_status resp))]
           else (case r_json resp of
                   None \<Rightarrow> [Toast Error (''Bulk '' @ bulk_name act @ '' failed'')]
                 | Some d \<Rightarrow>
                     (if bulk_failed d = 0
                      then Toast Success (''All services '' @ (if act = Bulk_Stop then ''stopped'' else ''started'')
                             @ '' ('' @ show_nat (bulk_total d) @ '')'')
                      else Toast Warning (show_nat (bulk_failed d) @ ''/'' @ show_nat (bulk_total d)
                             @ '' services failed to '' @ bulk_name act))
                     # refetch_start)))"

text \<open>\<open>unit.replace(/^podman-/, "").replace(/\.service$/, "")\<close>\<close>

definition short_name :: "string \<Rightarrow> string" where
  "short_name unit = strip_suffix ''.service'' (strip_prefix ''podman-'' unit)"

definition triggerUpdate :: "string \<Rightarrow> services_page \<Rightarrow> services_page" where
  "triggerUpdate unit s =
     (case sp_services s of
        None \<Rightarrow> s
      | Some svcs \<Rightarrow>
          (case find_service unit svcs of
             None \<Rightarrow> s
           | Some svc \<Rightarrow>
               s\<lparr>sp_pull := \<lparr>pr_open = True, pr_unit = unit, pr_name = short_name unit,
                   pr_image = opt_str (si_image svc), pr_autoRestart = True\<rparr>\<rparr>))"

interpretation actions: busy_handler doAction doAction_settle "\<lambda>s. sp_loadingAction s \<noteq> None"
  by unfold_locales (auto simp: doAction_def doAction_settle_def split: prod.splits)

interpretation stop_disable: busy_handler stopAndDisable stopAndDisable_settle "\<lambda>s. sp_loadingAction s \<noteq> None"
  by unfold_locales
    (auto simp: stopAndDisable_def stopAndDisable_settle_def disable_settle_def update_unit_def Let_def
      split: prod.splits outcome.splits option.splits)

interpretation bulk: busy_handler doBulkAction doBulkAction_settle "\<lambda>s. sp_bulkLoading s \<noteq> None"
  by unfold_locales (auto simp: doBulkAction_def doBulkAction_settle_def)

end
