(* ===== verification/JS_Uri.thy ===== *)
theory JS_Uri
  imports JS_Strings
begin

text \<open>
  \<open>encodeURIComponent\<close> and \<open>decodeURIComponent\<close> of the JavaScript standard library, on the
  UTF-8 bytes that a string is in this development. Encoding escapes every byte outside the
  unreserved set; decoding rejects (\<open>None\<close> for the \<open>URIError\<close>) an incomplete escape and a
  result that is not UTF-8.
\<close>

definition uri_unreserved :: "char \<Rightarrow> bool" where
  "uri_unreserved c \<longleftrightarrow> is_upper c \<or> is_lower c \<or> is_digit c
     \<or> c \<in> {CHR ''-'', CHR ''_'', CHR ''.'', CHR ''!'', CHR ''~'', CHR ''*'', CHR 0x27, CHR ''('', CHR '')''}"

definition hex_digit :: "nat \<Rightarrow> char" where
  "hex_digit n = (if n < 10 then char_of (48 + n) else char_of (55 + n))"

definition hex_value :: "char \<Rightarrow> nat option" where
  "hex_value c =
     (if is_digit c then Some (code c - 48)
      else if 65 \<le> code c \<and> code c \<le> 70 then Some (code c - 55)
      else if 97 \<le> code c \<and> code c \<le> 102 then Some (code c - 87)
      else None)"

definition encode_char :: "char \<Rightarrow> string" where
  "encode_char c =
     (if uri_unreserved c then [c]
      else [CHR ''%'', hex_digit (code c div 16), hex_digit (code c mod 16)])"

definition encodeURIComponent :: "string \<Rightarrow> string" where
  "encodeURIComponent s = concat (map encode_char s)"

fun unescape :: "string \<Rightarrow> string option" where
  "unescape [] = Some []"
| "unescape (c # s) =
     (if c \<noteq> CHR ''%'' then map_option ((#) c) (unescape s)
      else (case s of
          h # l # r \<Rightarrow>
            (case (hex_value h, hex_value l) of
               (Some a, Some b) \<Rightarrow> map_option ((#) (char_of (16 * a + b))) (unescape r)
             | _ \<Rightarrow> None)
        | _ \<Rightarrow> None))"

text \<open>Well-formed UTF-8, on byte values: no overlong form, no surrogate, nothing above U+10FFFF.\<close>

definition cont :: "nat \<Rightarrow> bool" where
  "cont b \<longleftrightarrow> 128 \<le> b \<and> b < 192"

fun utf8_bytes :: "nat list \<Rightarrow> bool" where
  "utf8_bytes [] = True"
| "utf8_bytes (a # xs) =
     (if a < 128 then utf8_bytes xs
      else if 194 \<le> a \<and> a < 224 then
        (case xs of b # ys \<Rightarrow> cont b \<and> utf8_bytes ys | _ \<Rightarrow> False)
      else if 224 \<le> a \<and> a < 240 then
        (case xs of b # c # ys \<Rightarrow>
            cont b \<and> cont c \<and> (a = 224 \<longrightarrow> 160 \<le> b) \<and> (a = 237 \<longrightarrow> b < 160) \<and> utf8_bytes ys
          | _ \<Rightarrow> False)
      else if 240 \<le> a \<and> a < 245 then
        (case xs of b # c # d # ys \<Rightarrow>
            cont b \<and> cont c \<and> cont d \<and> (a = 240 \<longrightarrow> 144 \<le> b) \<and> (a = 244 \<longrightarrow> b < 144)
              \<and> utf8_bytes ys
          | _ \<Rightarrow> False)
      else False)"

definition utf8_ok :: "string \<Rightarrow> bool" where
  "utf8_ok s \<longleftrightarrow> utf8_bytes (map code s)"

definition decodeURIComponent :: "string \<Rightarrow> string option" where
  "decodeURIComponent s =
     (case unescape s of None \<Rightarrow> None | Some t \<Rightarrow> if utf8_ok t then Some t else None)"

section \<open>Round trip\<close>

lemma hex_value_hex_digit: "n < 16 \<Longrightarrow> hex_value (hex_digit n) = Some n"
  by (auto simp: hex_value_def hex_digit_def is_digit_def of_char_of)

lemma code_div_16: "code c div 16 < 16"
  using code_less_256 [of c] by (rule_tac less_mult_imp_div_less) simp

lemma hex_byte: "char_of (16 * (code c div 16) + code c mod 16) = c"
  by simp

lemma percent_reserved [simp]: "\<not> uri_unreserved (CHR ''%'')"
  by (simp add: uri_unreserved_def is_upper_def is_lower_def is_digit_def)

lemma unescape_encode_char: "unescape (encode_char c @ s) = map_option ((#) c) (unescape s)"
proof (cases "uri_unreserved c")
  case True
  then have "c \<noteq> CHR ''%''" by auto
  with True show ?thesis by (simp add: encode_char_def)
next
  case False
  have "code c div 16 < 16" by (rule code_div_16)
  with False show ?thesis by (simp add: encode_char_def hex_value_hex_digit)
qed

lemma unescape_encode: "unescape (encodeURIComponent s) = Some s"
  by (induction s) (simp_all add: encodeURIComponent_def unescape_encode_char)

lemma decode_encode: "utf8_ok s \<Longrightarrow> decodeURIComponent (encodeURIComponent s) = Some s"
  by (simp add: decodeURIComponent_def unescape_encode)

text \<open>A text without a percent sign decodes to itself, so decoding it once more changes nothing.\<close>

lemma unescape_no_percent: "CHR ''%'' \<notin> set s \<Longrightarrow> unescape s = Some s"
  by (induction s) auto

lemma decode_no_percent: "CHR ''%'' \<notin> set s \<Longrightarrow> utf8_ok s \<Longrightarrow> decodeURIComponent s = Some s"
  by (simp add: decodeURIComponent_def unescape_no_percent)

lemma utf8_bytes_ascii: "\<forall>b \<in> set bs. b < 128 \<Longrightarrow> utf8_bytes bs"
  by (induction bs) auto

lemma utf8_ok_ascii: "\<forall>c \<in> set s. code c < 128 \<Longrightarrow> utf8_ok s"
  by (simp add: utf8_ok_def utf8_bytes_ascii)

lemma encoded_chars: "c \<in> set (encodeURIComponent s) \<Longrightarrow> uri_unreserved c \<or> c = CHR ''%'' \<or> is_digit c \<or> is_upper c"
proof -
  assume "c \<in> set (encodeURIComponent s)"
  then obtain d where "c \<in> set (encode_char d)" by (auto simp: encodeURIComponent_def)
  moreover have "code d div 16 < 16" by (rule code_div_16)
  ultimately show ?thesis
    by (auto simp: encode_char_def hex_digit_def is_digit_def is_upper_def of_char_of split: if_splits)
qed

lemma encoded_no_slash: "CHR ''/'' \<notin> set (encodeURIComponent s)"
  using encoded_chars [of "CHR ''/''" s]
  by (auto simp: uri_unreserved_def is_upper_def is_lower_def is_digit_def)

end
