(* ===== verification/Services_View.thy ===== *)
theory Services_View
  imports Services_Page JS_Uri
begin

text \<open>
  What \<^verbatim>\<open>pages/ServicesPage.tsx\<close> renders, and what each of its handlers does to the page.
\<close>

datatype services_act =
    Stop_Confirm string string
  | Stop_And_Disable string string
  | Do_Action string string
  | Toggle_AutoStart string bool
  | Show_Logs string
  | Configure ServiceActionItem
  | Pull_Image string string
  | Trigger_Update string
  | Set_Confirm_Bulk bool
  | Set_Confirm_Action "ConfirmAction option"
  | Bulk bulk_action
  | Toggle_View
  | Set_Filter string
  | Set_Sort SortState
  | Set_Drawer "ServiceConfigDraft option"
  | Save_Config
  | Close_Pull
  | Open_Row_Menu ServiceRow

section \<open>Handlers wired into the view\<close>

definition draft_of :: "ServiceActionItem \<Rightarrow> ServiceConfigDraft" where
  "draft_of item =
     \<lparr>cf_open = True, cf_unit = sa_unit_name item, cf_name = sa_name item,
      cf_boot_order = Fin (of_int (sa_boot_order item)), cf_boot_delay = Fin (of_int (sa_boot_delay item)),
      cf_restart_delay = Fin (of_int (sa_restart_delay item)),
      cf_depends_on = js_join '', '' (opt_or (sa_depends_on item) [])\<rparr>"

definition pull_of :: "string \<Rightarrow> string \<Rightarrow> pull_request" where
  "pull_of unit img = \<lparr>pr_open = True, pr_unit = unit, pr_name = short_name unit, pr_image = img, pr_autoRestart = False\<rparr>"

text \<open>
  What a call does before its first await; \<open>pt\<close> is the mouse position of a context-menu event.
\<close>

fun services_dispatch :: "int \<times> int \<Rightarrow> services_act \<Rightarrow> services_page \<Rightarrow> services_page \<times> effect list" where
  "services_dispatch pt (Stop_Confirm unit name) s =
     (s\<lparr>sp_confirmAction := Some \<lparr>ca_unit = unit, ca_action = ''stop'', ca_label = name\<rparr>\<rparr>, [])"
| "services_dispatch pt (Stop_And_Disable unit name) s = stopAndDisable (unit, name) s"
| "services_dispatch pt (Do_Action unit act) s = doAction (unit, act) s"
| "services_dispatch pt (Toggle_AutoStart unit enabled) s = (s, toggleAutoStart unit enabled)"
| "services_dispatch pt (Show_Logs unit) s =
     (s, [Navigate (''/logs?service='' @ encodeURIComponent (short_name unit))])"
| "services_dispatch pt (Configure item) s = (s\<lparr>sp_configDrawer := Some (draft_of item)\<rparr>, [])"
| "services_dispatch pt (Pull_Image unit img) s = (s\<lparr>sp_pull := pull_of unit img\<rparr>, [])"
| "services_dispatch pt (Trigger_Update unit) s = (triggerUpdate unit s, [])"
| "services_dispatch pt (Set_Confirm_Bulk b) s = (s\<lparr>sp_confirmBulkStop := b\<rparr>, [])"
| "services_dispatch pt (Set_Confirm_Action a) s = (s\<lparr>sp_confirmAction := a\<rparr>, [])"
| "services_dispatch pt (Bulk act) s = doBulkAction act s"
| "services_dispatch pt Toggle_View s = (toggleViewMode s, [])"
| "services_dispatch pt (Set_Filter v) s = (s\<lparr>sp_table := (sp_table s)\<lparr>filterText := v\<rparr>\<rparr>, [])"
| "services_dispatch pt (Set_Sort d) s = (s\<lparr>sp_table := (sp_table s)\<lparr>sortDescriptor := d\<rparr>\<rparr>, [])"
| "services_dispatch pt (Set_Drawer d) s = (s\<lparr>sp_configDrawer := d\<rparr>, [])"
| "services_dispatch pt Save_Config s = (s, saveConfig s)"
| "services_dispatch pt Close_Pull s = (s\<lparr>sp_pull := (sp_pull s)\<lparr>pr_open := False\<rparr>\<rparr>, [])"
| "services_dispatch pt (Open_Row_Menu r) s = (s\<lparr>sp_shell := onRowContextMenu r pt (sp_shell s)\<rparr>, [])"

definition buildMenuCallbacks :: "services_act ServiceActionsCallbacks" where
  "buildMenuCallbacks =
     \<lparr>cb_onStopConfirm = Stop_Confirm, cb_onStopAndDisable = Stop_And_Disable,
      cb_onRestart = (\<lambda>unit. Do_Action unit ''restart''), cb_onStart = (\<lambda>unit. Do_Action unit ''start''),
      cb_onEnableAutoStart = (\<lambda>unit. Toggle_AutoStart unit True), cb_onShowLogs = Show_Logs,
      cb_onConfigure = Configure, cb_onPull = Pull_Image, cb_afterAction = None\<rparr>"

section \<open>The table\<close>

definition service_columns :: "(string \<times> string) list" where
  "service_columns =
     [(''icon'', []), (''name'', ''Name''), (''status'', ''Status''), (''uptime'', ''Uptime''),
      (''webports'', ''Web / Ports''), (''autostart'', ''AutoStart'')]"

definition allows_sorting :: "string \<Rightarrow> bool" where
  "allows_sorting c \<longleftrightarrow> c = ''name'' \<or> c = ''status'' \<or> c = ''uptime''"

definition row_badge :: "ServiceRow \<Rightarrow> StateBadgeProps" where
  "row_badge r =
     \<lparr>sb_state = row_state r, sb_subState = row_subState r, sb_userStopped = row_user_stopped r,
      sb_failureCount = row_failure_count r, sb_backoffSeconds = row_backoff_seconds r,
      sb_blockedReason = row_blocked_reason r\<rparr>"

definition row_menu_item :: "ServiceRow \<Rightarrow> ServiceActionItem" where
  "row_menu_item r = card_item (row_card r)"

definition icon_cell :: "ServiceRow \<Rightarrow> services_act list view" where
  "icon_cell r =
     El ''TableCell'' []
       [El ''Menu'' []
         [El ''MenuTrigger'' [(''aria-label'', PS (''Actions for '' @ row_name r))]
           [El ''img''
              [(''src'', PS (str_or (row_icon_url r) FALLBACK_ICON)), (''alt'', PS (row_name r)),
               (''className'', PS (if row_state r \<noteq> ''active'' then ''grayscale opacity-50'' else [])),
               (''data-fallback'', PS (if row_icon_url r = [] then ''true'' else ''undefined''))] []],
          El ''MenuContent'' [] (renderMenuItems (row_menu_item r) buildMenuCallbacks)]]"

definition name_cell :: "ServiceRow \<Rightarrow> services_act list view" where
  "name_cell r =
     El ''TableCell'' []
       [El ''span'' []
         (Txt (row_name r)
          # vwhen (row_update_available r)
              [El ''Tooltip'' []
                [El ''TooltipTrigger'' []
                  [El ''StatusDot''
                     [(''intent'', PS ''warning''), (''onClick'', Act [Trigger_Update (row_unit_name r)])] []],
                 El ''TooltipContent'' []
                   [Txt (''Update available '' @ em_dash @ '' click to pull '' @ str_or (row_image r) (row_name r)
                      @ '' and restart.''
                      @ (if row_remote_version r \<noteq> [] then '' Remote: '' @ row_remote_version r @ ''.'' else []))]]])]"

definition ports_cell :: "(string \<Rightarrow> string option) \<Rightarrow> ServiceRow \<Rightarrow> services_act list view" where
  "ports_cell url_host r =
     El ''TableCell'' []
       [El ''span'' []
         (vwhen (row_homepage_url r \<noteq> [])
            [El ''a''
               [(''href'', PS (row_homepage_url r)), (''target'', PS ''_blank''),
                (''rel'', PS ''noopener noreferrer''), (''onClick'', Act [])]
               [El ''ExternalLink'' [] [],
                El ''span'' [] [Txt (opt_or (url_host (row_homepage_url r)) (row_homepage_url r))]]]
          @ PortChips (row_port_mappings r))]"

definition service_row ::
  "(string \<Rightarrow> string option) \<Rightarrow> (string \<Rightarrow> int option) \<Rightarrow> int \<Rightarrow> ServiceRow \<Rightarrow> services_act list view" where
  "service_row url_host date_parse now r =
     El ''TableRow'' [(''onContextMenu'', Act [Open_Row_Menu r])]
       [icon_cell r,
        name_cell r,
        El ''TableCell'' [] [StateBadge (row_badge r)],
        El ''TableCell'' [] [Txt (fmtUptime date_parse now (row_started_at r))],
        ports_cell url_host r,
        El ''TableCell'' []
          [El ''Switch''
             [(''isSelected'', PB (row_daemon_enabled r)),
              (''onChange'', ActB (\<lambda>selected. [Toggle_AutoStart (row_unit_name r) selected])),
              (''aria-label'', PS ''AutoStart toggle'')] []]]"

text \<open>A sortable column header asks for its column and the direction react-aria toggles to.\<close>

definition column_header :: "SortState \<Rightarrow> string \<times> string \<Rightarrow> services_act list view" where
  "column_header sd c =
     El ''TableColumn''
       (if allows_sorting (fst c)
        then [(''onSortChange'', Act [Set_Sort \<lparr>so_column = fst c,
                so_direction = (if so_column sd = fst c \<and> so_direction sd = Ascending then Descending else Ascending)\<rparr>])]
        else [])
       [Txt (snd c)]"

definition ServicesTableContent ::
  "(string \<Rightarrow> string option) \<Rightarrow> (string \<Rightarrow> int option) \<Rightarrow> int \<Rightarrow> SortState \<Rightarrow> ServiceRow list \<Rightarrow> services_act list view" where
  "ServicesTableContent url_host date_parse now sd items =
     El ''Table'' [(''aria-label'', PS ''Services'')]
       [El ''TableHeader'' [] (map (column_header sd) service_columns),
        El ''TableBody'' [] (map (service_row url_host date_parse now) items)]"

section \<open>The page\<close>

definition services_rows :: "services_page \<Rightarrow> ServiceRow list option" where
  "services_rows s = map_option (map toRow) (sp_services s)"

definition services_sorted :: "services_page \<Rightarrow> ServiceRow list" where
  "services_sorted s = sorted_rows row_field (Some ''name'') (sp_table s) (services_rows s)"

definition activeCount :: "services_page \<Rightarrow> nat" where
  "activeCount s =
     (case sp_services s of None \<Rightarrow> 0 | Some svcs \<Rightarrow> length (filter (\<lambda>s. si_active_state s = ''active'') svcs))"

definition bulk_bar :: "services_page \<Rightarrow> services_act list view" where
  "bulk_bar s =
     BulkControlBar
       \<lparr>bb_activeCount = activeCount s, bb_totalCount = totalCount (services_rows s),
        bb_bulkLoading = sp_bulkLoading s, bb_viewMode = sp_viewMode s, bb_onStartAll = Bulk Bulk_Start,
        bb_onRequestStopAll = Set_Confirm_Bulk True, bb_onToggleView = Toggle_View\<rparr>"

definition services_dialogs :: "services_page \<Rightarrow> services_act list view list" where
  "services_dialogs s =
     ConfirmDialogs
       \<lparr>cd_totalCount = totalCount (services_rows s), cd_confirmBulkStop = sp_confirmBulkStop s,
        cd_setConfirmBulkStop = Set_Confirm_Bulk, cd_confirmAction = sp_confirmAction s,
        cd_setConfirmAction = Set_Confirm_Action, cd_onConfirmBulkStop = Bulk Bulk_Stop,
        cd_onConfirmAction = (\<lambda>a. Do_Action (ca_unit a) (ca_action a))\<rparr>"

text \<open>The properties the page gives \<open>PullDialog\<close> in its render number \<open>n\<close>: the callback is a new function each time.\<close>

definition pull_props :: "nat \<Rightarrow> services_page \<Rightarrow> pull_deps" where
  "pull_props n s =
     \<lparr>pp_open = pr_open (sp_pull s), pp_unit = pr_unit (sp_pull s), pp_name = pr_name (sp_pull s),
      pp_autoRestart = pr_autoRestart (sp_pull s), pp_onRestart = n\<rparr>"

definition services_description :: "nat \<Rightarrow> string \<Rightarrow> string" where
  "services_description n f =
     show_nat n @ '' service'' @ (if n \<noteq> 1 then ''s'' else [])
     @ (if f \<noteq> [] then '' matching '' @ quote @ f @ quote else [])"

definition services_children ::
  "(string \<Rightarrow> string option) \<Rightarrow> (string \<Rightarrow> int option) \<Rightarrow> int \<Rightarrow> nat \<Rightarrow> pull_dialog \<Rightarrow> services_page \<Rightarrow> services_act list view list" where
  "services_children url_host date_parse now n pd s =
     (if sp_viewMode s = Cards_View
      then ServiceCardsGrid (map row_card (services_sorted s)) buildMenuCallbacks Toggle_AutoStart
      else ServicesTableContent url_host date_parse now (sortDescriptor (sp_table s)) (services_sorted s))
     # PullDialog (pull_props n s) (pr_image (sp_pull s)) [Close_Pull] pd
     # services_dialogs s
     @ [ServiceConfigSheet (sp_configDrawer s) (\<lambda>d. Set_Drawer (Some d)) (Set_Drawer None) Save_Config]"

definition ServicesPage ::
  "(string \<Rightarrow> string option) \<Rightarrow> (string \<Rightarrow> int option) \<Rightarrow> int \<Rightarrow> nat \<Rightarrow> pull_dialog \<Rightarrow> services_page \<Rightarrow> services_act list view" where
  "ServicesPage url_host date_parse now n pd s =
     PageShell
       \<lparr>ps_data = services_rows s, ps_title = ''Services'', ps_description = Some services_description,
        ps_searchable = True, ps_filter = Some (filterText (sp_table s)), ps_onFilterChange = (\<lambda>v. [Set_Filter v]),
        ps_filterPlaceholder = None, ps_emptyMessage = Some ''No services found'',
        ps_emptyDescription = Some ''Services will appear here when configured'',
        ps_contextMenu = Some (\<lambda>r. renderContextMenuItems (row_menu_item r) buildMenuCallbacks),
        ps_beforeTable = [bulk_bar s],
        ps_children = services_children url_host date_parse now n pd s\<rparr>
       (sp_shell s)"

section \<open>What the page offers\<close>

lemma offered_service_row:
  "offered (service_row h p now r) \<subseteq>
     {[Open_Row_Menu r], [], [Trigger_Update (row_unit_name r)]}
     \<union> range (\<lambda>b. [Toggle_AutoStart (row_unit_name r) b])
     \<union> menu_actions (row_menu_item r) buildMenuCallbacks"
  by (auto simp: service_row_def icon_cell_def name_cell_def ports_cell_def vwhen_def view_simps
      offered_menu offered_PortChips split: if_splits)

lemma offered_ServicesTableContent:
  "offered (ServicesTableContent h p now sd items) \<subseteq>
     range (\<lambda>d. [Set_Sort d]) \<union> (\<Union>r \<in> set items. offered (service_row h p now r))"
  by (auto simp: ServicesTableContent_def service_columns_def column_header_def view_simps split: if_splits)

text \<open>The handlers of a row or card: never a direct stop.\<close>

definition row_handlers :: "ServiceRow \<Rightarrow> services_act list set" where
  "row_handlers r =
     {[], [Open_Row_Menu r], [Trigger_Update (row_unit_name r)]}
     \<union> range (\<lambda>b. [Toggle_AutoStart (row_unit_name r) b])
     \<union> menu_actions (row_menu_item r) buildMenuCallbacks"

lemma offered_service_row_handlers: "offered (service_row h p now r) \<subseteq> row_handlers r"
  using offered_service_row [of h p now r] unfolding row_handlers_def by blast

lemma offered_grid_card_handlers:
  "offered (grid_card buildMenuCallbacks Toggle_AutoStart (row_card r)) \<subseteq> row_handlers r"
proof -
  have "sa_unit_name (row_card r) = row_unit_name r" by (simp add: row_card_def)
  then show ?thesis unfolding offered_grid_card row_handlers_def row_menu_item_def by auto
qed

lemma offered_table_rows:
  "offered (ServicesTableContent h p now sd items) \<subseteq> range (\<lambda>d. [Set_Sort d]) \<union> (\<Union>r \<in> set items. row_handlers r)"
proof (rule order_trans [OF offered_ServicesTableContent])
  have "(\<Union>r \<in> set items. offered (service_row h p now r)) \<subseteq> (\<Union>r \<in> set items. row_handlers r)"
    by (intro UN_mono subset_refl offered_service_row_handlers)
  then show "range (\<lambda>d. [Set_Sort d]) \<union> (\<Union>r \<in> set items. offered (service_row h p now r))
      \<subseteq> range (\<lambda>d. [Set_Sort d]) \<union> (\<Union>r \<in> set items. row_handlers r)"
    by (intro Un_mono subset_refl)
qed

lemma offered_cards_rows:
  "offered (ServiceCardsGrid (map row_card items) buildMenuCallbacks Toggle_AutoStart)
     \<subseteq> (\<Union>r \<in> set items. row_handlers r)"
  unfolding offered_ServiceCardsGrid using offered_grid_card_handlers by fastforce

definition services_handlers :: "services_page \<Rightarrow> services_act list set" where
  "services_handlers s =
     {[], [Toggle_View], [Close_Pull], [Set_Drawer None], [Save_Config]}
     \<union> (if sp_bulkLoading s = None then {[Bulk Bulk_Start], [Set_Confirm_Bulk True]} else {})
     \<union> range (\<lambda>v. [Set_Filter v]) \<union> range (\<lambda>d. [Set_Sort d])
     \<union> (case sp_configDrawer s of None \<Rightarrow> {} | Some d \<Rightarrow> {[Set_Drawer (Some d')] | d'. cf_unit d' = cf_unit d})
     \<union> (if sp_confirmBulkStop s then range (\<lambda>b. [Set_Confirm_Bulk b]) \<union> {[Bulk Bulk_Stop]} else {})
     \<union> (case sp_confirmAction s of None \<Rightarrow> {}
        | Some a \<Rightarrow> {[Set_Confirm_Action None], [Do_Action (ca_unit a) (ca_action a)]})
     \<union> (\<Union>r \<in> set (opt_or (services_rows s) []) \<union> set_option (ctxRow (sp_shell s)). row_handlers r)"

lemma offered_config_sheet:
  "offered (ServiceConfigSheet (sp_configDrawer s) (\<lambda>d. Set_Drawer (Some d)) (Set_Drawer None) Save_Config)
     \<subseteq> services_handlers s"
proof (cases "sp_configDrawer s")
  case (Some d)
  have "{[], [Set_Drawer None], [Save_Config]} \<union> {[Set_Drawer (Some d')] | d'. cf_unit d' = cf_unit d} \<subseteq> services_handlers s"
    by (auto simp: services_handlers_def Some)
  then show ?thesis unfolding Some by (rule order_trans [OF offered_ServiceConfigSheet_open])
qed (simp add: offered_ServiceConfigSheet_closed)

lemma offered_services_main:
  "offered (if sp_viewMode s = Cards_View
      then ServiceCardsGrid (map row_card (services_sorted s)) buildMenuCallbacks Toggle_AutoStart
      else ServicesTableContent h p now (sortDescriptor (sp_table s)) (services_sorted s))
    \<subseteq> services_handlers s"
proof (rule order_trans)
  show "offered (if sp_viewMode s = Cards_View
      then ServiceCardsGrid (map row_card (services_sorted s)) buildMenuCallbacks Toggle_AutoStart
      else ServicesTableContent h p now (sortDescriptor (sp_table s)) (services_sorted s))
    \<subseteq> range (\<lambda>d. [Set_Sort d]) \<union> (\<Union>r \<in> set (services_sorted s). row_handlers r)"
    using offered_table_rows [of h p now "sortDescriptor (sp_table s)" "services_sorted s"]
      offered_cards_rows [of "services_sorted s"] by (simp add: le_supI2)
  have "set (services_sorted s) \<subseteq> set (opt_or (services_rows s) [])"
    unfolding services_sorted_def by (rule sorted_rows_subset)
  then have "(\<Union>r \<in> set (services_sorted s). row_handlers r)
      \<subseteq> (\<Union>r \<in> set (opt_or (services_rows s) []) \<union> set_option (ctxRow (sp_shell s)). row_handlers r)"
    by (intro UN_mono) auto
  then have "(\<Union>r \<in> set (services_sorted s). row_handlers r) \<subseteq> services_handlers s"
    unfolding services_handlers_def by (rule le_supI2)
  moreover have "range (\<lambda>d. [Set_Sort d]) \<subseteq> services_handlers s"
    unfolding services_handlers_def by (rule image_subsetI) simp
  ultimately show "range (\<lambda>d. [Set_Sort d]) \<union> (\<Union>r \<in> set (services_sorted s). row_handlers r) \<subseteq> services_handlers s"
    by (rule Un_least [rotated])
qed

lemma offered_services_dialogs: "(\<Union>v \<in> set (services_dialogs s). offered v) \<subseteq> services_handlers s"
  by (auto simp: services_dialogs_def offered_ConfirmDialogs services_handlers_def split: option.splits)

lemma offered_services_children:
  assumes "v \<in> set (services_children h p now n pd s)"
  shows "offered v \<subseteq> services_handlers s"
proof -
  from assms consider
      (main) "v = (if sp_viewMode s = Cards_View
        then ServiceCardsGrid (map row_card (services_sorted s)) buildMenuCallbacks Toggle_AutoStart
        else ServicesTableContent h p now (sortDescriptor (sp_table s)) (services_sorted s))"
    | (pull) "v = PullDialog (pull_props n s) (pr_image (sp_pull s)) [Close_Pull] pd"
    | (dialog) "v \<in> set (services_dialogs s)"
    | (sheet) "v = ServiceConfigSheet (sp_configDrawer s) (\<lambda>d. Set_Drawer (Some d)) (Set_Drawer None) Save_Config"
    unfolding services_children_def set_append list.set Un_iff insert_iff empty_iff by blast
  then show ?thesis
  proof cases
    case main
    then show ?thesis using offered_services_main by metis
  next
    case pull
    then show ?thesis by (simp add: offered_PullDialog services_handlers_def)
  next
    case dialog
    then have "offered v \<subseteq> (\<Union>v \<in> set (services_dialogs s). offered v)" by (rule UN_upper)
    then show ?thesis using offered_services_dialogs by (rule order_trans)
  next
    case sheet
    then show ?thesis using offered_config_sheet by simp
  qed
qed

lemma offered_bulk_bar: "offered (bulk_bar s) \<subseteq> services_handlers s"
  by (auto simp: bulk_bar_def offered_BulkControlBar services_handlers_def)

lemma offered_services_page: "offered (ServicesPage h p now n pd s) \<subseteq> services_handlers s"
  unfolding ServicesPage_def
proof (rule offered_PageShell_in, goal_cases)
  case (1 v)
  then show ?case using offered_bulk_bar by simp
next
  case (2 v)
  then show ?case using offered_services_children by simp
next
  case (3 t)
  then show ?case by (simp add: services_handlers_def)
next
  case (4 r menu v)
  then have "v \<in> set (renderContextMenuItems (row_menu_item r) buildMenuCallbacks)" by auto
  then have "offered v \<subseteq> menu_actions (row_menu_item r) buildMenuCallbacks"
    unfolding offered_menu(2) [symmetric] by (rule UN_upper)
  also have "\<dots> \<subseteq> row_handlers r" unfolding row_handlers_def by (rule Un_upper2)
  also have "\<dots> \<subseteq> services_handlers s"
    unfolding services_handlers_def using 4(1) by (intro le_supI2 UN_upper) simp
  finally show ?case .
qed

lemma menu_never_stops:
  "hs \<in> menu_actions item buildMenuCallbacks \<Longrightarrow> a \<in> set hs \<Longrightarrow>
     a \<noteq> Do_Action u ''stop'' \<and> a \<noteq> Bulk b"
  by (auto simp: menu_actions_def buildEntries_def buildMenuCallbacks_def Let_def split: if_splits)

end
