(* ===== verification/Services_Properties.thy ===== *)
theory Services_Properties
  imports Services_View Samples
begin

text \<open>
  What the services page promises: stops go through a dialog, handlers always release their
  busy flag and report once, optimistic updates touch one unit, the configuration survives
  its round trip, the table is sorted, and how a pull with automatic restart behaves.
\<close>

section \<open>A concrete page\<close>

definition sample_page :: services_page where
  "sample_page = (services_init empty_storage)
     \<lparr>sp_services := Some [sample_service ''b'' ''active'' 0, sample_service ''a'' ''failed'' 3]\<rparr>"

definition sample_envelope :: "bool \<Rightarrow> envelope outcome" where
  "sample_envelope ok = Resolved \<lparr>r_status = (if ok then 200 else 500), r_status_text = [], r_text = [],
     r_json = Some \<lparr>env_success = ok, env_message = None, env_error = None\<rparr>\<rparr>"

section \<open>Stops are confirmed\<close>

lemma row_handlers_no_stop:
  "hs \<in> row_handlers r \<Longrightarrow> a \<in> set hs \<Longrightarrow> a \<noteq> Do_Action u ''stop'' \<and> a \<noteq> Bulk b"
  using menu_never_stops by (fastforce simp: row_handlers_def)

lemma services_handlers_stop:
  assumes "hs \<in> services_handlers s"
  shows "Do_Action u ''stop'' \<in> set hs \<Longrightarrow>
      \<exists>a. sp_confirmAction s = Some a \<and> ca_unit a = u \<and> ca_action a = ''stop''"
    and "Bulk Bulk_Stop \<in> set hs \<Longrightarrow> sp_confirmBulkStop s"
  using assms row_handlers_no_stop
  by (fastforce simp: services_handlers_def split: option.splits if_splits)+

text \<open>On the services page, whatever view, filter or menu is open, no control stops a
  service by the stop action unless the confirmation dialog for exactly that unit is open,
  and none stops all services unless the bulk dialog is open.\<close>

lemma stop_needs_confirmation:
  assumes "hs \<in> offered (ServicesPage url_host date_parse now n pd s)"
  shows "(Do_Action u ''stop'' \<in> set hs \<longrightarrow>
      (\<exists>a. sp_confirmAction s = Some a \<and> ca_unit a = u \<and> ca_action a = ''stop''))
    \<and> (Bulk Bulk_Stop \<in> set hs \<longrightarrow> sp_confirmBulkStop s)"
proof -
  have "hs \<in> services_handlers s" using assms offered_services_page by blast
  then show ?thesis using services_handlers_stop by blast
qed

definition sample_confirm :: services_page where
  "sample_confirm = sample_page\<lparr>sp_confirmAction := Some \<lparr>ca_unit = ''a.service'', ca_action = ''stop'', ca_label = ''a''\<rparr>\<rparr>"

lemma sample_confirm_offers:
  "[Do_Action ''a.service'' ''stop''] \<in> offered (ServicesPage h p now n pd sample_confirm)"
proof -
  let ?d = "action_dialog
       \<lparr>cd_totalCount = totalCount (services_rows sample_confirm), cd_confirmBulkStop = sp_confirmBulkStop sample_confirm,
        cd_setConfirmBulkStop = Set_Confirm_Bulk, cd_confirmAction = sp_confirmAction sample_confirm,
        cd_setConfirmAction = Set_Confirm_Action, cd_onConfirmBulkStop = Bulk Bulk_Stop,
        cd_onConfirmAction = (\<lambda>a. Do_Action (ca_unit a) (ca_action a))\<rparr>"
  have "[Do_Action ''a.service'' ''stop''] \<in> offered ?d"
    by (simp add: action_dialog_def Let_def sample_confirm_def view_simps)
  moreover have "offered ?d \<subseteq> offered (ServicesPage h p now n pd sample_confirm)"
    unfolding ServicesPage_def
    by (rule offered_children)
      (simp_all add: services_children_def services_dialogs_def ConfirmDialogs_def services_rows_def
        sample_confirm_def sample_page_def)
  ultimately show ?thesis by blast
qed

lemma stop_needs_confirmation_witness:
  "\<exists>a. sp_confirmAction sample_confirm = Some a \<and> ca_unit a = ''a.service'' \<and> ca_action a = ''stop''"
  using stop_needs_confirmation [OF sample_confirm_offers, of "''a.service''"] by simp

section \<open>Reports and busy flags\<close>

fun is_toast :: "effect \<Rightarrow> bool" where
  "is_toast (Toast k m) = True"
| "is_toast (ToastDesc k m d) = True"
| "is_toast _ = False"

text \<open>Every action, stop-and-disable and bulk request ends, whatever the outcome, with its busy
  flag cleared and exactly one toast; an action toasts success exactly for a status from 200
  to 299 whose body says success, and only then schedules the refetch.\<close>

lemma handlers_report_once:
  "sp_loadingAction (fst (doAction_settle (unit, act) r s)) = None
   \<and> length (filter is_toast (snd (doAction_settle (unit, act) r s))) = 1
   \<and> (After 1000 ''refetchServices'' \<in> set (snd (doAction_settle (unit, act) r s))) =
       (\<exists>resp d. r = Resolved resp \<and> resp_ok resp \<and> r_json resp = Some d \<and> env_success d)
   \<and> sp_loadingAction (fst (stopAndDisable_settle (unit, name) rs s)) = None
   \<and> length (filter is_toast (snd (stopAndDisable_settle (unit, name) rs s))) = 1
   \<and> sp_bulkLoading (fst (doBulkAction_settle b rb s)) = None
   \<and> length (filter is_toast (snd (doBulkAction_settle b rb s))) = 1"
proof -
  have 1: "length (filter is_toast (snd (doAction_settle (unit, act) r s))) = 1"
    by (auto simp: doAction_settle_def split: outcome.splits option.splits)
  have 2: "(After 1000 ''refetchServices'' \<in> set (snd (doAction_settle (unit, act) r s))) =
      (\<exists>resp d. r = Resolved resp \<and> resp_ok resp \<and> r_json resp = Some d \<and> env_success d)"
    by (auto simp: doAction_settle_def split: outcome.splits option.splits)
  have 3: "length (filter is_toast (snd (stopAndDisable_settle (unit, name) rs s))) = 1"
    by (auto simp: stopAndDisable_settle_def disable_settle_def Let_def
        split: prod.splits outcome.splits option.splits if_splits)
  have 4: "length (filter is_toast (snd (doBulkAction_settle b rb s))) = 1"
    by (auto simp: doBulkAction_settle_def refetch_start_def split: outcome.splits option.splits)
  from actions.settle_idle [of "(unit, act)" r s] stop_disable.settle_idle [of "(unit, name)" rs s]
    bulk.settle_idle [of b rb s] 1 2 3 4
  show ?thesis by simp
qed

section \<open>Optimistic updates\<close>

lemma update_unit_services:
  "sp_services s = Some svcs \<Longrightarrow>
     sp_services (update_unit unit f s) = Some (map (\<lambda>svc. if si_unit_name svc = unit then f svc else svc) svcs)"
  by (simp add: update_unit_def)

text \<open>A confirmed toggle of auto-start changes the enablement of that unit and nothing else: same
  services in the same order, every other unit and every other field as before; when the
  request fails or is refused no service changes.\<close>

lemma toggle_touches_one_unit:
  assumes "sp_services s = Some svcs"
  shows "sp_services (fst (toggleAutoStart_settle unit enabled r s)) =
    Some (map (\<lambda>svc.
      if si_unit_name svc = unit
         \<and> (\<exists>resp d. r = Resolved resp \<and> r_json resp = Some d \<and> env_success d)
      then svc\<lparr>si_daemon_enabled := enabled\<rparr> else svc) svcs)"
proof (cases "\<exists>resp d. r = Resolved resp \<and> r_json resp = Some d \<and> env_success d")
  case True
  then show ?thesis
    using assms by (auto simp: toggleAutoStart_settle_def update_unit_services)
next
  case False
  then show ?thesis
    using assms by (auto simp: toggleAutoStart_settle_def split: outcome.splits option.splits)
qed

lemma toggle_touches_one_unit_witness:
  "map si_daemon_enabled (opt_or (sp_services
      (fst (toggleAutoStart_settle ''a.service'' False (sample_envelope True) sample_page))) []) = [True, False]"
  by (subst toggle_touches_one_unit [of sample_page
        "[sample_service ''b'' ''active'' 0, sample_service ''a'' ''failed'' 3]"])
    (simp_all add: sample_page_def sample_envelope_def sample_service_def)

text \<open>Stop-and-disable does not look at the response of the stop request: also when the daemon
  refused to stop the unit, a good configuration response makes the page show the unit
  inactive and toast that it was stopped.\<close>

lemma stop_failure_ignored:
  assumes "sp_services s = Some svcs" "\<not> resp_ok stop_resp"
    and "r_json config_resp = Some d" "env_success d"
  shows "stopAndDisable_settle (unit, name) (Resolved stop_resp, Resolved config_resp) s =
     (s\<lparr>sp_loadingAction := None,
        sp_services := Some (map (\<lambda>svc. if si_unit_name svc = unit then stopped_and_disabled svc else svc) svcs)\<rparr>,
      [Fetch ''PATCH'' (''/api/config/'' @ unit) (Some (JObj [(''enabled'', JBool False)])),
       Toast Success (name @ '' stopped and disabled'')])"
  using assms by (simp add: stopAndDisable_settle_def disable_settle_def update_unit_def)

lemma stop_failure_ignored_witness:
  "map si_active_state (opt_or (sp_services (fst (stopAndDisable_settle (''b.service'', ''b'')
       (sample_envelope False, sample_envelope True) sample_page))) []) = [''inactive'', ''failed'']"
  unfolding sample_envelope_def
  by (subst stop_failure_ignored [where d = "\<lparr>env_success = True, env_message = None, env_error = None\<rparr>"
        and svcs = "[sample_service ''b'' ''active'' 0, sample_service ''a'' ''failed'' 3]"])
    (simp_all add: sample_page_def resp_ok_def stopped_and_disabled_def)

section \<open>Configuration round trip\<close>

lemma parse_depends_join:
  assumes "\<forall>d \<in> set ds. trimmed d \<and> d \<noteq> [] \<and> CHR '','' \<notin> set d"
  shows "parse_depends (js_join '', '' ds) = ds"
proof (cases ds)
  case Nil
  then show ?thesis by (simp add: parse_depends_def js_trim_def)
next
  case (Cons x xs)
  have ws: "is_ws (CHR '' '')" by (simp add: is_ws_def)
  have "split_on (CHR '','') (js_join '', '' (x # xs)) = x # map ((@) '' '') xs"
    using assms Cons by (intro split_on_join) auto
  moreover have "map js_trim (map ((@) '' '') xs) = xs"
    using assms Cons ws js_trim_ws_prefix [of "'' ''"] by (auto simp: js_trim_trimmed intro!: map_idI)
  moreover have "js_trim x = x" using assms Cons by (simp add: js_trim_trimmed)
  moreover have "filter (\<lambda>d. 0 < length d) xs = xs"
    using assms Cons by (auto intro: filter_True)
  ultimately show ?thesis using assms Cons by (simp add: parse_depends_def)
qed

text \<open>Opening the configuration sheet of a service and saving it unchanged sends back exactly its
  order, delays and dependency list, for dependency names that are non-empty, free of commas
  and of surrounding white space.\<close>

lemma config_roundtrip:
  assumes "\<forall>d \<in> set (opt_or (sa_depends_on item) []). trimmed d \<and> d \<noteq> [] \<and> CHR '','' \<notin> set d"
  shows "saveConfig (fst (services_dispatch pt (Configure item) s)) =
    [Fetch ''PATCH'' (''/api/config/'' @ sa_unit_name item)
      (Some (JObj [(''order'', JInt (sa_boot_order item)), (''boot_delay'', JInt (sa_boot_delay item)),
        (''restart_delay'', JInt (sa_restart_delay item)),
        (''depends_on'', JArr (map JStr (opt_or (sa_depends_on item) [])))]))]"
  using parse_depends_join [OF assms] by (simp add: saveConfig_def draft_of_def)

lemma config_roundtrip_witness:
  "parse_depends (js_join '', '' [''caddy.service'', ''postgresql.service'']) = [''caddy.service'', ''postgresql.service'']"
  using config_roundtrip [of "\<lparr>sa_unit_name = ''x.service'', sa_name = ''x'', sa_state = ''active'',
      sa_type = ''Native'', sa_daemon_enabled = True, sa_image = None, sa_boot_order = 1, sa_boot_delay = 0,
      sa_restart_delay = 5, sa_depends_on = Some [''caddy.service'', ''postgresql.service'']\<rparr>" "(0, 0)" sample_page]
  by (simp add: saveConfig_def draft_of_def trimmed_def is_ws_def)
    (simp add: map_eq_Cons_conv)

section \<open>View mode\<close>

text \<open>The stored view mode survives a reload: after a toggle with a usable store the next load
  starts in the mode shown, and toggling twice gives the mode back; text that is neither
  mode reads as the table.\<close>

lemma view_mode_roundtrip:
  assumes "ls_readable (sp_storage s)" "ls_writable (sp_storage s)"
  shows "loadViewMode (sp_storage (toggleViewMode s)) = sp_viewMode (toggleViewMode s)
    \<and> sp_viewMode (toggleViewMode (toggleViewMode s)) = sp_viewMode s
    \<and> sp_viewMode (toggleViewMode s) \<noteq> sp_viewMode s"
proof -
  have "loadViewMode (setItem (sp_storage s) VIEW_KEY (view_text m)) = m" for m
    unfolding loadViewMode_load using assms by (intro browser.load_set view_of_text_view_text) simp
  from this [of Table_View] this [of Cards_View] show ?thesis
    by (cases "sp_viewMode s") (simp_all add: toggleViewMode_def Let_def other_view_def)
qed

section \<open>Sorting\<close>


text \<open>The headers of the columns Status and Uptime allow sorting, but no row has a field of these
  names: choosing them in either direction leaves the services in the order the daemon sent
  them.\<close>

lemma status_sort_inert:
  assumes "c \<in> {''status'', ''uptime''}"
  shows "allows_sorting c
    \<and> services_sorted (fst (services_dispatch pt (Set_Sort \<lparr>so_column = c, so_direction = d\<rparr>) s))
      = opt_or (filtered row_field (Some ''name'') (sp_table s) (services_rows s)) []"
proof -
  have st: "row_field ''status'' r = None" "row_field ''uptime'' r = None" for r
    by (simp_all add: row_field_def)
  have c: "row_field c r = None" for r using assms st [of r] by auto
  have "services_sorted (s\<lparr>sp_table := (sp_table s)\<lparr>sortDescriptor := \<lparr>so_column = c, so_direction = d\<rparr>\<rparr>\<rparr>)
      = opt_or (filtered row_field (Some ''name'')
          ((sp_table s)\<lparr>sortDescriptor := \<lparr>so_column = c, so_direction = d\<rparr>\<rparr>) (services_rows s)) []"
    unfolding services_sorted_def
    by (subst sorted_rows_missing_column) (simp_all add: c services_rows_def)
  moreover have "filtered row_field (Some ''name'') ((sp_table s)\<lparr>sortDescriptor := sd\<rparr>) data
      = filtered row_field (Some ''name'') (sp_table s) data" for sd data
    by (cases data) (simp_all add: filtered_def)
  moreover have "allows_sorting c" using assms by (auto simp: allows_sorting_def)
  ultimately show ?thesis by simp
qed

lemma status_sort_inert_witness:
  "map row_name (services_sorted (fst (services_dispatch (0, 0)
     (Set_Sort \<lparr>so_column = ''status'', so_direction = Ascending\<rparr>) sample_page))) = [''b'', ''a'']"
  by (subst conjunct2 [OF status_sort_inert])
    (simp_all add: sample_page_def services_init_def table_init_def filtered_def services_rows_def
      toRow_def sample_service_def)

section \<open>Pulling an image\<close>

text \<open>C16. In every reachable state of the pull dialog a stream is open only for the current request
  while the status is running, and the log holds at most 201 lines; the lines received on one
  stream are shown up to the last 201, in order.\<close>

theorem pull_stream_invariant:
  assumes "pull_reachable s"
  shows "(\<forall>d. pd_source s = Some d \<longrightarrow> pd_deps s = Some d \<and> pp_open d \<and> pd_status s = Pull_Running)
    \<and> length (pd_lines s) \<le> 201
    \<and> (pd_source s = Some d \<and> pd_lines s = [] \<longrightarrow>
        pd_lines (fold (\<lambda>l s. fst (on_log l s)) ls s) = slice_last 201 ls)"
  using pull_reachable_inv [OF assms] pull_log_fold by (auto simp: pull_inv_def)

theorem pull_stream_invariant_witness:
  "pd_lines (fold (\<lambda>l s. fst (on_log l s)) [''a'', ''b'']
     (fst (pull_render (pull_props 0 (sample_page\<lparr>sp_pull := pull_of ''x'' ''y''\<rparr>)) pull_dialog_init))) = [''a'', ''b'']"
proof -
  let ?d = "pull_props 0 (sample_page\<lparr>sp_pull := pull_of ''x'' ''y''\<rparr>)"
  let ?s = "fst (pull_render ?d pull_dialog_init)"
  have "pull_reachable ?s"
    by (rule pull_next [OF pull_start pull_step.render, of ?d]) (simp add: prod_eq_iff)
  moreover have "pd_source ?s = Some ?d" "pd_lines ?s = []"
    by (simp_all add: pull_defs pull_dialog_init_def Let_def pull_props_def pull_of_def)
  ultimately show ?thesis
    using pull_stream_invariant [of ?s ?d "[''a'', ''b'']"] by (simp add: slice_last_def)
qed



end
