(* ===== verification/Byte_Units.thy ===== *)
theory Byte_Units
  imports JS_Numbers
begin

text \<open>
  The byte formatters, which the frontend has five times: \<^verbatim>\<open>pages/StoragePage/format.ts\<close>
  (\<open>fmtBytes\<close>, \<open>fmtSpeed\<close>), \<^verbatim>\<open>widgets/storage/StorageWidget.tsx\<close>,
  \<^verbatim>\<open>widgets/system/NetworkWidget.tsx\<close> and \<^verbatim>\<open>widgets/services/QbittorrentWidget.tsx\<close>.
  The logarithm is taken exactly; the division and \<open>toFixed\<close> are exact on rationals. What
  the formatters share is a locale: a text for zero, a list of units and a way to print
  the scaled number.
\<close>

section \<open>Math.floor(Math.log(x) / Math.log(1024))\<close>

function floor_log1024 :: "rat \<Rightarrow> int" where
  "floor_log1024 q =
     (if q \<le> 0 then 0
      else if 1024 \<le> q then 1 + floor_log1024 (q / 1024)
      else if q < 1 then floor_log1024 (q * 1024) - 1
      else 0)"
  by pat_completeness auto

lemma floor_div_less: "1024 \<le> q \<Longrightarrow> nat \<lfloor>q / 1024\<rfloor> < nat \<lfloor>q :: rat\<rfloor>"
proof -
  assume q: "1024 \<le> q"
  have "q / 1024 \<le> q - 1" using q by simp
  then have "\<lfloor>q / 1024\<rfloor> \<le> \<lfloor>q - 1\<rfloor>" by (rule floor_mono)
  moreover have "0 \<le> \<lfloor>q / 1024\<rfloor>" using q by simp
  ultimately show ?thesis by linarith
qed

lemma ceiling_inverse_less:
  assumes "0 < q" "q * 1024 < (1 :: rat)"
  shows "nat \<lceil>1 / (q * 1024)\<rceil> < nat \<lceil>1 / q\<rceil>"
proof -
  let ?x = "1 / (q * 1024)"
  have x: "1 < ?x" and e: "1 / q = 1024 * ?x" using assms by (simp_all add: field_simps)
  have "of_int \<lceil>?x\<rceil> < ?x + 1" using ceiling_correct [of ?x] by linarith
  also have "?x + 1 \<le> 1 / q" using x e by linarith
  also have "1 / q \<le> of_int \<lceil>1 / q\<rceil>" by (rule le_of_int_ceiling)
  finally have "\<lceil>?x\<rceil> < \<lceil>1 / q\<rceil>" by simp
  moreover have "0 < \<lceil>?x\<rceil>" using x by linarith
  ultimately show ?thesis by linarith
qed

termination floor_log1024
proof (relation "measure (\<lambda>q. if q < 1 then 1024 + nat \<lceil>1 / q\<rceil> else nat \<lfloor>q\<rfloor>)", goal_cases)
  case 1
  then show ?case by simp
next
  case (2 q)
  then have "\<not> q < 1" "\<not> q / 1024 < 1" by simp_all
  with 2 show ?case using floor_div_less by simp
next
  case (3 q)
  show ?case
  proof (cases "q * 1024 < 1")
    case True
    with 3 show ?thesis using ceiling_inverse_less [of q] by simp
  next
    case False
    have "nat \<lfloor>q * 1024\<rfloor> < 1024" using 3 by linarith
    with False 3 show ?thesis by simp
  qed
qed

declare floor_log1024.simps [simp del]

text \<open>\<open>x / Math.pow(1024, i)\<close>\<close>

definition scaled :: "rat \<Rightarrow> int \<Rightarrow> rat" where
  "scaled q i = (if 0 \<le> i then q / 1024 ^ nat i else q * 1024 ^ nat (- i))"

lemma scaled_succ: "scaled (q / 1024) i = scaled q (i + 1)"
  using nat_add_distrib [of i 1] nat_add_distrib [of "- i - 1" 1]
  by (cases "0 \<le> i"; cases "i = -1") (simp_all add: scaled_def)

lemma floor_log1024_range: "0 < q \<Longrightarrow> 1 \<le> scaled q (floor_log1024 q) \<and> scaled q (floor_log1024 q) < 1024"
proof (induction q rule: floor_log1024.induct)
  case (1 q)
  consider "1024 \<le> q" | "q < 1" | "1 \<le> q" "q < 1024" by linarith
  then show ?case
  proof cases
    case 1
    then have "floor_log1024 q = floor_log1024 (q / 1024) + 1"
      using floor_log1024.simps [of q] by simp
    moreover have "1 \<le> scaled (q / 1024) (floor_log1024 (q / 1024)) \<and> scaled (q / 1024) (floor_log1024 (q / 1024)) < 1024"
      using "1.IH"(1) "1.prems" 1 by simp
    ultimately show ?thesis by (simp add: scaled_succ)
  next
    case 2
    then have e: "floor_log1024 q = floor_log1024 (q * 1024) - 1"
      using floor_log1024.simps [of q] "1.prems" by simp
    have "1 \<le> scaled (q * 1024) (floor_log1024 (q * 1024)) \<and> scaled (q * 1024) (floor_log1024 (q * 1024)) < 1024"
      using "1.IH"(2) "1.prems" 2 by simp
    then show ?thesis using scaled_succ [of "q * 1024" "floor_log1024 q"] by (simp add: e)
  next
    case 3
    then have "floor_log1024 q = 0" using floor_log1024.simps [of q] by simp
    with 3 show ?thesis by (simp add: scaled_def)
  qed
qed

lemma scaled_antimono: "0 < q \<Longrightarrow> i \<le> j \<Longrightarrow> scaled q j \<le> scaled q i"
proof (induction "nat (j - i)" arbitrary: j)
  case 0
  then show ?case by simp
next
  case (Suc n)
  have "scaled q j = scaled (q / 1024) (j - 1)" by (simp add: scaled_succ)
  also have "\<dots> = scaled q (j - 1) / 1024" by (simp add: scaled_def)
  also have "\<dots> \<le> scaled q (j - 1)" using Suc.prems by (simp add: scaled_def)
  also have "\<dots> \<le> scaled q i" using Suc by (intro Suc.hyps(1)) auto
  finally show ?case .
qed

text \<open>The exponent is the only one that scales the number into \<open>[1, 1024)\<close>.\<close>

lemma floor_log1024_unique:
  assumes "0 < q" "1 \<le> scaled q i" "scaled q i < 1024"
  shows "floor_log1024 q = i"
proof (rule ccontr)
  let ?l = "floor_log1024 q"
  have step: "scaled q (k + 1) = scaled q k / 1024" for k
    unfolding scaled_succ [symmetric] by (simp add: scaled_def)
  assume "?l \<noteq> i"
  then consider "i + 1 \<le> ?l" | "?l + 1 \<le> i" by linarith
  then show False
  proof cases
    case 1
    then have "scaled q ?l \<le> scaled q i / 1024" using scaled_antimono [of q "i + 1" ?l] assms(1) step by simp
    then show False using floor_log1024_range [OF assms(1)] assms(3) by linarith
  next
    case 2
    then have "scaled q i \<le> scaled q ?l / 1024" using scaled_antimono [of q "?l + 1" i] assms(1) step by simp
    then show False using floor_log1024_range [OF assms(1)] assms(2) by linarith
  qed
qed

section \<open>sizes[i]\<close>

definition unit_at :: "string list \<Rightarrow> int \<Rightarrow> string" where
  "unit_at sizes i = (if 0 \<le> i \<and> nat i < length sizes then sizes ! nat i else ''undefined'')"

text \<open>A logarithm of a negative number is \<open>NaN\<close>, and so are the quotient and the index.\<close>

definition fmt_units :: "(rat \<Rightarrow> string) \<Rightarrow> string list \<Rightarrow> rat \<Rightarrow> string" where
  "fmt_units digits sizes q =
     (if q < 0 then ''NaN undefined''
      else (let i = floor_log1024 q in digits (scaled q i) @ '' '' @ unit_at sizes i))"

section \<open>The five formatters\<close>

definition fmtBytes :: "rat \<Rightarrow> string" where
  "fmtBytes bytes =
     (let sizes = [''B'', ''KB'', ''MB'', ''GB'', ''TB'', ''PB'']
      in if bytes = 0 then ''0 B'' else fmt_units (to_fixed 1) sizes bytes)"

definition fmtSpeed :: "rat \<Rightarrow> string" where
  "fmtSpeed bytesPerSec =
     (if bytesPerSec = 0 then ''0 B/s''
      else fmt_units (to_fixed 1) [''B/s'', ''KB/s'', ''MB/s'', ''GB/s''] bytesPerSec)"

text \<open>The widget's copy takes the logarithm of the absolute value.\<close>

definition widget_fmtBytes :: "rat \<Rightarrow> string" where
  "widget_fmtBytes bytes =
     (if bytes = 0 then ''0 B''
      else (let sizes = [''B'', ''KB'', ''MB'', ''GB'', ''TB'', ''PB'']; i = floor_log1024 \<bar>bytes\<bar>
            in to_fixed 1 (scaled bytes i) @ '' '' @ unit_at sizes i))"

definition network_formatBytes :: "rat \<Rightarrow> string" where
  "network_formatBytes bytes =
     (if bytes = 0 then ''0 B'' else fmt_units (to_fixed 1) [''B'', ''KB'', ''MB'', ''GB'', ''TB''] bytes)"

text \<open>\<open>parseFloat(x.toFixed(1))\<close> of a non-negative number, as text: the decimal is there when it is not zero.\<close>

definition short_decimal :: "rat \<Rightarrow> string" where
  "short_decimal x =
     (let n = nat \<lfloor>x * 10 + 1 / 2\<rfloor>
      in show_nat (n div 10) @ (if n mod 10 = 0 then [] else ''.'' @ show_nat (n mod 10)))"

definition qbit_formatBytes :: "rat \<Rightarrow> string" where
  "qbit_formatBytes bytes =
     (if bytes = 0 then ''0 B'' else fmt_units short_decimal [''B'', ''KB'', ''MB'', ''GB'', ''TB''] bytes)"

section \<open>What they share\<close>

locale unit_format =
  fixes fmt :: "rat \<Rightarrow> string"
    and digits :: "rat \<Rightarrow> string"
    and sizes :: "string list"
  assumes fmt_positive: "0 < q \<Longrightarrow> fmt q = digits (scaled q (floor_log1024 q)) @ '' '' @ unit_at sizes (floor_log1024 q)"
begin

text \<open>From 1 up to \<open>1024 ^ length sizes\<close> the text has the unit whose multiple of the number lies in \<open>[1, 1024)\<close>.\<close>

lemma in_range:
  assumes "1024 ^ i \<le> q" "q < 1024 ^ Suc i" "i < length sizes"
  shows "fmt q = digits (q / 1024 ^ i) @ '' '' @ sizes ! i"
proof -
  have p: "0 < q" using assms(1) less_le_trans [of 0 "1024 ^ i :: rat" q] by simp
  have "floor_log1024 q = int i"
    using assms p by (intro floor_log1024_unique) (simp_all add: scaled_def field_simps)
  then show ?thesis using p assms(3) by (simp add: fmt_positive scaled_def unit_at_def)
qed

text \<open>Below 1 and from \<open>1024 ^ length sizes\<close> on there is no unit.\<close>

lemma out_of_range:
  assumes "0 < q" "q < 1 \<or> 1024 ^ length sizes \<le> q"
  shows "\<exists>d. fmt q = digits d @ '' undefined''"
proof -
  let ?i = "floor_log1024 q"
  have r: "1 \<le> scaled q ?i" "scaled q ?i < 1024" using floor_log1024_range [OF assms(1)] by auto
  have "unit_at sizes ?i = ''undefined''"
  proof (cases "0 \<le> ?i")
    case True
    then obtain n where n: "?i = int n" by (metis nonneg_int_cases)
    have "q < 1024 ^ Suc n" "1024 ^ n \<le> q" using r by (simp_all add: n scaled_def field_simps)
    moreover have "(1 :: rat) \<le> 1024 ^ n" by simp
    ultimately have "1024 ^ length sizes < (1024 :: rat) ^ Suc n" using assms(2) by linarith
    then have "length sizes < Suc n" by (rule power_less_imp_less_exp [rotated]) simp
    then show ?thesis by (simp add: unit_at_def n)
  next
    case False
    then show ?thesis by (simp add: unit_at_def)
  qed
  then show ?thesis using assms(1) by (auto simp: fmt_positive)
qed

end

interpretation bytes: unit_format fmtBytes "to_fixed 1" "[''B'', ''KB'', ''MB'', ''GB'', ''TB'', ''PB'']"
  by unfold_locales (simp add: fmtBytes_def fmt_units_def Let_def)

interpretation speed: unit_format fmtSpeed "to_fixed 1" "[''B/s'', ''KB/s'', ''MB/s'', ''GB/s'']"
  by unfold_locales (simp add: fmtSpeed_def fmt_units_def Let_def)

interpretation widget_bytes: unit_format widget_fmtBytes "to_fixed 1" "[''B'', ''KB'', ''MB'', ''GB'', ''TB'', ''PB'']"
  by unfold_locales (simp add: widget_fmtBytes_def Let_def)

interpretation network_bytes: unit_format network_formatBytes "to_fixed 1" "[''B'', ''KB'', ''MB'', ''GB'', ''TB'']"
  by unfold_locales (simp add: network_formatBytes_def fmt_units_def Let_def)

interpretation qbit_bytes: unit_format qbit_formatBytes short_decimal "[''B'', ''KB'', ''MB'', ''GB'', ''TB'']"
  by unfold_locales (simp add: qbit_formatBytes_def fmt_units_def Let_def)

section \<open>Properties\<close>



text \<open>A positive rate below one byte per second, or of 1024 GB per second and more, has no unit: the
  storage page prints it with "undefined" behind the number, and so does the network widget
  for a rate below 1.\<close>

lemma rate_without_unit:
  assumes "0 < q" "q < 1 \<or> 1024 ^ 4 \<le> q"
  shows "(\<exists>d. fmtSpeed q = to_fixed 1 d @ '' undefined'')
    \<and> (q < 1 \<longrightarrow> (\<exists>d. network_formatBytes q = to_fixed 1 d @ '' undefined''))"
  using speed.out_of_range [of q] network_bytes.out_of_range [of q] assms by simp

lemma rate_without_unit_witness: "\<exists>d. network_formatBytes (1 / 2) = to_fixed 1 d @ '' undefined''"
  using rate_without_unit [of "1 / 2"] by simp

end
