(* ===== verification/Storage_Page.thy ===== *)
theory Storage_Page
  imports Byte_Units Async_Calls Api_Types JS_Uri "HOL-Library.Multiset"
begin

text \<open>
  \<^verbatim>\<open>pages/StoragePage.tsx\<close>: the state of the page, the rates it computes from successive
  polls, its actions. Times are milliseconds (\<open>Date.now()\<close>), counters integers, rates exact
  rationals. The response bodies are the fields the code reads.
\<close>

section \<open>State\<close>

record DiskIORates =
  readBps :: rat
  writeBps :: rat
  readIops :: rat
  writeIops :: rat

record storage_page =
  sg_status :: "StorageStatus option"
  sg_queryLoading :: bool
  sg_actionLoading :: bool
  sg_expandedPools :: "string set"
  sg_ioRates :: "string \<rightharpoonup> DiskIORates"
  sg_subvolumeSizes :: "string \<rightharpoonup> int"
  sg_calculatingUsage :: bool
  sg_prevIO :: "string \<rightharpoonup> DiskIOStats \<times> int"

definition storage_init :: storage_page where
  "storage_init = \<lparr>sg_status = None, sg_queryLoading = True, sg_actionLoading = False,
     sg_expandedPools = {}, sg_ioRates = Map.empty, sg_subvolumeSizes = Map.empty,
     sg_calculatingUsage = False, sg_prevIO = Map.empty\<rparr>"

section \<open>IO rates from successive polls\<close>

definition disk_rates :: "DiskIOStats \<Rightarrow> DiskIOStats \<Rightarrow> rat \<Rightarrow> DiskIORates" where
  "disk_rates io prev dt =
     (let dr = of_int (io_read_sectors io - io_read_sectors prev) * 512;
          dw = of_int (io_write_sectors io - io_write_sectors prev) * 512
      in \<lparr>readBps = dr / dt, writeBps = dw / dt,
          readIops = (if dr > 0 then of_int (io_read_ios io - io_read_ios prev) / dt else 0),
          writeIops = (if dw > 0 then of_int (io_write_ios io - io_write_ios prev) / dt else 0)\<rparr>)"

definition io_disk :: "int \<Rightarrow> Disk \<Rightarrow> storage_page \<Rightarrow> storage_page" where
  "io_disk now disk s =
     (case dk_io disk of
        None \<Rightarrow> s
      | Some io \<Rightarrow>
          (let s1 = (case sg_prevIO s (dk_name disk) of
                None \<Rightarrow> s
              | Some (prev, time) \<Rightarrow>
                  (let dt = of_int (now - time) / 1000
                   in if dt > 0 then s\<lparr>sg_ioRates := (sg_ioRates s)(dk_name disk \<mapsto> disk_rates io prev dt)\<rparr> else s))
           in s1\<lparr>sg_prevIO := (sg_prevIO s1)(dk_name disk \<mapsto> (io, now))\<rparr>))"

definition status_disks :: "StorageStatus \<Rightarrow> Disk list" where
  "status_disks st = concat (map pool_disks (ss_pools st))"

definition io_effect :: "int \<Rightarrow> storage_page \<Rightarrow> storage_page" where
  "io_effect now s = (case sg_status s of None \<Rightarrow> s | Some st \<Rightarrow> fold (io_disk now) (status_disks st) s)"

lemma io_disk_frame:
  "n \<noteq> dk_name d \<Longrightarrow> sg_ioRates (io_disk now d s) n = sg_ioRates s n
     \<and> sg_prevIO (io_disk now d s) n = sg_prevIO s n"
  by (auto simp: io_disk_def Let_def split: option.splits prod.splits)

lemma io_disks_frame:
  "n \<notin> dk_name ` set ds \<Longrightarrow> sg_ioRates (fold (io_disk now) ds s) n = sg_ioRates s n
     \<and> sg_prevIO (fold (io_disk now) ds s) n = sg_prevIO s n"
  by (induction ds arbitrary: s) (auto simp: io_disk_frame)

lemma io_disk_own:
  assumes "dk_io d = Some io"
  shows "sg_prevIO (io_disk now d s) (dk_name d) = Some (io, now)
    \<and> sg_ioRates (io_disk now d s) (dk_name d) =
        (case sg_prevIO s (dk_name d) of
           Some (prev, time) \<Rightarrow>
             if now > time then Some (disk_rates io prev (of_int (now - time) / 1000)) else sg_ioRates s (dk_name d)
         | None \<Rightarrow> sg_ioRates s (dk_name d))"
  using assms by (auto simp: io_disk_def Let_def split: option.splits prod.splits)

lemma io_disks_one:
  assumes "distinct (map dk_name ds)" "d \<in> set ds" "dk_io d = Some io"
  shows "sg_prevIO (fold (io_disk now) ds s) (dk_name d) = Some (io, now)
    \<and> sg_ioRates (fold (io_disk now) ds s) (dk_name d) =
        (case sg_prevIO s (dk_name d) of
           Some (prev, time) \<Rightarrow>
             if now > time then Some (disk_rates io prev (of_int (now - time) / 1000)) else sg_ioRates s (dk_name d)
         | None \<Rightarrow> sg_ioRates s (dk_name d))"
  using assms
proof (induction ds arbitrary: s)
  case (Cons x xs)
  show ?case
  proof (cases "x = d")
    case True
    with Cons.prems have "dk_name d \<notin> dk_name ` set xs" by simp
    with True show ?thesis
      using io_disks_frame [of "dk_name d" xs now "io_disk now d s"] io_disk_own [OF Cons.prems(3), of now s]
      by simp
  next
    case False
    with Cons.prems(2) have "d \<in> set xs" by simp
    moreover from this have "dk_name d \<in> dk_name ` set xs" by (rule imageI)
    moreover have "dk_name x \<notin> dk_name ` set xs" using Cons.prems(1) by simp
    ultimately have "dk_name d \<noteq> dk_name x" "d \<in> set xs" by metis+
    with Cons show ?thesis using io_disk_frame [of "dk_name d" x now s] by (simp split: option.splits)
  qed
qed simp

section \<open>Fetching and actions\<close>

definition fetchStorage_start :: "effect list" where
  "fetchStorage_start = [Fetch ''GET'' ''/api/storage'' None]"

text \<open>\<open>err\<close> is the text of the thrown value: \<open>String(new Error(m))\<close> is \<open>Error: m\<close>.\<close>

definition fetchStorage_settle ::
  "string \<Rightarrow> StorageStatus outcome \<Rightarrow> storage_page \<Rightarrow> storage_page \<times> effect list" where
  "fetchStorage_settle syntax_msg r s =
     (let fail = (\<lambda>err. (s\<lparr>sg_queryLoading := False\<rparr>, [Toast Error (''Failed to fetch storage status: '' @ err)]))
      in case r of
           Rejected e \<Rightarrow> fail (''TypeError: '' @ e)
         | Resolved resp \<Rightarrow>
             if \<not> resp_ok resp then fail (''Error: '' @ r_text resp)
             else (case r_json resp of
                     None \<Rightarrow> fail (''SyntaxError: '' @ syntax_msg)
                   | Some data \<Rightarrow> (s\<lparr>sg_status := Some data, sg_queryLoading := False\<rparr>, [])))"

record storage_action =
  act_url :: string
  act_body :: json
  act_success :: string

definition execAction :: "storage_action \<Rightarrow> storage_page \<Rightarrow> storage_page \<times> effect list" where
  "execAction a s = (s\<lparr>sg_actionLoading := True\<rparr>, [Fetch ''POST'' (act_url a) (Some (act_body a))])"

text \<open>\<open>data.error || "Action failed"\<close>\<close>

definition execAction_settle ::
  "storage_action \<Rightarrow> envelope outcome \<Rightarrow> storage_page \<Rightarrow> storage_page \<times> effect list" where
  "execAction_settle a r s =
     (s\<lparr>sg_actionLoading := False\<rparr>,
      (case r of
         Rejected e \<Rightarrow> [Toast Error ''Action failed'']
       | Resolved resp \<Rightarrow>
           (case r_json resp of
              None \<Rightarrow> [Toast Error ''Action failed'']
            | Some d \<Rightarrow>
                if env_success d then Toast Success (act_success a) # fetchStorage_start
                else [Toast Error (str_or (opt_str (env_error d)) ''Action failed'')])))"

definition onMount :: "Pool \<Rightarrow> storage_action" where
  "onMount pool =
     \<lparr>act_url = ''/api/storage/mount'',
      act_body = JObj [(''devices'', JArr (map (\<lambda>d. JStr (dk_path d)) (pool_disks pool))),
        (''mountpoint'', JStr (str_or (pool_mountdir pool) ''/pool''))],
      act_success = ''Mounted '' @ pool_name pool\<rparr>"

definition onUnmount :: "Pool \<Rightarrow> storage_action" where
  "onUnmount pool =
     \<lparr>act_url = ''/api/storage/unmount'', act_body = JObj [(''mountpoint'', JStr (pool_mountdir pool))],
      act_success = ''Unmounted '' @ pool_name pool\<rparr>"

definition onInitFolders :: "Pool \<Rightarrow> storage_action" where
  "onInitFolders pool =
     \<lparr>act_url = ''/api/storage/init-folders'', act_body = JObj [(''mountpoint'', JStr (pool_mountdir pool))],
      act_success = ''Initialized folders on '' @ pool_name pool\<rparr>"

definition onCreateSubvolume :: storage_action where
  "onCreateSubvolume =
     \<lparr>act_url = ''/api/storage/subvolume'', act_body = JObj [(''path'', JStr ''/pool/tmp'')],
      act_success = ''Created subvolume /pool/tmp''\<rparr>"

definition onDeleteSubvolume :: "string \<Rightarrow> storage_page \<Rightarrow> storage_page \<times> effect list" where
  "onDeleteSubvolume path s =
     (s\<lparr>sg_actionLoading := True\<rparr>,
      [Fetch ''DELETE'' (''/api/storage/subvolume?path='' @ encodeURIComponent path) None])"

definition deleteSubvolume_settle ::
  "string \<Rightarrow> unit outcome \<Rightarrow> storage_page \<Rightarrow> storage_page \<times> effect list" where
  "deleteSubvolume_settle path r s =
     (s\<lparr>sg_actionLoading := False\<rparr>,
      (case r of
         Rejected e \<Rightarrow> [Toast Error e]
       | Resolved resp \<Rightarrow>
           if \<not> resp_ok resp then [Toast Error ''Delete failed'']
           else Toast Success (''Deleted subvolume '' @ path) # fetchStorage_start))"

interpretation storage_actions: busy_handler execAction execAction_settle sg_actionLoading
  by unfold_locales (simp_all add: execAction_def execAction_settle_def)

interpretation storage_delete: busy_handler onDeleteSubvolume deleteSubvolume_settle sg_actionLoading
  by unfold_locales (simp_all add: onDeleteSubvolume_def deleteSubvolume_settle_def)

record usage_body =
  ub_success :: bool
  ub_error :: "string option"
  ub_usage :: "(string \<times> int) list"

definition status_subvolumes :: "storage_page \<Rightarrow> Subvolume list" where
  "status_subvolumes s = (case sg_status s of None \<Rightarrow> [] | Some st \<Rightarrow> ss_subvolumes st)"

definition onCalculateUsage :: "unit \<Rightarrow> storage_page \<Rightarrow> storage_page \<times> effect list" where
  "onCalculateUsage u s =
     (if status_subvolumes s = [] then (s, [])
      else (s\<lparr>sg_calculatingUsage := True\<rparr>,
            [Fetch ''POST'' ''/api/storage/subvolume-usage''
               (Some (JObj [(''paths'', JArr (map (\<lambda>sv. JStr (sv_path sv)) (status_subvolumes s)))]))]))"

definition calculateUsage_settle ::
  "unit \<Rightarrow> usage_body outcome \<Rightarrow> storage_page \<Rightarrow> storage_page \<times> effect list" where
  "calculateUsage_settle u r s =
     (let s1 = s\<lparr>sg_calculatingUsage := False\<rparr>; fail = (\<lambda>m. (s1, [Toast Error m])) in
      case r of
        Rejected e \<Rightarrow> fail ''Failed to calculate usage''
      | Resolved resp \<Rightarrow>
          (case r_json resp of
             None \<Rightarrow> fail ''Failed to calculate usage''
           | Some d \<Rightarrow>
               if ub_success d
               then (s1\<lparr>sg_subvolumeSizes := map_of (rev (ub_usage d))\<rparr>, [Toast Success ''Usage calculated''])
               else fail (str_or (opt_str (ub_error d)) ''Failed to calculate usage'')))"

definition toggle_expanded :: "string \<Rightarrow> storage_page \<Rightarrow> storage_page" where
  "toggle_expanded uuid s =
     s\<lparr>sg_expandedPools :=
        (if uuid \<in> sg_expandedPools s then sg_expandedPools s - {uuid} else insert uuid (sg_expandedPools s))\<rparr>"

lemma toggle_expanded_twice: "toggle_expanded u (toggle_expanded u s) = s"
  by (cases "u \<in> sg_expandedPools s") (simp_all add: toggle_expanded_def insert_absorb)

section \<open>Pool rates\<close>

text \<open>Rates add up componentwise; that makes them a commutative monoid, and a sum over disks a library sum.\<close>

datatype pool_rates = Pool_Rates (rates_read: rat) (rates_write: rat) (rates_iops: rat)

instantiation pool_rates :: comm_monoid_add
begin

definition zero_pool_rates :: pool_rates where
  "zero_pool_rates = Pool_Rates 0 0 0"

definition plus_pool_rates :: "pool_rates \<Rightarrow> pool_rates \<Rightarrow> pool_rates" where
  "plus_pool_rates a b =
     Pool_Rates (rates_read a + rates_read b) (rates_write a + rates_write b) (rates_iops a + rates_iops b)"

instance
  by standard (simp_all add: zero_pool_rates_def plus_pool_rates_def)

end

definition add_disk_rates :: "(string \<rightharpoonup> DiskIORates) \<Rightarrow> Disk \<Rightarrow> pool_rates \<Rightarrow> pool_rates" where
  "add_disk_rates ioRates d acc =
     (case ioRates (dk_name d) of
        None \<Rightarrow> acc
      | Some r \<Rightarrow> Pool_Rates (rates_read acc + readBps r) (rates_write acc + writeBps r)
                    (rates_iops acc + (readIops r + writeIops r)))"

definition sumPoolRates :: "Pool \<Rightarrow> (string \<rightharpoonup> DiskIORates) \<Rightarrow> pool_rates" where
  "sumPoolRates pool ioRates = fold (add_disk_rates ioRates) (pool_disks pool) (Pool_Rates 0 0 0)"

definition disk_share :: "(string \<rightharpoonup> DiskIORates) \<Rightarrow> Disk \<Rightarrow> pool_rates" where
  "disk_share ioRates d =
     (case ioRates (dk_name d) of
        None \<Rightarrow> 0 | Some r \<Rightarrow> Pool_Rates (readBps r) (writeBps r) (readIops r + writeIops r))"

lemma add_disk_rates_share: "add_disk_rates ioRates d acc = acc + disk_share ioRates d"
  by (simp add: add_disk_rates_def disk_share_def plus_pool_rates_def zero_pool_rates_def split: option.splits)

lemma fold_disk_rates:
  "fold (add_disk_rates ioRates) ds acc = acc + sum_list (map (disk_share ioRates) ds)"
  by (induction ds arbitrary: acc) (simp_all add: add_disk_rates_share add.assoc)

lemma sumPoolRates_sum: "sumPoolRates pool ioRates = sum_list (map (disk_share ioRates) (pool_disks pool))"
  by (simp add: sumPoolRates_def fold_disk_rates zero_pool_rates_def [symmetric])

end
