(* ===== verification/Storage_View.thy ===== *)
theory Storage_View
  imports Storage_Page Samples
begin

text \<open>
  What the storage page renders (\<^verbatim>\<open>pages/StoragePage.tsx\<close>, \<^verbatim>\<open>StoragePage/PoolsTable.tsx\<close>,
  \<^verbatim>\<open>SubvolumesPanel.tsx\<close>, \<^verbatim>\<open>UnassignedDisks.tsx\<close>), the handlers it wires, and what the
  page promises. A JSX text or attribute \<^verbatim>\<open>\u2014\<close> is the six characters themselves; inside
  an expression it is the dash.
\<close>

datatype storage_act =
    Refresh_Storage
  | Toggle_Expand string
  | Mount_Pool Pool
  | Unmount_Pool Pool
  | Init_Folders Pool
  | Create_Subvolume
  | Delete_Subvolume string
  | Calculate_Usage

fun storage_dispatch :: "storage_act \<Rightarrow> storage_page \<Rightarrow> storage_page \<times> effect list" where
  "storage_dispatch Refresh_Storage s = (s, fetchStorage_start)"
| "storage_dispatch (Toggle_Expand uuid) s = (toggle_expanded uuid s, [])"
| "storage_dispatch (Mount_Pool p) s = execAction (onMount p) s"
| "storage_dispatch (Unmount_Pool p) s = execAction (onUnmount p) s"
| "storage_dispatch (Init_Folders p) s = execAction (onInitFolders p) s"
| "storage_dispatch Create_Subvolume s = execAction onCreateSubvolume s"
| "storage_dispatch (Delete_Subvolume path) s = onDeleteSubvolume path s"
| "storage_dispatch Calculate_Usage s = onCalculateUsage () s"

section \<open>PoolsTable\<close>

definition friendly_target :: "string \<Rightarrow> string" where
  "friendly_target target =
     (if target = ''foreground'' then ''Foreground''
      else if target = ''background'' then ''Background'' else str_or target ''none'')"

definition renderDiskRole :: "Disk \<Rightarrow> 'a view" where
  "renderDiskRole disk =
     (if dk_data_target disk = [] \<and> dk_metadata_target disk = [] then El ''span'' [] [Txt raw_u2014]
      else if dk_data_target disk = dk_metadata_target disk
      then El ''span'' [] [Txt (friendly_target (dk_data_target disk))]
      else El ''span'' [] [Txt (''D:'' @ friendly_target (dk_data_target disk)
             @ '' M:'' @ friendly_target (dk_metadata_target disk))])"

definition cell_text :: "string \<Rightarrow> 'a view" where
  "cell_text t = El ''TableCell'' [] [Txt t]"

definition usage_color :: "rat \<Rightarrow> string" where
  "usage_color pct =
     (if pct > 90 then ''var(--color-danger)'' else if pct > 75 then ''var(--color-warning)''
      else ''var(--color-success)'')"

definition action_button :: "string \<Rightarrow> 'a list \<Rightarrow> bool \<Rightarrow> string \<Rightarrow> string \<Rightarrow> 'a list view" where
  "action_button intent acts disabled label tip =
     El ''Tooltip'' []
       [El ''TooltipTrigger'' []
         [El ''Button''
            [(''intent'', PS intent), (''onPress'', Act acts), (''isDisabled'', PB disabled)] [Txt label]],
        El ''TooltipContent'' [] [Txt tip]]"

lemma offered_action_button [view_simps]:
  "offered (action_button i acts d l t) = (if d then {} else {acts})"
  by (simp add: action_button_def view_simps)

lemma offered_cell_text [view_simps]: "offered (cell_text t) = {}"
  by (simp add: cell_text_def view_simps)

definition pool_actions :: "bool \<Rightarrow> Pool \<Rightarrow> storage_act list view" where
  "pool_actions actionLoading pool =
     El ''TableCell'' []
       [El ''div'' []
         (if pool_state pool = ''mounted''
          then [action_button ''secondary'' [Init_Folders pool] actionLoading ''Init''
                  ''Set up the standard pool layout: media library, immich, tmp, and backup subvolumes with correct permissions.'',
                action_button ''danger'' [Unmount_Pool pool] actionLoading ''Unmount''
                  ''Unmount the pool. Services depending on it must be stopped first.'']
          else [action_button ''primary'' [Mount_Pool pool] actionLoading ''Mount''
                  (''Mount the pool at '' @ str_or (pool_mountdir pool) ''/pool'' @ ''.'')])]"

definition usage_cell :: "(PoolUsage \<Rightarrow> int) \<Rightarrow> Pool \<Rightarrow> 'a view" where
  "usage_cell field pool =
     cell_text (case pool_usage pool of None \<Rightarrow> em_dash | Some u \<Rightarrow> fmtBytes (of_int (field u)))"

definition pool_meter :: "Pool \<Rightarrow> 'a view" where
  "pool_meter pool =
     El ''TableCell'' []
       [case pool_usage pool of
          None \<Rightarrow> El ''span'' [] [Txt raw_u2014]
        | Some u \<Rightarrow>
            El ''Meter'' [(''value'', PN (Fin (pu_used_percent u))), (''color'', PS (usage_color (pu_used_percent u)))]
              [El ''div'' [] [El ''MeterValue'' [] [], El ''MeterTrack'' [] []]]]"

definition pool_row :: "storage_page \<Rightarrow> Pool \<Rightarrow> storage_act list view" where
  "pool_row s pool =
     (let rates = sumPoolRates pool (sg_ioRates s); mounted = (pool_state pool = ''mounted'') in
      El ''TableRow'' [(''id'', PS (pool_uuid pool))]
        [El ''TableCell'' []
           [El ''div'' []
             [El ''Button'' [(''intent'', PS ''secondary''), (''onPress'', Act [Toggle_Expand (pool_uuid pool)])]
                [El ''ChevronRight''
                   [(''className'', PS (if pool_uuid pool \<in> sg_expandedPools s then ''rotate-90'' else []))] []],
              El ''span'' [] [Txt (str_or (pool_name pool) (pool_uuid pool))]]],
         El ''TableCell'' []
           [El ''div'' []
             [El ''span'' []
                [El ''StatusDot'' [(''intent'', PS (if mounted then ''success'' else ''secondary''))] [],
                 Txt (if mounted then ''Mounted'' else ''Unmounted'')],
              El ''span'' [] [Txt (''D:'' @ show_int (pool_data_replicas pool)
                 @ '' M:'' @ show_int (pool_metadata_replicas pool))]]],
         cell_text (str_or (pool_mountdir pool) em_dash),
         usage_cell pu_total_bytes pool,
         usage_cell pu_used_bytes pool,
         usage_cell pu_available_bytes pool,
         pool_meter pool,
         cell_text (if mounted then fmtSpeed (rates_read rates) else em_dash),
         cell_text (if mounted then fmtSpeed (rates_write rates) else em_dash),
         cell_text (if mounted then show_int (math_round (rates_iops rates)) else em_dash),
         pool_actions (sg_actionLoading s) pool])"

definition no_rates :: DiskIORates where
  "no_rates = \<lparr>readBps = 0, writeBps = 0, readIops = 0, writeIops = 0\<rparr>"

definition disk_row :: "storage_page \<Rightarrow> Pool \<Rightarrow> Disk \<Rightarrow> storage_act list view" where
  "disk_row s pool disk =
     (let r = opt_or (sg_ioRates s (dk_name disk)) no_rates; hasIO = (dk_io disk \<noteq> None) in
      El ''TableRow'' [(''id'', PS (pool_uuid pool @ ''-disk-'' @ dk_name disk))]
        [El ''TableCell'' []
           [El ''div'' []
             [El ''HardDrive'' [] [],
              El ''span'' [(''title'', PS (dk_path disk))] [Txt (dk_name disk)]]],
         cell_text (str_or (dk_bcachefs_label disk) em_dash),
         cell_text (str_or (str_or (dk_friendly_name disk) (dk_model disk)) em_dash),
         cell_text (fmtBytes (of_int (dk_size disk))),
         El ''TableCell'' []
           [if dk_data_target disk \<noteq> [] \<or> dk_metadata_target disk \<noteq> [] then renderDiskRole disk else Txt em_dash],
         cell_text (case dk_io disk of None \<Rightarrow> em_dash | Some io \<Rightarrow> show_int (io_io_in_progress io)),
         cell_text raw_u2014,
         cell_text (if hasIO then fmtSpeed (readBps r) else em_dash),
         cell_text (if hasIO then fmtSpeed (writeBps r) else em_dash),
         cell_text (if hasIO then show_int (math_round (readIops r + writeIops r)) else em_dash),
         cell_text raw_u2014])"

definition pool_rows :: "storage_page \<Rightarrow> Pool \<Rightarrow> storage_act list view list" where
  "pool_rows s pool =
     pool_row s pool # (if pool_uuid pool \<in> sg_expandedPools s then map (disk_row s pool) (pool_disks pool) else [])"

definition pool_columns :: "string list" where
  "pool_columns = [''Pool / Disk'', ''State'', ''Mountpoint'', ''Capacity'', ''Used'', ''Free'', ''Usage'',
     ''Read'', ''Write'', ''IOPS'', ''Actions'']"

definition status_pools :: "storage_page \<Rightarrow> Pool list" where
  "status_pools s = (case sg_status s of None \<Rightarrow> [] | Some st \<Rightarrow> ss_pools st)"

definition PoolsTable :: "storage_page \<Rightarrow> storage_act list view" where
  "PoolsTable s =
     (if status_pools s = []
      then El ''div'' [] [El ''p'' [] [Txt ''No bcachefs storage pools detected.'']]
      else El ''Table'' [(''aria-label'', PS ''Storage Pools and Disks'')]
             [El ''TableHeader'' [] (map (\<lambda>c. El ''TableColumn'' [] [Txt c]) pool_columns),
              El ''TableBody'' [] (concat (map (pool_rows s) (status_pools s)))])"

section \<open>SubvolumesPanel and UnassignedDisks\<close>

definition subvolume_size :: "storage_page \<Rightarrow> Subvolume \<Rightarrow> 'a view" where
  "subvolume_size s sv =
     (let size = opt_or (sg_subvolumeSizes s (sv_path sv)) (sv_used_bytes sv)
      in if size = -1
         then El ''span'' [] [Txt (if sg_calculatingUsage s then ''Calculating...'' else ''Not calculated'')]
         else Txt (fmtBytes (of_int size)))"

definition subvolume_row :: "storage_page \<Rightarrow> Subvolume \<Rightarrow> storage_act list view" where
  "subvolume_row s sv =
     El ''TableRow'' [(''id'', PS (sv_id sv))]
       [cell_text (sv_id sv),
        cell_text (strip_prefix ''/pool/'' (sv_path sv)),
        El ''TableCell'' [] [subvolume_size s sv],
        El ''TableCell'' []
          [El ''Button''
             [(''intent'', PS ''danger''), (''onPress'', Act [Delete_Subvolume (sv_path sv)]),
              (''isDisabled'', PB (sg_actionLoading s))] [El ''Trash2'' [] []]]]"

definition noMountedPool :: "storage_page \<Rightarrow> bool" where
  "noMountedPool s \<longleftrightarrow> list_all (\<lambda>p. pool_state p \<noteq> ''mounted'') (status_pools s)"

definition SubvolumesPanel :: "storage_page \<Rightarrow> storage_act list view" where
  "SubvolumesPanel s =
     (let subvols = status_subvolumes s in
      El ''div'' []
        [El ''CardHeader'' []
           [El ''CardTitle'' [] [El ''FolderPlus'' [] [], Txt ''Subvolumes''],
            El ''CardAction'' []
              [El ''div'' []
                [El ''Button''
                   [(''intent'', PS ''secondary''), (''onPress'', Act [Calculate_Usage]),
                    (''isDisabled'', PB (sg_calculatingUsage s \<or> subvols = []))]
                   [Txt (if sg_calculatingUsage s then ''Calculating...'' else ''Calculate Usage'')],
                 El ''Button''
                   [(''intent'', PS ''primary''), (''onPress'', Act [Create_Subvolume]),
                    (''isDisabled'', PB (sg_actionLoading s \<or> noMountedPool s))] [Txt ''Create Subvolume'']]]],
         if subvols = []
         then El ''div'' []
                [El ''p'' [] [Txt ''No subvolumes detected. Ensure a pool is mounted to list subvolumes.'']]
         else El ''Table'' [(''aria-label'', PS ''Subvolumes'')]
                [El ''TableHeader'' [] (map (\<lambda>c. El ''TableColumn'' [] [Txt c]) [''ID'', ''Name'', ''Usage'', ''Actions'']),
                 El ''TableBody'' [] (map (subvolume_row s) subvols)]])"

definition unassigned_disk :: "Disk \<Rightarrow> 'a view" where
  "unassigned_disk d =
     El ''div'' []
       [El ''div'' []
          [El ''Server'' [] [],
           El ''div'' []
             [El ''span'' [] [Txt (dk_path d)],
              El ''span'' [(''title'', PS (str_or (dk_friendly_name d) (dk_model d)))]
                [Txt (str_or (str_or (dk_friendly_name d) (dk_model d)) ''Unknown model'')]]],
        El ''div'' [] [El ''span'' [] [Txt (fmtBytes (of_int (dk_size d)))]]]"

definition UnassignedDisks :: "Disk list \<Rightarrow> 'a view" where
  "UnassignedDisks disks =
     El ''div'' []
       [El ''CardHeader'' [] [El ''CardTitle'' [] [El ''Server'' [] [], Txt ''Unassigned Disks'']],
        if disks = [] then El ''div'' [] [El ''p'' [] [Txt ''No unassigned disks found.'']]
        else El ''div'' [] (map unassigned_disk disks)]"

section \<open>The page\<close>

definition pools_text :: "nat \<Rightarrow> string" where
  "pools_text n = show_nat n @ '' pool'' @ (if n \<noteq> 1 then ''s'' else [])"

definition storage_header :: "storage_page \<Rightarrow> storage_act list view" where
  "storage_header s =
     El ''div'' []
       [El ''div'' []
          [El ''h1'' [] [Txt ''Storage''],
           El ''p'' [] [Txt (if sg_queryLoading s \<and> sg_status s = None then ''Loading storage status...''
                             else pools_text (length (status_pools s)))]],
        El ''Button''
          [(''intent'', PS ''outline''), (''onPress'', Act [Refresh_Storage]), (''isDisabled'', PB (sg_queryLoading s))]
          [El ''RefreshCw'' [(''className'', PS (if sg_queryLoading s then ''animate-spin'' else []))] [],
           Txt ''Refresh'']]"

definition StoragePage :: "storage_page \<Rightarrow> storage_act list view" where
  "StoragePage s =
     El ''div'' []
       [storage_header s,
        El ''div'' []
          [El ''CardHeader'' []
             [El ''CardTitle'' [] [Txt ''Storage Pools''],
              El ''CardDescription'' []
                [Txt (if status_pools s \<noteq> [] then pools_text (length (status_pools s)) else ''No pools detected'')]],
           PoolsTable s],
        El ''div'' []
          [SubvolumesPanel s,
           UnassignedDisks (case sg_status s of None \<Rightarrow> [] | Some st \<Rightarrow> ss_unassigned st)]]"

section \<open>What the page offers\<close>

lemma offered_role [view_simps]: "offered (renderDiskRole d) = {}"
  by (simp add: renderDiskRole_def view_simps)

lemma offered_usage_cell [view_simps]: "offered (usage_cell f pool) = {}"
  by (simp add: usage_cell_def view_simps)

lemma offered_pool_meter [view_simps]: "offered (pool_meter pool) = {}"
  by (simp add: pool_meter_def view_simps split: option.splits)

lemma offered_disk_row [view_simps]: "offered (disk_row s pool disk) = {}"
  by (simp add: disk_row_def Let_def view_simps)

definition pool_handlers :: "storage_page \<Rightarrow> Pool \<Rightarrow> storage_act list set" where
  "pool_handlers s pool =
     {[Toggle_Expand (pool_uuid pool)]}
     \<union> (if sg_actionLoading s then {}
        else if pool_state pool = ''mounted'' then {[Init_Folders pool], [Unmount_Pool pool]}
        else {[Mount_Pool pool]})"

lemma offered_pool_row [view_simps]: "offered (pool_row s pool) = pool_handlers s pool"
  by (auto simp: pool_row_def pool_actions_def pool_handlers_def Let_def view_simps)

lemma offered_pool_rows: "(\<Union>v \<in> set (pool_rows s pool). offered v) = pool_handlers s pool"
  by (auto simp: pool_rows_def view_simps)

lemma offered_PoolsTable: "offered (PoolsTable s) = (\<Union>p \<in> set (status_pools s). pool_handlers s p)"
proof -
  have "(\<Union>v \<in> set (concat (map (pool_rows s) ps)). offered v) = (\<Union>p \<in> set ps. pool_handlers s p)" for ps
    by (induction ps) (simp_all add: offered_pool_rows)
  then show ?thesis by (simp add: PoolsTable_def view_simps)
qed

lemma offered_subvolume_row [view_simps]:
  "offered (subvolume_row s sv) = (if sg_actionLoading s then {} else {[Delete_Subvolume (sv_path sv)]})"
  by (simp add: subvolume_row_def subvolume_size_def Let_def view_simps)

lemma offered_SubvolumesPanel:
  "offered (SubvolumesPanel s) =
     (if sg_calculatingUsage s \<or> status_subvolumes s = [] then {} else {[Calculate_Usage]})
     \<union> (if sg_actionLoading s \<or> noMountedPool s then {} else {[Create_Subvolume]})
     \<union> (if sg_actionLoading s then {} else (\<lambda>sv. [Delete_Subvolume (sv_path sv)]) ` set (status_subvolumes s))"
  by (auto simp: SubvolumesPanel_def Let_def view_simps)

lemma offered_UnassignedDisks [view_simps]: "offered (UnassignedDisks ds) = {}"
  by (simp add: UnassignedDisks_def unassigned_disk_def view_simps)

lemma offered_StoragePage:
  "offered (StoragePage s) =
     (if sg_queryLoading s then {} else {[Refresh_Storage]})
     \<union> (\<Union>p \<in> set (status_pools s). pool_handlers s p) \<union> offered (SubvolumesPanel s)"
  by (simp add: StoragePage_def storage_header_def view_simps offered_PoolsTable)

section \<open>Properties\<close>

text \<open>C20. The storage page offers mounting only for an unmounted pool, unmounting and initialising only
  for a mounted one, creating a subvolume only with a pool mounted, and none of these nor a
  deletion while an action runs.\<close>

theorem storage_actions_guarded:
  assumes "[a] \<in> offered (StoragePage s)"
  shows "case a of
      Mount_Pool p \<Rightarrow> p \<in> set (status_pools s) \<and> pool_state p \<noteq> ''mounted'' \<and> \<not> sg_actionLoading s
    | Unmount_Pool p \<Rightarrow> p \<in> set (status_pools s) \<and> pool_state p = ''mounted'' \<and> \<not> sg_actionLoading s
    | Init_Folders p \<Rightarrow> p \<in> set (status_pools s) \<and> pool_state p = ''mounted'' \<and> \<not> sg_actionLoading s
    | Create_Subvolume \<Rightarrow> (\<exists>p \<in> set (status_pools s). pool_state p = ''mounted'') \<and> \<not> sg_actionLoading s
    | Delete_Subvolume path \<Rightarrow> path \<in> sv_path ` set (status_subvolumes s) \<and> \<not> sg_actionLoading s
    | Calculate_Usage \<Rightarrow> status_subvolumes s \<noteq> [] \<and> \<not> sg_calculatingUsage s
    | _ \<Rightarrow> True"
  using assms
  by (cases a)
    (auto simp: offered_StoragePage offered_SubvolumesPanel pool_handlers_def noMountedPool_def
      list_all_iff split: if_splits)

definition sample_pool :: Pool where
  "sample_pool = \<lparr>pool_uuid = ''u1'', pool_name = ''tank'', pool_state = ''mounted'', pool_mountdir = ''/pool'',
     pool_label = [], pool_data_replicas = 2, pool_metadata_replicas = 2, pool_disks = [], pool_usage = None\<rparr>"

definition sample_storage :: storage_page where
  "sample_storage = storage_init\<lparr>sg_status := Some \<lparr>ss_pools = [sample_pool], ss_unassigned = [], ss_subvolumes = []\<rparr>\<rparr>"

theorem storage_actions_guarded_witness:
  "sample_pool \<in> set (status_pools sample_storage) \<and> pool_state sample_pool = ''mounted''"
proof -
  have "[Unmount_Pool sample_pool] \<in> offered (StoragePage sample_storage)"
    by (simp add: offered_StoragePage pool_handlers_def status_pools_def sample_storage_def storage_init_def sample_pool_def)
  from storage_actions_guarded [OF this] show ?thesis by simp
qed


definition sample_io :: "int \<Rightarrow> DiskIOStats" where
  "sample_io n = \<lparr>io_device_name = ''sda'', io_read_ios = n, io_write_ios = 0, io_read_sectors = 10 * n,
     io_write_sectors = 0, io_io_in_progress = 0\<rparr>"

definition sample_disk :: "int \<Rightarrow> Disk" where
  "sample_disk n = \<lparr>dk_name = ''sda'', dk_path = ''/dev/sda'', dk_size = 1000, dk_type = ''disk'', dk_model = [],
     dk_serial = [], dk_fstype = [], dk_mountpoint = [], dk_label = [], dk_has_children = None,
     dk_bcachefs_label = [], dk_data_target = [], dk_metadata_target = [], dk_io = Some (sample_io n),
     dk_friendly_name = []\<rparr>"




text \<open>A pool without usage shows the escape sequence of the dash as text in its usage column.\<close>

lemma pool_shows_raw_escape:
  assumes "pool \<in> set (status_pools s)" "pool_usage pool = None"
  shows "raw_u2014 \<in> set (text_of (StoragePage s))"
proof -
  have "raw_u2014 \<in> set (text_of (pool_row s pool))"
    using assms(2) by (simp add: pool_row_def pool_meter_def Let_def prop_is_def)
  then have "raw_u2014 \<in> set (text_of (PoolsTable s))"
    using assms(1) by (force simp: PoolsTable_def pool_rows_def prop_is_def)
  then show ?thesis by (simp add: StoragePage_def prop_is_def)
qed

end
