(* ===== verification/Search_Params.thy ===== *)
theory Search_Params
  imports JS_Uri
begin

text \<open>
  \<open>URLSearchParams\<close> as the pages use it: an ordered list of pairs. The locale is the contract
  of its \<open>get\<close>, \<open>set\<close> and \<open>delete\<close>; what a batch of updates does is proved inside it.
\<close>

type_synonym search_params = "(string \<times> string) list"

definition params_get :: "search_params \<Rightarrow> string \<Rightarrow> string option" where
  "params_get ps k = map_of ps k"

definition params_delete :: "string \<Rightarrow> search_params \<Rightarrow> search_params" where
  "params_delete k ps = filter (\<lambda>p. fst p \<noteq> k) ps"

text \<open>\<open>set\<close> replaces the first value of the name, drops its others, or appends.\<close>

fun params_set :: "string \<Rightarrow> string \<Rightarrow> search_params \<Rightarrow> search_params" where
  "params_set k v [] = [(k, v)]"
| "params_set k v ((k', v') # ps) =
     (if k' = k then (k, v) # params_delete k ps else (k', v') # params_set k v ps)"

section \<open>The contract\<close>

locale param_store =
  fixes get :: "'s \<Rightarrow> string \<Rightarrow> string option"
    and set_param :: "string \<Rightarrow> string \<Rightarrow> 's \<Rightarrow> 's"
    and delete :: "string \<Rightarrow> 's \<Rightarrow> 's"
  assumes get_set: "get (set_param k v p) k' = (if k' = k then Some v else get p k')"
    and get_delete: "get (delete k p) k' = (if k' = k then None else get p k')"
begin

text \<open>One entry of a batch: a null or empty value deletes the name.\<close>

definition update :: "string \<times> string option \<Rightarrow> 's \<Rightarrow> 's" where
  "update kv p = (case snd kv of None \<Rightarrow> delete (fst kv) p
     | Some v \<Rightarrow> if v = [] then delete (fst kv) p else set_param (fst kv) v p)"

lemma get_update:
  "get (update kv p) k =
     (if k = fst kv then (case snd kv of None \<Rightarrow> None | Some v \<Rightarrow> if v = [] then None else Some v) else get p k)"
  by (auto simp: update_def get_set get_delete split: option.splits)

lemma get_updates_other: "k \<notin> fst ` set us \<Longrightarrow> get (fold update us p) k = get p k"
  by (induction us arbitrary: p) (auto simp: get_update)

lemma get_updates:
  "distinct (map fst us) \<Longrightarrow> (k, v) \<in> set us \<Longrightarrow>
     get (fold update us p) k = (case v of None \<Rightarrow> None | Some w \<Rightarrow> if w = [] then None else Some w)"
proof (induction us arbitrary: p)
  case (Cons u us)
  show ?case
  proof (cases "u = (k, v)")
    case True
    with Cons.prems have "k \<notin> fst ` set us" by auto
    with True show ?thesis by (simp add: get_updates_other get_update)
  next
    case False
    with Cons show ?thesis by auto
  qed
qed simp

end

lemma params_get_delete: "params_get (params_delete k ps) k' = (if k' = k then None else params_get ps k')"
  by (induction ps) (auto simp: params_get_def params_delete_def)

interpretation url_params: param_store params_get params_set params_delete
proof
  fix k v p k'
  show "params_get (params_set k v p) k' = (if k' = k then Some v else params_get p k')"
  proof (induction k v p rule: params_set.induct)
    case (2 k v k1 v1 ps)
    then show ?case using params_get_delete [of k ps k'] by (cases "k1 = k") (auto simp: params_get_def)
  qed (simp add: params_get_def)
  show "params_get (params_delete k p) k' = (if k' = k then None else params_get p k')"
    by (rule params_get_delete)
qed

section \<open>Parsing and printing a query string\<close>

text \<open>Percent-decoding leaves an incomplete escape as it is; \<open>+\<close> is a space.\<close>

fun percent_decode :: "string \<Rightarrow> string" where
  "percent_decode [] = []"
| "percent_decode (c # s) =
     (if c \<noteq> CHR ''%'' then c # percent_decode s
      else (case s of
          h # l # r \<Rightarrow>
            (case (hex_value h, hex_value l) of
               (Some a, Some b) \<Rightarrow> char_of (16 * a + b) # percent_decode r
             | _ \<Rightarrow> c # percent_decode s)
        | _ \<Rightarrow> c # percent_decode s))"

definition form_decode :: "string \<Rightarrow> string" where
  "form_decode s = percent_decode (map (\<lambda>c. if c = CHR ''+'' then CHR '' '' else c) s)"

definition parse_pair :: "string \<Rightarrow> string \<times> string" where
  "parse_pair s =
     (form_decode (takeWhile (\<lambda>c. c \<noteq> CHR ''='') s), form_decode (drop 1 (dropWhile (\<lambda>c. c \<noteq> CHR ''='') s)))"

definition parse_params :: "string \<Rightarrow> search_params" where
  "parse_params s = map parse_pair (filter (\<lambda>p. p \<noteq> []) (split_on (CHR ''&'') s))"

definition form_char :: "char \<Rightarrow> string" where
  "form_char c =
     (if c = CHR '' '' then ''+''
      else if is_upper c \<or> is_lower c \<or> is_digit c \<or> c \<in> {CHR ''*'', CHR ''-'', CHR ''.'', CHR ''_''} then [c]
      else [CHR ''%'', hex_digit (code c div 16), hex_digit (code c mod 16)])"

definition form_encode :: "string \<Rightarrow> string" where
  "form_encode s = concat (map form_char s)"

definition params_text :: "search_params \<Rightarrow> string" where
  "params_text ps = js_join ''&'' (map (\<lambda>(k, v). form_encode k @ ''='' @ form_encode v) ps)"

lemma percent_decode_unescape: "unescape s = Some t \<Longrightarrow> percent_decode s = t"
proof (induction s arbitrary: t rule: unescape.induct)
  case 1
  then show ?case by simp
next
  case (2 c s)
  show ?case
  proof (cases "c = CHR ''%''")
    case False
    with 2 show ?thesis by auto
  next
    case True
    with 2(3) obtain h l r where s: "s = h # l # r"
      by (simp split: list.split_asm)
    with True 2(3) obtain a b u where h: "hex_value h = Some a" "hex_value l = Some b" "unescape r = Some u"
      and t: "t = char_of (16 * a + b) # u"
      by (simp split: option.split_asm) blast
    have "percent_decode r = u" using 2(2) True s h by simp
    then show ?thesis using True s h t by simp
  qed
qed

lemma encoded_no_special:
  "c \<in> {CHR ''+'', CHR ''&'', CHR ''=''} \<Longrightarrow> c \<notin> set (encodeURIComponent s)"
  using encoded_chars [of c s]
  by (auto simp: uri_unreserved_def is_upper_def is_lower_def is_digit_def)

lemma form_decode_encode: "form_decode (encodeURIComponent s) = s"
proof -
  have "map (\<lambda>c. if c = CHR ''+'' then CHR '' '' else c) (encodeURIComponent s) = encodeURIComponent s"
    using encoded_no_special [of "CHR ''+''" s] by (intro map_idI) auto
  then show ?thesis by (simp add: form_decode_def percent_decode_unescape unescape_encode)
qed

text \<open>A query of one pair with an encoded value.\<close>

lemma parse_single:
  assumes "k \<noteq> []" "\<forall>c \<in> set k. is_lower c"
  shows "parse_params (k @ ''='' @ encodeURIComponent v) = [(k, v)]"
proof -
  have low: "CHR ''&'' \<notin> set k" "CHR ''='' \<notin> set k" "CHR ''+'' \<notin> set k" "CHR ''%'' \<notin> set k"
    using assms(2) by (auto simp: is_lower_def)
  then have "split_on (CHR ''&'') (k @ ''='' @ encodeURIComponent v) = [k @ ''='' @ encodeURIComponent v]"
    using encoded_no_special [of "CHR ''&''" v] by (intro split_on_free) auto
  moreover have "takeWhile (\<lambda>c. c \<noteq> CHR ''='') (k @ ''='' @ encodeURIComponent v) = k"
    using low by (subst takeWhile_append2) auto
  moreover have "dropWhile (\<lambda>c. c \<noteq> CHR ''='') (k @ ''='' @ encodeURIComponent v) = ''='' @ encodeURIComponent v"
    using low by (subst dropWhile_append2) auto
  moreover have "form_decode k = k"
  proof -
    have "map (\<lambda>c. if c = CHR ''+'' then CHR '' '' else c) k = k" using low by (intro map_idI) auto
    then show ?thesis
      using low by (simp add: form_decode_def percent_decode_unescape unescape_no_percent)
  qed
  ultimately show ?thesis using assms(1) by (simp add: parse_params_def parse_pair_def form_decode_encode)
qed

end
