(* ===== verification/Logs_Page.thy ===== *)
theory Logs_Page
  imports Search_Params React_View JS_Numbers "HOL-Library.AList"
begin

text \<open>
  \<^verbatim>\<open>pages/LogsPage.tsx\<close> and \<^verbatim>\<open>types/log-viewer.ts\<close>: the query text, the time window, the
  query hook with its abort controllers and the delayed end of the loading state, and the
  parameters in the URL. Dates, their texts and \<open>JSON.parse\<close> are parameters.
\<close>

section \<open>Configuration and lines\<close>

datatype field_type = Field_Enum | Field_Text | Field_Number

record Log_Field =
  lf_name :: string
  lf_label :: string
  lf_type :: field_type
  lf_values :: "(string list) option"

record Log_Service =
  lc_id :: string
  lc_label :: string
  lc_selector :: string
  lc_fields :: "Log_Field list"
  lc_format :: string

record Log_Config =
  lv_defaultMode :: string
  lv_defaultWindow :: string
  lv_maxLines :: nat
  lv_services :: "Log_Service list"

record LogLine =
  ll_time :: "string option"
  ll_level :: "string option"
  ll_module :: "string option"
  ll_kind :: "string option"
  ll_msg :: "string option"
  ll_unit :: "string option"

definition LEVEL_BADGE :: "string \<Rightarrow> string option" where
  "LEVEL_BADGE l =
     map_of [(''error'', ''danger''), (''warn'', ''warning''), (''info'', ''primary''), (''debug'', ''secondary'')] l"

definition formatLevel :: "string option \<Rightarrow> string" where
  "formatLevel level = toUpperCase (opt_str level)"

definition PRESETS :: "(string \<times> string) list" where
  "PRESETS = [(''Last 5m'', ''5m''), (''Last 15m'', ''15m''), (''Last 1h'', ''1h''), (''Last 6h'', ''6h''), (''Last 24h'', ''24h'')]"

section \<open>Time window\<close>

text \<open>\<open>window.match(/^(\d+)(m|h|d)$/)\<close>: the number and the milliseconds of the unit.\<close>

definition unit_ms :: "char \<Rightarrow> int option" where
  "unit_ms c =
     (if c = CHR ''m'' then Some 60000 else if c = CHR ''h'' then Some 3600000
      else if c = CHR ''d'' then Some 86400000 else None)"

definition window_ms :: "string \<Rightarrow> int option" where
  "window_ms w =
     (let ds = takeWhile is_digit w; r = dropWhile is_digit w
      in if ds = [] then None
         else (case r of [c] \<Rightarrow> map_option (\<lambda>u. int (digits_val ds) * u) (unit_ms c) | _ \<Rightarrow> None))"

text \<open>\<open>now1\<close> and \<open>now2\<close> are the two readings of the clock; \<open>iso_text\<close> is \<open>toISOString\<close>.\<close>

definition windowToRange :: "(int \<Rightarrow> string) \<Rightarrow> int \<Rightarrow> int \<Rightarrow> string \<Rightarrow> string \<times> string" where
  "windowToRange iso_text now1 now2 w =
     (case window_ms w of None \<Rightarrow> ([], []) | Some ms \<Rightarrow> (iso_text (now1 - ms), iso_text now2))"

section \<open>Query text\<close>

text \<open>\<open>s.slice(1, -1)\<close>\<close>

definition slice_inner :: "string \<Rightarrow> string" where
  "slice_inner s = take (length s - 2) (drop 1 s)"

definition filter_text :: "(string \<times> string) list \<Rightarrow> string" where
  "filter_text fs = js_join '', '' (map (\<lambda>(k, v). k @ ''='' @ quote @ v @ quote) fs)"

definition log_selector :: "string \<Rightarrow> (string \<times> string) list \<Rightarrow> string" where
  "log_selector selector filters =
     (let fs = filter (\<lambda>p. snd p \<noteq> []) filters; inner = slice_inner selector
      in if fs = [] then selector
         else ''{'' @ inner @ (if js_trim inner \<noteq> [] then '', '' else []) @ filter_text fs @ ''}'')"

definition log_query_text :: "string \<Rightarrow> (string \<times> string) list \<Rightarrow> string \<Rightarrow> string" where
  "log_query_text selector filters textQuery =
     (let sel = log_selector selector filters
      in if js_trim textQuery \<noteq> [] then sel @ '' '' @ js_trim textQuery else sel)"

definition query_params :: "string \<Rightarrow> nat \<Rightarrow> string \<times> string \<Rightarrow> search_params" where
  "query_params query maxLines rng =
     (let p = [(''query'', query), (''limit'', show_nat maxLines)];
          p1 = (if fst rng \<noteq> [] then params_set ''start'' (fst rng) p else p)
      in if snd rng \<noteq> [] then params_set ''end'' (snd rng) p1 else p1)"

definition query_url :: "search_params \<Rightarrow> string" where
  "query_url ps = ''/api/victorialogs/select/logsql/query?'' @ params_text ps"

section \<open>The body: one JSON text per line\<close>

definition nonempty_lines :: "string \<Rightarrow> string list" where
  "nonempty_lines body = filter (\<lambda>t. t \<noteq> []) (map js_trim (split_on (CHR 0x0A) body))"

definition parse_lines :: "(string \<Rightarrow> 'l option) \<Rightarrow> string \<Rightarrow> 'l list" where
  "parse_lines parse body =
     concat (map (\<lambda>t. case parse t of None \<Rightarrow> [] | Some l \<Rightarrow> [l]) (nonempty_lines body))"

definition download_text :: "('l \<Rightarrow> string) \<Rightarrow> 'l list \<Rightarrow> string" where
  "download_text stringify ls = js_join [CHR 0x0A] (map stringify ls)"

lemma parse_download:
  assumes "\<forall>l \<in> set ls. parse (stringify l) = Some l \<and> stringify l \<noteq> [] \<and> trimmed (stringify l)
    \<and> CHR 0x0A \<notin> set (stringify l)"
  shows "parse_lines parse (download_text stringify ls) = ls"
proof (cases ls)
  case Nil
  then show ?thesis by (simp add: parse_lines_def nonempty_lines_def download_text_def js_trim_def)
next
  case (Cons x xs)
  have 1: "split_on (CHR 0x0A) (js_join [CHR 0x0A] (map stringify (x # xs))) = map stringify (x # xs)"
    using assms Cons split_on_join [of "stringify x" "map stringify xs" "CHR 0x0A" "[]"]
    by (auto simp: list.map_ident)
  have 2: "map js_trim (map stringify (x # xs)) = map stringify (x # xs)"
    using assms Cons by (intro map_idI) (auto simp: js_trim_trimmed)
  have 3: "filter (\<lambda>t. t \<noteq> []) (map stringify (x # xs)) = map stringify (x # xs)"
    using assms Cons by (intro filter_True) auto
  have "nonempty_lines (download_text stringify ls) = map stringify ls"
    unfolding nonempty_lines_def download_text_def Cons by (simp only: 1 2 3)
  moreover have "concat (map (\<lambda>t. case parse t of None \<Rightarrow> [] | Some l \<Rightarrow> [l]) (map stringify ls)) = ls"
    using assms by (induction ls) auto
  ultimately show ?thesis by (simp add: parse_lines_def)
qed

section \<open>useLogQuery\<close>

text \<open>
  The state of the hook with what the browser holds for it: the requests in flight and the
  timers that will end the loading state. A controller is a number.
\<close>

record 'l log_query =
  lq_lines :: "'l list"
  lq_isLoading :: bool
  lq_error :: "string option"
  lq_controller :: "nat option"
  lq_aborted :: "nat set"
  lq_startedAt :: int
  lq_pending :: "nat set"
  lq_timers :: nat
  lq_next :: nat

definition log_query_init :: "'l log_query" where
  "log_query_init = \<lparr>lq_lines = [], lq_isLoading = False, lq_error = None, lq_controller = None,
     lq_aborted = {}, lq_startedAt = 0, lq_pending = {}, lq_timers = 0, lq_next = 0\<rparr>"

definition abort_current :: "'l log_query \<Rightarrow> 'l log_query" where
  "abort_current s = s\<lparr>lq_aborted := set_option (lq_controller s) \<union> lq_aborted s\<rparr>"

definition doneLoading :: "int \<Rightarrow> 'l log_query \<Rightarrow> 'l log_query" where
  "doneLoading now s =
     (if now - lq_startedAt s < 300 then s\<lparr>lq_timers := lq_timers s + 1\<rparr> else s\<lparr>lq_isLoading := False\<rparr>)"

definition loading_timer :: "'l log_query \<Rightarrow> 'l log_query" where
  "loading_timer s = s\<lparr>lq_timers := lq_timers s - 1, lq_isLoading := False\<rparr>"

definition fetchLogs :: "int \<Rightarrow> string \<Rightarrow> 'l log_query \<Rightarrow> 'l log_query \<times> effect list" where
  "fetchLogs now url s =
     (let s1 = abort_current s; c = lq_next s1
      in (s1\<lparr>lq_controller := Some c, lq_next := c + 1, lq_isLoading := True, lq_startedAt := now,
             lq_error := None, lq_pending := insert c (lq_pending s1)\<rparr>,
          [Fetch ''GET'' url None]))"

text \<open>
  The request of controller \<open>c\<close> settles. After an abort its promise rejects with an
  \<open>AbortError\<close>, or its body arrives and is dropped: nothing happens either way.
\<close>

definition log_settle ::
  "(string \<Rightarrow> 'l option) \<Rightarrow> int \<Rightarrow> nat \<Rightarrow> unit outcome \<Rightarrow> 'l log_query \<Rightarrow> 'l log_query" where
  "log_settle parse now c r s =
     (let s1 = s\<lparr>lq_pending := lq_pending s - {c}\<rparr>
      in if c \<in> lq_aborted s1 then s1
         else (case r of
             Rejected e \<Rightarrow> doneLoading now (s1\<lparr>lq_error := Some e\<rparr>)
           | Resolved resp \<Rightarrow>
               if \<not> resp_ok resp
               then doneLoading now (s1\<lparr>lq_error := Some (''HTTP '' @ show_nat (r_status resp))\<rparr>)
               else doneLoading now (s1\<lparr>lq_lines := parse_lines parse (r_text resp)\<rparr>)))"

text \<open>
  The effects: a change of the query aborts and fetches, one of the service also clears the
  lines; the interval fetches; an unmount aborts.
\<close>

inductive log_step :: "(string \<Rightarrow> 'l option) \<Rightarrow> 'l log_query \<Rightarrow> 'l log_query \<Rightarrow> bool" for parse where
  fetch: "fetchLogs now url s = (t, es) \<Longrightarrow> log_step parse s t"
| query_change: "fetchLogs now url (abort_current s) = (t, es) \<Longrightarrow> log_step parse s t"
| service_change: "fetchLogs now url (abort_current s) = (t, es) \<Longrightarrow> log_step parse s (t\<lparr>lq_lines := []\<rparr>)"
| settles: "c \<in> lq_pending s \<Longrightarrow> log_step parse s (log_settle parse now c r s)"
| timer: "0 < lq_timers s \<Longrightarrow> log_step parse s (loading_timer s)"
| leave: "log_step parse s (abort_current s)"

inductive log_reachable :: "(string \<Rightarrow> 'l option) \<Rightarrow> 'l log_query \<Rightarrow> bool" for parse where
  log_start: "log_reachable parse log_query_init"
| log_next: "log_reachable parse s \<Longrightarrow> log_step parse s t \<Longrightarrow> log_reachable parse t"

inductive_cases log_stepE: "log_step parse s t"

text \<open>Every request in flight that is not aborted is the current controller's.\<close>

definition log_inv :: "'l log_query \<Rightarrow> bool" where
  "log_inv s \<longleftrightarrow> (\<forall>c \<in> lq_pending s. c \<notin> lq_aborted s \<longrightarrow> lq_controller s = Some c)
     \<and> (\<forall>c \<in> lq_pending s \<union> lq_aborted s \<union> set_option (lq_controller s). c < lq_next s)"

lemma doneLoading_frame [simp]:
  "lq_lines (doneLoading now s) = lq_lines s" "lq_error (doneLoading now s) = lq_error s"
  "lq_pending (doneLoading now s) = lq_pending s" "lq_aborted (doneLoading now s) = lq_aborted s"
  "lq_controller (doneLoading now s) = lq_controller s" "lq_next (doneLoading now s) = lq_next s"
  by (simp_all add: doneLoading_def)

lemma log_inv_abort: "log_inv s \<Longrightarrow> log_inv (abort_current s)"
  by (auto simp: log_inv_def abort_current_def)

lemma log_inv_fetch: "log_inv s \<Longrightarrow> fetchLogs now url s = (t, es) \<Longrightarrow> log_inv t"
  by (fastforce simp: log_inv_def fetchLogs_def abort_current_def Let_def less_Suc_eq)

lemma log_inv_settle: "log_inv s \<Longrightarrow> log_inv (log_settle parse now c r s)"
  by (auto simp: log_inv_def log_settle_def Let_def split: outcome.splits)

lemma log_step_inv: "log_step parse s t \<Longrightarrow> log_inv s \<Longrightarrow> log_inv t"
proof (erule log_stepE)
  show "log_inv s \<Longrightarrow> t = loading_timer s \<Longrightarrow> log_inv t" by (simp add: log_inv_def loading_timer_def)
  fix now url t' es
  show "log_inv s \<Longrightarrow> t = t'\<lparr>lq_lines := []\<rparr> \<Longrightarrow> fetchLogs now url (abort_current s) = (t', es) \<Longrightarrow> log_inv t"
    using log_inv_fetch [OF log_inv_abort, of s now url t' es] by (simp add: log_inv_def)
qed (auto intro: log_inv_abort log_inv_fetch log_inv_settle)

lemma log_reachable_inv: "log_reachable parse s \<Longrightarrow> log_inv s"
proof (induction rule: log_reachable.induct)
  case log_start
  show ?case by (simp add: log_inv_def log_query_init_def)
next
  case (log_next s t)
  then show ?case using log_step_inv by blast
qed

section \<open>The URL state of the page\<close>

definition active_service_id :: "Log_Config \<Rightarrow> search_params \<Rightarrow> string" where
  "active_service_id config ps = str_or (opt_str (params_get ps ''service'')) (lc_id (hd (lv_services config)))"

definition activeService :: "Log_Config \<Rightarrow> search_params \<Rightarrow> Log_Service" where
  "activeService config ps =
     opt_or (find (\<lambda>s. lc_id s = active_service_id config ps) (lv_services config)) (hd (lv_services config))"

definition url_text_query :: "search_params \<Rightarrow> string" where
  "url_text_query ps = opt_str (params_get ps ''q'')"

definition windowPreset :: "Log_Config \<Rightarrow> search_params \<Rightarrow> string" where
  "windowPreset config ps = str_or (opt_str (params_get ps ''window'')) (lv_defaultWindow config)"

definition add_field_filter ::
  "search_params \<Rightarrow> Log_Field \<Rightarrow> (string \<times> string) list \<Rightarrow> (string \<times> string) list" where
  "add_field_filter ps field acc =
     (case params_get ps (lf_name field) of
        None \<Rightarrow> acc
      | Some v \<Rightarrow> if v = [] then acc else AList.update (lf_name field) v acc)"

definition fieldFilters :: "Log_Config \<Rightarrow> search_params \<Rightarrow> (string \<times> string) list" where
  "fieldFilters config ps = fold (add_field_filter ps) (lc_fields (activeService config ps)) []"

definition updateParams :: "(string \<times> string option) list \<Rightarrow> search_params \<Rightarrow> search_params" where
  "updateParams updates ps = fold url_params.update updates ps"

definition initial_params :: "Log_Config \<Rightarrow> search_params \<Rightarrow> search_params" where
  "initial_params config ps =
     (if params_get ps ''service'' = None
      then updateParams [(''service'', Some (lc_id (hd (lv_services config))))] ps else ps)"

text \<open>The updates of a service tab: the new service, and none of its fields filtered.\<close>

definition tab_updates :: "Log_Config \<Rightarrow> Log_Service \<Rightarrow> (string \<times> string option) list" where
  "tab_updates config svc =
     fold (\<lambda>f acc. AList.update (lf_name f) None acc)
       (case find (\<lambda>s. lc_id s = lc_id svc) (lv_services config) of None \<Rightarrow> [] | Some s \<Rightarrow> lc_fields s)
       [(''service'', Some (lc_id svc))]"

definition clear_updates :: "Log_Service \<Rightarrow> (string \<times> string option) list" where
  "clear_updates svc =
     AList.update ''q'' None (fold (\<lambda>f acc. AList.update (lf_name f) None acc) (lc_fields svc) [])"

lemma fold_update_None:
  "distinct (map fst (acc :: (string \<times> string option) list)) \<Longrightarrow>
     distinct (map fst (fold (\<lambda>f acc. AList.update (lf_name f) None acc) fs acc))
     \<and> map_of (fold (\<lambda>f acc. AList.update (lf_name f) None acc) fs acc) k =
         (if k \<in> lf_name ` set fs then Some None else map_of acc k)"
proof (induction fs arbitrary: acc)
  case (Cons f fs)
  then have "distinct (map fst (AList.update (lf_name f) None acc))" by (simp add: distinct_update)
  from Cons.IH [OF this] show ?case by (auto simp: update_conv')
qed simp

lemma add_filters_none:
  "(\<forall>f \<in> set fs. params_get ps (lf_name f) = None) \<Longrightarrow> fold (add_field_filter ps) fs acc = acc"
  by (induction fs arbitrary: acc) (simp_all add: add_field_filter_def)

text \<open>What a batch with distinct names leaves for a name.\<close>

lemma get_updateParams:
  assumes "distinct (map fst us)" "map_of us k = Some v"
  shows "params_get (updateParams us ps) k = (case v of None \<Rightarrow> None | Some w \<Rightarrow> if w = [] then None else Some w)"
  unfolding updateParams_def using assms by (intro url_params.get_updates) (auto dest: map_of_SomeD)

end
