(* ===== verification/Logs_View.thy ===== *)
theory Logs_View
  imports Logs_Page Hooks
begin

text \<open>
  What \<^verbatim>\<open>pages/LogsPage.tsx\<close> renders and wires, and what the log page promises.
\<close>

datatype log_act =
    Log_Refetch
  | Log_Download
  | Log_Update "(string \<times> string option) list"
  | Log_Local_Query string

record logs_page =
  lp_params :: search_params
  lp_localQuery :: string
  lp_debouncedQuery :: string
  lp_debouncing :: bool

definition logs_init :: "Log_Config \<Rightarrow> search_params \<Rightarrow> logs_page" where
  "logs_init config ps =
     \<lparr>lp_params = initial_params config ps, lp_localQuery = url_text_query ps,
      lp_debouncedQuery = url_text_query ps, lp_debouncing = True\<rparr>"

fun logs_dispatch :: "log_act \<Rightarrow> logs_page \<Rightarrow> logs_page" where
  "logs_dispatch (Log_Update us) s = s\<lparr>lp_params := updateParams us (lp_params s)\<rparr>"
| "logs_dispatch (Log_Local_Query v) s = s\<lparr>lp_localQuery := v, lp_debouncing := True\<rparr>"
| "logs_dispatch Log_Refetch s = s"
| "logs_dispatch Log_Download s = s"

definition debounce_fires :: "logs_page \<Rightarrow> logs_page" where
  "debounce_fires s = s\<lparr>lp_debouncedQuery := lp_localQuery s, lp_debouncing := False\<rparr>"

text \<open>The query the hook sends for the state of the page.\<close>

definition page_query :: "Log_Config \<Rightarrow> logs_page \<Rightarrow> string" where
  "page_query config s =
     log_query_text (lc_selector (activeService config (lp_params s))) (fieldFilters config (lp_params s))
       (lp_debouncedQuery s)"

definition handleDownload :: "('l \<Rightarrow> string) \<Rightarrow> int \<Rightarrow> Log_Service \<Rightarrow> 'l list \<Rightarrow> effect list" where
  "handleDownload stringify now svc ls =
     (if ls = [] then []
      else [Download (''logs-'' @ lc_id svc @ ''-'' @ show_int now @ ''.ndjson'') (download_text stringify ls)])"

section \<open>Rows and filters\<close>

definition LogLineRow :: "(string \<Rightarrow> string) \<Rightarrow> LogLine \<Rightarrow> 'a view" where
  "LogLineRow format_time line =
     (let time = (case ll_time line of None \<Rightarrow> [] | Some t \<Rightarrow> if t = [] then [] else format_time t);
          level = formatLevel (ll_level line);
          badge = opt_or (LEVEL_BADGE (opt_str (ll_level line))) ''default''
      in El ''div'' []
           (El ''span'' [] [Txt time]
            # vwhen (level \<noteq> []) [El ''Badge'' [(''intent'', PS badge)] [Txt level]]
            @ vwhen (opt_str (ll_module line) \<noteq> []) [El ''span'' [] [Txt (opt_str (ll_module line))]]
            @ [El ''span'' [] [Txt (opt_str (ll_msg line))]]))"

definition FieldFilter :: "Log_Field \<Rightarrow> string \<Rightarrow> (string \<Rightarrow> 'a) \<Rightarrow> 'a view" where
  "FieldFilter field val onChange =
     (if lf_type field = Field_Enum \<and> opt_or (lf_values field) [] \<noteq> []
      then El ''div'' []
             [El ''label'' [] [Txt (lf_label field)],
              El ''select'' [(''value'', PS val), (''onChange'', ActS onChange)]
                (El ''option'' [(''value'', PS [])] [Txt ''All'']
                 # map (\<lambda>v. El ''option'' [(''value'', PS v)] [Txt v]) (opt_or (lf_values field) []))]
      else El ''div'' []
             [El ''label'' [] [Txt (lf_label field)],
              El ''Input'' [(''placeholder'', PS (lf_label field)), (''value'', PS val), (''onChange'', ActS onChange)] []])"

definition or_null :: "string \<Rightarrow> string option" where
  "or_null v = (if v = [] then None else Some v)"

definition window_field :: Log_Field where
  "window_field = \<lparr>lf_name = ''window'', lf_label = ''Window'', lf_type = Field_Enum, lf_values = Some (map snd PRESETS)\<rparr>"

section \<open>The page\<close>

definition logs_header :: "'l log_query \<Rightarrow> log_act list view" where
  "logs_header q =
     El ''div'' []
       [El ''h1'' [] [Txt ''Logs''],
        El ''div'' []
          [El ''Button''
             [(''intent'', PS ''outline''), (''onPress'', Act [Log_Refetch]), (''isDisabled'', PB (lq_isLoading q))]
             [El ''RefreshCw'' [(''className'', PS (if lq_isLoading q then ''animate-spin'' else []))] [],
              Txt (if lq_isLoading q then ''Loading...'' else ''Refresh'')],
           El ''Button''
             [(''intent'', PS ''outline''), (''onPress'', Act [Log_Download]), (''isDisabled'', PB (lq_lines q = []))]
             [El ''Download'' [] [], Txt ''Download'']]]"

definition service_tab :: "Log_Config \<Rightarrow> Log_Service \<Rightarrow> Log_Service \<Rightarrow> log_act list view" where
  "service_tab config active svc =
     El ''Button''
       [(''intent'', PS (if lc_id active = lc_id svc then ''primary'' else ''outline'')),
        (''onPress'', Act [Log_Update (tab_updates config svc)])]
       [Txt (lc_label svc)]"

definition has_filters :: "(string \<times> string) list \<Rightarrow> string \<Rightarrow> bool" where
  "has_filters filters localQuery \<longleftrightarrow> (\<exists>p \<in> set filters. snd p \<noteq> []) \<or> js_trim localQuery \<noteq> []"

definition logs_controls :: "Log_Config \<Rightarrow> logs_page \<Rightarrow> log_act list view" where
  "logs_controls config s =
     (let active = activeService config (lp_params s); filters = fieldFilters config (lp_params s) in
      El ''div'' []
        (map (\<lambda>f. FieldFilter f (opt_str (map_of filters (lf_name f)))
               (\<lambda>v. [Log_Update [(lf_name f, or_null v)]])) (lc_fields active)
         @ vwhen (has_filters filters (lp_localQuery s))
             [El ''Button''
                [(''intent'', PS ''outline''), (''onPress'', Act [Log_Update (clear_updates active), Log_Local_Query []])]
                [Txt ''Clear filters'']]
         @ [El ''div'' []
              [El ''label'' [] [Txt ''Search''],
               El ''Input''
                 [(''placeholder'', PS ''word filter...''), (''value'', PS (lp_localQuery s)),
                  (''onChange'', ActS (\<lambda>v. [Log_Local_Query v, Log_Update [(''q'', or_null v)]]))] []],
            FieldFilter window_field (windowPreset config (lp_params s))
              (\<lambda>v. [Log_Update [(''window'', or_null v)]])]))"

definition logs_status :: "'l log_query \<Rightarrow> log_act list view" where
  "logs_status q =
     El ''div'' []
       [El ''StatusDot''
          [(''intent'', PS (if lq_isLoading q then ''warning'' else if opt_str (lq_error q) \<noteq> [] then ''danger'' else ''success''))] [],
        El ''span'' []
          [Txt (if lq_isLoading q then ''Loading...''
                else if opt_str (lq_error q) \<noteq> [] then opt_str (lq_error q)
                else show_nat (length (lq_lines q)) @ '' results'')],
        El ''span'' [] [Txt ''auto-refresh: 30s'']]"

definition logs_output :: "(string \<Rightarrow> string) \<Rightarrow> LogLine log_query \<Rightarrow> log_act list view" where
  "logs_output format_time q =
     El ''div'' []
       (vwhen (lq_isLoading q \<and> lq_lines q \<noteq> []) [El ''div'' [] [El ''RefreshCw'' [] []]]
        @ vwhen (lq_lines q = [] \<and> \<not> lq_isLoading q \<and> opt_str (lq_error q) = [])
            [El ''div'' [] [Txt ''No results. Try adjusting your filters or time range.'']]
        @ vwhen (lq_lines q = [] \<and> lq_isLoading q) [El ''div'' [] [El ''RefreshCw'' [] [], Txt ''Loading...'']]
        @ map (LogLineRow format_time) (lq_lines q))"

definition LogsPageInner ::
  "(string \<Rightarrow> string) \<Rightarrow> Log_Config \<Rightarrow> logs_page \<Rightarrow> LogLine log_query \<Rightarrow> log_act list view" where
  "LogsPageInner format_time config s q =
     El ''div'' []
       [logs_header q,
        El ''div'' [] (map (service_tab config (activeService config (lp_params s))) (lv_services config)),
        logs_controls config s,
        logs_status q,
        logs_output format_time q]"

text \<open>The gate: the inner page is rendered only with a loaded configuration that has services.\<close>

definition LogsPage ::
  "(string \<Rightarrow> string) \<Rightarrow> Log_Config config_state \<Rightarrow> logs_page \<Rightarrow> LogLine log_query \<Rightarrow> log_act list view" where
  "LogsPage format_time c s q =
     (if jc_loading c
      then El ''div'' [] [El ''RefreshCw'' [] [], Txt ''Loading configuration...'']
      else (case jc_data c of
          Some config \<Rightarrow>
            if opt_str (jc_error c) \<noteq> [] \<or> lv_services config = []
            then El ''div'' [] [El ''p'' [] [Txt (''Failed to load config: ''
                   @ opt_or (jc_error c) (''got '' @ show_nat (length (lv_services config)) @ '' services''))]]
            else LogsPageInner format_time config s q
        | None \<Rightarrow>
            El ''div'' [] [El ''p'' [] [Txt (''Failed to load config: '' @ opt_or (jc_error c) ''empty response'')]]))"

section \<open>A concrete configuration\<close>

definition sample_field :: Log_Field where
  "sample_field = \<lparr>lf_name = ''level'', lf_label = ''Level'', lf_type = Field_Enum, lf_values = Some [''info'', ''error'']\<rparr>"

definition sample_log_service :: "string \<Rightarrow> Log_Service" where
  "sample_log_service n = \<lparr>lc_id = n, lc_label = n, lc_selector = ''{unit='' @ quote @ n @ quote @ ''}'',
     lc_fields = [sample_field], lc_format = ''json''\<rparr>"

definition sample_log_config :: Log_Config where
  "sample_log_config = \<lparr>lv_defaultMode = ''query'', lv_defaultWindow = ''1h'', lv_maxLines = 500,
     lv_services = [sample_log_service ''caddy'', sample_log_service ''plex'']\<rparr>"

section \<open>Properties\<close>

text \<open>In every reachable state of the log query, of all requests in flight at most one is not
  aborted, and it is the newest; the response of any other changes neither the lines nor the
  error nor the loading state, so an old answer never replaces a newer one.\<close>

lemma logs_latest_only:
  assumes "log_reachable parse s" "c \<in> lq_pending s"
  shows "(c \<notin> lq_aborted s \<longrightarrow> lq_controller s = Some c)
    \<and> (lq_controller s \<noteq> Some c \<longrightarrow> log_settle parse now c r s = s\<lparr>lq_pending := lq_pending s - {c}\<rparr>)"
  using log_reachable_inv [OF assms(1)] assms(2) by (auto simp: log_inv_def log_settle_def)

definition sample_two_fetches :: "nat log_query" where
  "sample_two_fetches = fst (fetchLogs 1000 ''b'' (fst (fetchLogs 0 ''a'' log_query_init)))"

lemma sample_two_reachable: "log_reachable parse sample_two_fetches"
proof -
  have "log_reachable parse (fst (fetchLogs 0 ''a'' log_query_init))"
    by (rule log_next [OF log_start log_step.fetch, of 0 "''a''"]) (simp add: prod_eq_iff)
  then show ?thesis
    unfolding sample_two_fetches_def
    by (rule log_next [OF _ log_step.fetch, of _ _ 1000 "''b''"]) (simp add: prod_eq_iff)
qed

lemma logs_latest_only_witness:
  "lq_lines (log_settle (\<lambda>t. Some (length t)) 2000 0
     (Resolved \<lparr>r_status = 200, r_status_text = [], r_text = ''old'', r_json = None\<rparr>) sample_two_fetches) = []"
  using logs_latest_only [OF sample_two_reachable, of 0 "\<lambda>t. Some (length t)" 2000
      "Resolved \<lparr>r_status = 200, r_status_text = [], r_text = ''old'', r_json = None\<rparr>"]
  by (simp add: sample_two_fetches_def fetchLogs_def abort_current_def log_query_init_def Let_def)

text \<open>The loading state can end while the newest request is still in flight: the timer that keeps it
  visible for 300 ms after a quick response is not cancelled by the next fetch.\<close>

lemma loading_ends_early:
  "\<exists>s. log_reachable parse s \<and> \<not> lq_isLoading s
     \<and> (\<exists>c. lq_controller s = Some c \<and> c \<in> lq_pending s \<and> c \<notin> lq_aborted s)"
proof -
  let ?ok = "Resolved \<lparr>r_status = 200, r_status_text = [], r_text = [], r_json = None\<rparr> :: unit outcome"
  let ?s1 = "fst (fetchLogs 0 ''a'' log_query_init)"
  let ?s2 = "log_settle parse 100 0 ?ok ?s1"
  let ?s3 = "fst (fetchLogs 200 ''b'' ?s2)"
  let ?s4 = "loading_timer ?s3"
  have "log_reachable parse ?s1"
    by (rule log_next [OF log_start log_step.fetch, of 0 "''a''"]) (simp add: prod_eq_iff)
  then have "log_reachable parse ?s2"
    by (rule log_next) (rule log_step.settles, simp add: fetchLogs_def abort_current_def log_query_init_def Let_def)
  then have "log_reachable parse ?s3"
    by (rule log_next [OF _ log_step.fetch, of _ _ 200 "''b''"]) (simp add: prod_eq_iff)
  then have "log_reachable parse ?s4"
    by (rule log_next)
      (rule log_step.timer, simp add: fetchLogs_def abort_current_def log_query_init_def log_settle_def
        doneLoading_def resp_ok_def Let_def)
  moreover have "\<not> lq_isLoading ?s4" "lq_controller ?s4 = Some 1" "1 \<in> lq_pending ?s4" "1 \<notin> lq_aborted ?s4"
    by (simp_all add: loading_timer_def fetchLogs_def abort_current_def log_query_init_def log_settle_def
        doneLoading_def resp_ok_def Let_def)
  ultimately show ?thesis by blast
qed

text \<open>A click on a service tab makes that service the active one with none of its fields filtered,
  whatever the URL held before, and keeps the search text and the time window, for a
  configuration with distinct ids and no field named like the page's own parameters.\<close>

lemma tab_selects_clean:
  assumes "svc \<in> set (lv_services config)" "distinct (map lc_id (lv_services config))" "lc_id svc \<noteq> []"
    and "{''service'', ''q'', ''window''} \<inter> lf_name ` set (lc_fields svc) = {}"
  shows "let s' = logs_dispatch (Log_Update (tab_updates config svc)) s in
    activeService config (lp_params s') = svc \<and> fieldFilters config (lp_params s') = []
    \<and> url_text_query (lp_params s') = url_text_query (lp_params s)
    \<and> windowPreset config (lp_params s') = windowPreset config (lp_params s)"
proof -
  let ?us = "tab_updates config svc"
  let ?ps = "updateParams ?us (lp_params s)"
  have f: "find (\<lambda>s. lc_id s = lc_id svc) (lv_services config) = Some svc"
    using assms(1,2) by (simp add: find_distinct_key)
  have dist: "distinct (map fst ?us)"
    and look: "map_of ?us k = (if k \<in> lf_name ` set (lc_fields svc) then Some None
      else map_of [(''service'', Some (lc_id svc))] k)" for k
    using fold_update_None [of "[(''service'', Some (lc_id svc))]" "lc_fields svc"] by (simp_all add: tab_updates_def f)
  have "map_of ?us ''service'' = Some (Some (lc_id svc))" using look [of "''service''"] assms(4) by simp
  then have "params_get ?ps ''service'' = Some (lc_id svc)" using get_updateParams [OF dist] assms(3) by simp
  then have act: "activeService config ?ps = svc"
    using f assms(3) by (simp add: activeService_def active_service_id_def str_or_def)
  have "params_get ?ps (lf_name fld) = None" if "fld \<in> set (lc_fields svc)" for fld
    using look [of "lf_name fld"] that get_updateParams [OF dist, of "lf_name fld" None] by simp
  then have filt: "fieldFilters config ?ps = []" by (simp add: fieldFilters_def act add_filters_none)
  have keep: "params_get ?ps k = params_get (lp_params s) k" if "k \<in> {''q'', ''window''}" for k
  proof -
    have "map_of ?us k = None" using look [of k] assms(4) that by auto
    then have "k \<notin> fst ` set ?us" by (simp add: map_of_eq_None_iff)
    then show ?thesis unfolding updateParams_def by (rule url_params.get_updates_other)
  qed
  show ?thesis using act filt keep by (simp add: Let_def url_text_query_def windowPreset_def)
qed

lemma tab_selects_clean_witness:
  "lc_id (activeService sample_log_config (lp_params (logs_dispatch
     (Log_Update (tab_updates sample_log_config (sample_log_service ''plex'')))
     (logs_init sample_log_config [(''level'', ''error'')])))) = ''plex''"
proof -
  have "activeService sample_log_config (lp_params (logs_dispatch
     (Log_Update (tab_updates sample_log_config (sample_log_service ''plex'')))
     (logs_init sample_log_config [(''level'', ''error'')]))) = sample_log_service ''plex''"
    using tab_selects_clean [of "sample_log_service ''plex''" sample_log_config "logs_init sample_log_config [(''level'', ''error'')]"]
    by (simp add: sample_log_config_def sample_log_service_def sample_field_def Let_def)
  then show ?thesis by (simp add: sample_log_service_def)
qed

text \<open>C25. Downloading the lines and parsing the file again as a response body gives the same lines, for
  a JSON printer and parser that invert each other and print each value on one line.\<close>

theorem download_roundtrip:
  assumes "\<forall>l \<in> set ls. parse (stringify l) = Some l \<and> stringify l \<noteq> [] \<and> trimmed (stringify l)
      \<and> CHR 0x0A \<notin> set (stringify l)"
    and "ls \<noteq> []"
  shows "\<exists>name body. handleDownload stringify now svc ls = [Download name body] \<and> parse_lines parse body = ls"
  using parse_download [OF assms(1)] assms(2) by (simp add: handleDownload_def)

theorem download_roundtrip_witness:
  "parse_lines (\<lambda>t. if t = ''true'' then Some True else if t = ''false'' then Some False else None)
     (download_text (\<lambda>b. if b then ''true'' else ''false'') [True, False]) = [True, False]"
  using download_roundtrip [of "[True, False]"
      "\<lambda>t. if t = ''true'' then Some True else if t = ''false'' then Some False else None"
      "\<lambda>b. if b then ''true'' else ''false''" 0 "sample_log_service ''plex''"]
  by (simp add: handleDownload_def trimmed_def is_ws_def)

text \<open>C26. A filter value is put between quotes without escaping: one filter whose value closes the quote
  sends the same query as two filters, so a value can add conditions of its own.\<close>

theorem filter_value_injects:
  assumes "a \<noteq> []" "b \<noteq> []"
  shows "log_query_text selector [(k, a @ quote @ '', '' @ k' @ ''='' @ quote @ b)] t
    = log_query_text selector [(k, a), (k', b)] t"
  using assms by (simp add: log_query_text_def log_selector_def filter_text_def Let_def)

theorem filter_value_injects_witness:
  "log_query_text ''{}'' [(''level'', ''x'' @ quote @ '', '' @ ''unit'' @ ''='' @ quote @ ''y'')] []
   = ''{level='' @ quote @ ''x'' @ quote @ '', unit='' @ quote @ ''y'' @ quote @ ''}''"
  by (subst filter_value_injects)
    (simp_all add: log_query_text_def log_selector_def filter_text_def slice_inner_def js_trim_def)

end
