(* ===== verification/Secrets_Page.thy ===== *)
theory Secrets_Page
  imports Async_Calls JS_Uri
begin

text \<open>
  \<^verbatim>\<open>pages/SecretsPage.tsx\<close>: the list, the edit dialog, and the deployment whose progress is
  read from the response body chunk by chunk. Dates and their texts are parameters.
\<close>

section \<open>Data and state\<close>

record Secret =
  sec_name :: string
  sec_description :: string
  sec_services :: "string list"
  sec_runPath :: string
  sec_present :: bool
  sec_modified_at :: "string option"
  sec_preview :: "string option"

record edit_modal =
  em_open :: bool
  em_name :: string
  em_description :: string
  em_value :: string

record secrets_page =
  sx_secrets :: "Secret list"
  sx_deployPending :: bool
  sx_loading :: bool
  sx_deploying :: bool
  sx_editModal :: edit_modal

definition secrets_init :: secrets_page where
  "secrets_init = \<lparr>sx_secrets = [], sx_deployPending = False, sx_loading = True, sx_deploying = False,
     sx_editModal = \<lparr>em_open = False, em_name = [], em_description = [], em_value = []\<rparr>\<rparr>"

section \<open>Listing and saving\<close>

record secrets_body =
  sy_secrets :: "(Secret list) option"
  sy_deploy_pending :: "bool option"

definition fetchSecrets_start :: "effect list" where
  "fetchSecrets_start = [Fetch ''GET'' ''/api/secrets'' None]"

text \<open>The status is not looked at: a readable error body counts as an empty list.\<close>

definition fetchSecrets_settle :: "secrets_body outcome \<Rightarrow> secrets_page \<Rightarrow> secrets_page \<times> effect list" where
  "fetchSecrets_settle r s =
     (let s1 = s\<lparr>sx_loading := False\<rparr> in
      case r of
        Rejected e \<Rightarrow> (s1, [Toast Error ''Failed to load secrets''])
      | Resolved resp \<Rightarrow>
          (case r_json resp of
             None \<Rightarrow> (s1, [Toast Error ''Failed to load secrets''])
           | Some d \<Rightarrow>
               (s1\<lparr>sx_secrets := opt_or (sy_secrets d) [], sx_deployPending := opt_or (sy_deploy_pending d) False\<rparr>, [])))"

definition handleSave :: "secrets_page \<Rightarrow> effect list" where
  "handleSave s =
     (let m = sx_editModal s in
      if js_trim (em_value m) = [] then []
      else [Fetch ''PUT'' (''/api/secrets/'' @ encodeURIComponent (em_name m))
              (Some (JObj [(''value'', JStr (em_value m))]))])"

text \<open>\<open>m\<close> is the dialog's state when the form was submitted, which the handler closed over.\<close>

definition handleSave_settle ::
  "edit_modal \<Rightarrow> envelope outcome \<Rightarrow> secrets_page \<Rightarrow> secrets_page \<times> effect list" where
  "handleSave_settle m r s =
     (case r of
        Rejected e \<Rightarrow> (s, [Toast Error ''Failed to update secret''])
      | Resolved resp \<Rightarrow>
          (case r_json resp of
             None \<Rightarrow> (s, [Toast Error ''Failed to update secret''])
           | Some d \<Rightarrow>
               if resp_ok resp
               then (s\<lparr>sx_editModal := m\<lparr>em_open := False, em_value := []\<rparr>\<rparr>,
                     Toast Success (''Secret '' @ em_name m @ '' updated'') # fetchSecrets_start)
               else (s, [Toast Error (str_or (opt_str (env_error d)) ''Failed to update secret'')])))"

section \<open>Deploying\<close>

datatype stream_read = Chunk string | Stream_End | Stream_Error

datatype deploy_result = Deploy_Done | Deploy_Failed | Deploy_Ended | Deploy_Broken | Deploy_Reading

definition done_marker :: string where
  "done_marker = quote @ ''type'' @ quote @ '':'' @ quote @ ''done'' @ quote"

definition error_marker :: string where
  "error_marker = quote @ ''type'' @ quote @ '':'' @ quote @ ''error'' @ quote"

text \<open>The read loop on the reads so far; \<open>Deploy_Reading\<close> while it waits for the next one.\<close>

fun deploy_loop :: "stream_read list \<Rightarrow> deploy_result" where
  "deploy_loop [] = Deploy_Reading"
| "deploy_loop (Stream_End # rs) = Deploy_Ended"
| "deploy_loop (Stream_Error # rs) = Deploy_Broken"
| "deploy_loop (Chunk c # rs) =
     (if js_includes done_marker c then Deploy_Done
      else if js_includes error_marker c then Deploy_Failed
      else deploy_loop rs)"

definition handleDeploy :: "unit \<Rightarrow> secrets_page \<Rightarrow> secrets_page \<times> effect list" where
  "handleDeploy u s = (s\<lparr>sx_deploying := True\<rparr>, [Fetch ''POST'' ''/api/secrets/deploy'' None])"

text \<open>The response to the request, and the reads of its body (\<open>None\<close>: it has no body).\<close>

definition handleDeploy_settle ::
  "unit outcome \<Rightarrow> (stream_read list) option \<Rightarrow> secrets_page \<Rightarrow> secrets_page \<times> effect list" where
  "handleDeploy_settle r reads s =
     (case r of
        Rejected e \<Rightarrow> (s\<lparr>sx_deploying := False\<rparr>, [Toast Error ''Deploy encountered an error''])
      | Resolved resp \<Rightarrow>
          if \<not> resp_ok resp then (s\<lparr>sx_deploying := False\<rparr>, [Toast Error ''Deploy failed to start''])
          else (let info = Toast Info (''Deploy started '' @ em_dash @ '' activating system configuration'' @ ellipsis)
            in case reads of
                 None \<Rightarrow> (s\<lparr>sx_deploying := False\<rparr>, [info])
               | Some rs \<Rightarrow>
                   (case deploy_loop rs of
                      Deploy_Done \<Rightarrow>
                        (s\<lparr>sx_deploying := False, sx_deployPending := False\<rparr>,
                         info # Toast Success ''Deploy completed successfully!'' # fetchSecrets_start)
                    | Deploy_Failed \<Rightarrow> (s\<lparr>sx_deploying := False\<rparr>, [info, Toast Error ''Deploy failed!''])
                    | Deploy_Ended \<Rightarrow> (s\<lparr>sx_deploying := False\<rparr>, [info])
                    | Deploy_Broken \<Rightarrow> (s\<lparr>sx_deploying := False\<rparr>, [info, Toast Error ''Deploy encountered an error''])
                    | Deploy_Reading \<Rightarrow> (s, [info]))))"

lemma deploy_loop_append:
  "deploy_loop (rs @ ts) = (if deploy_loop rs = Deploy_Reading then deploy_loop ts else deploy_loop rs)"
  by (induction rs rule: deploy_loop.induct) auto

definition quiet_chunk :: "string \<Rightarrow> bool" where
  "quiet_chunk c \<longleftrightarrow> \<not> js_includes done_marker c \<and> \<not> js_includes error_marker c"

lemma deploy_loop_reading: "deploy_loop (map Chunk cs) = Deploy_Reading \<longleftrightarrow> (\<forall>c \<in> set cs. quiet_chunk c)"
  by (induction cs) (auto simp: quiet_chunk_def)

lemma deploy_loop_first:
  "deploy_loop (map Chunk cs) = (case find (\<lambda>c. \<not> quiet_chunk c) cs of
      None \<Rightarrow> Deploy_Reading | Some c \<Rightarrow> if js_includes done_marker c then Deploy_Done else Deploy_Failed)"
  by (induction cs) (auto simp: quiet_chunk_def)

text \<open>
  The loop as the source has it: \<open>reader n\<close> is what the read number \<open>n\<close> resolves to, and \<open>while (true)\<close>
  goes on until a read decides. \<open>None\<close> is a loop that never ends.
\<close>

partial_function (option) deploy_read :: "(nat \<Rightarrow> stream_read) \<Rightarrow> nat \<Rightarrow> deploy_result option" where
  "deploy_read reader n =
     (case reader n of
        Stream_End \<Rightarrow> Some Deploy_Ended
      | Stream_Error \<Rightarrow> Some Deploy_Broken
      | Chunk c \<Rightarrow>
          if js_includes done_marker c then Some Deploy_Done
          else if js_includes error_marker c then Some Deploy_Failed
          else deploy_read reader (Suc n))"

definition decides :: "stream_read \<Rightarrow> bool" where
  "decides r \<longleftrightarrow> (case r of Chunk c \<Rightarrow> \<not> quiet_chunk c | _ \<Rightarrow> True)"

lemma deploy_read_skip: "\<not> decides (reader n) \<Longrightarrow> deploy_read reader n = deploy_read reader (Suc n)"
  by (cases "reader n") (simp_all add: deploy_read.simps [of reader n] decides_def quiet_chunk_def)

lemma deploy_read_decides: "decides (reader n) \<Longrightarrow> deploy_read reader n = Some (deploy_loop [reader n])"
  by (cases "reader n") (auto simp: deploy_read.simps [of reader n] decides_def quiet_chunk_def)

lemma deploy_read_first:
  assumes "decides (reader (n + k))" "\<And>i. i < k \<Longrightarrow> \<not> decides (reader (n + i))"
  shows "deploy_read reader n = Some (deploy_loop [reader (n + k)])"
  using assms
proof (induction k arbitrary: n)
  case 0
  then show ?case using deploy_read_decides by simp
next
  case (Suc k)
  have "deploy_read reader n = deploy_read reader (Suc n)"
    using Suc.prems(2) [of 0] deploy_read_skip by simp
  also have "... = Some (deploy_loop [reader (Suc n + k)])"
  proof (rule Suc.IH)
    show "decides (reader (Suc n + k))" using Suc.prems(1) by simp
    show "\<not> decides (reader (Suc n + i))" if "i < k" for i
      using Suc.prems(2) [of "Suc i"] that by simp
  qed
  finally show ?case by simp
qed

lemma deploy_read_returned:
  assumes "deploy_read reader n = Some r"
  shows "\<exists>k \<ge> n. decides (reader k)"
  using assms
proof (induction rule: deploy_read.raw_induct [rotated 1, consumes 1, case_names step])
  case (step loop reader n r)
  show ?case
  proof (cases "decides (reader n)")
    case True
    then show ?thesis by blast
  next
    case False
    with step.hyps have "loop reader (Suc n) = Some r"
      by (cases "reader n") (auto simp: decides_def quiet_chunk_def)
    from step.IH [OF this] show ?thesis by (auto dest: Suc_leD)
  qed
qed

lemma deploy_loop_quiet: "\<forall>r \<in> set rs. \<not> decides r \<Longrightarrow> deploy_loop (rs @ ts) = deploy_loop ts"
  by (induction rs) (auto simp: decides_def quiet_chunk_def split: stream_read.splits)

section \<open>View\<close>

datatype secrets_act =
    Refresh_Secrets
  | Deploy_Now
  | Edit_Secret Secret
  | Close_Edit
  | Edit_Value string
  | Submit_Secret

fun secrets_dispatch :: "secrets_act \<Rightarrow> secrets_page \<Rightarrow> secrets_page \<times> effect list" where
  "secrets_dispatch Refresh_Secrets s = (s, fetchSecrets_start)"
| "secrets_dispatch Deploy_Now s = handleDeploy () s"
| "secrets_dispatch (Edit_Secret x) s =
     (s\<lparr>sx_editModal := \<lparr>em_open = True, em_name = sec_name x, em_description = sec_description x, em_value = []\<rparr>\<rparr>, [])"
| "secrets_dispatch Close_Edit s = (s\<lparr>sx_editModal := (sx_editModal s)\<lparr>em_open := False\<rparr>\<rparr>, [])"
| "secrets_dispatch (Edit_Value v) s = (s\<lparr>sx_editModal := (sx_editModal s)\<lparr>em_value := v\<rparr>\<rparr>, [])"
| "secrets_dispatch Submit_Secret s = (s, handleSave s)"

definition relative_label :: "int \<Rightarrow> string" where
  "relative_label diff =
     (let mins = diff div 60000; hours = diff div 3600000; days = diff div 86400000
      in if mins < 1 then ''just now''
         else if mins < 60 then show_int mins @ ''m ago''
         else if hours < 24 then show_int hours @ ''h ago''
         else show_int days @ ''d ago'')"

definition RelativeTime ::
  "(string \<Rightarrow> int option) \<Rightarrow> (string \<Rightarrow> string) \<Rightarrow> int \<Rightarrow> string option \<Rightarrow> 'a view" where
  "RelativeTime date_parse locale_string now iso_date =
     (case iso_date of
        Some (c # cs) \<Rightarrow>
          El ''Tooltip'' []
            [El ''TooltipTrigger'' []
               [Txt (case date_parse (c # cs) of None \<Rightarrow> ''NaNd ago'' | Some t \<Rightarrow> relative_label (now - t))],
             El ''TooltipContent'' [] [Txt (locale_string (c # cs))]]
      | _ \<Rightarrow> El ''span'' [] [Txt raw_u2014])"

definition secret_value_cell :: "Secret \<Rightarrow> 'a view" where
  "secret_value_cell x =
     El ''TableCell'' []
       [if sec_present x
        then El ''Tooltip'' []
               [El ''TooltipTrigger'' []
                  [El ''StatusDot'' [(''intent'', PS ''success'')] [],
                   El ''span'' [] [Txt (opt_or (sec_preview x) bullet3)]],
                El ''TooltipContent'' [] [Txt ''First 3 characters of decrypted secret'']]
        else El ''Tooltip'' []
               [El ''TooltipTrigger'' []
                  [El ''StatusDot'' [(''intent'', PS ''danger'')] [], El ''span'' [] [Txt ''Missing'']],
                El ''TooltipContent'' [] [Txt ''Secret file is absent or empty'']]]"

definition secret_row ::
  "(string \<Rightarrow> int option) \<Rightarrow> (string \<Rightarrow> string) \<Rightarrow> int \<Rightarrow> Secret \<Rightarrow> secrets_act list view" where
  "secret_row date_parse locale_string now x =
     El ''TableRow'' [(''id'', PS (sec_name x))]
       [El ''TableCell'' [] [Txt (sec_name x)],
        El ''TableCell'' [] [Txt (sec_description x)],
        El ''TableCell'' []
          [El ''div'' []
             (map (\<lambda>svc. El ''span'' [] [Txt svc]) (sec_services x)
              @ vwhen (sec_services x = []) [El ''span'' [] [Txt raw_u2014]])],
        secret_value_cell x,
        El ''TableCell'' [] [RelativeTime date_parse locale_string now (sec_modified_at x)],
        El ''TableCell'' []
          [El ''Button'' [(''intent'', PS ''outline''), (''onPress'', Act [Edit_Secret x])] [Txt ''Edit'']]]"

definition deploy_card :: "secrets_page \<Rightarrow> secrets_act list view" where
  "deploy_card s =
     El ''Card'' []
       [El ''CardHeader'' []
         [El ''AlertTriangle'' [] [],
          El ''div'' []
            [El ''CardTitle'' [] [Txt ''Deploy Pending''],
             El ''CardDescription'' []
               [Txt ''Secrets have been modified. You must deploy the configuration to activate them.'']],
          El ''Button''
            [(''intent'', PS ''danger''), (''onPress'', Act [Deploy_Now]), (''isPending'', PB (sx_deploying s))]
            [Txt ''Deploy Now'']]]"

definition edit_secret_modal :: "edit_modal \<Rightarrow> secrets_act list view" where
  "edit_secret_modal m =
     El ''ModalContent'' [(''isOpen'', PB (em_open m)), (''onOpenChange'', ActB (\<lambda>b. if b then [] else [Close_Edit]))]
       [El ''form'' [(''onSubmit'', Act [Submit_Secret])]
         [El ''ModalHeader'' [] [El ''ModalTitle'' [] [Txt ''Edit Secret'']],
          El ''ModalBody'' []
            [El ''div'' [] [El ''p'' [] [Txt ''Name''], El ''p'' [] [Txt (em_name m)]],
             El ''div'' [] [El ''p'' [] [Txt ''Description''], El ''p'' [] [Txt (em_description m)]],
             El ''div'' []
               [El ''label'' [] [Txt ''New Value''],
                El ''Input''
                  [(''id'', PS ''secret-val''), (''type'', PS ''password''),
                   (''placeholder'', PS (''Enter secret value'' @ raw_u2026)), (''value'', PS (em_value m)),
                   (''onChange'', ActS (\<lambda>v. [Edit_Value v]))] []]],
          El ''ModalFooter'' []
            [El ''ModalClose'' [] [Txt ''Cancel''],
             El ''Button'' [(''type'', PS ''submit''), (''isDisabled'', PB (js_trim (em_value m) = []))]
               [Txt ''Save changes'']]]]"

definition secret_columns :: "string list" where
  "secret_columns = [''Name'', ''Description'', ''Services'', ''Value preview'', ''Last rotated'', []]"

definition SecretsPage ::
  "(string \<Rightarrow> int option) \<Rightarrow> (string \<Rightarrow> string) \<Rightarrow> int \<Rightarrow> secrets_page \<Rightarrow> secrets_act list view" where
  "SecretsPage date_parse locale_string now s =
     (if sx_loading s then El ''div'' [] [Txt (''Loading secrets'' @ raw_u2026)]
      else El ''div'' []
        ([El ''div'' []
           [El ''h1'' [] [Txt ''Secrets''],
            El ''div'' []
              [El ''Button'' [(''intent'', PS ''outline''), (''onPress'', Act [Refresh_Secrets])]
                [El ''RefreshCw'' [] [], Txt ''Refresh'']]]]
         @ vwhen (sx_deployPending s) [deploy_card s]
         @ [El ''Card'' []
              [El ''Table'' [(''aria-label'', PS ''Secrets list'')]
                [El ''TableHeader'' [] (map (\<lambda>c. El ''TableColumn'' [] [Txt c]) secret_columns),
                 El ''TableBody'' [] (map (secret_row date_parse locale_string now) (sx_secrets s))]],
            edit_secret_modal (sx_editModal s)]))"

section \<open>Properties\<close>


definition deploying_page :: secrets_page where
  "deploying_page = secrets_init\<lparr>sx_deploying := True, sx_deployPending := True\<rparr>"

definition ok_response :: "unit response" where
  "ok_response = \<lparr>r_status = 200, r_status_text = [], r_text = [], r_json = None\<rparr>"


text \<open>C29. The reading loop of a deployment returns exactly when some read decides: the end of the stream, a failure,
  or a chunk with a marker. Then its result is that of the reads up to there, however many come after;
  otherwise the page waits for good with the deployment running.\<close>

theorem deploy_loop_returns:
  "((\<exists>r. deploy_read reader 0 = Some r) \<longleftrightarrow> (\<exists>n. decides (reader n)))
   \<and> (\<forall>n. decides (reader n) \<longrightarrow> deploy_read reader 0 = Some (deploy_loop (map reader [0..<Suc n])))"
proof -
  have returns: "deploy_read reader 0 = Some (deploy_loop (map reader [0..<Suc n]))" if "decides (reader n)" for n
  proof -
    obtain k where k: "decides (reader k)" "k \<le> n" and before: "\<And>i. i < k \<Longrightarrow> \<not> decides (reader i)"
      using ex_least_nat_le [of "\<lambda>k. decides (reader k)" n] \<open>decides (reader n)\<close> by blast
    have split: "[0..<Suc n] = [0..<k] @ k # [Suc k..<Suc n]"
    proof -
      have "[0..<Suc n] = [0..<k] @ [k..<Suc n]"
        using k(2) upt_add_eq_append [of 0 k "Suc n - k"] by (simp del: upt_Suc)
      moreover have "[k..<Suc n] = k # [Suc k..<Suc n]" by (rule upt_conv_Cons) (use k(2) in simp)
      ultimately show ?thesis by simp
    qed
    have "deploy_loop (map reader [0..<Suc n]) = deploy_loop (map reader [0..<k] @ reader k # map reader [Suc k..<Suc n])"
      unfolding split map_append list.map ..
    also have "... = deploy_loop (reader k # map reader [Suc k..<Suc n])"
      by (rule deploy_loop_quiet) (use before in simp)
    also have "... = deploy_loop [reader k]"
      using k(1) by (cases "reader k") (auto simp: decides_def quiet_chunk_def)
    finally show ?thesis using deploy_read_first [of reader 0 k] k(1) before by simp
  qed
  moreover have "(\<exists>r. deploy_read reader 0 = Some r) \<longleftrightarrow> (\<exists>n. decides (reader n))"
    using returns deploy_read_returned by blast
  ultimately show ?thesis by blast
qed

definition sample_reader :: "nat \<Rightarrow> stream_read" where
  "sample_reader n = (if n < 2 then Chunk ''log'' else Stream_End)"

theorem deploy_loop_returns_witness:
  "deploy_read sample_reader 0 = Some Deploy_Ended \<and> deploy_read (\<lambda>n. Chunk ''log'') 0 = None"
proof -
  have quiet: "quiet_chunk ''log''" by (simp add: quiet_chunk_def done_marker_def error_marker_def)
  then have "\<not> decides (Chunk ''log'')" by (simp add: decides_def)
  then have "deploy_read (\<lambda>n. Chunk ''log'') 0 = None"
    using deploy_loop_returns [of "\<lambda>n. Chunk ''log''"] by (simp only: not_Some_eq [symmetric] simp_thms not_ex)
  moreover have "decides (sample_reader 2)" by (simp add: sample_reader_def decides_def)
  then have "deploy_read sample_reader 0 = Some (deploy_loop (map sample_reader [0..<Suc 2]))"
    using deploy_loop_returns [of sample_reader] by blast
  moreover have "deploy_loop (map sample_reader [0..<Suc 2]) = Deploy_Ended"
  proof -
    have "map sample_reader [0..<Suc 2] = [Chunk ''log'', Chunk ''log''] @ [Stream_End]"
      by (simp add: sample_reader_def eval_nat_numeral)
    then show ?thesis
      using deploy_loop_quiet [of "[Chunk ''log'', Chunk ''log'']" "[Stream_End]"] \<open>\<not> decides (Chunk ''log'')\<close> by simp
  qed
  ultimately show ?thesis by simp
qed



end
