(* ===== verification/Backups_Page.thy ===== *)
theory Backups_Page
  imports Data_Table Async_Calls Samples JS_Uri
begin

text \<open>
  \<^verbatim>\<open>pages/BackupsPage.tsx\<close> and \<^verbatim>\<open>pages/DiagnosticsPage.tsx\<close>: the backup jobs with their
  texts, edit sheet and log dialog, and the read-only diagnostics table with its log dialog.
  \<open>parsed\<close> times are what \<open>new Date(text).getTime()\<close> gives, \<open>None\<close> for \<open>NaN\<close>.
\<close>

section \<open>Texts\<close>

text \<open>An arithmetic result that is \<open>NaN\<close> when one of its dates is.\<close>

definition date_diff :: "(string \<Rightarrow> int option) \<Rightarrow> string \<Rightarrow> string \<Rightarrow> int option" where
  "date_diff date_parse later earlier =
     (case (date_parse later, date_parse earlier) of (Some a, Some b) \<Rightarrow> Some (a - b) | _ \<Rightarrow> None)"

definition duration_text :: "int \<Rightarrow> string" where
  "duration_text ms =
     (let sec = ms div 1000; mins = sec div 60; hours = mins div 60
      in if ms < 0 then []
         else if sec < 60 then show_int sec @ ''s''
         else if mins < 60 then show_int mins @ ''m '' @ show_int (sec mod 60) @ ''s''
         else show_int hours @ ''h '' @ show_int (mins mod 60) @ ''m'')"

definition durationBetween :: "(string \<Rightarrow> int option) \<Rightarrow> string \<Rightarrow> string \<Rightarrow> string" where
  "durationBetween date_parse start end_time =
     (if start = [] \<or> end_time = [] then []
      else (case date_diff date_parse end_time start of None \<Rightarrow> ''NaNh NaNm'' | Some ms \<Rightarrow> duration_text ms))"

definition timeUntil :: "(string \<Rightarrow> int option) \<Rightarrow> int \<Rightarrow> string \<Rightarrow> string" where
  "timeUntil date_parse now dateStr =
     (if dateStr = [] then em_dash
      else (case date_parse dateStr of
          None \<Rightarrow> ''in NaNm''
        | Some t \<Rightarrow>
            (let diff = t - now; mins = diff div 60000; hours = mins div 60
             in if diff < 0 then em_dash
                else if hours > 24 then ''in '' @ show_int (hours div 24) @ '' days''
                else if hours > 0 then ''in '' @ show_int hours @ ''h '' @ show_int (mins mod 60) @ ''m''
                else ''in '' @ show_int mins @ ''m'')))"

definition timeSince :: "(string \<Rightarrow> int option) \<Rightarrow> int \<Rightarrow> string \<Rightarrow> string" where
  "timeSince date_parse now dateStr =
     (if dateStr = [] \<or> dateStr = ''Never'' then ''Never''
      else (case date_parse dateStr of
          None \<Rightarrow> ''NaNm ago''
        | Some t \<Rightarrow>
            (let diff = now - t; mins = diff div 60000; hours = mins div 60
             in if diff < 0 then ''Just now''
                else if hours > 24 then show_int (hours div 24) @ '' days ago''
                else if hours > 0 then show_int hours @ ''h '' @ show_int (mins mod 60) @ ''m ago''
                else show_int mins @ ''m ago'')))"

definition backup_badge :: "string \<Rightarrow> string \<Rightarrow> bool \<Rightarrow> 'a view" where
  "backup_badge state res enabled =
     (let isActive = (state = ''active'' \<or> state = ''activating''); isFailed = (res = ''failed'')
      in if enabled \<and> \<not> isActive \<and> \<not> isFailed
         then El ''span'' [] [El ''StatusDot'' [(''intent'', PS ''success'')] [], Txt ''Enabled'']
         else El ''span'' []
           [El ''StatusDot''
              [(''intent'', PS (if isActive then ''success'' else if isFailed then ''danger'' else ''secondary''))] [],
            Txt (if state = ''activating'' then ''Running'' else str_or state ''inactive'')])"

section \<open>State and handlers\<close>

record log_view =
  lw_open :: bool
  lw_name :: string
  lw_content :: string

record backups_page =
  bp_loadingAction :: "string option"
  bp_editingJob :: "BackupStatus option"
  bp_logs :: log_view
  bp_isBugOpen :: bool
  bp_bugService :: string
  bp_table :: table_state
  bp_shell :: "BackupStatus shell_state"

definition backups_init :: backups_page where
  "backups_init =
     \<lparr>bp_loadingAction = None, bp_editingJob = None, bp_logs = \<lparr>lw_open = False, lw_name = [], lw_content = []\<rparr>,
      bp_isBugOpen = False, bp_bugService = [],
      bp_table = table_init (Some \<lparr>so_column = ''name'', so_direction = Ascending\<rparr>), bp_shell = shell_init\<rparr>"

definition backup_field :: "string \<Rightarrow> BackupStatus \<Rightarrow> string option" where
  "backup_field c b =
     map_of
      [(''unit'', bs_unit b), (''enabled'', if bs_enabled b then ''true'' else ''false''), (''schedule'', bs_schedule b),
       (''depends_on'', js_join '','' (bs_depends_on b)), (''requires_mount'', js_join '','' (bs_requires_mount b)),
       (''healthcheck_uuid'', bs_healthcheck_uuid b), (''pause_service'', bs_pause_service b),
       (''active_state'', bs_active_state b), (''result'', bs_result b), (''last_run_start'', bs_last_run_start b),
       (''last_run_end'', bs_last_run_end b), (''next_run'', bs_next_run b)] c"

definition backup_rows :: "backups_page \<Rightarrow> BackupStatus list option \<Rightarrow> BackupStatus list" where
  "backup_rows s jobs = sorted_rows backup_field (Some ''unit'') (bp_table s) (Some (opt_or jobs []))"

definition runJob :: "string \<Rightarrow> backups_page \<Rightarrow> backups_page \<times> effect list" where
  "runJob name s =
     (s\<lparr>bp_loadingAction := Some name\<rparr>, [Fetch ''POST'' (''/api/backups/'' @ name @ ''/run'') None])"

definition runJob_settle :: "string \<Rightarrow> envelope outcome \<Rightarrow> backups_page \<Rightarrow> backups_page \<times> effect list" where
  "runJob_settle name r s =
     (s\<lparr>bp_loadingAction := None\<rparr>,
      (case r of
         Rejected e \<Rightarrow> [Toast Error ''Failed to start backup'']
       | Resolved resp \<Rightarrow>
           (case r_json resp of
              None \<Rightarrow> [Toast Error ''Failed to start backup'']
            | Some d \<Rightarrow>
                if env_success d then [Toast Success (''Backup '' @ quote @ name @ quote @ '' started'')]
                else [Toast Error (opt_or (env_error d) ''Failed to start backup'')])))"

interpretation backup_run: busy_handler runJob runJob_settle "\<lambda>s. bp_loadingAction s \<noteq> None"
  by unfold_locales (simp_all add: runJob_def runJob_settle_def)

definition backup_showLogs :: "string \<Rightarrow> backups_page \<Rightarrow> backups_page" where
  "backup_showLogs name s = s\<lparr>bp_logs := \<lparr>lw_open = True, lw_name = name, lw_content = ''Loading logs...''\<rparr>\<rparr>"

definition backup_logs_url :: "string \<Rightarrow> effect list" where
  "backup_logs_url name = [Fetch ''GET'' (''/api/backups/'' @ name @ ''/logs'') None]"

text \<open>The body is its \<open>logs\<close> field; \<open>prev => ({...prev, content})\<close> keeps whatever dialog is open.\<close>

definition log_content :: "(string option) outcome \<Rightarrow> string" where
  "log_content r =
     (case r of
        Rejected e \<Rightarrow> ''Failed to load logs''
      | Resolved resp \<Rightarrow>
          (case r_json resp of None \<Rightarrow> ''Failed to load logs'' | Some l \<Rightarrow> opt_or l ''No logs available''))"

definition backup_logs_settle :: "(string option) outcome \<Rightarrow> backups_page \<Rightarrow> backups_page" where
  "backup_logs_settle r s = s\<lparr>bp_logs := (bp_logs s)\<lparr>lw_content := log_content r\<rparr>\<rparr>"

interpretation backup_log: log_dialog backup_showLogs backup_logs_settle
  "\<lambda>s. lw_name (bp_logs s)" "\<lambda>s. lw_content (bp_logs s)" "\<lambda>name. name" log_content
  by unfold_locales (simp_all add: backup_showLogs_def backup_logs_settle_def)

definition saveJob :: "backups_page \<Rightarrow> effect list" where
  "saveJob s =
     (case bp_editingJob s of
        None \<Rightarrow> []
      | Some j \<Rightarrow>
          [Fetch ''PATCH'' (''/api/backups/'' @ bs_unit j)
            (Some (JObj [(''enabled'', JBool (bs_enabled j)), (''schedule'', JStr (bs_schedule j)),
               (''healthcheck_uuid'', JStr (bs_healthcheck_uuid j)), (''pause_service'', JStr (bs_pause_service j))]))])"

definition saveJob_settle :: "BackupStatus \<Rightarrow> envelope outcome \<Rightarrow> backups_page \<Rightarrow> backups_page \<times> effect list" where
  "saveJob_settle j r s =
     (case r of
        Rejected e \<Rightarrow> (s, [Toast Error ''Failed to update backup''])
      | Resolved resp \<Rightarrow>
          (case r_json resp of
             None \<Rightarrow> (s, [Toast Error ''Failed to update backup''])
           | Some d \<Rightarrow>
               if env_success d
               then (s\<lparr>bp_editingJob := None\<rparr>, [Toast Success (''Backup '' @ quote @ bs_unit j @ quote @ '' updated'')])
               else (s, [Toast Error (opt_or (env_error d) ''Failed to update backup'')])))"

definition handleCopy_settle :: "bool \<Rightarrow> effect list" where
  "handleCopy_settle ok =
     (if ok then [Toast Success ''Logs copied to clipboard''] else [Toast Error ''Failed to copy''])"

section \<open>Handlers wired into the view\<close>

datatype backups_act =
    Backup_Edit "BackupStatus option"
  | Backup_Run string
  | Backup_Logs string
  | Backup_Logs_Open bool
  | Backup_Bug string
  | Backup_Bug_Open bool
  | Backup_Copy string
  | Backup_Save
  | Backup_Filter string
  | Backup_Row_Menu BackupStatus

fun backups_dispatch :: "int \<times> int \<Rightarrow> backups_act \<Rightarrow> backups_page \<Rightarrow> backups_page \<times> effect list" where
  "backups_dispatch pt (Backup_Edit j) s = (s\<lparr>bp_editingJob := j\<rparr>, [])"
| "backups_dispatch pt (Backup_Run n) s = runJob n s"
| "backups_dispatch pt (Backup_Logs n) s = (backup_showLogs n s, backup_logs_url n)"
| "backups_dispatch pt (Backup_Logs_Open b) s = (s\<lparr>bp_logs := (bp_logs s)\<lparr>lw_open := b\<rparr>\<rparr>, [])"
| "backups_dispatch pt (Backup_Bug n) s = (s\<lparr>bp_bugService := n, bp_isBugOpen := True\<rparr>, [])"
| "backups_dispatch pt (Backup_Bug_Open b) s = (s\<lparr>bp_isBugOpen := b\<rparr>, [])"
| "backups_dispatch pt (Backup_Copy c) s = (s, [Clipboard c])"
| "backups_dispatch pt Backup_Save s = (s, saveJob s)"
| "backups_dispatch pt (Backup_Filter v) s = (s\<lparr>bp_table := (bp_table s)\<lparr>filterText := v\<rparr>\<rparr>, [])"
| "backups_dispatch pt (Backup_Row_Menu j) s = (s\<lparr>bp_shell := onRowContextMenu j pt (bp_shell s)\<rparr>, [])"

section \<open>View\<close>

definition backup_columns :: "(string \<times> string) list" where
  "backup_columns =
     [(''name'', ''Name''), (''lastRun'', ''Last Run''), (''nextRun'', ''Next Run''),
      (''requiresMount'', ''Requires Mount''), (''status'', ''Status''), (''result'', ''Result''), (''actions'', [])]"

definition last_run_cell :: "(string \<Rightarrow> int option) \<Rightarrow> int \<Rightarrow> BackupStatus \<Rightarrow> 'a view" where
  "last_run_cell date_parse now job =
     El ''TableCell'' []
       [if bs_last_run_start job \<noteq> [] \<and> bs_last_run_end job \<noteq> []
        then El ''Tooltip'' []
               [El ''TooltipTrigger'' [] [Txt (timeSince date_parse now (bs_last_run_start job))],
                El ''TooltipContent'' []
                  [Txt (''Duration: '' @ durationBetween date_parse (bs_last_run_start job) (bs_last_run_end job))]]
        else Txt (timeSince date_parse now (bs_last_run_start job))]"

definition backup_row :: "(string \<Rightarrow> int option) \<Rightarrow> int \<Rightarrow> BackupStatus \<Rightarrow> backups_act list view" where
  "backup_row date_parse now job =
     El ''TableRow'' [(''onContextMenu'', Act [Backup_Row_Menu job])]
       [El ''TableCell'' [] [Txt (bs_unit job)],
        last_run_cell date_parse now job,
        El ''TableCell'' [] [Txt (timeUntil date_parse now (bs_next_run job))],
        El ''TableCell'' [] [Txt (str_or (js_join '', '' (bs_requires_mount job)) em_dash)],
        El ''TableCell'' [] [backup_badge (bs_active_state job) (bs_result job) (bs_enabled job)],
        El ''TableCell'' [] [Txt (bs_result job)],
        El ''TableCell'' []
          [RowActions (''Actions for '' @ bs_unit job)
             [El ''MenuItem'' [(''onAction'', Act [Backup_Edit (Some job)])] [Txt ''Edit''],
              El ''MenuItem'' [(''intent'', PS ''danger''), (''onAction'', Act [Backup_Run (bs_unit job)])] [Txt ''Run now''],
              El ''MenuItem'' [(''onAction'', Act [Backup_Logs (bs_unit job)])] [Txt ''Logs'']]]]"

definition BackupsTableContent ::
  "(string \<Rightarrow> int option) \<Rightarrow> int \<Rightarrow> BackupStatus list \<Rightarrow> backups_act list view" where
  "BackupsTableContent date_parse now jobs =
     El ''Table'' [(''aria-label'', PS ''Backup Jobs'')]
       [El ''TableHeader'' [] (map (\<lambda>c. El ''TableColumn'' [] [Txt (snd c)]) backup_columns),
        El ''TableBody'' [] (map (backup_row date_parse now) jobs)]"

definition backup_context_menu :: "BackupStatus \<Rightarrow> backups_act list view list" where
  "backup_context_menu item =
     [El ''ContextMenuItem'' [(''onAction'', Act [Backup_Edit (Some item)])] [Txt ''Edit''],
      El ''ContextMenuItem'' [(''intent'', PS ''danger''), (''onAction'', Act [Backup_Run (bs_unit item)])] [Txt ''Run now''],
      El ''ContextMenuItem'' [(''onAction'', Act [Backup_Logs (bs_unit item)])] [Txt ''Logs'']]"

definition backup_logs_dialog :: "log_view \<Rightarrow> backups_act list view" where
  "backup_logs_dialog l =
     El ''ModalContent'' [(''isOpen'', PB (lw_open l)), (''onOpenChange'', ActB (\<lambda>b. [Backup_Logs_Open b]))]
       [El ''ModalHeader'' []
          [El ''div'' []
            [El ''ModalTitle'' [] [Txt (''Logs: '' @ lw_name l)],
             El ''div'' []
               [El ''button''
                  [(''onClick'', Act [Backup_Bug (lw_name l)]), (''title'', PS ''Report Bug with these logs'')]
                  [El ''Bug'' [] []],
                El ''Button''
                  [(''intent'', PS ''secondary''), (''onPress'', Act [Backup_Copy (lw_content l)]),
                   (''aria-label'', PS ''Copy logs to clipboard'')]
                  [El ''Clipboard'' [] [], Txt ''Copy'']]]],
        El ''ModalBody'' [] [El ''pre'' [] [Txt (lw_content l)]]]"

definition edit_input ::
  "string \<Rightarrow> string \<Rightarrow> (string \<Rightarrow> BackupStatus) \<Rightarrow> string \<Rightarrow> backups_act list view" where
  "edit_input label v change placeholder =
     El ''div'' []
       [El ''label'' [] [Txt label],
        El ''Input''
          [(''value'', PS v), (''onChange'', ActS (\<lambda>t. [Backup_Edit (Some (change t))])),
           (''placeholder'', PS placeholder)] []]"

definition backup_edit_sheet :: "BackupStatus option \<Rightarrow> backups_act list view" where
  "backup_edit_sheet editing =
     El ''Sheet''
       [(''isOpen'', PB (editing \<noteq> None)), (''onOpenChange'', ActB (\<lambda>b. if b then [] else [Backup_Edit None]))]
       [El ''SheetContent'' [(''side'', PS ''right'')]
         (case editing of None \<Rightarrow> [] | Some j \<Rightarrow>
           [El ''form'' [(''onSubmit'', Act [Backup_Save])]
             [El ''SheetHeader'' [] [El ''SheetTitle'' [] [Txt (''Configure '' @ bs_unit j)]],
              El ''SheetBody'' []
                [El ''div'' []
                  [El ''Checkbox''
                     [(''isSelected'', PB (bs_enabled j)),
                      (''onChange'', ActB (\<lambda>c. [Backup_Edit (Some (j\<lparr>bs_enabled := c\<rparr>))]))] [Txt ''Enabled''],
                   edit_input ''Schedule (Cron format)'' (bs_schedule j) (\<lambda>t. j\<lparr>bs_schedule := t\<rparr>) ''0 4 * * *'',
                   edit_input ''Healthcheck.io UUID (Optional)'' (bs_healthcheck_uuid j)
                     (\<lambda>t. j\<lparr>bs_healthcheck_uuid := t\<rparr>) ''e.g. 5bb56709-ec9b-...'',
                   edit_input ''Pause Service (Optional)'' (bs_pause_service j)
                     (\<lambda>t. j\<lparr>bs_pause_service := t\<rparr>) ''e.g. postgresql.service''],
                 El ''div'' []
                  [El ''Button'' [(''intent'', PS ''secondary''), (''onPress'', Act [Backup_Edit None])] [Txt ''Cancel''],
                   El ''Button'' [(''type'', PS ''submit''), (''intent'', PS ''primary'')] [Txt ''Save Changes'']]]]])]"

definition jobs_description :: "nat \<Rightarrow> string \<Rightarrow> string" where
  "jobs_description n f =
     show_nat n @ '' job'' @ (if n \<noteq> 1 then ''s'' else [])
     @ (if f \<noteq> [] then '' matching '' @ quote @ f @ quote else [])"

definition BackupsPage ::
  "(string \<Rightarrow> int option) \<Rightarrow> int \<Rightarrow> BackupStatus list option \<Rightarrow> backups_page \<Rightarrow> backups_act list view list" where
  "BackupsPage date_parse now jobs s =
     [PageShell
        \<lparr>ps_data = jobs, ps_title = ''Backups'', ps_description = Some jobs_description, ps_searchable = True,
         ps_filter = Some (filterText (bp_table s)), ps_onFilterChange = (\<lambda>v. [Backup_Filter v]),
         ps_filterPlaceholder = None, ps_emptyMessage = Some ''No backup jobs found'',
         ps_emptyDescription = Some ''B2 backup systemd timers will appear here'',
         ps_contextMenu = Some backup_context_menu, ps_beforeTable = [],
         ps_children = [BackupsTableContent date_parse now (backup_rows s jobs)]\<rparr>
        (bp_shell s),
      backup_logs_dialog (bp_logs s),
      backup_edit_sheet (bp_editingJob s),
      El ''BugReportModal''
        [(''isOpen'', PB (bp_isBugOpen s)), (''onOpenChange'', ActB (\<lambda>b. [Backup_Bug_Open b])),
         (''defaultService'', PS (bp_bugService s)), (''defaultLogs'', PS (lw_content (bp_logs s)))] []]"

section \<open>DiagnosticsPage\<close>

record diag_logs = log_view +
  lw_unit :: string

record diagnostics_page =
  dg_services :: "ServiceInfo list option"
  dg_logs :: diag_logs

definition diagnostics_init :: diagnostics_page where
  "diagnostics_init =
     \<lparr>dg_services = None, dg_logs = \<lparr>lw_open = False, lw_name = [], lw_content = [], lw_unit = []\<rparr>\<rparr>"

definition fetchDiagnostics_settle ::
  "(ServiceInfo list) outcome \<Rightarrow> diagnostics_page \<Rightarrow> diagnostics_page \<times> effect list" where
  "fetchDiagnostics_settle r s =
     (case r of
        Rejected e \<Rightarrow> (s, [Toast Error ''Failed to fetch diagnostics''])
      | Resolved resp \<Rightarrow>
          (case r_json resp of
             None \<Rightarrow> (s, [Toast Error ''Failed to fetch diagnostics''])
           | Some d \<Rightarrow> (s\<lparr>dg_services := Some d\<rparr>, [])))"

definition diag_name :: "string \<Rightarrow> string" where
  "diag_name unit = strip_suffix ''.service'' unit"

definition diag_showLogs :: "string \<Rightarrow> diagnostics_page \<Rightarrow> diagnostics_page" where
  "diag_showLogs unit s =
     s\<lparr>dg_logs := \<lparr>lw_open = True, lw_name = diag_name unit, lw_content = ''Loading logs...'', lw_unit = unit\<rparr>\<rparr>"

definition diag_logs_url :: "string \<Rightarrow> effect list" where
  "diag_logs_url unit = [Fetch ''GET'' (''/api/diagnostics/'' @ unit @ ''/logs'') None]"

definition diag_logs_settle :: "(string option) outcome \<Rightarrow> diagnostics_page \<Rightarrow> diagnostics_page" where
  "diag_logs_settle r s = s\<lparr>dg_logs := (dg_logs s)\<lparr>lw_content := log_content r\<rparr>\<rparr>"

interpretation diag_log: log_dialog diag_showLogs diag_logs_settle
  "\<lambda>s. lw_name (dg_logs s)" "\<lambda>s. lw_content (dg_logs s)" diag_name log_content
  by unfold_locales (simp_all add: diag_showLogs_def diag_logs_settle_def)

datatype diag_act = Diag_Logs string | Diag_Open bool

definition diag_badge :: "string \<Rightarrow> string \<Rightarrow> 'a view" where
  "diag_badge state subState =
     El ''span'' []
       [El ''StatusDot''
          [(''intent'', PS (if state = ''active'' then ''success'' else if state = ''failed'' then ''danger'' else ''secondary''))] [],
        Txt (if subState \<noteq> [] \<and> subState \<noteq> ''dead'' \<and> subState \<noteq> ''running''
             then state @ '' ('' @ subState @ '')'' else state)]"

definition diag_row :: "ServiceInfo \<Rightarrow> diag_act list view" where
  "diag_row svc =
     El ''TableRow'' []
       [El ''TableCell'' [] [Txt (si_name svc)],
        El ''TableCell'' [] [diag_badge (si_active_state svc) (si_sub_state svc)],
        El ''TableCell'' [] [Txt (str_or (si_description svc) em_dash)],
        El ''TableCell'' []
          [El ''div'' []
            [El ''Button'' [(''intent'', PS ''secondary''), (''onPress'', Act [Diag_Logs (si_unit_name svc)])]
              [Txt ''View Logs'']]]]"

definition DiagnosticsPage :: "ServiceInfo shell_state \<Rightarrow> diagnostics_page \<Rightarrow> diag_act list view list" where
  "DiagnosticsPage sh s =
     [PageShell
        \<lparr>ps_data = dg_services s, ps_title = ''Base System Diagnostics'',
         ps_description =
           Some (\<lambda>n f. ''Read-only status and logs monitoring for critical base homelab services.''),
         ps_searchable = False, ps_filter = None, ps_onFilterChange = (\<lambda>v. []), ps_filterPlaceholder = None,
         ps_emptyMessage = Some ''No diagnostics services found'', ps_emptyDescription = None,
         ps_contextMenu = None, ps_beforeTable = [],
         ps_children =
           [El ''Table'' [(''aria-label'', PS ''System Diagnostics'')]
              [El ''TableHeader'' []
                 (map (\<lambda>c. El ''TableColumn'' [] [Txt c]) [''Service'', ''Status'', ''Description'', []]),
               El ''TableBody'' [] (map diag_row (opt_or (dg_services s) []))]]\<rparr> sh,
      El ''ModalContent'' [(''isOpen'', PB (lw_open (dg_logs s))), (''onOpenChange'', ActB (\<lambda>b. [Diag_Open b]))]
        [El ''ModalHeader'' [] [El ''ModalTitle'' [] [Txt (''Logs: '' @ lw_name (dg_logs s))]],
         El ''ModalBody'' [] [El ''pre'' [] [Txt (lw_content (dg_logs s))]]]]"

section \<open>Properties\<close>

text \<open>The log dialogs of the backups and the diagnostics page show an item's log when its response
  comes while it is open, but a response that arrives after the dialog was opened on another
  item is shown under that item's name.\<close>

lemma stale_log_shown:
  "lw_content (bp_logs (backup_logs_settle r (backup_showLogs a s))) = log_content r
   \<and> lw_name (bp_logs (backup_logs_settle r (backup_showLogs b (backup_showLogs a s)))) = b
   \<and> lw_content (bp_logs (backup_logs_settle r (backup_showLogs b (backup_showLogs a s)))) = log_content r
   \<and> lw_name (dg_logs (diag_logs_settle r (diag_showLogs b (diag_showLogs a d)))) = diag_name b
   \<and> lw_content (dg_logs (diag_logs_settle r (diag_showLogs b (diag_showLogs a d)))) = log_content r"
  using backup_log.shows_own_log [of r a s] backup_log.shows_foreign_log [of r b a s]
    diag_log.shows_foreign_log [of r b a d] by simp

text \<open>Editing a backup job and submitting sends exactly the edited enablement, schedule, check id and
  paused service to the job that was opened, and nothing is sent without an open job.\<close>

lemma backup_edit_sent:
  "saveJob (fst (backups_dispatch pt
      (Backup_Edit (Some (job\<lparr>bs_enabled := e, bs_schedule := c, bs_healthcheck_uuid := h, bs_pause_service := p\<rparr>))) s))
    = [Fetch ''PATCH'' (''/api/backups/'' @ bs_unit job)
        (Some (JObj [(''enabled'', JBool e), (''schedule'', JStr c), (''healthcheck_uuid'', JStr h), (''pause_service'', JStr p)]))]
   \<and> saveJob (fst (backups_dispatch pt (Backup_Edit None) s)) = []"
  by (simp add: saveJob_def)

end
