(* ===== verification/VMs_Page.thy ===== *)
theory VMs_Page
  imports Async_Calls Data_Table Api_Types
begin

text \<open>
  \<^verbatim>\<open>pages/VMsPage.tsx\<close>: the virtual machines with the actions their state allows, and the
  confirmation that stands before destroying one.
\<close>

section \<open>State and actions\<close>

record vms_page =
  vp_loadingAction :: "string option"
  vp_confirmDestroy :: "string option"
  vp_shell :: "VMInfo shell_state"

definition vms_init :: vms_page where
  "vms_init = \<lparr>vp_loadingAction = None, vp_confirmDestroy = None, vp_shell = shell_init\<rparr>"

definition vm_doAction :: "string \<times> string \<Rightarrow> vms_page \<Rightarrow> vms_page \<times> effect list" where
  "vm_doAction na s =
     (let (name, action) = na in
      (s\<lparr>vp_confirmDestroy := None, vp_loadingAction := Some (name @ '':'' @ action)\<rparr>,
       [Fetch ''POST'' (''/api/vms/'' @ name @ ''/'' @ action) None]))"

definition vm_doAction_settle :: "string \<times> string \<Rightarrow> envelope outcome \<Rightarrow> vms_page \<Rightarrow> vms_page \<times> effect list" where
  "vm_doAction_settle na r s =
     (s\<lparr>vp_loadingAction := None\<rparr>,
      (case r of
         Rejected e \<Rightarrow> [Toast Error ''Action failed'']
       | Resolved resp \<Rightarrow>
           (case r_json resp of
              None \<Rightarrow> [Toast Error ''Action failed'']
            | Some d \<Rightarrow>
                if env_success d then [Toast Success (opt_or (env_message d) (snd na @ '' succeeded''))]
                else [Toast Error (opt_or (env_error d) ''Action failed'')])))"

interpretation vm_actions: busy_handler vm_doAction vm_doAction_settle "\<lambda>s. vp_loadingAction s \<noteq> None"
  by unfold_locales (simp_all add: vm_doAction_def vm_doAction_settle_def split_beta)

datatype vm_act =
    VM_Action string string
  | Confirm_Destroy "string option"

fun vms_dispatch :: "vm_act \<Rightarrow> vms_page \<Rightarrow> vms_page \<times> effect list" where
  "vms_dispatch (VM_Action name action) s = vm_doAction (name, action) s"
| "vms_dispatch (Confirm_Destroy c) s = (s\<lparr>vp_confirmDestroy := c\<rparr>, [])"

section \<open>View\<close>

definition vm_badge :: "string \<Rightarrow> 'a view" where
  "vm_badge state =
     El ''span'' []
       [El ''StatusDot''
          [(''intent'', PS (if state = ''Running'' then ''success'' else if state = ''Paused'' then ''warning''
              else if state = ''Shut Off'' then ''secondary'' else ''danger''))] [],
        Txt state]"

definition vm_menu_item :: "vm_act \<Rightarrow> string \<Rightarrow> string \<Rightarrow> vm_act list view" where
  "vm_menu_item a icon label = El ''MenuItem'' [(''onAction'', Act [a])] [El icon [] [], Txt label]"

definition vm_menu :: "VMInfo \<Rightarrow> vm_act list view list" where
  "vm_menu vm =
     vwhen (vm_state vm \<noteq> ''Running'') [vm_menu_item (VM_Action (vm_name vm) ''start'') ''Play'' ''Start'']
     @ vwhen (vm_state vm = ''Running'')
         [vm_menu_item (VM_Action (vm_name vm) ''shutdown'') ''Square'' ''Shutdown'',
          vm_menu_item (VM_Action (vm_name vm) ''suspend'') ''Pause'' ''Suspend'']
     @ vwhen (vm_state vm = ''Paused'') [vm_menu_item (VM_Action (vm_name vm) ''resume'') ''RefreshCw'' ''Resume'']
     @ [vm_menu_item (Confirm_Destroy (Some (vm_name vm))) ''Trash2'' ''Destroy'']"

definition vm_row :: "VMInfo \<Rightarrow> vm_act list view" where
  "vm_row vm =
     El ''TableRow'' []
       [El ''TableCell'' [] [Txt (vm_name vm)],
        El ''TableCell'' [] [vm_badge (vm_state vm)],
        El ''TableCell'' [] [Txt (vm_memory vm)],
        El ''TableCell'' [] [Txt (show_int (vm_cpus vm))],
        El ''TableCell'' [] [RowActions (''Actions for '' @ vm_name vm) (vm_menu vm)]]"

definition vm_columns :: "(string \<times> string) list" where
  "vm_columns = [(''name'', ''Name''), (''state'', ''State''), (''memory'', ''Memory''), (''cpus'', ''vCPUs''), (''actions'', [])]"

definition vms_description :: "nat \<Rightarrow> string \<Rightarrow> string" where
  "vms_description n f = show_nat n @ '' VM'' @ (if n \<noteq> 1 then ''s'' else [])"

text \<open>\<open>!!confirmDestroy\<close>: neither null nor the empty name opens the dialog.\<close>

definition destroy_dialog :: "string option \<Rightarrow> vm_act list view" where
  "destroy_dialog c =
     El ''ModalContent''
       [(''isOpen'', PB (str_or (opt_str c) [] \<noteq> [])), (''onOpenChange'', ActB (\<lambda>b. [Confirm_Destroy None]))]
       [El ''ModalHeader'' [] [El ''ModalTitle'' [] [Txt ''Destroy VM?'']],
        El ''ModalBody'' []
          [El ''p'' []
             [Txt (''This will forcefully destroy '' @ quote), Txt (opt_str c),
              Txt (quote @ ''. All unsaved data in the VM will be lost. This action cannot be undone.'')]],
        El ''ModalFooter'' []
          [El ''ModalClose'' [] [Txt ''Cancel''],
           El ''Button''
             [(''intent'', PS ''danger''),
              (''onPress'', Act (case c of Some (x # xs) \<Rightarrow> [VM_Action (x # xs) ''destroy''] | _ \<Rightarrow> []))]
             [Txt ''Destroy'']]]"

definition vms_table :: "VMInfo list \<Rightarrow> vm_act list view" where
  "vms_table vms =
     El ''Table'' [(''aria-label'', PS ''Virtual Machines'')]
       [El ''TableHeader'' [] (map (\<lambda>c. El ''TableColumn'' [(''isRowHeader'', PB (fst c = ''name''))] [Txt (snd c)]) vm_columns),
        El ''TableBody'' [] (map vm_row vms)]"

definition VMsPage :: "(VMInfo list) option \<Rightarrow> vms_page \<Rightarrow> vm_act list view list" where
  "VMsPage vms s =
     [PageShell
        \<lparr>ps_data = Some (opt_or vms []), ps_title = ''Virtual Machines'', ps_description = Some vms_description,
         ps_searchable = False, ps_filter = None, ps_onFilterChange = (\<lambda>v. []), ps_filterPlaceholder = None,
         ps_emptyMessage = Some ''No virtual machines found'',
         ps_emptyDescription = Some ''VMs managed by libvirt will appear here'',
         ps_contextMenu = None, ps_beforeTable = [],
         ps_children = [vms_table (opt_or vms [])]\<rparr>
        (vp_shell s),
      destroy_dialog (vp_confirmDestroy s)]"

section \<open>What the page offers\<close>

text \<open>The actions a machine's state allows.\<close>

definition state_allows :: "string \<Rightarrow> string \<Rightarrow> bool" where
  "state_allows state action \<longleftrightarrow>
     action = ''start'' \<and> state \<noteq> ''Running'' \<or> action \<in> {''shutdown'', ''suspend''} \<and> state = ''Running''
     \<or> action = ''resume'' \<and> state = ''Paused''"

definition vms_handlers :: "VMInfo list \<Rightarrow> string option \<Rightarrow> vm_act list set" where
  "vms_handlers vms c =
     {[]} \<union> {[Confirm_Destroy d] |d. True}
     \<union> {[VM_Action (vm_name vm) action] |vm action. vm \<in> set vms \<and> state_allows (vm_state vm) action}
     \<union> {[VM_Action n ''destroy''] |n. c = Some n \<and> n \<noteq> []}"

lemma offered_vm_item: "offered (vm_menu_item a icon label) = {[a]}"
  by (simp add: vm_menu_item_def view_simps)

lemma offered_vm_row:
  "offered (vm_row vm) = (\<lambda>action. [VM_Action (vm_name vm) action]) ` {action. state_allows (vm_state vm) action}
     \<union> {[Confirm_Destroy (Some (vm_name vm))]}"
proof -
  have "offered (vm_row vm) = (\<Union>v \<in> set (vm_menu vm). offered v)"
    by (simp add: vm_row_def vm_badge_def view_simps)
  also have "... = (if vm_state vm \<noteq> ''Running'' then {[VM_Action (vm_name vm) ''start'']} else {})
      \<union> (if vm_state vm = ''Running''
         then {[VM_Action (vm_name vm) ''shutdown''], [VM_Action (vm_name vm) ''suspend'']} else {})
      \<union> (if vm_state vm = ''Paused'' then {[VM_Action (vm_name vm) ''resume'']} else {})
      \<union> {[Confirm_Destroy (Some (vm_name vm))]}"
    by (cases "vm_state vm = ''Running''"; cases "vm_state vm = ''Paused''")
      (simp_all add: vm_menu_def vwhen_def offered_vm_item Un_insert_right insert_commute)
  also have "... = (\<lambda>action. [VM_Action (vm_name vm) action]) ` {action. state_allows (vm_state vm) action}
      \<union> {[Confirm_Destroy (Some (vm_name vm))]}"
    by (auto simp: state_allows_def image_iff)
  finally show ?thesis .
qed

lemma offered_destroy_dialog: "offered (destroy_dialog c) \<subseteq> vms_handlers vms c"
  by (auto simp: destroy_dialog_def vms_handlers_def view_simps split: option.splits list.splits)

lemma offered_vm_table: "offered (vms_table vms) = (\<Union>vm \<in> set vms. offered (vm_row vm))"
  by (simp add: vms_table_def view_simps)

lemma vm_row_offered:
  assumes "vm \<in> set (v # vms)"
  shows "offered (vm_row vm) \<subseteq> offered (VMsPage (Some (v # vms)) s ! 0)"
proof -
  have "offered (vm_row vm) \<subseteq> offered (vms_table (v # vms))"
    unfolding offered_vm_table using assms by (rule UN_upper)
  also have "... \<subseteq> offered (VMsPage (Some (v # vms)) s ! 0)"
    unfolding VMsPage_def nth_Cons_0 by (rule offered_children) simp_all
  finally show ?thesis .
qed

lemma offered_vms_page:
  assumes "v \<in> set (VMsPage vms s)"
  shows "offered v \<subseteq> vms_handlers (opt_or vms []) (vp_confirmDestroy s)"
proof -
  let ?H = "vms_handlers (opt_or vms []) (vp_confirmDestroy s)"
  have "offered (vm_row vm) \<subseteq> ?H" if "vm \<in> set (opt_or vms [])" for vm
    using that unfolding offered_vm_row vms_handlers_def by auto
  then have table: "(\<Union>vm \<in> set (opt_or vms []). offered (vm_row vm)) \<subseteq> ?H" by (rule UN_least)
  have no_call: "[] \<in> ?H" by (simp add: vms_handlers_def)
  consider "v = VMsPage vms s ! 0" | "v = destroy_dialog (vp_confirmDestroy s)"
    using assms by (auto simp: VMsPage_def)
  then show ?thesis
  proof cases
    case 1
    show ?thesis unfolding 1 VMsPage_def nth_Cons_0
      by (rule offered_PageShell_in) (simp_all add: offered_vm_table table no_call)
  next
    case 2
    then show ?thesis using offered_destroy_dialog by simp
  qed
qed

section \<open>Properties\<close>

text \<open>The machines page offers start only for a machine that does not run, shutdown and suspend only
  for one that runs, resume only for a paused one, and destroy only while the confirmation for exactly that
  machine is open; destroying closes the confirmation, so it is not offered a second time.\<close>

lemma destroy_needs_confirmation:
  assumes "v \<in> set (VMsPage vms s)" "[VM_Action n action] \<in> offered v"
  shows "(if action = ''destroy'' then vp_confirmDestroy s = Some n
          else \<exists>vm \<in> set (opt_or vms []). vm_name vm = n \<and> state_allows (vm_state vm) action)
    \<and> vp_confirmDestroy (fst (vms_dispatch (VM_Action n action) s)) = None"
proof -
  have "[VM_Action n action] \<in> vms_handlers (opt_or vms []) (vp_confirmDestroy s)"
    using offered_vms_page [OF assms(1)] assms(2) by blast
  then show ?thesis by (auto simp: vms_handlers_def state_allows_def vm_doAction_def)
qed

definition sample_vm :: VMInfo where
  "sample_vm = \<lparr>vm_name = ''win'', vm_state = ''Paused'', vm_memory = ''4 GB'', vm_cpus = 2\<rparr>"

lemma destroy_needs_confirmation_witness:
  "vp_confirmDestroy (fst (vms_dispatch (VM_Action ''win'' ''destroy'') (vms_init\<lparr>vp_confirmDestroy := Some ''win''\<rparr>))) = None
   \<and> state_allows (vm_state sample_vm) ''resume''"
proof -
  let ?s = "vms_init\<lparr>vp_confirmDestroy := Some ''win''\<rparr>"
  have "[VM_Action ''win'' ''destroy''] \<in> offered (destroy_dialog (Some ''win''))"
    by (simp add: destroy_dialog_def view_simps)
  then have 1: "vp_confirmDestroy (fst (vms_dispatch (VM_Action ''win'' ''destroy'') ?s)) = None"
    using destroy_needs_confirmation [of "destroy_dialog (Some ''win'')" "Some [sample_vm]" ?s "''win''" "''destroy''"]
    by (simp add: VMsPage_def)
  have "[VM_Action ''win'' ''resume''] \<in> offered (vm_row sample_vm)"
    by (simp add: offered_vm_row sample_vm_def state_allows_def)
  then have offer: "[VM_Action ''win'' ''resume''] \<in> offered (VMsPage (Some [sample_vm]) vms_init ! 0)"
    by (rule subsetD [OF vm_row_offered, rotated]) simp
  have "VMsPage (Some [sample_vm]) vms_init ! 0 \<in> set (VMsPage (Some [sample_vm]) vms_init)"
    by (simp add: VMsPage_def)
  from destroy_needs_confirmation [OF this offer] have "state_allows (vm_state sample_vm) ''resume''"
    by simp
  with 1 show ?thesis by blast
qed

end
