(* ===== verification/Charts.thy ===== *)
theory Charts
  imports React_View
begin

text \<open>
  The charts of the widgets, \<^verbatim>\<open>ui/sparkline.tsx\<close>, \<^verbatim>\<open>ui/ring-gauge.tsx\<close> and \<^verbatim>\<open>ui/meter.tsx\<close>, with
  the geometry in exact rationals. The text of a fractional coordinate is the parameter
  \<open>shortest\<close> of \<open>num_string\<close>. Lemmas: where the points and the arc lie.
\<close>

abbreviation PR :: "rat \<Rightarrow> 'a attr" where
  "PR q \<equiv> PN (Fin q)"

section \<open>Sparkline\<close>

record SparklineProps =
  sk_data :: "rat list"
  sk_width :: rat
  sk_height :: rat
  sk_color :: string
  sk_filled :: bool
  sk_min :: rat
  sk_max :: "rat option"

text \<open>The defaults of the component's parameters.\<close>

definition sparkline_props :: "rat list \<Rightarrow> SparklineProps" where
  "sparkline_props ps =
     \<lparr>sk_data = ps, sk_width = 120, sk_height = 32, sk_color = ''var(--color-primary)'', sk_filled = True,
      sk_min = 0, sk_max = None\<rparr>"

text \<open>\<open>maxProp ?? Math.max(...data, 1)\<close> and \<open>max - min || 1\<close>.\<close>

definition sparkline_max :: "SparklineProps \<Rightarrow> rat" where
  "sparkline_max p = (case sk_max p of Some m \<Rightarrow> m | None \<Rightarrow> foldr max (sk_data p) 1)"

definition sparkline_range :: "SparklineProps \<Rightarrow> rat" where
  "sparkline_range p = (let d = sparkline_max p - sk_min p in if d = 0 then 1 else d)"

definition sparkline_pad :: rat where
  "sparkline_pad = 1"

definition sparkline_point :: "SparklineProps \<Rightarrow> nat \<Rightarrow> rat \<Rightarrow> rat \<times> rat" where
  "sparkline_point p i v =
     (let pad = sparkline_pad in
      (of_nat i / of_nat (length (sk_data p) - 1) * (sk_width p - pad * 2) + pad,
       sk_height p - pad - (v - sk_min p) / sparkline_range p * (sk_height p - pad * 2)))"

definition sparkline_points :: "SparklineProps \<Rightarrow> (rat \<times> rat) list" where
  "sparkline_points p = map (\<lambda>(i, v). sparkline_point p i v) (enumerate 0 (sk_data p))"

definition point_text :: "(rat \<Rightarrow> string) \<Rightarrow> rat \<times> rat \<Rightarrow> string" where
  "point_text shortest xy = num_string shortest (Fin (fst xy)) @ '','' @ num_string shortest (Fin (snd xy))"

definition linePath :: "(rat \<Rightarrow> string) \<Rightarrow> SparklineProps \<Rightarrow> string" where
  "linePath shortest p = ''M'' @ js_join '' L'' (map (point_text shortest) (sparkline_points p))"

definition areaPath :: "(rat \<Rightarrow> string) \<Rightarrow> SparklineProps \<Rightarrow> string" where
  "areaPath shortest p =
     (let pad = sparkline_pad; bottom = sk_height p - pad
      in linePath shortest p @ '' L'' @ point_text shortest (sk_width p - pad, bottom)
         @ '' L'' @ point_text shortest (pad, bottom) @ '' Z'')"

definition Sparkline :: "(rat \<Rightarrow> string) \<Rightarrow> SparklineProps \<Rightarrow> 'a view list" where
  "Sparkline shortest p =
     (if length (sk_data p) < 2 then []
      else [El ''svg''
        [(''viewBox'', PS (''0 0 '' @ num_string shortest (Fin (sk_width p)) @ '' '' @ num_string shortest (Fin (sk_height p)))),
         (''width'', PR (sk_width p)), (''height'', PR (sk_height p))]
        (vwhen (sk_filled p) [El ''path'' [(''d'', PS (areaPath shortest p)), (''fill'', PS (sk_color p))] []]
         @ [El ''path'' [(''d'', PS (linePath shortest p)), (''stroke'', PS (sk_color p))] []])])"

lemma foldr_max_ge: "v \<in> set vs \<Longrightarrow> v \<le> foldr max vs (m :: rat)"
  by (induction vs) (auto simp: le_max_iff_disj)

lemma foldr_max_base: "m \<le> foldr max vs (m :: rat)"
  by (induction vs) (auto simp: le_max_iff_disj)

lemma length_sparkline_points [simp]: "length (sparkline_points p) = length (sk_data p)"
  by (simp add: sparkline_points_def)

lemma sparkline_points_nth:
  "i < length (sk_data p) \<Longrightarrow> sparkline_points p ! i = sparkline_point p i (sk_data p ! i)"
  by (simp add: sparkline_points_def nth_enumerate_eq)

text \<open>A share of a length lies inside it.\<close>

lemma share_bounds:
  fixes q w :: rat
  assumes "0 \<le> q" "q \<le> 1" "0 \<le> w"
  shows "0 \<le> q * w" "q * w \<le> w"
  using assms by (simp_all add: mult_left_le_one_le)

lemma sparkline_point_x:
  assumes "i < length (sk_data p)" "2 \<le> length (sk_data p)" "2 \<le> sk_width p"
  shows "1 \<le> fst (sparkline_point p i v)" "fst (sparkline_point p i v) \<le> sk_width p - 1"
proof -
  let ?q = "of_nat i / of_nat (length (sk_data p) - 1) :: rat"
  have "0 \<le> ?q" by simp
  moreover have "?q \<le> 1" using assms by (simp add: divide_le_eq_1)
  ultimately show "1 \<le> fst (sparkline_point p i v)" "fst (sparkline_point p i v) \<le> sk_width p - 1"
    using share_bounds [of ?q "sk_width p - 2"] assms(3)
    by (simp_all add: sparkline_point_def sparkline_pad_def)
qed

lemma sparkline_point_y:
  assumes "sk_min p \<le> v" "v \<le> sparkline_max p" "2 \<le> sk_height p"
  shows "1 \<le> snd (sparkline_point p i v)" "snd (sparkline_point p i v) \<le> sk_height p - 1"
proof -
  let ?q = "(v - sk_min p) / sparkline_range p"
  have "0 < sparkline_range p" using assms by (auto simp: sparkline_range_def Let_def)
  moreover have "v - sk_min p \<le> sparkline_range p" using assms by (auto simp: sparkline_range_def Let_def)
  ultimately have "0 \<le> ?q" "?q \<le> 1" using assms(1) by (simp_all add: divide_le_eq_1)
  then show "1 \<le> snd (sparkline_point p i v)" "snd (sparkline_point p i v) \<le> sk_height p - 1"
    using share_bounds [of ?q "sk_height p - 2"] assms(3)
    by (simp_all add: sparkline_point_def sparkline_pad_def)
qed

section \<open>RingGauge\<close>

text \<open>\<open>Math.PI\<close>, the double.\<close>

definition MATH_PI :: rat where
  "MATH_PI = 884279719003555 / 281474976710656"

record RingGaugeProps =
  rg_value :: rat
  rg_max :: rat
  rg_label :: string
  rg_color :: string
  rg_size :: rat
  rg_strokeWidth :: rat

definition ring_radius :: "RingGaugeProps \<Rightarrow> rat" where
  "ring_radius p = (rg_size p - rg_strokeWidth p) / 2"

definition ring_circumference :: "RingGaugeProps \<Rightarrow> rat" where
  "ring_circumference p = 2 * MATH_PI * ring_radius p"

text \<open>\<open>value / max\<close>: an infinity or \<open>NaN\<close> for a maximum of zero, both kept by \<open>Math.min\<close> and \<open>Math.max\<close>.\<close>

definition ring_pct :: "RingGaugeProps \<Rightarrow> jsnum" where
  "ring_pct p =
     (let q = (if rg_max p \<noteq> 0 then Fin (rg_value p / rg_max p)
               else if 0 < rg_value p then PInf else if rg_value p < 0 then NInf else NaN)
      in js_min 1 (js_max 0 q))"

definition ring_offset :: "RingGaugeProps \<Rightarrow> jsnum" where
  "ring_offset p = (case ring_pct p of Fin q \<Rightarrow> Fin (ring_circumference p * (1 - q)) | _ \<Rightarrow> NaN)"

definition RingGauge :: "RingGaugeProps \<Rightarrow> 'a view" where
  "RingGauge p =
     El ''div'' []
       [El ''svg'' [(''width'', PR (rg_size p)), (''height'', PR (rg_size p))]
          [El ''circle''
             [(''cx'', PR (rg_size p / 2)), (''cy'', PR (rg_size p / 2)), (''r'', PR (ring_radius p)),
              (''stroke'', PS ''var(--color-border)''), (''strokeWidth'', PR (rg_strokeWidth p))] [],
           El ''circle''
             [(''cx'', PR (rg_size p / 2)), (''cy'', PR (rg_size p / 2)), (''r'', PR (ring_radius p)),
              (''stroke'', PS (rg_color p)), (''strokeWidth'', PR (rg_strokeWidth p)),
              (''strokeDasharray'', PR (ring_circumference p)), (''strokeDashoffset'', PN (ring_offset p))] []],
        El ''span'' [] [Txt (rg_label p)]]"

lemma ring_pct_cases:
  "ring_pct p = Fin (min 1 (max 0 (rg_value p / rg_max p))) \<or> rg_max p = 0"
  by (auto simp: ring_pct_def)

lemma ring_offset_share:
  assumes "0 < rg_max p"
  shows "ring_offset p = Fin (ring_circumference p * (1 - min 1 (max 0 (rg_value p / rg_max p))))"
  using assms by (simp add: ring_offset_def ring_pct_def)

section \<open>Meter\<close>

definition getMeterColor :: "rat \<Rightarrow> string" where
  "getMeterColor v =
     (if v < 50 then ''var(--color-success)'' else if v < 80 then ''var(--color-warning)'' else ''var(--color-danger)'')"

text \<open>The track fills the percentage its context holds (\<open>react-aria\<close> computes it from the value).\<close>

definition MeterTrack :: "(rat \<Rightarrow> string) \<Rightarrow> rat \<Rightarrow> string option \<Rightarrow> 'a view" where
  "MeterTrack shortest percentage color =
     El ''div'' [(''data-slot'', PS ''meter-track'')]
       [El ''div''
          [(''data-slot'', PS ''meter-fill''),
           (''width'', PS (num_string shortest (Fin percentage) @ ''%'')),
           (''backgroundColor'', PS (opt_or color (getMeterColor percentage)))] []]"

text \<open>A meter with its only child; \<open>percent_of\<close> is the percentage of a value between 0 and 100.\<close>

definition Meter :: "(rat \<Rightarrow> string) \<Rightarrow> (rat \<Rightarrow> rat) \<Rightarrow> rat \<Rightarrow> string option \<Rightarrow> string option \<Rightarrow> 'a view" where
  "Meter shortest percent_of v valueLabel color =
     El ''Meter''
       ((''value'', PR v) # (case valueLabel of None \<Rightarrow> [] | Some l \<Rightarrow> [(''valueLabel'', PS l)]))
       [MeterTrack shortest (percent_of v) color]"

section \<open>Property\<close>

text \<open>C34. Charts stay in their box: with values between the minimum and the maximum a sparkline draws
  one point per value, all at least one pixel inside its frame, from the left edge to the right one in
  order, and without a maximum every value from the minimum on is drawn inside; the arc of a ring gauge with
  a positive maximum leaves out between nothing and the whole circle, whatever the value.\<close>

theorem charts_in_frame:
  assumes "2 \<le> length (sk_data p)" "2 \<le> sk_width p" "2 \<le> sk_height p"
    and "\<forall>v \<in> set (sk_data p). sk_min p \<le> v \<and> (\<forall>m. sk_max p = Some m \<longrightarrow> v \<le> m)"
    and "0 < rg_max g" "rg_strokeWidth g \<le> rg_size g"
  shows "length (sparkline_points p) = length (sk_data p)
    \<and> (\<forall>xy \<in> set (sparkline_points p). 1 \<le> fst xy \<and> fst xy \<le> sk_width p - 1 \<and> 1 \<le> snd xy \<and> snd xy \<le> sk_height p - 1)
    \<and> fst (hd (sparkline_points p)) = 1 \<and> fst (last (sparkline_points p)) = sk_width p - 1
    \<and> (\<exists>off. ring_offset g = Fin off \<and> 0 \<le> off \<and> off \<le> ring_circumference g)"
proof -
  have data: "sk_data p \<noteq> []" "\<not> length (sk_data p) \<le> Suc 0" using assms(1) by auto
  have len: "sparkline_points p \<noteq> []" using assms(1) by (metis length_sparkline_points list.size(3) not_numeral_le_zero)
  have top: "v \<le> sparkline_max p" if "v \<in> set (sk_data p)" for v
    using assms(4) that foldr_max_ge by (fastforce simp: sparkline_max_def split: option.splits)
  have inside: "1 \<le> fst xy \<and> fst xy \<le> sk_width p - 1 \<and> 1 \<le> snd xy \<and> snd xy \<le> sk_height p - 1"
    if xy: "xy \<in> set (sparkline_points p)" for xy
  proof -
    from xy obtain i where i: "i < length (sk_data p)" "xy = sparkline_point p i (sk_data p ! i)"
      by (metis in_set_conv_nth length_sparkline_points sparkline_points_nth)
    with assms(1-4) top [of "sk_data p ! i"] show ?thesis by (simp add: sparkline_point_x sparkline_point_y)
  qed
  have first: "fst (hd (sparkline_points p)) = 1"
    using data len sparkline_points_nth [of 0 p] by (auto simp: hd_conv_nth sparkline_point_def sparkline_pad_def)
  have final: "fst (last (sparkline_points p)) = sk_width p - 1"
    using data len sparkline_points_nth [of "length (sk_data p) - 1" p]
    by (auto simp: last_conv_nth sparkline_point_def sparkline_pad_def)
  have "0 \<le> ring_circumference g" using assms(6) by (simp add: ring_circumference_def ring_radius_def MATH_PI_def)
  then have "0 \<le> ring_circumference g * (1 - min 1 (max 0 (rg_value g / rg_max g)))"
    "ring_circumference g * (1 - min 1 (max 0 (rg_value g / rg_max g))) \<le> ring_circumference g"
    by (simp_all add: mult_left_le)
  with inside first final show ?thesis by (simp add: ring_offset_share [OF assms(5)])
qed

definition sample_gauge :: RingGaugeProps where
  "sample_gauge = \<lparr>rg_value = 48, rg_max = 100, rg_label = [], rg_color = [], rg_size = 64, rg_strokeWidth = 5\<rparr>"

theorem charts_in_frame_witness: "fst (last (sparkline_points (sparkline_props [3, 7, 2]))) = 119"
  using charts_in_frame [of "sparkline_props [3, 7, 2]" sample_gauge]
  by (simp add: sparkline_props_def sample_gauge_def)

end
