(* ===== verification/Widgets.thy ===== *)
theory Widgets
  imports Charts Hooks Byte_Units Service_Cards
begin

text \<open>
  The fourteen widgets of the overview, \<^verbatim>\<open>widgets/system/\<close>, \<^verbatim>\<open>widgets/services/\<close> and
  \<^verbatim>\<open>widgets/storage/\<close>, and their registry \<^verbatim>\<open>widgets/registry.ts\<close>. A widget is a function of what
  its hooks hold; no view means the component returns null. The texts of fractions
  (\<open>shortest\<close>) and of localized integers, and the percentage of a meter are in \<open>widget_env\<close>.
\<close>

section \<open>What the widgets hold\<close>

record widget_env =
  we_overview :: overview_hook
  we_cpu :: sparkline
  we_memory :: sparkline
  we_power :: sparkline
  we_recv :: sparkline
  we_sent :: sparkline
  we_pools :: "(StorageStatus api_json) option"
  we_shortest :: "rat \<Rightarrow> string"
  we_percent :: "rat \<Rightarrow> rat"
  we_localized :: "int \<Rightarrow> string"

definition widget_stats :: "widget_env \<Rightarrow> StatsSnapshot option" where
  "widget_stats e = useOverview (\<lambda>d. Some (od_Stats d)) (we_overview e)"

text \<open>The selectors the widgets give \<open>useSparkline\<close>, with their window.\<close>

definition cpu_history :: "(nat \<times> OverviewData) option \<Rightarrow> sparkline \<Rightarrow> sparkline" where
  "cpu_history = sparkline_effect (\<lambda>d. Some (Fin (st_CPUUsage (od_Stats d)))) 40"

definition memory_history :: "(nat \<times> OverviewData) option \<Rightarrow> sparkline \<Rightarrow> sparkline" where
  "memory_history = sparkline_effect (\<lambda>d. Some (Fin (st_MemPercent (od_Stats d)))) 40"

definition power_history :: "(nat \<times> OverviewData) option \<Rightarrow> sparkline \<Rightarrow> sparkline" where
  "power_history = sparkline_effect (\<lambda>d. Some (Fin (gpu_PowerW (st_Gpu (od_Stats d))))) 30"

definition recv_history :: "(nat \<times> OverviewData) option \<Rightarrow> sparkline \<Rightarrow> sparkline" where
  "recv_history = sparkline_effect (\<lambda>d. Some (Fin (st_NetRecvRate (od_Stats d)))) 30"

definition sent_history :: "(nat \<times> OverviewData) option \<Rightarrow> sparkline \<Rightarrow> sparkline" where
  "sent_history = sparkline_effect (\<lambda>d. Some (Fin (st_NetSentRate (od_Stats d)))) 30"

section \<open>Shared pieces\<close>

definition widget_skeleton :: "'a view list" where
  "widget_skeleton =
     [El ''Skeleton'' [(''isLoading'', PB True)] [El ''Card'' [] [El ''CardContent'' [] [Txt ''.'']]]]"

definition widget_card :: "'a view list \<Rightarrow> 'a view list" where
  "widget_card content = [El ''Card'' [] [El ''CardContent'' [] content]]"

definition widget_heading :: "string \<Rightarrow> string \<Rightarrow> 'a view" where
  "widget_heading icon title = El ''div'' [] [El icon [] [], El ''span'' [] [Txt title]]"

definition with_stats :: "widget_env \<Rightarrow> (StatsSnapshot \<Rightarrow> 'a view list) \<Rightarrow> 'a view list" where
  "with_stats e f = (case widget_stats e of None \<Rightarrow> widget_skeleton | Some stats \<Rightarrow> f stats)"

definition usage_tone :: "rat \<Rightarrow> string" where
  "usage_tone percent =
     (if percent > 90 then ''var(--color-danger)'' else if percent > 75 then ''var(--color-warning)''
      else ''var(--color-success)'')"

definition usage_meter :: "widget_env \<Rightarrow> string \<Rightarrow> string \<Rightarrow> string \<Rightarrow> rat \<Rightarrow> 'a view" where
  "usage_meter e label used total_text percent =
     El ''div'' []
       [El ''div'' [] [El ''span'' [] [Txt label], El ''span'' [] [Txt used, Txt ''/'', Txt total_text]],
        Meter (we_shortest e) (we_percent e) percent (Some (to_fixed 1 percent @ ''%'')) (Some (usage_tone percent))]"

section \<open>System widgets\<close>

definition chart_with_value :: "widget_env \<Rightarrow> sparkline \<Rightarrow> string \<Rightarrow> 'a view list \<Rightarrow> 'a view" where
  "chart_with_value e history color text =
     El ''div'' []
       (Sparkline (we_shortest e)
          ((sparkline_props (points history))\<lparr>sk_width := 400, sk_height := 56, sk_color := color, sk_max := Some 100\<rparr>)
        @ [El ''div'' [] [El ''span'' [] text]])"

definition CpuWidget :: "widget_env \<Rightarrow> 'a view list" where
  "CpuWidget e = with_stats e (\<lambda>stats. widget_card
     [El ''div'' []
       [widget_heading ''Cpu'' ''CPU'', El ''span'' [] [Txt (show_int (hi_CPUCores (st_System stats))), Txt '' cores'']],
      chart_with_value e (we_cpu e) ''var(--color-primary)'' [Txt (to_fixed 1 (st_CPUUsage stats)), Txt ''%'']])"

definition MemoryWidget :: "widget_env \<Rightarrow> 'a view list" where
  "MemoryWidget e = with_stats e (\<lambda>stats. widget_card
     [El ''div'' [] [widget_heading ''MemoryStick'' ''Memory'', El ''span'' [] [Txt (st_MemTotalStr stats)]],
      chart_with_value e (we_memory e) ''var(--color-success)'' [Txt (st_MemUsedStr stats)]])"

definition DisksWidget :: "widget_env \<Rightarrow> 'a view list" where
  "DisksWidget e = with_stats e (\<lambda>stats.
     if st_Disks stats = [] then []
     else widget_card
       [widget_heading ''HardDrive'' ''Disks'',
        El ''div'' []
          (map (\<lambda>disk. usage_meter e (ds_Mountpoint disk) (ds_UsedStr disk) (ds_TotalStr disk) (ds_Percent disk))
            (st_Disks stats))])"

definition ring_with_name :: "rat \<Rightarrow> string \<Rightarrow> string \<Rightarrow> string \<Rightarrow> 'a view" where
  "ring_with_name v label color name =
     El ''div'' []
       [RingGauge \<lparr>rg_value = v, rg_max = 100, rg_label = label, rg_color = color, rg_size = 64, rg_strokeWidth = 5\<rparr>,
        El ''span'' [] [Txt name]]"

definition GpuEnginesWidget :: "widget_env \<Rightarrow> 'a view list" where
  "GpuEnginesWidget e = with_stats e (\<lambda>stats. let gpu = st_Gpu stats in
     if \<not> gpu_Available gpu then []
     else widget_card
       [widget_heading ''Monitor'' ''iGPU Engines'',
        El ''div'' []
          [ring_with_name (gpu_RenderBusy gpu) (to_fixed 0 (gpu_RenderBusy gpu) @ ''%'') ''var(--color-primary)'' ''Render'',
           ring_with_name (gpu_VideoBusy gpu) (to_fixed 0 (gpu_VideoBusy gpu) @ ''%'') ''var(--color-accent-fg)'' ''Video'']])"

definition gpu_stat_row :: "string \<Rightarrow> string \<Rightarrow> string \<Rightarrow> string \<Rightarrow> 'a view" where
  "gpu_stat_row icon name v unit =
     El ''div'' [] [widget_heading icon name, El ''span'' [] [Txt v, Txt unit]]"

definition GpuPowerWidget :: "widget_env \<Rightarrow> 'a view list" where
  "GpuPowerWidget e = with_stats e (\<lambda>stats. let gpu = st_Gpu stats in
     if \<not> gpu_Available gpu then []
     else widget_card
       ([widget_heading ''Zap'' ''iGPU Power'',
         El ''div'' []
           [gpu_stat_row ''Cpu'' ''Freq'' (to_fixed 0 (gpu_FreqMHz gpu)) '' MHz'',
            gpu_stat_row ''Zap'' ''Power'' (to_fixed 1 (gpu_PowerW gpu)) '' W'',
            gpu_stat_row ''Sun'' ''RC6 idle'' (to_fixed 0 (gpu_RC6Pct gpu)) ''%'']]
        @ Sparkline (we_shortest e)
            ((sparkline_props (points (we_power e)))\<lparr>sk_width := 200, sk_height := 24, sk_color := ''var(--color-warning)''\<rparr>)))"

definition network_column :: "widget_env \<Rightarrow> string \<Rightarrow> rat \<Rightarrow> sparkline \<Rightarrow> string \<Rightarrow> 'a view" where
  "network_column e label rate history color =
     El ''div'' []
       (El ''div'' [] [El ''span'' [] [Txt label], El ''span'' [] [Txt (network_formatBytes rate), Txt ''/s'']]
        # Sparkline (we_shortest e)
            ((sparkline_props (points history))\<lparr>sk_width := 160, sk_height := 24, sk_color := color\<rparr>))"

definition NetworkWidget :: "widget_env \<Rightarrow> 'a view list" where
  "NetworkWidget e = with_stats e (\<lambda>stats. widget_card
     [widget_heading ''Network'' ''Network'',
      El ''div'' []
        [network_column e (down_arrow @ '' Down'') (st_NetRecvRate stats) (we_recv e) ''var(--color-primary)'',
         network_column e (up_arrow @ '' Up'') (st_NetSentRate stats) (we_sent e) ''var(--color-success)'']])"

definition sysRows :: "StatsSnapshot \<Rightarrow> (string \<times> string) list" where
  "sysRows stats =
     (let sys = st_System stats in
      [(''OS'', hi_OS sys), (''Kernel'', hi_KernelVersion sys), (''CPU'', hi_CPUModel sys)]
      @ vwhen (hi_Motherboard sys \<noteq> []) [(''Board'', hi_Motherboard sys)])"

definition SystemInfoWidget :: "widget_env \<Rightarrow> 'a view list" where
  "SystemInfoWidget e = with_stats e (\<lambda>stats. widget_card
     [widget_heading ''Info'' ''System Info'',
      El ''div'' []
        (map (\<lambda>(key, v). El ''div'' [] [El ''span'' [] [Txt key], El ''span'' [(''title'', PS v)] [Txt v]]) (sysRows stats)),
      El ''div'' []
        [El ''div'' [] [El ''span'' [] [El ''Clock'' [] [], Txt ''Uptime''], El ''span'' [] [Txt (st_UptimeStr stats)]],
         El ''div'' []
           [El ''span'' [] [El ''Package'' [] [], Txt ''Packages''],
            El ''span'' [] [Txt (we_localized e (hi_Packages (st_System stats)))]]]])"

definition temperature_tone :: "rat \<Rightarrow> rat \<Rightarrow> string \<Rightarrow> rat \<Rightarrow> string" where
  "temperature_tone hot warm cool t =
     (if t > hot then ''var(--color-danger)'' else if t > warm then ''var(--color-warning)'' else cool)"

definition TemperatureWidget :: "widget_env \<Rightarrow> 'a view list" where
  "TemperatureWidget e = with_stats e (\<lambda>stats.
     let cpuColor = temperature_tone 80 60 ''var(--color-success)'' (st_CPUTemp stats);
         nvmeColor = temperature_tone 70 55 ''var(--color-primary)'' (st_NVMeTemp stats)
     in widget_card
       [widget_heading ''Thermometer'' ''Temperatures'',
        El ''div'' []
          [ring_with_name (st_CPUTemp stats) (to_fixed 0 (st_CPUTemp stats) @ degree_sign) cpuColor ''CPU'',
           ring_with_name (st_NVMeTemp stats) (to_fixed 0 (st_NVMeTemp stats) @ degree_sign) nvmeColor ''NVMe'']])"

definition ProcessRows :: "widget_env \<Rightarrow> ProcessStat list \<Rightarrow> (ProcessStat \<Rightarrow> rat) \<Rightarrow> string \<Rightarrow> string \<Rightarrow> 'a view" where
  "ProcessRows e processes val suffix_text color =
     El ''div'' []
       (map (\<lambda>p. El ''div'' []
           [El ''div'' [] [El ''span'' [] [Txt (ps_Name p)], El ''span'' [] [Txt (to_fixed 1 (val p)), Txt suffix_text]],
            Meter (we_shortest e) (we_percent e) (min (val p) 100) None (Some color)])
         (take 5 processes))"

definition no_process_data :: "'a view" where
  "no_process_data = El ''p'' [] [Txt ''No process data'']"

definition TopCpuWidget :: "widget_env \<Rightarrow> 'a view list" where
  "TopCpuWidget e = with_stats e (\<lambda>stats. widget_card
     [widget_heading ''Cpu'' ''Top CPU'',
      if st_TopCPU stats \<noteq> [] then ProcessRows e (st_TopCPU stats) ps_CPU ''%'' ''var(--color-primary)''
      else no_process_data])"

definition TopMemoryWidget :: "widget_env \<Rightarrow> 'a view list" where
  "TopMemoryWidget e = with_stats e (\<lambda>stats. widget_card
     [widget_heading ''MemoryStick'' ''Top Memory'',
      if st_TopMem stats \<noteq> [] then ProcessRows e (st_TopMem stats) ps_Memory ''%'' ''var(--color-success)''
      else no_process_data])"

definition vpn_line :: "string \<Rightarrow> string \<Rightarrow> 'a view list" where
  "vpn_line name v = [El ''span'' [] [Txt name], El ''span'' [] [Txt v]]"

definition vpn_card :: "VPNStatus \<Rightarrow> 'a view list" where
  "vpn_card vpn =
     widget_card
       ([El ''div'' []
          [El (if vpn_Connected vpn then ''ShieldCheck'' else ''ShieldOff'')
             [(''className'', PS (if vpn_Connected vpn then ''text-primary'' else ''text-destructive''))] [],
           El ''span'' [] [Txt ''VPN''],
           El ''span'' [(''className'', PS (if vpn_Connected vpn then ''bg-success'' else ''bg-destructive''))] []],
         El ''div'' [] [Txt (vpn_Provider vpn), Txt ('' '' @ middle_dot @ '' ''), Txt (vpn_Type vpn)],
         El ''div'' []
           (vpn_line ''Public IP'' (str_or (vpn_PublicIP vpn) em_dash)
            @ vpn_line ''Fwd port'' (if vpn_ForwardedPort vpn = 0 then em_dash else show_int (vpn_ForwardedPort vpn))
            @ vpn_line ''Country'' (str_or (vpn_ServerCountry vpn) em_dash))]
        @ vwhen (opt_str (vpn_ErrMsg vpn) \<noteq> []) [El ''div'' [] [Txt (opt_str (vpn_ErrMsg vpn))]])"

definition VpnWidget :: "widget_env \<Rightarrow> 'a view list" where
  "VpnWidget e =
     (case useOverview (\<lambda>d. Some (od_VPN d)) (we_overview e) of
        None \<Rightarrow> widget_skeleton
      | Some vpn \<Rightarrow>
          if \<not> vpn_Enabled vpn
          then widget_card [widget_heading ''ShieldOff'' ''VPN'', El ''div'' [] [Txt ''Disabled'']]
          else vpn_card vpn)"

end
