(* ===== verification/Widget_Registry.thy ===== *)
theory Widget_Registry
  imports Widgets
begin

text \<open>
  The services and storage widgets, \<^verbatim>\<open>widgets/services/QbittorrentWidget.tsx\<close>,
  \<^verbatim>\<open>widgets/services/ServicesWidget.tsx\<close> and \<^verbatim>\<open>widgets/storage/StorageWidget.tsx\<close>, and the table
  of all widgets, \<^verbatim>\<open>widgets/registry.ts\<close>.
\<close>

section \<open>QbittorrentWidget\<close>

definition torrent_downloading :: "QbitTorrent \<Rightarrow> bool" where
  "torrent_downloading t \<longleftrightarrow> qt_dlspeed t > 0 \<or> js_includes ''downloading'' (qt_state t)"

definition torrent_row :: "widget_env \<Rightarrow> QbitTorrent \<Rightarrow> 'a view" where
  "torrent_row e t =
     (let isDownloading = torrent_downloading t;
          speed = (if isDownloading then qt_dlspeed t else qt_upspeed t)
      in El ''div'' []
        [El ''div'' []
           [El ''span'' [(''title'', PS (qt_name t @ '' '' @ em_dash @ '' '' @ qt_instance t))] [Txt (qt_name t)],
            El ''span'' []
              [Txt (if isDownloading then down_arrow else up_arrow), Txt '' '',
               Txt (qbit_formatBytes (of_int speed)), Txt ''/s'']],
         Meter (we_shortest e) (we_percent e) (min (qt_progress t * 100) 100) None
           (Some (if isDownloading then ''var(--color-primary)'' else ''var(--color-success)''))])"

definition QbittorrentWidget :: "widget_env \<Rightarrow> 'a view list" where
  "QbittorrentWidget e =
     (case useOverview (\<lambda>d. Some (od_Qbittorrent d)) (we_overview e) of
        None \<Rightarrow> widget_skeleton
      | Some stats \<Rightarrow>
          if \<not> qs_enabled stats then []
          else if opt_str (qs_error stats) \<noteq> []
          then widget_card
                 [widget_heading ''Download'' ''Torrents'', El ''p'' [] [Txt (opt_str (qs_error stats))]]
          else widget_card
                 [El ''div'' []
                    ([El ''Download'' [] [], El ''span'' [] [Txt ''Torrents'']]
                     @ vwhen (qs_torrents stats \<noteq> []) [El ''span'' [] [Txt (show_nat (length (qs_torrents stats)))]]),
                  if qs_torrents stats = [] then El ''p'' [] [Txt ''No torrents'']
                  else El ''div'' [] (map (torrent_row e) (qs_torrents stats))])"

section \<open>ServicesWidget\<close>

definition word_char :: "char \<Rightarrow> bool" where
  "word_char c \<longleftrightarrow> is_upper c \<or> is_lower c \<or> is_digit c \<or> c = CHR ''_''"

text \<open>\<open>replace(/\b\w/g, toUpperCase)\<close>: the first character of every run of word characters.\<close>

fun capitalize_words :: "bool \<Rightarrow> string \<Rightarrow> string" where
  "capitalize_words inside [] = []"
| "capitalize_words inside (c # cs) =
     (if word_char c \<and> \<not> inside then to_upper c else c) # capitalize_words (word_char c) cs"

definition fmtName :: "string \<Rightarrow> string" where
  "fmtName s = capitalize_words False (map (\<lambda>c. if c = CHR ''_'' \<or> c = CHR ''-'' then CHR '' '' else c) s)"

definition StatusDotSVG :: "string \<Rightarrow> 'a view" where
  "StatusDotSVG color = El ''svg'' [] [El ''circle'' [(''fill'', PS color)] []]"

definition service_failed :: "ServiceInfo \<Rightarrow> bool" where
  "service_failed s \<longleftrightarrow> si_active_state s = ''failed'' \<or> si_failure_count s > 0"

definition service_tile :: "ServiceInfo \<Rightarrow> 'a view" where
  "service_tile s =
     (let isActive = (si_active_state s = ''active''); isFailed = service_failed s;
          dotColor = (if isFailed then ''var(--color-danger)'' else if isActive then ''var(--color-success)''
                      else ''var(--color-danger)'')
      in El ''div''
        [(''className'', PS
            ((if isActive then ''bg-accent/30 hover:bg-accent/50'' else ''bg-muted/10'')
             @ (if isFailed then '' ring-1 ring-danger/30'' else [])
             @ (if \<not> isActive then '' opacity-55 grayscale'' else [])))]
        [El ''span'' [] [Txt (fmtName (si_name s))],
         El ''div'' []
           [El ''div'' []
             [El ''img''
                ([(''src'', PS (str_or (opt_str (si_icon_url s)) FALLBACK_ICON)), (''alt'', PS (si_name s))]
                 @ vwhen (opt_str (si_icon_url s) = []) [(''data-fallback'', PS ''true'')]) [],
              StatusDotSVG dotColor]]])"

definition service_tooltip :: "ServiceInfo \<Rightarrow> 'a view" where
  "service_tooltip s =
     El ''TooltipContent'' []
       (Txt (str_or (si_description s) (si_name s))
        # vwhen (si_active_state s \<noteq> ''active'')
            [El ''span'' [] [Txt (str_or (si_blocked_reason s) (si_active_state s))]])"

definition service_entry :: "ServiceInfo \<Rightarrow> 'a view" where
  "service_entry s =
     El ''Tooltip'' []
       [El ''TooltipTrigger'' []
          [case opt_str (si_homepage_url s) of
             [] \<Rightarrow> El ''div'' [] [service_tile s]
           | url \<Rightarrow> El ''a'' [(''href'', PS url), (''target'', PS ''_blank''), (''rel'', PS ''noopener noreferrer'')]
                      [service_tile s]],
        service_tooltip s]"

definition visible_services :: "ServiceInfo list \<Rightarrow> ServiceInfo list" where
  "visible_services services = filter (\<lambda>s. si_name s \<noteq> ''postgresql'' \<and> si_name s \<noteq> ''caddy'') services"

definition ServicesWidget :: "widget_env \<Rightarrow> 'a view list" where
  "ServicesWidget e =
     (case useOverview (\<lambda>d. Some (od_Services d)) (we_overview e) of
        None \<Rightarrow> widget_skeleton
      | Some services \<Rightarrow>
          (let visible = visible_services services;
               online = length (filter (\<lambda>s. si_active_state s = ''active'') visible)
           in widget_card
                [El ''div'' []
                   [El ''span'' [] [Txt ''Services''],
                    El ''span'' []
                      [Txt ''('', Txt (show_nat online), Txt ''/'', Txt (show_nat (length visible)), Txt '' online)'']],
                 El ''div'' [] (map service_entry visible)]))"

section \<open>StorageWidget\<close>

text \<open>The poll of the pools, every five seconds; neither the status nor the shape of the body is looked at.\<close>

definition widget_fetchStorage :: "effect list" where
  "widget_fetchStorage = [Fetch ''GET'' ''/api/storage'' None]"

definition widget_storage_settle ::
  "(StorageStatus api_json) outcome \<Rightarrow> (StorageStatus api_json) option \<Rightarrow> (StorageStatus api_json) option" where
  "widget_storage_settle r poolStatus =
     (case r of
        Rejected e \<Rightarrow> poolStatus
      | Resolved resp \<Rightarrow> (case r_json resp of None \<Rightarrow> poolStatus | Some body \<Rightarrow> Some body))"

definition widget_pools :: "widget_env \<Rightarrow> Pool list" where
  "widget_pools e = (case we_pools e of Some (Payload st) \<Rightarrow> ss_pools st | _ \<Rightarrow> [])"

definition widget_disks :: "widget_env \<Rightarrow> DiskStat list" where
  "widget_disks e = (case widget_stats e of None \<Rightarrow> [] | Some stats \<Rightarrow> st_Disks stats)"

definition pool_bar :: "widget_env \<Rightarrow> Pool \<Rightarrow> 'a view" where
  "pool_bar e pool =
     (let bytes = (\<lambda>f. case pool_usage pool of None \<Rightarrow> ''?'' | Some u \<Rightarrow> widget_fmtBytes (of_int (f u)))
      in usage_meter e (str_or (pool_mountdir pool) (str_or (pool_name pool) (pool_uuid pool)))
           (bytes pu_used_bytes) (bytes pu_total_bytes)
           (case pool_usage pool of None \<Rightarrow> 0 | Some u \<Rightarrow> pu_used_percent u))"

definition disk_bar :: "widget_env \<Rightarrow> DiskStat \<Rightarrow> 'a view" where
  "disk_bar e d =
     usage_meter e (ds_Mountpoint d) (str_or (ds_UsedStr d) (widget_fmtBytes (of_int (ds_Used d))))
       (str_or (ds_TotalStr d) (widget_fmtBytes (of_int (ds_Total d)))) (ds_Percent d)"

definition StorageWidget :: "widget_env \<Rightarrow> 'a view list" where
  "StorageWidget e =
     (if we_pools e = None \<and> widget_stats e = None then widget_skeleton
      else (let pools = widget_pools e; disks = widget_disks e
            in widget_card
                 [widget_heading ''Database'' ''Storage'',
                  El ''div'' []
                    (map (disk_bar e) disks
                     @ vwhen (pools \<noteq> [] \<and> disks \<noteq> []) [El ''hr'' [] []]
                     @ map (pool_bar e) pools
                     @ vwhen (pools = [] \<and> disks = []) [El ''p'' [] [Txt ''No storage detected.'']])]))"

section \<open>The registry\<close>

datatype widget_component =
    Cpu_Widget | Memory_Widget | System_Info_Widget | Temperature_Widget | Gpu_Engines_Widget | Gpu_Power_Widget
  | Disks_Widget | Network_Widget | Top_Cpu_Widget | Top_Memory_Widget | Storage_Widget | Services_Widget
  | Qbittorrent_Widget | Vpn_Widget

primrec render_widget :: "widget_env \<Rightarrow> widget_component \<Rightarrow> 'a view list" where
  "render_widget e Cpu_Widget = CpuWidget e"
| "render_widget e Memory_Widget = MemoryWidget e"
| "render_widget e System_Info_Widget = SystemInfoWidget e"
| "render_widget e Temperature_Widget = TemperatureWidget e"
| "render_widget e Gpu_Engines_Widget = GpuEnginesWidget e"
| "render_widget e Gpu_Power_Widget = GpuPowerWidget e"
| "render_widget e Disks_Widget = DisksWidget e"
| "render_widget e Network_Widget = NetworkWidget e"
| "render_widget e Top_Cpu_Widget = TopCpuWidget e"
| "render_widget e Top_Memory_Widget = TopMemoryWidget e"
| "render_widget e Storage_Widget = StorageWidget e"
| "render_widget e Services_Widget = ServicesWidget e"
| "render_widget e Qbittorrent_Widget = QbittorrentWidget e"
| "render_widget e Vpn_Widget = VpnWidget e"

record WidgetDefinition =
  wd_id :: string
  wd_name :: string
  wd_component :: widget_component
  wd_defaultGridSpan :: "int option"

record WidgetLayout =
  wl_id :: string
  wl_span :: int

definition widget_definition :: "string \<Rightarrow> string \<Rightarrow> widget_component \<Rightarrow> int \<Rightarrow> WidgetDefinition" where
  "widget_definition i n c s = \<lparr>wd_id = i, wd_name = n, wd_component = c, wd_defaultGridSpan = Some s\<rparr>"

definition WIDGETS :: "WidgetDefinition list" where
  "WIDGETS =
     [widget_definition ''cpu'' ''CPU Usage'' Cpu_Widget 2,
      widget_definition ''memory'' ''Memory Usage'' Memory_Widget 2,
      widget_definition ''system-info'' ''System Info'' System_Info_Widget 1,
      widget_definition ''temperature'' ''Temperatures'' Temperature_Widget 1,
      widget_definition ''gpu-engines'' ''iGPU Engines'' Gpu_Engines_Widget 1,
      widget_definition ''gpu-power'' ''iGPU Power/Freq'' Gpu_Power_Widget 1,
      widget_definition ''disks'' ''System Disks'' Disks_Widget 1,
      widget_definition ''network'' ''Network Throughput'' Network_Widget 1,
      widget_definition ''top-cpu'' ''Top CPU Processes'' Top_Cpu_Widget 2,
      widget_definition ''top-memory'' ''Top Memory Processes'' Top_Memory_Widget 2,
      widget_definition ''storage'' ''Storage Pools'' Storage_Widget 1,
      widget_definition ''services'' ''Services Overview'' Services_Widget 1,
      widget_definition ''qbittorrent'' ''qBittorrent Active'' Qbittorrent_Widget 2,
      widget_definition ''vpn'' ''VPN Status'' Vpn_Widget 1]"

lemma widget_ids_distinct: "distinct (map wd_id WIDGETS)"
  by (simp add: WIDGETS_def widget_definition_def)

end
