(* ===== verification/Overview_Page.thy ===== *)
theory Overview_Page
  imports Widget_Registry
begin

text \<open>
  \<^verbatim>\<open>pages/OverviewPage.tsx\<close>: packing the widgets into rows of the grid, the chip with the age of
  the data, and the page. Lemmas: the packing keeps every widget in order and fills each row.
\<close>

section \<open>computeRows\<close>

record Row =
  row_items :: "WidgetLayout list"
  row_totalSpan :: int

text \<open>The variables of the loop.\<close>

record packing =
  pk_rows :: "Row list"
  pk_current :: "WidgetLayout list"
  pk_used :: int

definition pack_item :: "int \<Rightarrow> WidgetLayout \<Rightarrow> packing \<Rightarrow> packing" where
  "pack_item cols item p =
     (let span = min (wl_span item) cols;
          q = (if pk_used p + span > cols
               then \<lparr>pk_rows = pk_rows p @ [\<lparr>row_items = pk_current p, row_totalSpan = pk_used p\<rparr>],
                     pk_current = [], pk_used = 0\<rparr>
               else p)
      in q\<lparr>pk_current := pk_current q @ [item\<lparr>wl_span := span\<rparr>], pk_used := pk_used q + span\<rparr>)"

definition packed_rows :: "WidgetLayout list \<Rightarrow> int \<Rightarrow> Row list" where
  "packed_rows layout cols =
     (let p = fold (pack_item cols) layout \<lparr>pk_rows = [], pk_current = [], pk_used = 0\<rparr>
      in pk_rows p
         @ (if pk_current p \<noteq> [] then [\<lparr>row_items = pk_current p, row_totalSpan = pk_used p\<rparr>] else []))"

definition distribute :: "int \<Rightarrow> Row \<Rightarrow> Row" where
  "distribute cols row =
     (if row_totalSpan row < cols \<and> row_items row \<noteq> []
      then (let w = last (row_items row)
            in row\<lparr>row_items := butlast (row_items row)
                 @ [w\<lparr>wl_span := min (wl_span w + (cols - row_totalSpan row)) cols\<rparr>]\<rparr>)
      else row)"

definition computeRows :: "WidgetLayout list \<Rightarrow> int \<Rightarrow> Row list" where
  "computeRows layout cols = map (distribute cols) (packed_rows layout cols)"

section \<open>PollChip\<close>

record poll_chip =
  pc_lastFetch :: int
  pc_ago :: int

definition chip_mount :: "int \<Rightarrow> poll_chip" where
  "chip_mount now = \<lparr>pc_lastFetch = now, pc_ago = 0\<rparr>"

text \<open>The effect of a new data object, and the interval timer.\<close>

definition chip_data :: "int \<Rightarrow> OverviewData option \<Rightarrow> poll_chip \<Rightarrow> poll_chip" where
  "chip_data now d s = (case d of None \<Rightarrow> s | Some _ \<Rightarrow> s\<lparr>pc_lastFetch := now\<rparr>)"

definition chip_tick :: "int \<Rightarrow> poll_chip \<Rightarrow> poll_chip" where
  "chip_tick now s = s\<lparr>pc_ago := math_round (of_int (now - pc_lastFetch s) / 1000)\<rparr>"

definition PollChip :: "poll_chip \<Rightarrow> 'a view" where
  "PollChip s =
     El ''div'' []
       [El ''span'' [(''className'', PS ''bg-success'')] [],
        El ''span'' [] [Txt (show_int (pc_ago s)), Txt ''s ago'']]"

section \<open>The page\<close>

text \<open>
  \<^verbatim>\<open>/widgets.json\<close> as \<open>r.json()\<close> gives it: a list of layout entries, or some other value
  (\<open>None\<close>), which leaves the layout as it is.
\<close>

definition layout_settle ::
  "((WidgetLayout list) option) outcome \<Rightarrow> (WidgetLayout list) option \<Rightarrow> (WidgetLayout list) option" where
  "layout_settle r layout =
     (let defaults = map (\<lambda>w. \<lparr>wl_id = wd_id w, wl_span = opt_or (wd_defaultGridSpan w) 1\<rparr>) WIDGETS in
      case r of
        Rejected e \<Rightarrow> Some defaults
      | Resolved resp \<Rightarrow>
          (case r_json resp of
             None \<Rightarrow> Some defaults
           | Some (Some entries) \<Rightarrow> Some entries
           | Some None \<Rightarrow> layout))"

definition overview_rows :: "(WidgetLayout list) option \<Rightarrow> Row list" where
  "overview_rows layout =
     computeRows (filter (\<lambda>item. \<exists>w \<in> set WIDGETS. wd_id w = wl_id item) (opt_or layout [])) 4"

definition spanClass :: "int \<Rightarrow> string" where
  "spanClass n =
     (if n = 4 then ''col-span-1 md:col-span-4'' else if n = 2 then ''col-span-1 md:col-span-2''
      else ''col-span-1 md:col-span-1'')"

definition widget_cell :: "widget_env \<Rightarrow> WidgetLayout \<Rightarrow> 'a view list" where
  "widget_cell e item =
     (case find (\<lambda>w. wd_id w = wl_id item) WIDGETS of
        None \<Rightarrow> []
      | Some w \<Rightarrow>
          [El ''div'' [(''className'', PS (''min-w-0 '' @ spanClass (wl_span item)))]
             [El ''div'' [] (render_widget e (wd_component w))]])"

definition OverviewPage :: "widget_env \<Rightarrow> poll_chip \<Rightarrow> (WidgetLayout list) option \<Rightarrow> 'a view" where
  "OverviewPage e chip layout =
     El ''div'' []
       [El ''div'' [] [El ''div'' [] [El ''h1'' [] [Txt ''Overview''], PollChip chip]],
        El ''div'' []
          (map (\<lambda>(ri, row). El ''div'' [(''animationDelay'', PS (show_nat (ri * 60) @ ''ms''))]
              (concat (map (widget_cell e) (row_items row))))
            (enumerate 0 (overview_rows layout)))]"

section \<open>What the packing keeps\<close>

definition row_ok :: "int \<Rightarrow> Row \<Rightarrow> bool" where
  "row_ok cols row \<longleftrightarrow>
     row_items row \<noteq> [] \<and> row_totalSpan row = sum_list (map wl_span (row_items row))
     \<and> row_totalSpan row \<le> cols \<and> (\<forall>w \<in> set (row_items row). 1 \<le> wl_span w)"

definition packing_ok :: "int \<Rightarrow> packing \<Rightarrow> bool" where
  "packing_ok cols p \<longleftrightarrow>
     (\<forall>row \<in> set (pk_rows p). row_ok cols row)
     \<and> pk_used p = sum_list (map wl_span (pk_current p)) \<and> pk_used p \<le> cols
     \<and> (\<forall>w \<in> set (pk_current p). 1 \<le> wl_span w)"

definition packing_ids :: "packing \<Rightarrow> string list" where
  "packing_ids p = concat (map (\<lambda>row. map wl_id (row_items row)) (pk_rows p)) @ map wl_id (pk_current p)"

lemma pack_item_ids: "packing_ids (pack_item cols w p) = packing_ids p @ [wl_id w]"
  by (simp add: packing_ids_def pack_item_def Let_def)

lemma pack_item_ok:
  assumes "packing_ok cols p" "1 \<le> wl_span w" "1 \<le> cols"
  shows "packing_ok cols (pack_item cols w p)"
proof (cases "pk_used p + min (wl_span w) cols > cols")
  case True
  then have "pk_current p \<noteq> []" using assms by (auto simp: packing_ok_def)
  with True assms show ?thesis by (auto simp: packing_ok_def pack_item_def row_ok_def Let_def)
next
  case False
  with assms show ?thesis by (auto simp: packing_ok_def pack_item_def Let_def)
qed

lemma fold_pack_ids: "packing_ids (fold (pack_item cols) ws p) = packing_ids p @ map wl_id ws"
  by (induction ws arbitrary: p) (simp_all add: pack_item_ids)

lemma fold_pack_ok:
  "packing_ok cols p \<Longrightarrow> \<forall>w \<in> set ws. 1 \<le> wl_span w \<Longrightarrow> 1 \<le> cols \<Longrightarrow> packing_ok cols (fold (pack_item cols) ws p)"
  by (induction ws arbitrary: p) (simp_all add: pack_item_ok)

lemma packed_rows_ids:
  "concat (map (\<lambda>row. map wl_id (row_items row)) (packed_rows layout cols)) = map wl_id layout"
  using fold_pack_ids [of cols layout "\<lparr>pk_rows = [], pk_current = [], pk_used = 0\<rparr>"]
  by (auto simp: packed_rows_def packing_ids_def Let_def)

lemma packed_rows_ok:
  assumes "\<forall>w \<in> set layout. 1 \<le> wl_span w" "1 \<le> cols" "row \<in> set (packed_rows layout cols)"
  shows "row_ok cols row"
proof -
  let ?p = "fold (pack_item cols) layout \<lparr>pk_rows = [], pk_current = [], pk_used = 0\<rparr>"
  have "packing_ok cols ?p" using assms(1,2) by (intro fold_pack_ok) (simp_all add: packing_ok_def)
  then show ?thesis using assms(3)
    by (auto simp: packed_rows_def packing_ok_def row_ok_def Let_def split: if_splits)
qed

lemma distribute_ids: "map wl_id (row_items (distribute cols row)) = map wl_id (row_items row)"
  by (cases "row_items row" rule: rev_cases) (simp_all add: distribute_def Let_def)

lemma member_le_sum_int: "\<forall>v \<in> set vs. 0 \<le> f v \<Longrightarrow> v \<in> set vs \<Longrightarrow> (f v :: int) \<le> sum_list (map f vs)"
proof (induction vs)
  case (Cons u us)
  moreover from Cons.prems have "0 \<le> sum_list (map f us)" by (intro sum_list_nonneg) auto
  ultimately show ?case by auto
qed simp

lemma length_le_sum_int: "\<forall>v \<in> set vs. 1 \<le> f v \<Longrightarrow> int (length vs) \<le> sum_list (map f vs)"
  by (induction vs) auto

text \<open>The last widget of a row takes what the others leave.\<close>

lemma distribute_last:
  assumes "row_ok cols row" "row_items row = ws @ [w]"
  shows "row_items (distribute cols row) = ws @ [w\<lparr>wl_span := cols - sum_list (map wl_span ws)\<rparr>]"
    and "1 \<le> cols - sum_list (map wl_span ws)" and "0 \<le> sum_list (map wl_span ws)"
proof -
  show nonneg: "0 \<le> sum_list (map wl_span ws)"
    using assms by (intro sum_list_nonneg) (auto simp: row_ok_def)
  show "1 \<le> cols - sum_list (map wl_span ws)" using assms by (simp add: row_ok_def)
  show "row_items (distribute cols row) = ws @ [w\<lparr>wl_span := cols - sum_list (map wl_span ws)\<rparr>]"
    using assms nonneg by (cases "row_totalSpan row < cols") (auto simp: distribute_def row_ok_def Let_def)
qed

lemma distribute_fills:
  assumes "row_ok cols row"
  shows "row_items (distribute cols row) \<noteq> []"
    and "sum_list (map wl_span (row_items (distribute cols row))) = cols"
    and "v \<in> set (row_items (distribute cols row)) \<Longrightarrow> 1 \<le> wl_span v \<and> wl_span v \<le> cols"
proof -
  obtain ws w where items: "row_items row = ws @ [w]"
    using assms by (cases "row_items row" rule: rev_cases) (auto simp: row_ok_def)
  note new = distribute_last [OF assms items]
  show "row_items (distribute cols row) \<noteq> []" "sum_list (map wl_span (row_items (distribute cols row))) = cols"
    by (simp_all add: new(1))
  assume "v \<in> set (row_items (distribute cols row))"
  then consider "v \<in> set ws" | "wl_span v = cols - sum_list (map wl_span ws)" by (auto simp: new(1))
  then show "1 \<le> wl_span v \<and> wl_span v \<le> cols"
  proof cases
    case 1
    then have "wl_span v \<le> sum_list (map wl_span ws)"
      using assms items by (intro member_le_sum_int) (auto simp: row_ok_def)
    with 1 new(2) assms items show ?thesis by (auto simp: row_ok_def)
  next
    case 2
    with new(2,3) show ?thesis by simp
  qed
qed

text \<open>Which spans the loop hands on.\<close>

definition packing_spans :: "int set \<Rightarrow> packing \<Rightarrow> bool" where
  "packing_spans S p \<longleftrightarrow>
     (\<forall>row \<in> set (pk_rows p). wl_span ` set (row_items row) \<subseteq> S) \<and> wl_span ` set (pk_current p) \<subseteq> S"

lemma pack_item_spans:
  "packing_spans S p \<Longrightarrow> min (wl_span w) cols \<in> S \<Longrightarrow> packing_spans S (pack_item cols w p)"
  by (auto simp: packing_spans_def pack_item_def Let_def)

lemma fold_pack_spans:
  "packing_spans S p \<Longrightarrow> \<forall>w \<in> set ws. min (wl_span w) cols \<in> S \<Longrightarrow> packing_spans S (fold (pack_item cols) ws p)"
  by (induction ws arbitrary: p) (simp_all add: pack_item_spans)

lemma packed_rows_spans:
  assumes "\<forall>w \<in> set layout. min (wl_span w) cols \<in> S" "row \<in> set (packed_rows layout cols)" "v \<in> set (row_items row)"
  shows "wl_span v \<in> S"
proof -
  let ?p = "fold (pack_item cols) layout \<lparr>pk_rows = [], pk_current = [], pk_used = 0\<rparr>"
  have "packing_spans S ?p" using assms(1) by (intro fold_pack_spans) (simp_all add: packing_spans_def)
  then show ?thesis using assms(2,3)
    by (auto simp: packed_rows_def packing_spans_def Let_def split: if_splits)
qed

section \<open>Properties\<close>

text \<open>C35. Packing a layout of positive spans into rows of the grid keeps every widget, in order, has no
  empty row, gives every widget between one and all columns, and fills each row exactly.\<close>

theorem rows_fill_grid:
  assumes "\<forall>w \<in> set layout. 1 \<le> wl_span w" "1 \<le> cols"
  shows "concat (map (\<lambda>row. map wl_id (row_items row)) (computeRows layout cols)) = map wl_id layout
    \<and> (\<forall>row \<in> set (computeRows layout cols).
         row_items row \<noteq> [] \<and> sum_list (map wl_span (row_items row)) = cols
         \<and> (\<forall>v \<in> set (row_items row). 1 \<le> wl_span v \<and> wl_span v \<le> cols))"
proof
  show "concat (map (\<lambda>row. map wl_id (row_items row)) (computeRows layout cols)) = map wl_id layout"
    by (simp add: computeRows_def distribute_ids comp_def packed_rows_ids)
  show "\<forall>row \<in> set (computeRows layout cols).
         row_items row \<noteq> [] \<and> sum_list (map wl_span (row_items row)) = cols
         \<and> (\<forall>v \<in> set (row_items row). 1 \<le> wl_span v \<and> wl_span v \<le> cols)"
  proof
    fix row assume "row \<in> set (computeRows layout cols)"
    then obtain r where r: "r \<in> set (packed_rows layout cols)" "row = distribute cols r"
      by (auto simp: computeRows_def)
    from packed_rows_ok [OF assms r(1)] show "row_items row \<noteq> [] \<and> sum_list (map wl_span (row_items row)) = cols
         \<and> (\<forall>v \<in> set (row_items row). 1 \<le> wl_span v \<and> wl_span v \<le> cols)"
      unfolding r(2) by (intro conjI ballI) (erule distribute_fills | drule (1) distribute_fills(3), simp)+
  qed
qed

theorem rows_fill_grid_witness:
  "map (\<lambda>row. map wl_span (row_items row)) (computeRows [\<lparr>wl_id = ''a'', wl_span = 1\<rparr>, \<lparr>wl_id = ''b'', wl_span = 4\<rparr>] 4)
     = [[4], [4]]
   \<and> concat (map (\<lambda>row. map wl_id (row_items row))
       (computeRows [\<lparr>wl_id = ''a'', wl_span = 1\<rparr>, \<lparr>wl_id = ''b'', wl_span = 4\<rparr>] 4)) = [''a'', ''b'']"
  using rows_fill_grid [of "[\<lparr>wl_id = ''a'', wl_span = 1\<rparr>, \<lparr>wl_id = ''b'', wl_span = 4\<rparr>]" 4]
  by (simp add: computeRows_def packed_rows_def pack_item_def distribute_def)

text \<open>C36. A layout with the spans its type allows (1, 2 and 4) keeps them for every widget but the last
  of a row, which the cast in \<open>computeRows\<close> also declares to be 1, 2 or 4: it can be 3, in a row of two
  widgets, and then it is drawn one column wide.\<close>

theorem widget_span_types:
  assumes "\<forall>w \<in> set layout. wl_span w \<in> {1, 2, 4}" "row \<in> set (computeRows layout 4)"
  shows "(\<forall>v \<in> set (butlast (row_items row)). wl_span v \<in> {1, 2, 4})
    \<and> wl_span (last (row_items row)) \<in> {1, 2, 3, 4}
    \<and> (wl_span (last (row_items row)) = 3 \<longrightarrow>
         length (row_items row) = 2 \<and> spanClass (wl_span (last (row_items row))) = spanClass 1)"
proof -
  from assms(2) obtain r where r: "r \<in> set (packed_rows layout 4)" "row = distribute 4 r"
    by (auto simp: computeRows_def)
  have ok: "row_ok 4 r" using assms(1) r(1) by (intro packed_rows_ok) auto
  then obtain ws w where items: "row_items r = ws @ [w]"
    by (cases "row_items r" rule: rev_cases) (auto simp: row_ok_def)
  note new = distribute_last [OF ok items]
  have spans: "\<forall>v \<in> set ws. wl_span v \<in> {1, 2, 4}"
    using packed_rows_spans [of layout 4 "{1, 2, 4}" r] assms(1) r(1) items by (auto simp: min_def)
  have "length ws = 1" if one: "sum_list (map wl_span ws) = 1"
  proof -
    have "int (length ws) \<le> sum_list (map wl_span ws)" using spans by (intro length_le_sum_int) auto
    moreover have "ws \<noteq> []" using one by auto
    ultimately show ?thesis using one by (cases ws) auto
  qed
  with new(2,3) spans show ?thesis by (auto simp: r(2) new(1) spanClass_def)
qed

theorem widget_span_types_witness:
  "map (\<lambda>row. map wl_span (row_items row))
     (computeRows [\<lparr>wl_id = ''a'', wl_span = 1\<rparr>, \<lparr>wl_id = ''b'', wl_span = 1\<rparr>, \<lparr>wl_id = ''c'', wl_span = 4\<rparr>] 4)
     = [[1, 3], [4]] \<and> spanClass 3 = spanClass 1"
proof -
  let ?l = "[\<lparr>wl_id = ''a'', wl_span = 1\<rparr>, \<lparr>wl_id = ''b'', wl_span = 1\<rparr>, \<lparr>wl_id = ''c'', wl_span = 4\<rparr>]"
  have rows: "map (\<lambda>row. map wl_span (row_items row)) (computeRows ?l 4) = [[1, 3], [4]]"
    by (simp add: computeRows_def packed_rows_def pack_item_def distribute_def)
  have "hd (computeRows ?l 4) \<in> set (computeRows ?l 4)"
    by (simp add: computeRows_def packed_rows_def pack_item_def)
  from widget_span_types [OF _ this] have "spanClass 3 = spanClass 1"
    by (simp add: computeRows_def packed_rows_def pack_item_def distribute_def)
  with rows show ?thesis by blast
qed

section \<open>Widgets that show nothing\<close>

text \<open>A widget is empty exactly when its data is there and it has nothing to say: disks without a
  disk, the GPU widgets without a GPU, the torrents while they are disabled. The page still gives it a cell of
  its span.\<close>

lemma widget_empty:
  "render_widget e c = [] \<longleftrightarrow>
     (\<exists>d. h_data (we_overview e) = Some d
       \<and> (c = Disks_Widget \<and> st_Disks (od_Stats d) = []
          \<or> c \<in> {Gpu_Engines_Widget, Gpu_Power_Widget} \<and> \<not> gpu_Available (st_Gpu (od_Stats d))
          \<or> c = Qbittorrent_Widget \<and> \<not> qs_enabled (od_Qbittorrent d)))"
  by (cases c; cases "h_data (we_overview e)")
    (simp_all add: useOverview_def widget_stats_def with_stats_def widget_skeleton_def widget_card_def vpn_card_def
      CpuWidget_def MemoryWidget_def SystemInfoWidget_def TemperatureWidget_def GpuEnginesWidget_def GpuPowerWidget_def
      DisksWidget_def NetworkWidget_def TopCpuWidget_def TopMemoryWidget_def StorageWidget_def ServicesWidget_def
      QbittorrentWidget_def VpnWidget_def Let_def)

end
