(* ===== verification/UI_Base.thy ===== *)
theory UI_Base
  imports React_View
begin

text \<open>
  The ground of the component library under \<^verbatim>\<open>components/ui\<close>: props and how JSX merges them, what
  the react-aria primitives hand to a render function, the React contexts of the library, the class
  name helper \<open>cx\<close> of \<^verbatim>\<open>lib/primitive.ts\<close>, and the wiring relation by which a component is compared
  with the element it stands for.

  Props are the association list of an element. \<open>{...props}\<close> is \<open>spread\<close>: a later prop replaces an
  earlier one of the same name. The parameters a component takes out of its props are \<open>omit\<close>ted
  from the rest. Static class names are left out; a class that depends on a flag is kept.
\<close>

section \<open>Props\<close>

type_synonym 'a props = "(string \<times> 'a attr) list"

definition omit :: "string list \<Rightarrow> 'a props \<Rightarrow> 'a props" where
  "omit ks ps = filter (\<lambda>p. fst p \<notin> set ks) ps"

definition spread :: "'a props \<Rightarrow> 'a props \<Rightarrow> 'a props" where
  "spread ps qs = omit (map fst qs) ps @ qs"

definition flag :: "string \<Rightarrow> bool \<Rightarrow> 'a props \<Rightarrow> bool" where
  "flag k d ps = (case map_of ps k of Some (PB b) \<Rightarrow> b | _ \<Rightarrow> d)"

definition text_prop :: "string \<Rightarrow> 'a props \<Rightarrow> string option" where
  "text_prop k ps = (case map_of ps k of Some (PS s) \<Rightarrow> Some s | _ \<Rightarrow> None)"

text \<open>The classes of a \<open>twJoin\<close> or \<open>twMerge\<close> whose condition holds, as a prop.\<close>

definition class_when :: "(bool \<times> string) list \<Rightarrow> 'a props" where
  "class_when cs = map (\<lambda>c. (''className'', PS (snd c))) (filter fst cs)"

text \<open>\<open>typeof children === "string"\<close>\<close>

definition string_child :: "'a view list \<Rightarrow> string option" where
  "string_child vs = (case vs of [Txt s] \<Rightarrow> Some s | _ \<Rightarrow> None)"

text \<open>A text prop handed on when it is there.\<close>

definition copy_text :: "string \<Rightarrow> 'a props \<Rightarrow> 'a props" where
  "copy_text k ps = (case text_prop k ps of None \<Rightarrow> [] | Some s \<Rightarrow> [(k, PS s)])"

lemma map_of_omit: "map_of (omit ks ps) k = (if k \<in> set ks then None else map_of ps k)"
  unfolding omit_def by (induction ps) auto

lemma map_of_spread:
  "map_of (spread ps qs) k = (case map_of qs k of None \<Rightarrow> map_of ps k | Some a \<Rightarrow> Some a)"
proof (cases "map_of qs k")
  case None
  then have "k \<notin> fst ` set qs" by (simp only: map_of_eq_None_iff not_False_eq_True)
  with None show ?thesis by (simp add: spread_def map_add_def map_of_omit split: option.split)
next
  case (Some a)
  then have "k \<in> fst ` set qs" by (metis map_of_eq_None_iff option.distinct(1))
  with Some show ?thesis by (simp add: spread_def map_add_def map_of_omit)
qed

section \<open>What the primitives provide\<close>

text \<open>
  The values react-aria passes to the render functions. They are computed by the primitives from
  their props and the user's interaction; here they are an input.
\<close>

record render_values =
  rv_isSelected :: bool
  rv_isIndeterminate :: bool
  rv_isInvalid :: bool
  rv_isHovered :: bool
  rv_isDisabled :: bool
  rv_isFocusVisible :: bool
  rv_isFocusVisibleWithin :: bool
  rv_isDragging :: bool
  rv_isExpanded :: bool
  rv_isCurrent :: bool
  rv_selectionMode :: string
  rv_hasSubmenu :: bool
  rv_allowsSorting :: bool
  rv_sortDirection :: "string option"
  rv_hasChildItems :: bool
  rv_isTreeColumn :: bool
  rv_level :: int

text \<open>\<open>useTableOptions\<close>: what a table tells its header and rows.\<close>

record table_options =
  to_selectionBehavior :: "string option"
  to_selectionMode :: string
  to_allowsDragging :: bool

text \<open>
  The React contexts of the library with what an element reads from them: \<open>TableContext\<close>,
  \<open>ToolbarContext\<close> and \<open>ToolbarGroupContext\<close> (and the options of the table around it).
\<close>

record kit_env =
  ke_allowResize :: bool
  ke_bleed :: bool
  ke_grid :: bool
  ke_striped :: bool
  ke_orientation :: string
  ke_isCircle :: bool
  ke_groupDisabled :: bool
  ke_table :: table_options

definition no_table :: table_options where
  "no_table = \<lparr>to_selectionBehavior = None, to_selectionMode = ''none'', to_allowsDragging = False\<rparr>"

definition default_env :: kit_env where
  "default_env = \<lparr>ke_allowResize = False, ke_bleed = False, ke_grid = False, ke_striped = False,
     ke_orientation = ''horizontal'', ke_isCircle = False, ke_groupDisabled = False, ke_table = no_table\<rparr>"

section \<open>Class names\<close>

text \<open>
  An argument of \<open>cx\<close>: a class value, a function of the render values, nothing, or an array of
  these. The last one is the caller's \<open>className\<close>. \<open>twMerge\<close> is the package's function;
  \<open>composeRenderProps\<close> applies a function value to the render values and keeps any other.
\<close>

datatype 'v cx_arg = Class string | Render "'v \<Rightarrow> string" | Undefined | Arr "'v cx_arg list"

definition composeRenderProps :: "'v cx_arg \<Rightarrow> ('v cx_arg \<Rightarrow> string) \<Rightarrow> 'v \<Rightarrow> string" where
  "composeRenderProps value wrap v = wrap (case value of Render f \<Rightarrow> Class (f v) | _ \<Rightarrow> value)"

definition composeTailwindRenderProps :: "('v cx_arg list \<Rightarrow> string) \<Rightarrow> 'v cx_arg \<Rightarrow> 'v cx_arg \<Rightarrow> 'v \<Rightarrow> string" where
  "composeTailwindRenderProps twMerge className tailwind =
     composeRenderProps className (\<lambda>cn. twMerge [tailwind, cn])"

definition cx :: "('v cx_arg list \<Rightarrow> string) \<Rightarrow> 'v cx_arg list \<Rightarrow> 'v \<Rightarrow> string" where
  "cx twMerge args =
     (let resolvedArgs = (case args of [Arr xs] \<Rightarrow> xs | _ \<Rightarrow> args);
          className = (if resolvedArgs = [] then Undefined else last resolvedArgs);
          fixed = twMerge (butlast resolvedArgs)
      in composeRenderProps className (\<lambda>cn. twMerge [Class fixed, cn]))"

text \<open>The array form is the plain form, and one that ends in a function sees the render values.\<close>

lemma cx_array: "(\<nexists>ys. xs = [Arr ys]) \<Longrightarrow> cx twMerge [Arr xs] = cx twMerge xs"
  by (cases xs rule: list.exhaust; auto simp: cx_def Let_def split: list.splits cx_arg.splits)

lemma cx_render:
  assumes "ts \<noteq> []"
  shows "cx twMerge (ts @ [Render f]) v = twMerge [Class (twMerge ts), Class (f v)]"
proof -
  have "(case ts @ [Render f] of [Arr xs] \<Rightarrow> xs | _ \<Rightarrow> ts @ [Render f]) = ts @ [Render f]"
    using assms by (cases ts) (auto split: list.split cx_arg.split)
  then show ?thesis by (simp add: cx_def composeRenderProps_def)
qed

section \<open>Wiring\<close>

text \<open>
  \<open>acts ps\<close> are the actions a list of props holds; the gates are the props that decide whether they
  can be triggered. \<open>wires ps qs\<close>: \<open>ps\<close> gates like \<open>qs\<close> and holds no further actions, and all of
  them where only event handlers (\<open>on...\<close>) hold actions.
\<close>

definition acts :: "'a props \<Rightarrow> 'a set" where
  "acts ps = (\<Union>p \<in> set ps. set_attr (snd p))"

definition gates :: "string list" where
  "gates = [''isOpen'', ''isDisabled'', ''isPending'']"

definition is_action :: "'a attr \<Rightarrow> bool" where
  "is_action a \<longleftrightarrow> (case a of Act _ \<Rightarrow> True | ActS _ \<Rightarrow> True | ActB _ \<Rightarrow> True | _ \<Rightarrow> False)"

definition handlers_only :: "'a props \<Rightarrow> bool" where
  "handlers_only ps \<longleftrightarrow> (\<forall>p \<in> set ps. is_action (snd p) \<longrightarrow> prefix ''on'' (fst p))"

definition styling :: "string list \<Rightarrow> bool" where
  "styling ks \<longleftrightarrow> (\<forall>k \<in> set ks. k \<notin> set gates \<and> \<not> prefix ''on'' k)"

definition plain :: "'a props \<Rightarrow> bool" where
  "plain ps \<longleftrightarrow> (\<forall>p \<in> set ps. \<not> is_action (snd p)) \<and> styling (map fst ps)"

definition wires :: "'a props \<Rightarrow> 'a props \<Rightarrow> bool" where
  "wires ps qs \<longleftrightarrow> (\<forall>g \<in> set gates. map_of ps g = map_of qs g) \<and> acts ps \<subseteq> acts qs
     \<and> (handlers_only qs \<longrightarrow> handlers_only ps \<and> acts ps = acts qs)"

lemma is_action_simps [simp]:
  "\<not> is_action (PS s)" "\<not> is_action (PN n)" "\<not> is_action (PB b)" "is_action (Act a)" "is_action (ActS f)" "is_action (ActB g)"
  by (simp_all add: is_action_def)

lemma set_attr_empty: "set_attr a = {} \<longleftrightarrow> \<not> is_action a"
  by (cases a) auto

lemma plain_acts: "plain ps \<longleftrightarrow> acts ps = {} \<and> styling (map fst ps)"
  by (auto simp: plain_def acts_def set_attr_empty)

lemma handlers_only_simps [simp]:
  "handlers_only []" "handlers_only (p # ps) \<longleftrightarrow> (is_action (snd p) \<longrightarrow> prefix ''on'' (fst p)) \<and> handlers_only ps"
  by (auto simp: handlers_only_def)

lemma acts_simps [simp]: "acts [] = {}" "acts (p # ps) = set_attr (snd p) \<union> acts ps"
  "acts (ps @ qs) = acts ps \<union> acts qs"
  by (auto simp: acts_def)

lemma styling_simps [simp]:
  "styling []" "styling (k # ks) \<longleftrightarrow> k \<notin> set gates \<and> \<not> prefix ''on'' k \<and> styling ks"
  "styling (ks @ ls) \<longleftrightarrow> styling ks \<and> styling ls"
  by (auto simp: styling_def)

lemma plain_simps [simp]:
  "plain []" "plain (p # ps) \<longleftrightarrow> \<not> is_action (snd p) \<and> fst p \<notin> set gates \<and> \<not> prefix ''on'' (fst p) \<and> plain ps"
  "plain (ps @ qs) \<longleftrightarrow> plain ps \<and> plain qs" "plain (vwhen c ps) \<longleftrightarrow> (c \<longrightarrow> plain ps)"
  by (auto simp: plain_def vwhen_def)

lemma plain_omit [simp]: "plain ps \<Longrightarrow> plain (omit ks ps)"
  by (auto simp: plain_def omit_def styling_def)

lemma plain_spread [simp]: "plain ps \<Longrightarrow> plain qs \<Longrightarrow> plain (spread ps qs)"
  by (simp add: spread_def plain_omit)

lemma plain_class_when [simp]: "plain (class_when cs)"
  by (induction cs) (auto simp: class_when_def gates_def)

lemma plain_copy_text [simp]: "k \<notin> set gates \<Longrightarrow> \<not> prefix ''on'' k \<Longrightarrow> plain (copy_text k ps)"
  by (simp add: copy_text_def split: option.split)

lemma handlers_only_plain: "plain ps \<Longrightarrow> handlers_only ps"
  by (auto simp: plain_def handlers_only_def)

lemma handlers_only_append [simp]: "handlers_only (ps @ qs) \<longleftrightarrow> handlers_only ps \<and> handlers_only qs"
  by (auto simp: handlers_only_def)

lemma acts_omit: "acts (omit ks ps) \<subseteq> acts ps"
  by (auto simp: acts_def omit_def)

lemma acts_omit_styling:
  assumes "handlers_only ps" "styling ks"
  shows "acts (omit ks ps) = acts ps"
proof
  show "acts ps \<subseteq> acts (omit ks ps)"
  proof
    fix a assume "a \<in> acts ps"
    then obtain p where p: "p \<in> set ps" "a \<in> set_attr (snd p)" by (auto simp: acts_def)
    then have "is_action (snd p)" using set_attr_empty by force
    with p(1) assms(1) have "prefix ''on'' (fst p)" by (auto simp: handlers_only_def)
    with assms(2) have "fst p \<notin> set ks" by (auto simp: styling_def)
    with p have "p \<in> set (omit ks ps)" by (simp add: omit_def)
    with p(2) show "a \<in> acts (omit ks ps)" unfolding acts_def by blast
  qed
qed (rule acts_omit)

lemma handlers_only_omit: "handlers_only ps \<Longrightarrow> handlers_only (omit ks ps)"
  by (auto simp: handlers_only_def omit_def)

lemma acts_plain: "plain ps \<Longrightarrow> acts ps = {}"
  by (simp add: plain_acts)

lemma wires_refl [simp]: "wires ps ps"
  by (simp add: wires_def)

lemma wires_omit:
  assumes "styling ks" "wires ps qs"
  shows "wires (omit ks ps) qs"
proof -
  have "map_of (omit ks ps) g = map_of ps g" if "g \<in> set gates" for g
    using assms(1) that by (auto simp: map_of_omit styling_def)
  moreover have "acts (omit ks ps) \<subseteq> acts qs"
    using assms(2) acts_omit [of ks ps] by (auto simp: wires_def)
  moreover have "handlers_only (omit ks ps) \<and> acts (omit ks ps) = acts qs" if "handlers_only qs"
    using assms that handlers_only_omit [of ps ks] acts_omit_styling [of ps ks] by (simp add: wires_def)
  moreover have "map_of (omit ks ps) g = map_of qs g" if "g \<in> set gates" for g
    using calculation(1) [OF that] assms(2) that by (simp add: wires_def)
  ultimately show ?thesis
    unfolding wires_def by blast
qed

text \<open>Plain props before the rest, and plain props after it.\<close>

lemma plain_no_gate: "plain ps \<Longrightarrow> g \<in> set gates \<Longrightarrow> map_of ps g = None"
  by (force simp: plain_def styling_def map_of_eq_None_iff)

lemma wires_spread_before:
  assumes "plain base" "wires ps qs"
  shows "wires (spread base ps) qs"
proof -
  have "acts (omit (map fst ps) base) = {}"
    using acts_omit [of _ base] assms(1) by (auto simp: plain_acts)
  moreover have "handlers_only (omit (map fst ps) base)"
    using handlers_only_omit handlers_only_plain assms(1) by blast
  moreover have "map_of (spread base ps) g = map_of ps g" if "g \<in> set gates" for g
    using plain_no_gate [OF assms(1) that] by (simp add: map_of_spread split: option.split)
  ultimately show ?thesis using assms(2) by (simp add: wires_def spread_def)
qed

lemma wires_spread_after:
  assumes "plain extra" "wires ps qs"
  shows "wires (spread ps extra) qs"
proof -
  have "wires (omit (map fst extra) ps) qs"
    using assms wires_omit [of "map fst extra" ps qs] by (simp add: plain_def)
  moreover have "map_of (spread ps extra) g = map_of (omit (map fst extra) ps) g" if "g \<in> set gates" for g
    using plain_no_gate [OF assms(1) that] assms(1) that
    by (auto simp: map_of_spread map_of_omit plain_def styling_def)
  ultimately show ?thesis
    using assms(1) handlers_only_plain by (auto simp: wires_def spread_def acts_plain)
qed

lemmas wires_rules = wires_refl wires_omit wires_spread_before wires_spread_after

text \<open>Elements with the same wiring and the same offers below offer the same.\<close>

lemma offered_acts:
  "offered (El t ps vs) =
     (if prop_is ''isOpen'' False ps then {}
      else (if inert ps then {} else acts ps) \<union> (\<Union>v \<in> set vs. offered v))"
  by (simp add: offered.simps acts_def split_beta)

definition below :: "'a view list \<Rightarrow> 'a set" where
  "below vs = (\<Union>v \<in> set vs. offered v)"

lemma below_simps [simp]: "below [] = {}" "below (v # vs) = offered v \<union> below vs"
  "below (vs @ ws) = below vs \<union> below ws" "below (vwhen c vs) = (if c then below vs else {})"
  by (auto simp: below_def)

lemma offered_below:
  "offered (El t ps vs) =
     (if prop_is ''isOpen'' False ps then {} else (if inert ps then {} else acts ps) \<union> below vs)"
  by (simp add: offered_acts below_def)

lemma offered_no_props [simp]: "offered (El t [] vs) = below vs"
  by (simp add: offered_below prop_is_def)

lemma offered_plain_props: "plain ps \<Longrightarrow> offered (El t ps vs) = below vs"
  using plain_no_gate [of ps]
  by (simp add: offered_below prop_is_def inert_def gates_def acts_plain)

lemma wires_gates:
  assumes "wires ps qs"
  shows "prop_is ''isOpen'' False ps = prop_is ''isOpen'' False qs" "inert ps = inert qs"
  using assms by (simp_all add: wires_def gates_def prop_is_def inert_def)

lemma offered_wires_sub:
  assumes "wires ps qs" "below vs \<subseteq> below ws"
  shows "offered (El t ps vs) \<subseteq> offered (El t' qs ws)"
  using assms wires_gates [OF assms(1)] by (auto simp: offered_below wires_def)

lemma offered_wires_eq:
  assumes "wires ps qs" "handlers_only qs" "below vs = below ws"
  shows "offered (El t ps vs) = offered (El t' qs ws)"
  using assms wires_gates [OF assms(1)] by (simp add: offered_below wires_def)

section \<open>The contract of a component\<close>

text \<open>
  A component of the library stands for the element of its name. A frame shows what is put into it
  and offers nothing of its own. A transparent component moreover offers exactly what the element of
  its name would with the same event handlers: it hands every handler on, once, under the same gates.
\<close>

locale frame_component =
  fixes render :: "'a props \<Rightarrow> 'a view list \<Rightarrow> 'a view"
  assumes shows_children: "plain ps \<Longrightarrow> offered (render ps vs) = below vs"

locale transparent_component = frame_component +
  assumes offers_the_same: "handlers_only ps \<Longrightarrow> offered (render ps vs) = offered (El t ps vs)"
begin

lemma inert_shows_children:
  assumes "handlers_only ps" "inert ps" "\<not> prop_is ''isOpen'' False ps"
  shows "offered (render ps vs) = below vs"
  using offers_the_same [OF assms(1), of vs "[]"] assms(2,3) by (simp add: offered_below)

lemma closed_shows_nothing:
  assumes "handlers_only ps" "prop_is ''isOpen'' False ps"
  shows "offered (render ps vs) = {}"
  using offers_the_same [OF assms(1), of vs "[]"] assms(2) by (simp add: offered_below)

end

text \<open>
  How a component discharges the contract: it renders an element with the same wiring, around
  content that offers what it was given.
\<close>

lemma transparentI:
  assumes "\<And>ps vs t. handlers_only ps \<Longrightarrow> offered (render ps vs) = offered (El t ps vs)"
  shows "transparent_component render"
proof
  show "offered (render ps vs) = below vs" if "plain ps" for ps vs
    using assms [OF handlers_only_plain [OF that], of vs "[]"] that by (simp add: offered_plain_props)
qed (rule assms)

lemmas component_simps = offered_wires_eq wires_omit wires_spread_before wires_spread_after
  offered_plain_props gates_def

end
