(* ===== verification/Navigation.thy ===== *)
theory Navigation
  imports Overview_Feed JS_Uri Async_Calls UI_Base
begin

text \<open>
  Getting around: the navigation entries (\<^verbatim>\<open>lib/nav.ts\<close>, \<^verbatim>\<open>types.ts\<close>), the bar
  (\<^verbatim>\<open>components/app-navbar.tsx\<close> on \<open>NavbarProvider\<close> of \<^verbatim>\<open>ui/navbar.tsx\<close>), the user menu with the theme
  (\<^verbatim>\<open>components/user-menu.tsx\<close>), the poll interval selector, the page that embeds external
  services (\<^verbatim>\<open>pages/IframesPage.tsx\<close>) and the routes of \<^verbatim>\<open>App.tsx\<close>. Assigning
  \<open>window.location.href\<close> is a \<open>Navigate\<close> effect. An action in the bar is a list of such effects or a change of
  the bar itself.
\<close>

section \<open>Navigation entries\<close>

datatype NavItem =
  NavItem (ni_path: "string option") (ni_label: string) (ni_target: "string option")
    (ni_is_active: "bool option") (ni_children: "(NavItem list) option")

abbreviation nav_link :: "string \<Rightarrow> string \<Rightarrow> NavItem" where
  "nav_link path label \<equiv> NavItem (Some path) label None None None"

definition navItems :: "NavItem list" where
  "navItems =
     [nav_link ''/'' ''Overview'', nav_link ''/services'' ''Services'', nav_link ''/vms'' ''VMs'', nav_link ''/logs'' ''Logs'',
      nav_link ''/external/https%3A%2F%2Fwetty.cignl.cc'' ''Console'',
      NavItem (Some []) ''Manage'' None None (Some
        [nav_link ''/storage'' ''Storage Pool'', nav_link ''/diagnostics'' ''Core Services'',
         nav_link ''/secrets'' ''Credentials'', nav_link ''https://files.cignl.cc'' ''Files'', nav_link ''/backups'' ''Backups'',
         nav_link ''https://filestash.cignl.cc'' ''Remote Files'', nav_link ''https://auth.cignl.cc'' ''Auth'']),
      NavItem (Some []) ''Bookmarks'' None None (Some
        [nav_link ''https://homepage.cignl.cc'' ''Homepage'', nav_link ''https://immich.cignl.cc'' ''Immich'',
         nav_link ''https://plex.cignl.cc'' ''Plex'', nav_link ''https://jellyfin.cignl.cc'' ''Jellyfin'',
         nav_link ''https://sonarr.cignl.cc'' ''Sonarr'', nav_link ''https://radarr.cignl.cc'' ''Radarr'',
         nav_link ''https://prowlarr.cignl.cc'' ''Prowlarr'', nav_link ''https://code.cignl.cc'' ''Code Server''])]"

text \<open>The paths of the routes and the page of each.\<close>

definition routes :: "(string \<times> string) list" where
  "routes =
     [([], ''OverviewPage''), (''services'', ''ServicesPage''), (''vms'', ''VMsPage''), (''backups'', ''BackupsPage''),
      (''diagnostics'', ''DiagnosticsPage''), (''storage'', ''StoragePage''), (''secrets'', ''SecretsPage''),
      (''logs'', ''LogsPage''), (''external/*'', ''IframesPage'')]"

section \<open>Links\<close>

datatype nav_act = Go effect | Set_Open bool

definition is_external :: "string \<Rightarrow> bool" where
  "is_external path \<longleftrightarrow> prefix ''http://'' path \<or> prefix ''https://'' path"

definition isCurrent :: "string \<Rightarrow> NavItem \<Rightarrow> bool" where
  "isCurrent pathname item =
     (case ni_path item of
        None \<Rightarrow> False
      | Some path \<Rightarrow> if path = [] then False else if path = ''/'' then pathname = ''/'' else prefix path pathname)"

definition hardNav :: "string \<Rightarrow> string option \<Rightarrow> effect list" where
  "hardNav path target =
     (if is_external path \<and> target = Some ''_blank'' then [OpenWindow path]
      else if is_external path then [Navigate (''/external/'' @ encodeURIComponent path)]
      else [Navigate path])"

definition child_href :: "NavItem \<Rightarrow> string \<times> bool" where
  "child_href child =
     (let childPath = opt_str (ni_path child); childExternal = is_external childPath;
          childBlank = (childExternal \<and> ni_target child = Some ''_blank'')
      in (if childBlank then childPath
          else if childExternal then ''/external/'' @ encodeURIComponent childPath else childPath,
          childBlank))"

definition child_item :: "NavItem \<Rightarrow> nav_act list view" where
  "child_item child =
     El ''MenuItem''
       ((''href'', PS (fst (child_href child))) # vwhen (snd (child_href child)) [(''target'', PS ''_blank'')])
       [Txt (ni_label child)]"

definition nav_menu :: "NavItem \<Rightarrow> NavItem list \<Rightarrow> nav_act list view" where
  "nav_menu item children =
     El ''Menu'' []
       [El ''MenuTrigger'' [] [Txt (ni_label item), El ''ChevronDown'' [] []],
        El ''MenuContent'' []
          ((case opt_str (ni_path item) of
              [] \<Rightarrow> []
            | path \<Rightarrow> [El ''MenuItem'' [(''href'', PS path)] [Txt (ni_label item)], El ''Separator'' [] []])
           @ map child_item children)]"

definition nav_entry :: "string \<Rightarrow> NavItem \<Rightarrow> nav_act list view list" where
  "nav_entry pathname item =
     (case opt_or (ni_children item) [] of
        c # cs \<Rightarrow> [nav_menu item (c # cs)]
      | [] \<Rightarrow>
          (case opt_str (ni_path item) of
             [] \<Rightarrow> []
           | path \<Rightarrow>
               [El ''NavbarItem''
                  [(''isCurrent'', PB (isCurrent pathname item)), (''onPress'', Act (map Go (hardNav path (ni_target item))))]
                  [Txt (ni_label item)]]))"

section \<open>The bar\<close>

text \<open>
  \<open>NavbarProvider\<close>: its own state, unless the caller controls it; then a change only goes to
  the caller's handler. \<open>setOpen\<close> with a function applies it to the value of the render.
\<close>

record navbar =
  nb_openProp :: "bool option"
  nb_openInternal :: bool

definition navbar_open :: "navbar \<Rightarrow> bool" where
  "navbar_open s = opt_or (nb_openProp s) (nb_openInternal s)"

definition setOpen :: "bool \<Rightarrow> (bool \<Rightarrow> bool) \<Rightarrow> navbar \<Rightarrow> navbar \<times> bool list" where
  "setOpen has_handler f s =
     (if has_handler then (s, [f (navbar_open s)])
      else (s\<lparr>nb_openInternal := f (nb_openInternal s)\<rparr>, []))"

definition toggleNavbar :: "bool \<Rightarrow> navbar \<Rightarrow> navbar \<times> bool list" where
  "toggleNavbar has_handler s = setOpen has_handler Not s"

text \<open>
  \<open>Navbar\<close>: a sheet that opens and closes on a small screen, a plain bar otherwise; the rest of its props goes
  to the sheet or to the outer element.
\<close>

definition Navbar :: "bool \<Rightarrow> bool \<Rightarrow> (bool \<Rightarrow> 'a) \<Rightarrow> 'a props \<Rightarrow> 'a view list \<Rightarrow> 'a view list" where
  "Navbar isMobile is_open set_open ps children =
     (let intent = opt_or (text_prop ''intent'' ps) ''default'';
          placement = opt_or (text_prop ''placement'' ps) ''top'';
          sticky = flag ''isSticky'' False ps;
          data = [(''data-navbar'', PS intent), (''data-placement'', PS placement)]
                 @ (case map_of ps ''isSticky'' of Some (PB b) \<Rightarrow> [(''data-navbar-sticky'', PB b)] | _ \<Rightarrow> []);
          props = omit [''children'', ''isSticky'', ''placement'', ''intent'', ''side'', ''className'', ''ref''] ps
      in if isMobile
         then [El ''span'' data [],
               El ''Sheet'' (spread [(''isOpen'', PB is_open), (''onOpenChange'', ActB set_open)] props)
                 [El ''SheetContent''
                    [(''side'', PS (opt_or (text_prop ''side'' ps) ''left'')), (''aria-label'', PS ''Mobile Navbar'')]
                    [El ''SheetBody'' [] children]]]
         else [El ''div''
                 (spread
                    (data
                     @ class_when
                         [(sticky, ''sticky top-0 z-40''), (placement = ''top'' \<and> intent = ''float'', ''md:pt-8''),
                          (placement = ''bottom'' \<and> intent = ''float'', ''bottom-0 md:pb-8''),
                          (intent = ''float'', ''mx-auto w-full max-w-screen-xl px-4'')])
                    props)
                 [El ''div''
                    (class_when
                       [(intent = ''float'', ''rounded-xl bg-bg py-0''), (intent \<in> {''default'', ''inset''}, ''px-4''),
                        (intent = ''default'', ''border-b bg-navbar'')])
                    [El ''div'' [(''data-navbar'', PS ''content'')] children]]])"

definition AppNavbar ::
  "string \<Rightarrow> bool \<Rightarrow> bool \<Rightarrow> NavItem list \<Rightarrow> nav_act list view \<Rightarrow> nav_act list view \<Rightarrow> nav_act list view \<Rightarrow> nav_act list view" where
  "AppNavbar pathname isMobile is_open items selector menu1 menu2 =
     El ''NavbarProvider'' []
       (Navbar isMobile is_open (\<lambda>b. [Set_Open b]) [(''intent'', PS ''float'')]
          [El ''NavbarStart'' []
             [El ''a'' [(''href'', PS ''/''), (''aria-label'', PS ''homelab dashboard'')]
                [El ''Avatar'' [(''initials'', PS ''HL'')] [], El ''span'' [] [Txt ''home'', El ''span'' [] [Txt ''lab'']]]],
           El ''NavbarGap'' [] [],
           El ''NavbarSection'' [] (concat (map (nav_entry pathname) items)),
           El ''NavbarSpacer'' [] [],
           El ''NavbarSection'' [] [selector, El ''Separator'' [] [], menu1]]
        @ [El ''NavbarMobile'' []
             [El ''NavbarTrigger'' [] [], El ''NavbarSpacer'' [] [], El ''NavbarSeparator'' [] [], menu2]])"

text \<open>The bar of the application is not controlled: its provider gets no handler.\<close>

fun nav_dispatch :: "nav_act \<Rightarrow> navbar \<Rightarrow> navbar \<times> effect list" where
  "nav_dispatch (Go e) s = (s, [e])"
| "nav_dispatch (Set_Open b) s = (fst (setOpen False (\<lambda>_. b) s), [])"

lemma toggle_uncontrolled:
  assumes "nb_openProp s = None"
  shows "navbar_open (fst (toggleNavbar False s)) = (\<not> navbar_open s)"
    and "fst (toggleNavbar False (fst (toggleNavbar False s))) = s"
  using assms by (simp_all add: toggleNavbar_def setOpen_def navbar_open_def)

lemma toggle_controlled: "toggleNavbar True s = (s, [\<not> navbar_open s])"
  by (simp add: toggleNavbar_def setOpen_def)

text \<open>
  On a small screen the entries are in the sheet: while it is closed only what is outside of it can be
  triggered, and a closed sheet shows nothing; on a large screen they are always there.
\<close>

lemma offered_Navbar:
  assumes "plain ps"
  shows "below (Navbar isMobile is_open set_open ps children) =
     (if isMobile then (if is_open then range set_open \<union> below children else {}) else below children)"
proof -
  let ?props = "omit [''children'', ''isSticky'', ''placement'', ''intent'', ''side'', ''className'', ''ref''] ps"
  have props: "plain ?props" using assms by simp
  have gates: "map_of ?props g = None" if "g \<in> set gates" for g by (rule plain_no_gate [OF props that])
  have sheet: "offered (El ''Sheet'' (spread [(''isOpen'', PB is_open), (''onOpenChange'', ActB set_open)] ?props) ws) =
     (if is_open then range set_open \<union> below ws else {})" for ws
  proof -
    have "\<forall>p \<in> set ?props. fst p \<noteq> ''onOpenChange'' \<and> fst p \<noteq> ''isOpen''"
      using props by (auto simp: plain_def styling_def gates_def)
    then have "spread [(''isOpen'', PB is_open), (''onOpenChange'', ActB set_open)] ?props
        = (''isOpen'', PB is_open) # (''onOpenChange'', ActB set_open) # ?props"
      by (auto simp: spread_def omit_def image_iff)
    then show ?thesis
      using gates by (simp add: offered_below prop_is_def inert_def gates_def acts_plain [OF props])
  qed
  have data: "plain (case map_of ps ''isSticky'' of Some (PB b) \<Rightarrow> [(''data-navbar-sticky'', PB b)] | _ \<Rightarrow> [])"
    by (simp add: gates_def split: option.split attr.split)
  show ?thesis
    by (simp add: Navbar_def Let_def sheet offered_plain_props data props gates_def)
qed

lemma closed_bar_offers_nothing:
  "below (Navbar True False set_open [(''intent'', PS ''float'')] children) = {}"
  by (subst offered_Navbar) (simp_all add: gates_def)

section \<open>Embedding an external service\<close>

text \<open>
  \<open>splat\<close> is the rest of the path as the router's \<open>useParams\<close> gives it. \<open>None\<close> as a result:
  \<open>decodeURIComponent\<close> throws while the page renders.
\<close>

definition iframe_url :: "string option \<Rightarrow> string option" where
  "iframe_url splat = (case opt_str splat of [] \<Rightarrow> Some [] | s \<Rightarrow> decodeURIComponent s)"

definition themedUrl :: "bool \<Rightarrow> string \<Rightarrow> string" where
  "themedUrl isDark url =
     (if js_includes ''theme='' url then url
      else url @ (if js_includes ''?'' url then ''&'' else ''?'') @ ''theme='' @ (if isDark then ''dark'' else ''light''))"

definition iframe_view :: "bool \<Rightarrow> string \<Rightarrow> 'a view" where
  "iframe_view isDark url =
     El ''div'' []
       [El ''iframe''
          [(''src'', PS (themedUrl isDark url)), (''title'', PS ''External service''),
           (''colorScheme'', PS (if isDark then ''dark'' else ''light'')),
           (''sandbox'', PS ''allow-scripts allow-same-origin allow-popups allow-forms'')] []]"

definition IframesPage :: "bool \<Rightarrow> string option \<Rightarrow> ('a view list) option" where
  "IframesPage isDark splat =
     map_option (\<lambda>url. if url = [] then [] else [iframe_view isDark url]) (iframe_url splat)"

end
