(* ===== verification/User_Menu.thy ===== *)
theory User_Menu
  imports Navigation
begin

text \<open>
  The preferences of the bar: the theme of \<^verbatim>\<open>components/user-menu.tsx\<close> and the interval of
  \<^verbatim>\<open>components/PollIntervalSelector.tsx\<close>, both kept in \<open>localStorage\<close>, and the properties of
  the navigation.
\<close>

section \<open>Theme\<close>

datatype theme = Light | Dark | System

primrec theme_text :: "theme \<Rightarrow> string" where
  "theme_text Light = ''light''"
| "theme_text Dark = ''dark''"
| "theme_text System = ''system''"

definition theme_of_text :: "string \<Rightarrow> theme option" where
  "theme_of_text s =
     (if s = ''light'' then Some Light else if s = ''dark'' then Some Dark
      else if s = ''system'' then Some System else None)"

definition initial_theme :: "local_storage \<Rightarrow> theme" where
  "initial_theme ls =
     (case getItem ls ''theme'' of
        Some (Some saved) \<Rightarrow> (case theme_of_text saved of Some t \<Rightarrow> t | None \<Rightarrow> System)
      | _ \<Rightarrow> System)"

primrec cycleTheme :: "theme \<Rightarrow> theme" where
  "cycleTheme Light = Dark"
| "cycleTheme Dark = System"
| "cycleTheme System = Light"

text \<open>The effect of a theme: the class \<open>dark\<close> of the document, and the stored text.\<close>

definition theme_effect :: "bool \<Rightarrow> theme \<Rightarrow> bool \<times> local_storage \<Rightarrow> bool \<times> local_storage" where
  "theme_effect prefers_dark t w =
     (case t of Dark \<Rightarrow> True | Light \<Rightarrow> False | System \<Rightarrow> prefers_dark,
      setItem (snd w) ''theme'' (theme_text t))"

lemma initial_theme_load: "initial_theme ls = browser.load ''theme'' theme_of_text System ls"
  by (auto simp: initial_theme_def browser.load_def split: option.splits)

lemma theme_of_text_text [simp]: "theme_of_text (theme_text t) = Some t"
  by (cases t) (simp_all add: theme_of_text_def)

lemma cycleTheme_thrice: "cycleTheme (cycleTheme (cycleTheme t)) = t"
  by (cases t) simp_all

section \<open>The menu\<close>

definition menu_hostname :: "string option \<Rightarrow> overview_hook \<Rightarrow> string" where
  "menu_hostname given h = opt_or given (opt_or (map_option od_Hostname (h_data h)) ''homelab'')"

definition theme_icon :: "theme \<Rightarrow> string" where
  "theme_icon t = (case t of Dark \<Rightarrow> ''Moon'' | Light \<Rightarrow> ''Sun'' | System \<Rightarrow> ''Monitor'')"

definition theme_label :: "theme \<Rightarrow> string" where
  "theme_label t = (case t of Dark \<Rightarrow> ''Dark'' | Light \<Rightarrow> ''Light'' | System \<Rightarrow> ''System'')"

datatype menu_act = Cycle_Theme | Open_Tab string

definition menu_open_item :: "string \<Rightarrow> string \<Rightarrow> string \<Rightarrow> menu_act view" where
  "menu_open_item url icon label =
     El ''MenuItem'' [(''onAction'', Act (Open_Tab url))] [El icon [] [], Txt label]"

text \<open>
  The host section reads \<open>cpu_usage\<close> and \<open>uptime\<close> of the statistics, which have no such
  fields (they are \<open>CPUUsage\<close> and \<open>UptimeStr\<close>): the fallback texts are always shown.
\<close>

definition host_section :: "menu_act view" where
  "host_section =
     El ''MenuSection'' [(''label'', PS ''Host'')]
       [El ''MenuItem'' [] [El ''Cpu'' [] [], Txt (''CPU '' @ em_dash)],
        El ''MenuItem'' [] [El ''Clock'' [] [], Txt (''Uptime '' @ em_dash)]]"

definition UserMenu :: "string option \<Rightarrow> overview_hook \<Rightarrow> theme \<Rightarrow> menu_act view" where
  "UserMenu given h t =
     (let hostname = menu_hostname given h in
      El ''Menu'' []
       [El ''MenuTrigger'' [(''aria-label'', PS ''User menu'')]
          [El ''Avatar'' [(''initials'', PS (toUpperCase (take 1 hostname)))] []],
        El ''MenuContent'' []
          [El ''MenuSection'' []
             [El ''MenuHeader'' [] [El ''span'' [] [Txt hostname]],
              El ''MenuItem'' [(''onAction'', Act Cycle_Theme)] [El (theme_icon t) [] [], Txt (theme_label t)]],
           El ''MenuSeparator'' [] [],
           host_section,
           El ''MenuSeparator'' [] [],
           El ''MenuSection'' [(''label'', PS ''Actions'')]
             [menu_open_item ''/api/diagnostics'' ''Terminal'' ''Diagnostics'',
              menu_open_item ''https://homelab.cignl.cc'' ''Server'' ''Homelab'',
              menu_open_item ''/api/bug'' ''Bug'' ''Report Bug'']]])"

text \<open>The menu shows the same host texts whatever the statistics are.\<close>

lemma host_section_constant: "text_of host_section = [''CPU '' @ em_dash, ''Uptime '' @ em_dash]"
  by (simp add: host_section_def prop_is_def)

section \<open>PollIntervalSelector\<close>

definition interval_options :: "(rat \<times> string) list" where
  "interval_options =
     [(2000, ''Real-time (2s)''), (5000, ''Fast (5s)''), (10000, ''Normal (10s)''), (30000, ''Relaxed (30s)''),
      (60000, ''Slow (60s)'')]"

text \<open>A change of the selection, and the \<open>storage\<close> event of another tab; the state is the shown number.\<close>

definition selector_change :: "(rat \<Rightarrow> string) \<Rightarrow> string \<Rightarrow> local_storage \<Rightarrow> jsnum \<times> local_storage" where
  "selector_change shortest v ls = (let ms = js_number v in (ms, setPollInterval shortest ms ls))"

definition selector_storage :: "local_storage \<Rightarrow> jsnum" where
  "selector_storage ls = Fin (getPollInterval ls)"

definition PollIntervalSelector :: "jsnum \<Rightarrow> string view" where
  "PollIntervalSelector interval =
     El ''select''
       [(''value'', PN interval), (''onChange'', ActS (\<lambda>v. v)), (''aria-label'', PS ''Poll interval'')]
       (map (\<lambda>(v, label). El ''option'' [(''value'', PN (Fin v))] [Txt label]) interval_options)"

section \<open>Properties\<close>


text \<open>A router that decodes the rest of the path after \<^verbatim>\<open>/external/\<close>.\<close>

definition sample_splat :: "string \<Rightarrow> string option" where
  "sample_splat path = (if prefix ''/external/'' path then unescape (drop 10 path) else None)"

lemma sample_splat_decodes: "sample_splat (''/external/'' @ encodeURIComponent p) = Some p"
  by (simp add: sample_splat_def unescape_encode)


section \<open>The static entries\<close>

definition link_paths :: "string list" where
  "link_paths = [''/services'', ''/vms'', ''/logs'', ''/external/https%3A%2F%2Fwetty.cignl.cc'']"

lemma current_link:
  assumes "isCurrent pathname i" "i \<in> set navItems"
  shows "ni_path i = Some ''/'' \<and> pathname = ''/'' \<or> (\<exists>p \<in> set link_paths. ni_path i = Some p \<and> prefix p pathname)"
  using assms by (auto simp: isCurrent_def navItems_def link_paths_def)

lemma link_paths_apart: "p \<in> set link_paths \<Longrightarrow> q \<in> set link_paths \<Longrightarrow> prefix p q \<Longrightarrow> p = q"
  "p \<in> set link_paths \<Longrightarrow> \<not> prefix p ''/''"
  by (auto simp: link_paths_def)

lemma one_current_path:
  assumes "isCurrent pathname i" "isCurrent pathname j" "i \<in> set navItems" "j \<in> set navItems"
  shows "ni_path i = ni_path j"
  using current_link [OF assms(1,3)] current_link [OF assms(2,4)]
  by (metis link_paths_apart prefix_same_cases)

definition nav_paths :: "string list" where
  "nav_paths = concat (map (\<lambda>i. opt_str (ni_path i) # map (\<lambda>c. opt_str (ni_path c)) (opt_or (ni_children i) [])) navItems)"

lemma nav_paths_known:
  "\<forall>p \<in> set nav_paths. p = [] \<or> is_external p \<or> prefix ''/external/'' p \<or> (\<exists>r \<in> set routes. p = ''/'' @ fst r)"
  by (simp add: nav_paths_def navItems_def routes_def is_external_def)

end
