(* ===== verification/Bug_Report.thy ===== *)
theory Bug_Report
  imports Async_Calls
begin

text \<open>
  \<^verbatim>\<open>components/bug-report-modal.tsx\<close>: the list of models, submitting a report, and the event
  stream that drives one toast until the agent has finished. A parsed event is a record of
  the fields the handler reads; the stream is a state machine with its source open or closed.
\<close>

section \<open>The list of models\<close>

text \<open>\<open>l.split(/\s+/)\<close>\<close>

function split_ws :: "string \<Rightarrow> string list" where
  "split_ws s =
     takeWhile (\<lambda>c. \<not> is_ws c) s
     # (case dropWhile (\<lambda>c. \<not> is_ws c) s of [] \<Rightarrow> [] | c # r \<Rightarrow> split_ws (dropWhile is_ws r))"
  by pat_completeness auto

lemma dropWhile_shorter: "dropWhile P s = c # r \<Longrightarrow> length (dropWhile Q r) < length s"
  by (metis length_dropWhile_le le_less_trans length_Cons lessI order_less_le_trans)

termination split_ws
  by (relation "measure length") (auto intro: dropWhile_shorter)

declare split_ws.simps [simp del]

definition model_line :: "string \<Rightarrow> bool" where
  "model_line l \<longleftrightarrow> l \<noteq> [] \<and> \<not> prefix ''provider'' l \<and> \<not> prefix ''Warning:'' l"

definition model_name :: "string \<Rightarrow> string" where
  "model_name l = (let parts = split_ws l in if length parts \<ge> 2 then parts ! 1 else l)"

definition parsedModels :: "string \<Rightarrow> string list" where
  "parsedModels text =
     map model_name (filter model_line (map js_trim (split_on (CHR 0x0A) text)))"

section \<open>State\<close>

record bug_modal =
  bm_description :: string
  bm_issueOnly :: bool
  bm_model :: string
  bm_models :: "string list"
  bm_isSubmitting :: bool

definition bug_init :: bug_modal where
  "bug_init = \<lparr>bm_description = [], bm_issueOnly = False, bm_model = [], bm_models = [], bm_isSubmitting = False\<rparr>"

text \<open>The effect of opening the dialog, and its answer.\<close>

definition models_effect :: "bool \<Rightarrow> effect list" where
  "models_effect isOpen = (if isOpen then [Fetch ''GET'' ''/api/models'' None] else [])"

definition models_settle :: "unit outcome \<Rightarrow> bug_modal \<Rightarrow> bug_modal" where
  "models_settle r s =
     (case r of Rejected e \<Rightarrow> s | Resolved resp \<Rightarrow> s\<lparr>bm_models := parsedModels (r_text resp)\<rparr>)"

section \<open>The stream of events\<close>

text \<open>\<open>rv_messages\<close>: for each message the texts of its content parts, \<open>None\<close> when the content is no list.\<close>

record report_event =
  rv_type :: string
  rv_message :: "string option"
  rv_tool :: string
  rv_messages :: "((string option) list) option list"

record report_stream =
  rs_open :: bool
  rs_toast :: "toast_kind \<times> string"

definition stream_start :: report_stream where
  "stream_start = \<lparr>rs_open = True, rs_toast = (Loading, ''Agent is initializing...'')\<rparr>"

definition report_toast :: "toast_kind \<Rightarrow> string \<Rightarrow> report_stream \<Rightarrow> report_stream" where
  "report_toast k m s = s\<lparr>rs_toast := (k, m)\<rparr>"

definition close_source :: "report_stream \<Rightarrow> report_stream" where
  "close_source s = s\<lparr>rs_open := False\<rparr>"

definition hasError :: "report_event \<Rightarrow> bool" where
  "hasError ev \<longleftrightarrow>
     (\<exists>m \<in> set (rv_messages ev). case m of
        None \<Rightarrow> False
      | Some cs \<Rightarrow> (\<exists>c \<in> set cs. case c of
            None \<Rightarrow> False
          | Some t \<Rightarrow> js_includes ''error'' t \<or> js_includes ''failed'' t))"

text \<open>The template text of a missing message is \<open>undefined\<close>; a toast of it is empty.\<close>

definition rpc_event :: "report_event \<Rightarrow> report_stream \<Rightarrow> report_stream" where
  "rpc_event ev s =
     (if rv_type ev = ''agent_start'' then report_toast Loading ''Agent is analyzing...'' s
      else if rv_type ev = ''tool_execution_start''
      then (if rv_tool ev \<noteq> [] then report_toast Loading (''Running '' @ rv_tool ev @ ''...'') s else s)
      else if rv_type ev = ''agent_end''
      then close_source
             (if hasError ev then report_toast Error ''Agent completed with errors'' s
              else report_toast Success ''Agent completed successfully'' s)
      else if rv_type ev = ''extension_error''
      then report_toast Error (''Extension error: '' @ str_or (opt_str (rv_message ev)) ''unknown'') s
      else s)"

definition log_event :: "report_event \<Rightarrow> report_stream \<Rightarrow> report_stream" where
  "log_event ev s =
     (if rv_type ev = ''log''
      then (case rv_message ev of
              None \<Rightarrow> s
            | Some m \<Rightarrow>
                if js_includes ''successfully'' m \<or> js_includes ''PR created'' m
                then close_source (report_toast Success m s)
                else if js_includes ''exited with error'' m
                then close_source (report_toast Error m s)
                else s)
      else s)"

text \<open>\<open>None\<close>: the event does not parse, which is logged and skipped.\<close>

definition on_report_message :: "report_event option \<Rightarrow> report_stream \<Rightarrow> report_stream" where
  "on_report_message event s =
     (case event of
        None \<Rightarrow> s
      | Some ev \<Rightarrow>
          if rv_type ev = ''error''
          then close_source (report_toast Error (opt_str (rv_message ev)) s)
          else (let s1 = (if rv_type ev = ''stage'' then report_toast Loading (opt_str (rv_message ev)) s else s)
                in log_event ev (rpc_event ev s1)))"

definition on_report_error :: "report_stream \<Rightarrow> report_stream" where
  "on_report_error s = close_source s"

text \<open>A closed source delivers nothing more.\<close>

definition deliver :: "report_event option \<Rightarrow> report_stream \<Rightarrow> report_stream" where
  "deliver event s = (if rs_open s then on_report_message event s else s)"

definition run_report :: "report_event option list \<Rightarrow> report_stream" where
  "run_report events = fold deliver events stream_start"

section \<open>Submitting\<close>

definition report_body :: "string option \<Rightarrow> string option \<Rightarrow> bug_modal \<Rightarrow> json" where
  "report_body service logs s =
     JObj ([(''description'', JStr (bm_description s)), (''issue_only'', JBool (bm_issueOnly s)), (''model'', JStr (bm_model s))]
       @ (case service of None \<Rightarrow> [] | Some v \<Rightarrow> [(''service'', JStr v)])
       @ (case logs of None \<Rightarrow> [] | Some v \<Rightarrow> [(''logs'', JStr v)]))"

definition submit_start :: "string option \<times> string option \<Rightarrow> bug_modal \<Rightarrow> bug_modal \<times> effect list" where
  "submit_start props s =
     (s\<lparr>bm_isSubmitting := True\<rparr>, [Fetch ''POST'' ''/api/bug'' (Some (report_body (fst props) (snd props) s))])"

definition handleSubmit :: "string option \<times> string option \<Rightarrow> bug_modal \<Rightarrow> bug_modal \<times> effect list" where
  "handleSubmit props s =
     (if js_trim (bm_description s) = [] then (s, [Toast Error ''Please enter a description''])
      else submit_start props s)"

text \<open>
  The answer: the \<open>id\<close> field of the body, whatever the status. The second result is whether the
  dialog is closed with the URL of the stream that is opened; \<open>None\<close> on an exception, with
  its message.
\<close>

definition submit_settle ::
  "((string option) outcome) \<times> string \<Rightarrow> bug_modal \<Rightarrow> bug_modal \<times> effect list \<times> string option" where
  "submit_settle r s =
     (let s1 = s\<lparr>bm_isSubmitting := False\<rparr>;
          failed = (\<lambda>m. (s1, [Toast Error (''Failed to submit bug report: '' @ m)], None))
      in case fst r of
           Rejected e \<Rightarrow> failed e
         | Resolved resp \<Rightarrow>
             (case r_json resp of
                None \<Rightarrow> failed (snd r)
              | Some ident \<Rightarrow>
                  (s1\<lparr>bm_description := []\<rparr>, [Toast Loading ''Agent is initializing...''],
                   Some (''/api/bug/status/'' @ opt_or ident ''undefined''))))"

section \<open>View\<close>

datatype bug_act =
    Bug_Description string
  | Bug_Issue_Only bool
  | Bug_Model string
  | Bug_Submit
  | Bug_Open bool

definition bug_model_select :: "bug_modal \<Rightarrow> bug_act view list" where
  "bug_model_select s =
     vwhen (bm_models s \<noteq> [])
       [El ''div'' []
          [El ''label'' [] [Txt ''Model (optional)''],
           El ''select'' [(''value'', PS (bm_model s)), (''onChange'', ActS Bug_Model)]
             (El ''option'' [(''value'', PS [])] [Txt ''Default model'']
              # map (\<lambda>m. El ''option'' [(''value'', PS m)] [Txt m]) (bm_models s))]]"

definition BugReportModal :: "bool \<Rightarrow> string option \<Rightarrow> bug_modal \<Rightarrow> bug_act view" where
  "BugReportModal isOpen defaultService s =
     El ''Modal'' [(''isOpen'', PB isOpen), (''onOpenChange'', ActB Bug_Open)]
       [El ''ModalContent'' []
         [El ''ModalHeader'' [] [El ''ModalTitle'' [] [El ''Bug'' [] [], Txt ''Report Bug'']],
          El ''ModalBody'' []
            ([El ''div'' []
               [El ''label'' [] [Txt ''Description''],
                El ''textarea''
                  [(''placeholder'', PS ''What went wrong?''), (''value'', PS (bm_description s)),
                   (''onChange'', ActS Bug_Description)] []],
              El ''div'' []
               [El ''Checkbox'' [(''isSelected'', PB (bm_issueOnly s)), (''onChange'', ActB Bug_Issue_Only)]
                  [Txt ''Create Issue Only (no automated PR)'']]]
             @ bug_model_select s
             @ (case opt_str defaultService of
                  [] \<Rightarrow> []
                | service \<Rightarrow>
                    [El ''div'' []
                      [Txt ''Context from '', El ''strong'' [] [Txt service], Txt '' logs will be included automatically.'']])),
          El ''ModalFooter'' []
            [El ''ModalClose'' [(''isDisabled'', PB (bm_isSubmitting s))] [Txt ''Cancel''],
             El ''Button''
               [(''intent'', PS ''primary''), (''onPress'', Act Bug_Submit), (''isPending'', PB (bm_isSubmitting s))]
               [Txt ''Submit Report'']]]]"

fun bug_dispatch :: "string option \<times> string option \<Rightarrow> bug_act \<Rightarrow> bug_modal \<Rightarrow> bug_modal \<times> effect list" where
  "bug_dispatch props (Bug_Description t) s = (s\<lparr>bm_description := t\<rparr>, [])"
| "bug_dispatch props (Bug_Issue_Only b) s = (s\<lparr>bm_issueOnly := b\<rparr>, [])"
| "bug_dispatch props (Bug_Model m) s = (s\<lparr>bm_model := m\<rparr>, [])"
| "bug_dispatch props Bug_Submit s = handleSubmit props s"
| "bug_dispatch props (Bug_Open b) s = (s, [])"

section \<open>How a report ends\<close>

text \<open>What an event says of the end of the work, if anything.\<close>

definition final_toast :: "report_event \<Rightarrow> (toast_kind \<times> string) option" where
  "final_toast ev =
     (if rv_type ev = ''error'' then Some (Error, opt_str (rv_message ev))
      else if rv_type ev = ''agent_end''
      then Some (if hasError ev then (Error, ''Agent completed with errors'') else (Success, ''Agent completed successfully''))
      else if rv_type ev = ''log''
      then (let m = opt_str (rv_message ev) in
            if js_includes ''successfully'' m \<or> js_includes ''PR created'' m then Some (Success, m)
            else if js_includes ''exited with error'' m then Some (Error, m) else None)
      else None)"

definition finals :: "report_event option list \<Rightarrow> (toast_kind \<times> string) list" where
  "finals events = List.map_filter (\<lambda>e. Option.bind e final_toast) events"

lemma finals_simps [simp]:
  "finals [] = []"
  "finals (e # es) = (case Option.bind e final_toast of None \<Rightarrow> finals es | Some t \<Rightarrow> t # finals es)"
  by (simp_all add: finals_def map_filter_simps split: option.split)

lemma final_toast_kind: "final_toast ev = Some t \<Longrightarrow> fst t \<in> {Success, Error}"
  by (auto simp: final_toast_def Let_def split: if_splits)

lemma not_included_Nil: "\<not> js_includes ''successfully'' []" "\<not> js_includes ''PR created'' []" "\<not> js_includes ''exited with error'' []"
  by simp_all

lemmas report_defs = on_report_message_def rpc_event_def log_event_def report_toast_def close_source_def

lemma report_final:
  assumes "rs_open s" "final_toast ev = Some t"
  shows "deliver (Some ev) s = s\<lparr>rs_open := False, rs_toast := t\<rparr>"
  using assms unfolding final_toast_def deliver_def report_defs
  by (cases "rv_message ev") (auto simp: Let_def split: if_splits)

lemma report_continues:
  assumes "rs_open s" "fst (rs_toast s) \<in> {Loading, Error}" "final_toast ev = None"
  shows "rs_open (deliver (Some ev) s) \<and> fst (rs_toast (deliver (Some ev) s)) \<in> {Loading, Error}"
  using assms unfolding final_toast_def deliver_def report_defs
  by (cases "rv_message ev") (auto simp: Let_def split: if_splits)

lemma deliver_closed: "\<not> rs_open s \<Longrightarrow> fold deliver es s = s"
  by (induction es) (simp_all add: deliver_def)

lemma fold_deliver:
  assumes "rs_open s" "fst (rs_toast s) \<in> {Loading, Error}"
  shows "case finals es of
      [] \<Rightarrow> rs_open (fold deliver es s) \<and> fst (rs_toast (fold deliver es s)) \<in> {Loading, Error}
    | t # ts \<Rightarrow> \<not> rs_open (fold deliver es s) \<and> rs_toast (fold deliver es s) = t"
  using assms
proof (induction es arbitrary: s)
  case Nil
  then show ?case by simp
next
  case (Cons e es)
  show ?case
  proof (cases "Option.bind e final_toast")
    case (Some t)
    then obtain ev where ev: "e = Some ev" "final_toast ev = Some t" by (cases e) auto
    with Cons.prems show ?thesis by (simp add: report_final deliver_closed)
  next
    case None
    have "rs_open (deliver e s) \<and> fst (rs_toast (deliver e s)) \<in> {Loading, Error}"
    proof (cases e)
      case None
      with Cons.prems show ?thesis by (simp add: deliver_def on_report_message_def)
    next
      case (Some ev)
      with Cons.prems None report_continues [of s ev] show ?thesis by simp
    qed
    then show ?thesis
      using Cons.IH [of "deliver e s"] unfolding fold_simps finals_simps(2) None option.case by blast
  qed
qed

interpretation bug_submit: busy_handler submit_start "\<lambda>p r s. apsnd fst (submit_settle r s)" bm_isSubmitting
  by unfold_locales (auto simp: submit_start_def submit_settle_def Let_def split: outcome.splits option.splits)

section \<open>Properties\<close>

text \<open>C38. The one toast of a report follows its stream to the end: it shows success or failure exactly
  from the first event that says so on (a failure event, the end of the agent, a log line of the command
  line tool), later events change nothing, and unreadable events are skipped; without such an event it never
  shows success, and a connection that breaks leaves the toast as it is for good, loading.\<close>

theorem report_outcome:
  "case finals events of
      [] \<Rightarrow> rs_open (run_report events) \<and> fst (rs_toast (run_report events)) \<in> {Loading, Error}
          \<and> fold deliver later (on_report_error (run_report events)) = (run_report events)\<lparr>rs_open := False\<rparr>
    | t # ts \<Rightarrow> \<not> rs_open (run_report events) \<and> rs_toast (run_report events) = t \<and> fst t \<in> {Success, Error}
          \<and> run_report (events @ later) = run_report events"
proof (cases "finals events")
  case Nil
  then show ?thesis
    using fold_deliver [of stream_start events] deliver_closed [of "on_report_error (run_report events)" later]
    by (simp add: run_report_def stream_start_def on_report_error_def close_source_def)
next
  case (Cons t ts)
  then have "t \<in> set (finals events)" by simp
  then have "fst t \<in> {Success, Error}"
    unfolding finals_def map_filter_def
    by (clarsimp simp: bind_eq_Some_conv) (use final_toast_kind in fastforce)
  with Cons show ?thesis
    using fold_deliver [of stream_start events]
    by (auto simp: run_report_def stream_start_def deliver_closed)
qed

end
