(* ===== verification/UI_Overlays.thy ===== *)
theory UI_Overlays
  imports UI_Base
begin

text \<open>
  Buttons, dialogs and what floats above the page: \<^verbatim>\<open>ui/button.tsx\<close>, \<^verbatim>\<open>dialog.tsx\<close>, \<^verbatim>\<open>modal.tsx\<close>,
  \<^verbatim>\<open>sheet.tsx\<close>, \<^verbatim>\<open>popover.tsx\<close> and \<^verbatim>\<open>tooltip.tsx\<close>. Each component is a function of its props and
  children to the primitive elements it renders; a child that is a function of the render values is
  taken as what it returns.
\<close>

section \<open>Buttons and dialogs\<close>

definition Button :: "'a props \<Rightarrow> 'a view list \<Rightarrow> 'a view" where
  "Button ps vs = El ''ButtonPrimitive'' (omit [''className'', ''intent'', ''size'', ''isCircle'', ''ref''] ps) vs"

definition Dialog :: "'a props \<Rightarrow> 'a view list \<Rightarrow> 'a view" where
  "Dialog ps vs =
     El ''PrimitiveDialog''
       (spread [(''data-slot'', PS ''dialog''), (''role'', PS (opt_or (text_prop ''role'' ps) ''dialog''))]
          (omit [''role'', ''className''] ps)) vs"

definition DialogTrigger :: "'a props \<Rightarrow> 'a view list \<Rightarrow> 'a view" where
  "DialogTrigger ps vs = El ''PrimitiveButton'' (omit [''className''] ps) vs"

definition DialogTitle :: "'a props \<Rightarrow> 'a view list \<Rightarrow> 'a view" where
  "DialogTitle ps vs = El ''Heading'' (spread [(''slot'', PS ''title'')] (omit [''className'', ''ref''] ps)) vs"

definition DialogDescription :: "'a props \<Rightarrow> 'a view list \<Rightarrow> 'a view" where
  "DialogDescription ps vs =
     El ''p'' (spread [(''data-slot'', PS ''description'')] (omit [''className'', ''ref''] ps)) vs"

text \<open>
  Title, description and children of a header: a string child is the title when none is given.
  \<open>DialogHeader\<close> hands none of its other props on.
\<close>

definition header_content ::
  "('a props \<Rightarrow> 'a view list \<Rightarrow> 'a view) \<Rightarrow> ('a props \<Rightarrow> 'a view list \<Rightarrow> 'a view) \<Rightarrow> 'a props \<Rightarrow> 'a view list \<Rightarrow> 'a view list"
where
  "header_content Title Description ps vs =
     (let title = opt_str (text_prop ''title'' ps); description = opt_str (text_prop ''description'' ps)
      in vwhen (title \<noteq> []) [Title [] [Txt title]]
         @ vwhen (description \<noteq> []) [Description [] [Txt description]]
         @ (case string_child vs of
              Some s \<Rightarrow> if title = [] then [Title [] [Txt s]] else vs
            | None \<Rightarrow> vs))"

definition DialogHeader :: "'a props \<Rightarrow> 'a view list \<Rightarrow> 'a view" where
  "DialogHeader ps vs =
     El ''div'' [(''data-slot'', PS ''dialog-header'')] (header_content DialogTitle DialogDescription ps vs)"

definition DialogBody :: "'a props \<Rightarrow> 'a view list \<Rightarrow> 'a view" where
  "DialogBody ps vs = El ''div'' (spread [(''data-slot'', PS ''dialog-body'')] (omit [''className''] ps)) vs"

definition DialogFooter :: "'a props \<Rightarrow> 'a view list \<Rightarrow> 'a view" where
  "DialogFooter ps vs = El ''div'' (spread [(''data-slot'', PS ''dialog-footer'')] (omit [''className''] ps)) vs"

definition DialogClose :: "'a props \<Rightarrow> 'a view list \<Rightarrow> 'a view" where
  "DialogClose ps vs =
     Button (spread [(''slot'', PS ''close''), (''intent'', PS (opt_or (text_prop ''intent'' ps) ''plain''))]
       (omit [''intent'', ''ref''] ps)) vs"

definition DialogCloseIcon :: "'a props \<Rightarrow> 'a view list" where
  "DialogCloseIcon ps =
     (if flag ''isDismissable'' False ps then [El ''PrimitiveButton'' [(''slot'', PS ''close'')] [El ''X'' [] []]] else [])"

section \<open>Modal and sheet\<close>

definition Modal :: "'a props \<Rightarrow> 'a view list \<Rightarrow> 'a view" where
  "Modal ps vs = El ''DialogTriggerPrimitive'' ps vs"

definition overlay_role :: "'a props \<Rightarrow> string" where
  "overlay_role ps = opt_or (text_prop ''role'' ps) ''dialog''"

definition isDismissable :: "'a props \<Rightarrow> bool" where
  "isDismissable ps = flag ''isDismissable'' (overlay_role ps \<noteq> ''alertdialog'') ps"

definition ModalContent :: "'a props \<Rightarrow> 'a view list \<Rightarrow> 'a view" where
  "ModalContent ps vs =
     (let size = opt_or (text_prop ''size'' ps) ''md''
      in El ''ModalOverlay''
           (spread
              ([(''data-slot'', PS ''modal-overlay''), (''isDismissable'', PB (isDismissable ps))]
               @ class_when [(size = ''fullscreen'', ''md:p-3''), (size \<noteq> ''fullscreen'', ''md:p-4'')])
              (omit [''className'', ''isDismissable'', ''children'', ''overlay'', ''size'', ''role'', ''closeButton''] ps))
           [El ''ModalPrimitive'' [(''data-slot'', PS ''modal-content'')]
              [Dialog [(''role'', PS (overlay_role ps))]
                 (vs @ vwhen (flag ''closeButton'' True ps) (DialogCloseIcon [(''isDismissable'', PB (isDismissable ps))]))]])"

definition SheetContent :: "'a props \<Rightarrow> 'a view list \<Rightarrow> 'a view" where
  "SheetContent ps vs =
     El ''ModalOverlay''
       (spread [(''isDismissable'', PB (isDismissable ps))]
          (omit [''className'', ''isDismissable'', ''side'', ''role'', ''closeButton'', ''isFloat'', ''overlay'', ''children''] ps))
       [El ''Modal''
          ((''data-float'', PB (flag ''isFloat'' True ps))
           # class_when (map (\<lambda>s. (opt_or (text_prop ''side'' ps) ''right'' = s, s)) [''top'', ''bottom'', ''left'', ''right'']))
          [Dialog (copy_text ''aria-label'' ps @ [(''role'', PS (overlay_role ps))])
             (vs @ vwhen (flag ''closeButton'' True ps) (DialogCloseIcon [(''isDismissable'', PB (isDismissable ps))]))]]"

section \<open>Popover and tooltip\<close>

definition number_prop :: "string \<Rightarrow> 'a props \<Rightarrow> jsnum option" where
  "number_prop k ps = (case map_of ps k of Some (PN x) \<Rightarrow> Some x | _ \<Rightarrow> None)"

definition overlay_arrow :: "'a view" where
  "overlay_arrow = El ''OverlayArrow'' [] [El ''svg'' [] [El ''path'' [] []]]"

definition PopoverContent :: "'a props \<Rightarrow> 'a view list \<Rightarrow> 'a view" where
  "PopoverContent ps vs =
     (let arrow = flag ''arrow'' False ps;
          offset = opt_or (number_prop ''offset'' ps) (if arrow then Fin 12 else Fin 8)
      in El ''PopoverPrimitive''
           (spread [(''offset'', PN offset)] (omit [''children'', ''arrow'', ''className'', ''ref''] ps))
           (vwhen arrow [overlay_arrow] @ [El ''div'' [(''data-slot'', PS ''popover-inner'')] vs]))"

definition TooltipContent :: "'a props \<Rightarrow> 'a view list \<Rightarrow> 'a view" where
  "TooltipContent ps vs =
     El ''TooltipPrimitive''
       (spread (omit [''offset'', ''arrow'', ''inverse'', ''children''] ps)
          [(''offset'', PN (opt_or (number_prop ''offset'' ps) (Fin 10)))])
       (vwhen (flag ''arrow'' True ps) [overlay_arrow] @ vs)"

section \<open>The contract\<close>

lemma below_string_child: "string_child vs = Some s \<Longrightarrow> below vs = {}"
  by (auto simp: string_child_def split: list.splits view.splits)

lemma offered_Txt [simp]: "offered (Txt s) = {}"
  by simp

lemma below_DialogCloseIcon [simp]: "below (DialogCloseIcon ps) = {}"
  by (simp add: DialogCloseIcon_def offered_plain_props gates_def)

interpretation button_kit: transparent_component Button
  by (rule transparentI) (simp add: Button_def component_simps)

interpretation dialog_kit: transparent_component Dialog
  by (rule transparentI) (simp add: Dialog_def component_simps)

interpretation dialog_trigger: transparent_component DialogTrigger
  by (rule transparentI) (simp add: DialogTrigger_def component_simps)

interpretation dialog_title: transparent_component DialogTitle
  by (rule transparentI) (simp add: DialogTitle_def component_simps)

interpretation dialog_description: transparent_component DialogDescription
  by (rule transparentI) (simp add: DialogDescription_def component_simps)

lemma below_header_content:
  assumes "\<And>s. offered (Title [] [Txt s]) = {}" "\<And>s. offered (Description [] [Txt s]) = {}"
  shows "below (header_content Title Description ps vs) = below vs"
  using assms by (simp add: header_content_def Let_def below_string_child split: option.split)

interpretation dialog_header: frame_component DialogHeader
  by unfold_locales
    (simp add: DialogHeader_def component_simps below_header_content dialog_title.shows_children dialog_description.shows_children)

interpretation dialog_body: transparent_component DialogBody
  by (rule transparentI) (simp add: DialogBody_def component_simps)

interpretation dialog_footer: transparent_component DialogFooter
  by (rule transparentI) (simp add: DialogFooter_def component_simps)

interpretation dialog_close: transparent_component DialogClose
  by (rule transparentI) (simp add: DialogClose_def Button_def component_simps)

interpretation modal_trigger: transparent_component Modal
  by (rule transparentI) (simp add: Modal_def component_simps)

interpretation modal_kit: transparent_component ModalContent
  by (rule transparentI) (simp add: ModalContent_def Let_def component_simps dialog_kit.shows_children)

interpretation sheet_kit: transparent_component SheetContent
  by (rule transparentI) (simp add: SheetContent_def component_simps dialog_kit.shows_children)

interpretation popover_kit: transparent_component PopoverContent
  by (rule transparentI) (simp add: PopoverContent_def Let_def overlay_arrow_def component_simps)

interpretation tooltip_kit: transparent_component TooltipContent
  by (rule transparentI) (simp add: TooltipContent_def overlay_arrow_def component_simps)

text \<open>
  When a modal or a sheet can be left without using its buttons: what the caller says, and for an
  alert dialog that says nothing not at all. The close icon is there exactly then.
\<close>

lemma DialogCloseIcon_False: "DialogCloseIcon [(''isDismissable'', PB False)] = []"
  by (simp add: DialogCloseIcon_def flag_def)

lemma alert_dialog_not_dismissable:
  assumes "text_prop ''role'' ps = Some ''alertdialog''" "map_of ps ''isDismissable'' = None"
  shows "isDismissable ps = False"
    and "\<exists>qs rs ss. ModalContent ps vs = El ''ModalOverlay'' qs [El ''ModalPrimitive'' rs [Dialog ss vs]]
           \<and> map_of qs ''isDismissable'' = Some (PB False)"
proof -
  show False: "isDismissable ps = False"
    using assms by (simp add: isDismissable_def overlay_role_def flag_def)
  then show "\<exists>qs rs ss. ModalContent ps vs = El ''ModalOverlay'' qs [El ''ModalPrimitive'' rs [Dialog ss vs]]
       \<and> map_of qs ''isDismissable'' = Some (PB False)"
    by (simp add: ModalContent_def Let_def vwhen_def map_of_spread map_of_omit DialogCloseIcon_False) blast
qed

lemma other_dialog_dismissable:
  assumes "text_prop ''role'' ps \<noteq> Some ''alertdialog''" "map_of ps ''isDismissable'' = None"
  shows "isDismissable ps"
  using assms by (cases "text_prop ''role'' ps") (simp_all add: isDismissable_def overlay_role_def flag_def)

end
