(* ===== verification/UI_Controls.thy ===== *)
theory UI_Controls
  imports UI_Overlays
begin

text \<open>
  Cards, form controls, progress and the small elements of \<^verbatim>\<open>components/ui\<close>: \<^verbatim>\<open>card.tsx\<close>, \<^verbatim>\<open>field.tsx\<close>,
  \<^verbatim>\<open>input.tsx\<close>, \<^verbatim>\<open>search-field.tsx\<close>, \<^verbatim>\<open>checkbox.tsx\<close>, \<^verbatim>\<open>switch.tsx\<close>, \<^verbatim>\<open>toggle.tsx\<close>, \<^verbatim>\<open>toolbar.tsx\<close>,
  \<^verbatim>\<open>progress-bar.tsx\<close>, \<^verbatim>\<open>loader.tsx\<close>, \<^verbatim>\<open>skeleton.tsx\<close>, \<^verbatim>\<open>separator.tsx\<close>, \<^verbatim>\<open>link.tsx\<close>, \<^verbatim>\<open>avatar.tsx\<close>,
  \<^verbatim>\<open>badge.tsx\<close>, \<^verbatim>\<open>heading.tsx\<close>, \<^verbatim>\<open>container.tsx\<close>, \<^verbatim>\<open>status-dot.tsx\<close> and \<^verbatim>\<open>description-list.tsx\<close>.
\<close>

section \<open>Cards\<close>

text \<open>An element with a \<open>data-slot\<close> before the rest of its props.\<close>

abbreviation slotted :: "string \<Rightarrow> string \<Rightarrow> string list \<Rightarrow> 'a props \<Rightarrow> 'a view list \<Rightarrow> 'a view" where
  "slotted t slot ks ps vs \<equiv> El t (spread [(''data-slot'', PS slot)] (omit ks ps)) vs"

definition Card :: "'a props \<Rightarrow> 'a view list \<Rightarrow> 'a view" where
  "Card ps vs = slotted ''div'' ''card'' [''className''] ps vs"

definition CardTitle :: "'a props \<Rightarrow> 'a view list \<Rightarrow> 'a view" where
  "CardTitle ps vs = slotted ''div'' ''card-title'' [''className''] ps vs"

text \<open>\<open>CardDescription\<close> spreads its props before and after the slot.\<close>

definition CardDescription :: "'a props \<Rightarrow> 'a view list \<Rightarrow> 'a view" where
  "CardDescription ps vs =
     (let props = omit [''className''] ps
      in El ''div'' (spread (spread props [(''data-slot'', PS ''card-description'')]) props) vs)"

definition CardHeader :: "'a props \<Rightarrow> 'a view list \<Rightarrow> 'a view" where
  "CardHeader ps vs =
     slotted ''div'' ''card-header'' [''className'', ''title'', ''description'', ''children''] ps
       (header_content CardTitle CardDescription ps vs)"

definition CardAction :: "'a props \<Rightarrow> 'a view list \<Rightarrow> 'a view" where
  "CardAction ps vs = slotted ''div'' ''card-action'' [''className''] ps vs"

definition CardContent :: "'a props \<Rightarrow> 'a view list \<Rightarrow> 'a view" where
  "CardContent ps vs = slotted ''div'' ''card-content'' [''className''] ps vs"

definition CardFooter :: "'a props \<Rightarrow> 'a view list \<Rightarrow> 'a view" where
  "CardFooter ps vs = slotted ''div'' ''card-footer'' [''className''] ps vs"

lemma wires_spread_twice:
  assumes "plain extra" "wires ps qs"
  shows "wires (spread (spread ps extra) ps) qs"
proof -
  have gates: "map_of (spread (spread ps extra) ps) g = map_of ps g" if "g \<in> set gates" for g
    using plain_no_gate [OF assms(1) that] by (simp add: map_of_spread split: option.split)
  have "acts (omit (map fst ps) (spread ps extra)) = {}"
  proof -
    have "acts (omit (map fst ps) (spread ps extra)) \<subseteq> acts extra"
      by (auto simp: acts_def omit_def spread_def)
    then show ?thesis using assms(1) by (simp add: acts_plain)
  qed
  moreover from this have "handlers_only (omit (map fst ps) (spread ps extra))"
    by (auto simp: handlers_only_def acts_def set_attr_empty)
  ultimately show ?thesis
    using assms(2) gates by (simp add: wires_def spread_def [of "spread ps extra"])
qed

interpretation card: transparent_component Card
  by (rule transparentI) (simp add: Card_def component_simps)

interpretation card_title: transparent_component CardTitle
  by (rule transparentI) (simp add: CardTitle_def component_simps)

interpretation card_description: transparent_component CardDescription
  by (rule transparentI) (simp add: CardDescription_def Let_def wires_spread_twice component_simps)

interpretation card_header: transparent_component CardHeader
  by (rule transparentI)
    (simp add: CardHeader_def below_header_content card_title.shows_children card_description.shows_children component_simps)

interpretation card_action: transparent_component CardAction
  by (rule transparentI) (simp add: CardAction_def component_simps)

interpretation card_content: transparent_component CardContent
  by (rule transparentI) (simp add: CardContent_def component_simps)

interpretation card_footer: transparent_component CardFooter
  by (rule transparentI) (simp add: CardFooter_def component_simps)

section \<open>Fields and inputs\<close>

definition Label :: "'a props \<Rightarrow> 'a view list \<Rightarrow> 'a view" where
  "Label ps vs = slotted ''LabelPrimitive'' ''label'' [''className''] ps vs"

definition Description :: "'a props \<Rightarrow> 'a view list \<Rightarrow> 'a view" where
  "Description ps vs = El ''Text'' (spread (omit [''className''] ps) [(''slot'', PS ''description'')]) vs"

definition Fieldset :: "'a props \<Rightarrow> 'a view list \<Rightarrow> 'a view" where
  "Fieldset ps vs = El ''fieldset'' (omit [''className''] ps) vs"

definition FieldGroup :: "'a props \<Rightarrow> 'a view list \<Rightarrow> 'a view" where
  "FieldGroup ps vs = slotted ''div'' ''control'' [''className''] ps vs"

definition FieldError :: "'a props \<Rightarrow> 'a view list \<Rightarrow> 'a view" where
  "FieldError ps vs = El ''FieldErrorPrimitive'' (omit [''className''] ps) vs"

definition Legend :: "'a props \<Rightarrow> 'a view list \<Rightarrow> 'a view" where
  "Legend ps vs = slotted ''legend'' ''legend'' [''className''] ps vs"

definition Input :: "'a props \<Rightarrow> 'a view list \<Rightarrow> 'a view" where
  "Input ps vs = El ''span'' [(''data-slot'', PS ''control'')] [El ''InputPrimitive'' (omit [''className'', ''ref''] ps) vs]"

definition InputGroup :: "'a props \<Rightarrow> 'a view list \<Rightarrow> 'a view" where
  "InputGroup ps vs = slotted ''Group'' ''control'' [''className''] ps vs"

definition SearchField :: "'a props \<Rightarrow> 'a view list \<Rightarrow> 'a view" where
  "SearchField ps vs =
     El ''SearchFieldPrimitive''
       (spread (spread [(''data-slot'', PS ''control'')] (omit [''className''] ps))
          [(''aria-label'', PS (opt_or (text_prop ''aria-label'' ps) ''Search''))]) vs"

definition SearchInput :: "'a props \<Rightarrow> 'a view list \<Rightarrow> 'a view" where
  "SearchInput ps vs =
     InputGroup []
       [El ''Search'' [(''data-slot'', PS ''icon'')] [], Input ps vs, El ''PrimitiveButton'' [] [El ''X'' [] []]]"

interpretation label: transparent_component Label
  by (rule transparentI) (simp add: Label_def component_simps)

interpretation description: transparent_component Description
  by (rule transparentI) (simp add: Description_def component_simps)

interpretation fieldset: transparent_component Fieldset
  by (rule transparentI) (simp add: Fieldset_def component_simps)

interpretation field_group: transparent_component FieldGroup
  by (rule transparentI) (simp add: FieldGroup_def component_simps)

interpretation field_error: transparent_component FieldError
  by (rule transparentI) (simp add: FieldError_def component_simps)

interpretation legend: transparent_component Legend
  by (rule transparentI) (simp add: Legend_def component_simps)

interpretation input: transparent_component Input
  by (rule transparentI) (simp add: Input_def component_simps)

interpretation input_group: transparent_component InputGroup
  by (rule transparentI) (simp add: InputGroup_def component_simps)

interpretation search_field: transparent_component SearchField
  by (rule transparentI) (simp add: SearchField_def component_simps)

interpretation search_input: transparent_component SearchInput
  by (rule transparentI)
    (simp add: SearchInput_def input_group.shows_children input.offers_the_same [where t = "[]"] component_simps)

section \<open>Check box, switch and toggle\<close>

definition CheckboxGroup :: "'a props \<Rightarrow> 'a view list \<Rightarrow> 'a view" where
  "CheckboxGroup ps vs =
     El ''CheckboxGroupPrimitive'' (spread (omit [''className''] ps) [(''data-slot'', PS ''control'')]) vs"

definition CheckboxLabel :: "'a props \<Rightarrow> 'a view list \<Rightarrow> 'a view" where
  "CheckboxLabel ps vs = Label (spread [(''elementType'', PS ''span''), (''className'', PS ''control-label'')] ps) vs"

definition check_indicator :: "render_values \<Rightarrow> 'a view list" where
  "check_indicator rv =
     (if rv_isIndeterminate rv then [El ''Minus'' [(''data-slot'', PS ''check-indicator'')] []]
      else if rv_isSelected rv then [El ''Check'' [(''data-slot'', PS ''check-indicator'')] []]
      else [])"

definition Checkbox :: "render_values \<Rightarrow> 'a props \<Rightarrow> 'a view list \<Rightarrow> 'a view" where
  "Checkbox rv ps vs =
     slotted ''CheckboxPrimitive'' ''control'' [''className'', ''children''] ps
       [El ''div'' []
          (El ''span''
             ((''data-slot'', PS ''indicator'')
              # class_when
                  [(rv_isSelected rv \<or> rv_isIndeterminate rv, ''bg-(--checkbox-bg,var(--color-primary))''),
                   (rv_isFocusVisible rv, ''ring-3''),
                   (rv_isInvalid rv, ''bg-danger-subtle/5'')])
             (check_indicator rv)
           # (case string_child vs of Some s \<Rightarrow> [CheckboxLabel [] [Txt s]] | None \<Rightarrow> vs))]"

definition SwitchLabel :: "'a props \<Rightarrow> 'a view list \<Rightarrow> 'a view" where
  "SwitchLabel ps vs = slotted ''SwitchButton'' ''control-label'' [''className''] ps vs"

definition Switch :: "render_values \<Rightarrow> 'a props \<Rightarrow> 'a view list \<Rightarrow> 'a view" where
  "Switch rv ps vs =
     El ''SwitchField'' (spread (omit [''children'', ''className''] ps) [(''data-slot'', PS ''control'')])
       [El ''SwitchButton'' []
          (El ''span''
             ((''data-slot'', PS ''indicator'')
              # class_when
                  [(rv_isHovered rv, ''inset-ring-muted-fg/30''), (rv_isFocusVisible rv, ''ring-2''),
                   (rv_isSelected rv, ''bg-(--switch-bg)''), (rv_isDisabled rv, ''dark:group-disabled:bg-muted-fg/30'')])
             [El ''span'' (class_when [(rv_isSelected rv, ''ltr:translate-x-4'')]) []]
           # (case string_child vs of Some s \<Rightarrow> [SwitchLabel [] [Txt s]] | None \<Rightarrow> vs))]"

definition Toggle :: "'a props \<Rightarrow> 'a view list \<Rightarrow> 'a view" where
  "Toggle ps vs = El ''ToggleButton'' (omit [''className'', ''size'', ''intent'', ''isCircle'', ''ref''] ps) vs"

lemma below_check_indicator [simp]: "below (check_indicator rv) = {}"
  by (simp add: check_indicator_def component_simps)

interpretation checkbox_group: transparent_component CheckboxGroup
  by (rule transparentI) (simp add: CheckboxGroup_def component_simps)

interpretation checkbox_label: transparent_component CheckboxLabel
  by (rule transparentI) (simp add: CheckboxLabel_def Label_def component_simps)

interpretation checkbox: transparent_component "Checkbox rv" for rv
  by (rule transparentI)
    (simp add: Checkbox_def component_simps below_string_child checkbox_label.shows_children split: option.split)

interpretation switch_label: transparent_component SwitchLabel
  by (rule transparentI) (simp add: SwitchLabel_def component_simps)

interpretation switch: transparent_component "Switch rv" for rv
  by (rule transparentI)
    (simp add: Switch_def component_simps below_string_child switch_label.shows_children split: option.split)

interpretation toggle: transparent_component Toggle
  by (rule transparentI) (simp add: Toggle_def component_simps)

text \<open>An indeterminate box shows the dash whether it is selected or not.\<close>

lemma indeterminate_wins:
  "rv_isIndeterminate rv \<Longrightarrow> check_indicator rv = [El ''Minus'' [(''data-slot'', PS ''check-indicator'')] []]"
  by (simp add: check_indicator_def)

section \<open>Toolbar\<close>

text \<open>
  The toolbar provides its orientation and shape, a group whether it is disabled; the items and
  separators read them. A group hands its own \<open>isDisabled\<close> to its items only, not to the primitive.
\<close>

definition toolbar_env :: "'a props \<Rightarrow> kit_env \<Rightarrow> kit_env" where
  "toolbar_env ps e =
     e\<lparr>ke_orientation := opt_or (text_prop ''orientation'' ps) ''horizontal'', ke_isCircle := flag ''isCircle'' False ps\<rparr>"

definition Toolbar :: "'a props \<Rightarrow> 'a view list \<Rightarrow> 'a view" where
  "Toolbar ps vs =
     (let orientation = opt_or (text_prop ''orientation'' ps) ''horizontal''
      in El ''ToolbarPrimitive''
           (spread
              ((''orientation'', PS orientation)
               # class_when
                   [(flag ''isCircle'' False ps, ''rounded-full''), (\<not> flag ''isCircle'' False ps, ''rounded-lg''),
                    (orientation = ''horizontal'', ''flex-row items-center''), (orientation \<noteq> ''horizontal'', ''flex-col items-start'')])
              (omit [''orientation'', ''isCircle'', ''className''] ps)) vs)"

definition toolbar_group_env :: "'a props \<Rightarrow> kit_env \<Rightarrow> kit_env" where
  "toolbar_group_env ps e = e\<lparr>ke_groupDisabled := flag ''isDisabled'' False ps\<rparr>"

definition ToolbarGroup :: "'a props \<Rightarrow> 'a view list \<Rightarrow> 'a view" where
  "ToolbarGroup ps vs = El ''Group'' (omit [''isDisabled'', ''className''] ps) vs"

definition ToolbarItem :: "kit_env \<Rightarrow> 'a props \<Rightarrow> 'a view list \<Rightarrow> 'a view" where
  "ToolbarItem e ps vs =
     (let effectiveIsDisabled = (flag ''isDisabled'' False ps \<or> ke_groupDisabled e);
          effectiveIsCircle = (flag ''isCircle'' False ps \<or> ke_isCircle e)
      in Toggle
           (spread
              ([(''intent'', PS (opt_or (text_prop ''intent'' ps) ''outline'')), (''size'', PS (opt_or (text_prop ''size'' ps) ''sm'')),
                (''data-slot'', PS ''toolbar-item'')]
               @ class_when [(effectiveIsCircle, ''rounded-full''), (\<not> effectiveIsCircle, ''rounded-[calc(var(--radius-lg)-1px)]'')]
               @ [(''isDisabled'', PB effectiveIsDisabled)])
              (omit [''isDisabled'', ''isCircle'', ''size'', ''intent'', ''ref'', ''className''] ps)) vs)"

definition Separator :: "'a props \<Rightarrow> 'a view list \<Rightarrow> 'a view" where
  "Separator ps vs =
     (let orientation = opt_or (text_prop ''orientation'' ps) ''horizontal''
      in El ''Divider''
           (spread (class_when [(orientation = ''horizontal'', ''h-px w-full''), (orientation \<noteq> ''horizontal'', ''h-full w-px'')])
              (omit [''orientation'', ''className''] ps)) vs)"

definition ToolbarSeparator :: "kit_env \<Rightarrow> 'a props \<Rightarrow> 'a view list \<Rightarrow> 'a view" where
  "ToolbarSeparator e ps vs =
     (let reverseOrientation = (if ke_orientation e = ''vertical'' then ''horizontal'' else ''vertical'')
      in Separator
           (spread
              ((''orientation'', PS reverseOrientation)
               # class_when [(reverseOrientation = ''vertical'', ''mx-0.5 h-6''), (reverseOrientation \<noteq> ''vertical'', ''my-0.5 w-8'')])
              (omit [''className''] ps)) vs)"

interpretation separator: transparent_component Separator
  by (rule transparentI) (simp add: Separator_def Let_def component_simps)

interpretation toolbar: transparent_component Toolbar
  by (rule transparentI) (simp add: Toolbar_def Let_def component_simps)

text \<open>In a disabled group every item is disabled, whatever its own props say.\<close>

lemma class_when_no_gate: "g \<in> set gates \<Longrightarrow> map_of (class_when cs) g = None"
  by (rule plain_no_gate) simp_all

lemma group_disables_items:
  "offered (ToolbarItem (toolbar_group_env [(''isDisabled'', PB True)] e) ps vs) \<subseteq> below vs"
  unfolding ToolbarItem_def Toggle_def Let_def
  by (simp add: toolbar_group_env_def flag_def offered_below inert_def prop_is_def map_of_omit map_of_spread
      map_add_def class_when_no_gate gates_def)

lemma separator_across_toolbar:
  "ke_orientation (toolbar_env [] e) = ''horizontal''"
  "ToolbarSeparator (toolbar_env [] e) [] vs = Separator [(''orientation'', PS ''vertical''), (''className'', PS ''mx-0.5 h-6'')] vs"
  by (simp_all add: toolbar_env_def ToolbarSeparator_def Let_def text_prop_def class_when_def spread_def omit_def)

text \<open>
  \<open>Separator\<close> takes \<open>orientation\<close> out of its props for the class names and does not hand it on: the
  primitive of a vertical separator is a horizontal one.
\<close>

lemma separator_loses_orientation:
  "\<exists>qs. Separator ps vs = El ''Divider'' qs vs \<and> map_of qs ''orientation'' = None"
proof -
  have "map_of (class_when cs) ''orientation'' = None" for cs
    by (induction cs) (auto simp: class_when_def)
  then show ?thesis by (simp add: Separator_def Let_def map_of_spread map_of_omit)
qed

section \<open>Progress\<close>

text \<open>
  \<open>ProgressBar\<close> puts the render values of the primitive into a context; its parts read them, and
  throw (\<open>None\<close>) outside a progress bar, where the context is null.
\<close>

record progress_values =
  pv_percentage :: "rat option"
  pv_valueText :: "string option"
  pv_isIndeterminate :: bool

definition ProgressBar :: "'a props \<Rightarrow> 'a view list \<Rightarrow> 'a view" where
  "ProgressBar ps vs = slotted ''ProgressBarPrimitive'' ''control'' [''className'', ''children''] ps vs"

definition ProgressBarHeader :: "'a props \<Rightarrow> 'a view list \<Rightarrow> 'a view" where
  "ProgressBarHeader ps vs = slotted ''div'' ''progress-bar-header'' [''className''] ps vs"

definition ProgressBarValue :: "progress_values option \<Rightarrow> 'a props \<Rightarrow> 'a view option" where
  "ProgressBarValue context ps =
     map_option (\<lambda>c. slotted ''span'' ''progress-bar-value'' [''className''] ps
       (case pv_valueText c of None \<Rightarrow> [] | Some s \<Rightarrow> [Txt s])) context"

text \<open>\<open>percent\<close> is the text of a number followed by a percent sign; undefined prints as such.\<close>

definition ProgressBarTrack :: "(rat \<Rightarrow> string) \<Rightarrow> progress_values option \<Rightarrow> 'a props \<Rightarrow> 'a view option" where
  "ProgressBarTrack number context ps =
     map_option (\<lambda>c.
       El ''span'' [(''data-slot'', PS ''progress-bar-track'')]
         [El ''style'' [] [],
          El ''div'' (omit [''className'', ''ref''] ps)
            [El ''div'' [(''data-slot'', PS ''progress-container'')]
               [El ''div''
                  [(''data-slot'', PS ''progress-content''),
                   (''width'',
                    PS (if pv_isIndeterminate c then ''40%''
                        else (case pv_percentage c of None \<Rightarrow> ''undefined'' | Some p \<Rightarrow> number p) @ ''%''))] []]]]) context"

text \<open>The parts of a meter read the context of \<^verbatim>\<open>ui/meter.tsx\<close> in the same way.\<close>

record meter_values =
  mv_percentage :: rat
  mv_valueText :: "string option"
  mv_color :: "string option"

definition MeterValue :: "meter_values option \<Rightarrow> 'a props \<Rightarrow> 'a view option" where
  "MeterValue context ps =
     map_option (\<lambda>c. slotted ''span'' ''meter-value'' [''className''] ps
       (case mv_valueText c of None \<Rightarrow> [] | Some s \<Rightarrow> [Txt s])) context"

definition MeterHeader :: "'a props \<Rightarrow> 'a view list \<Rightarrow> 'a view" where
  "MeterHeader ps vs = slotted ''div'' ''meter-header'' [''className''] ps vs"

lemma progress_parts_throw_outside:
  "ProgressBarValue None ps = None" "ProgressBarTrack number None ps = None" "MeterValue None ps = None"
  by (simp_all add: ProgressBarValue_def ProgressBarTrack_def MeterValue_def)

interpretation progress_bar: transparent_component ProgressBar
  by (rule transparentI) (simp add: ProgressBar_def component_simps)

interpretation meter_header: transparent_component MeterHeader
  by (rule transparentI) (simp add: MeterHeader_def component_simps)

interpretation progress_bar_header: transparent_component ProgressBarHeader
  by (rule transparentI) (simp add: ProgressBarHeader_def component_simps)

text \<open>
  \<open>Loader\<close>: a spinner of the wanted variant, the default one for a name that is no loader. The
  props of the spinner are those of the loader without what the bar takes.
\<close>

definition Ring :: "'a props \<Rightarrow> 'a view" where
  "Ring ps = El ''svg'' (spread (omit [''className''] ps) [(''fill'', PS ''none''), (''aria-hidden'', PS ''true'')])
     [El ''path'' [] [], El ''path'' [] []]"

definition Spin :: "'a props \<Rightarrow> 'a view" where
  "Spin ps = El ''svg'' (omit [''className''] ps)
     [El ''g'' [] (replicate 12 (El ''line'' [] []) @ [El ''animateTransform'' [] []])]"

definition LOADERS :: "(string \<times> ('a props \<Rightarrow> 'a view)) list" where
  "LOADERS = [(''ring'', Ring), (''spin'', Spin)]"

definition DEFAULT_SPINNER :: string where
  "DEFAULT_SPINNER = ''spin''"

definition LoaderPrimitive :: "string \<Rightarrow> 'a props \<Rightarrow> 'a view" where
  "LoaderPrimitive variant =
     (case map_of LOADERS variant of Some r \<Rightarrow> r | None \<Rightarrow> opt_or (map_of LOADERS DEFAULT_SPINNER) Spin)"

definition Loader :: "'a props \<Rightarrow> 'a view" where
  "Loader ps =
     (let props = omit [''isIndeterminate'', ''ref''] ps;
          variant = opt_or (text_prop ''variant'' props) DEFAULT_SPINNER
      in El ''ProgressBarPrimitive''
           [(''data-slot'', PS (opt_or (text_prop ''data-slot'' props) ''loader'')),
            (''aria-label'', PS (opt_or (text_prop ''aria-label'' props) ''Pending...'')),
            (''isIndeterminate'', PB (flag ''isIndeterminate'' True ps))]
           [LoaderPrimitive variant
              (spread
                 ((''role'', PS ''presentation'')
                  # class_when [(variant = ''ring'', ''animate-spin''), (variant = ''spin'', ''stroke-current'')])
                 (omit [''className'', ''variant''] props))])"

lemma loader_always_spins:
  "LoaderPrimitive v ps = (if v = ''ring'' then Ring ps else Spin ps)"
  by (simp add: LoaderPrimitive_def LOADERS_def DEFAULT_SPINNER_def)

section \<open>Small elements\<close>

definition Skeleton :: "'a props \<Rightarrow> 'a view list \<Rightarrow> 'a view" where
  "Skeleton ps vs =
     El ''div''
       (spread
          ((''data-slot'', PS ''skeleton'')
           # (if flag ''isLoading'' False ps then [(''data-loading'', PS [])] else [])
           @ class_when [(flag ''isLoading'' False ps, ''pointer-events-none''), (\<not> flag ''isLoading'' False ps, ''shrink-0'')])
          (omit [''ref'', ''isLoading'', ''className''] ps)) vs"

definition Link :: "'a props \<Rightarrow> 'a view list \<Rightarrow> 'a view" where
  "Link ps vs =
     El ''LinkPrimitive''
       (spread (class_when [(''href'' \<in> fst ` set (omit [''className'', ''ref''] ps), ''cursor-pointer'')])
          (omit [''className'', ''ref''] ps)) vs"

definition Badge :: "'a props \<Rightarrow> 'a view list \<Rightarrow> 'a view" where
  "Badge ps vs = El ''span'' (omit [''intent'', ''isCircle'', ''className''] ps) vs"

definition Heading :: "'a props \<Rightarrow> 'a view list \<Rightarrow> 'a view" where
  "Heading ps vs =
     (let level = opt_or (number_prop ''level'' ps) (Fin 1)
      in El (if level = Fin 1 then ''h1'' else if level = Fin 2 then ''h2'' else if level = Fin 3 then ''h3'' else ''h4'')
           (omit [''className'', ''level''] ps) vs)"

definition Container :: "'a props \<Rightarrow> 'a view list \<Rightarrow> 'a view" where
  "Container ps vs =
     El ''div''
       (spread
          (class_when [(flag ''constrained'' False ps, ''sm:px-(--container-padding)''),
             (\<not> flag ''constrained'' False ps, ''px-(--container-padding)'')])
          (omit [''className'', ''constrained'', ''ref''] ps)) vs"

definition DescriptionList :: "'a props \<Rightarrow> 'a view list \<Rightarrow> 'a view" where
  "DescriptionList ps vs = El ''dl'' (omit [''className'', ''ref''] ps) vs"

definition DescriptionTerm :: "'a props \<Rightarrow> 'a view list \<Rightarrow> 'a view" where
  "DescriptionTerm ps vs = El ''dt'' (omit [''className'', ''ref''] ps) vs"

definition DescriptionDetails :: "'a props \<Rightarrow> 'a view list \<Rightarrow> 'a view" where
  "DescriptionDetails ps vs = El ''dd'' (spread (omit [''className''] ps) [(''data-slot'', PS ''description-details'')]) vs"

text \<open>\<open>StatusDot\<close> takes an intent, a class and a click handler and nothing else.\<close>

definition intentClass :: "(string \<times> string) list" where
  "intentClass =
     [(''primary'', ''bg-primary/70''), (''secondary'', ''bg-muted-fg/40''), (''success'', ''bg-success/70''),
      (''info'', ''bg-sky-500/70''), (''warning'', ''bg-warning/70''), (''danger'', ''bg-danger/70'')]"

definition StatusDot :: "'a props \<Rightarrow> 'a view list \<Rightarrow> 'a view" where
  "StatusDot ps vs =
     El ''span''
       ([(''aria-hidden'', PB True), (''className'', PS (opt_str (map_of intentClass (opt_or (text_prop ''intent'' ps) ''secondary''))))]
        @ (case map_of ps ''onClick'' of Some a \<Rightarrow> [(''onClick'', a)] | None \<Rightarrow> []))
       []"

definition Avatar :: "'a props \<Rightarrow> 'a view list \<Rightarrow> 'a view" where
  "Avatar ps vs =
     (let initials = opt_str (text_prop ''initials'' ps); src = opt_str (text_prop ''src'' ps); alt = opt_str (text_prop ''alt'' ps)
      in El ''span''
           (spread [(''data-slot'', PS ''avatar'')]
              (omit [''src'', ''isSquare'', ''size'', ''initials'', ''alt'', ''className'', ''children''] ps))
           (vwhen (initials \<noteq> [])
              [El ''svg'' (vwhen (alt = []) [(''aria-hidden'', PS ''true'')])
                 (vwhen (alt \<noteq> []) [El ''title'' [] [Txt alt]] @ [El ''text'' [] [Txt initials]])]
            @ vwhen (src \<noteq> []) [El ''img'' [(''src'', PS src), (''alt'', PS alt)] []]))"

interpretation skeleton: transparent_component Skeleton
  by (rule transparentI) (simp add: Skeleton_def component_simps)

interpretation link: transparent_component Link
  by (rule transparentI) (simp add: Link_def component_simps)

interpretation badge: transparent_component Badge
  by (rule transparentI) (simp add: Badge_def component_simps)

interpretation heading: transparent_component Heading
  by (rule transparentI) (simp add: Heading_def Let_def component_simps)

interpretation container: transparent_component Container
  by (rule transparentI) (simp add: Container_def component_simps)

interpretation description_list: transparent_component DescriptionList
  by (rule transparentI) (simp add: DescriptionList_def component_simps)

interpretation description_term: transparent_component DescriptionTerm
  by (rule transparentI) (simp add: DescriptionTerm_def component_simps)

interpretation description_details: transparent_component DescriptionDetails
  by (rule transparentI) (simp add: DescriptionDetails_def component_simps)

text \<open>An avatar shows text for readers exactly when it has an alternative text.\<close>

lemma avatar_hidden_without_alt:
  assumes "text_prop ''alt'' ps = None" "text_prop ''src'' ps = None" "text_prop ''initials'' ps = Some (c # cs)"
  shows "\<exists>qs. Avatar ps vs = El ''span'' qs [El ''svg'' [(''aria-hidden'', PS ''true'')] [El ''text'' [] [Txt (c # cs)]]]"
  using assms by (simp add: Avatar_def Let_def)

end
