(* ===== verification/UI_Table.thy ===== *)
theory UI_Table
  imports UI_Controls
begin

text \<open>
  The table of \<^verbatim>\<open>ui/table.tsx\<close>. \<open>Table\<close> provides its flags to the parts; the header and the rows
  add a column and a cell for dragging and for selection from the same two conditions, so that a row
  always has as many cells in front as the header has columns. A body without rows shows the
  caller's empty state or the library's.
\<close>

definition table_env :: "'a props \<Rightarrow> table_options \<Rightarrow> kit_env \<Rightarrow> kit_env" where
  "table_env ps opts e =
     e\<lparr>ke_allowResize := flag ''allowResize'' False ps, ke_bleed := flag ''bleed'' False ps, ke_grid := flag ''grid'' False ps,
       ke_striped := flag ''striped'' False ps, ke_table := opts\<rparr>"

definition Root :: "'a props \<Rightarrow> 'a view list \<Rightarrow> 'a view" where
  "Root ps vs = El ''TablePrimitive'' ps vs"

definition Table :: "'a props \<Rightarrow> 'a view list \<Rightarrow> 'a view" where
  "Table ps vs =
     (let root = Root (omit [''allowResize'', ''className'', ''bleed'', ''grid'', ''striped'', ''ref''] ps) vs
      in El ''div'' [] [El ''div'' []
           [El ''div'' (class_when [(\<not> flag ''bleed'' False ps, ''sm:px-(--gutter)'')])
              [if flag ''allowResize'' False ps
               then El ''ResizableTableContainer'' [(''data-slot'', PS ''table-resizable-container'')] [root]
               else root]]])"

definition ColumnResizer :: "'a props \<Rightarrow> 'a view" where
  "ColumnResizer ps = El ''ColumnResizerPrimitive'' (omit [''className''] ps) [El ''div'' [] []]"

text \<open>The drawing of the empty state: eight pictures with their numbers of paths, and four circles.\<close>

definition empty_state_art :: "'a view" where
  "empty_state_art =
     El ''div'' [(''aria-hidden'', PB True)]
       (map (\<lambda>n. El ''svg'' [(''aria-hidden'', PB True)] (replicate n (El ''path'' [] []))) [1, 1, 1, 1, 3, 1, 1, 4])"

definition empty_state_circles :: "'a view list" where
  "empty_state_circles = replicate 4 (El ''i'' [(''aria-hidden'', PB True)] [])"

definition no_data_text :: "'a view" where
  "no_data_text =
     El ''div'' []
       [CardTitle [] [Txt ''No data found''],
        CardDescription [] [Txt ''No information is currently available in this section.'']]"

definition no_data_view :: "'a view" where
  "no_data_view = El ''div'' [(''aria-hidden'', PB True)] (empty_state_art # empty_state_circles @ [no_data_text])"

text \<open>\<open>renderEmptyState\<close> is what the caller's function returns, if there is one.\<close>

definition TableBody :: "('a view list) option \<Rightarrow> 'a props \<Rightarrow> 'a view list \<Rightarrow> 'a view" where
  "TableBody renderEmptyState ps vs =
     El ''TableBodyPrimitive'' (spread [(''data-slot'', PS ''table-body'')] (omit [''renderEmptyState''] ps))
       (if vs = [] then opt_or renderEmptyState [no_data_view] else vs)"

definition TableColumn :: "kit_env \<Rightarrow> render_values \<Rightarrow> 'a props \<Rightarrow> 'a view list \<Rightarrow> 'a view" where
  "TableColumn e rv ps vs =
     (let isResizable = flag ''isResizable'' False ps
      in El ''Column''
           (spread
              (spread [(''data-slot'', PS ''table-column'')] (omit [''isResizable'', ''className''] ps))
              (class_when
                 [(\<not> ke_bleed e, ''sm:last:pe-1 sm:first:ps-1''), (ke_grid e, ''border-l first:border-l-0''),
                  (isResizable, ''overflow-hidden truncate'')]))
           [El ''Group'' [(''role'', PS ''presentation''), (''tabIndex'', PI (- 1))]
              (vs
               @ vwhen (rv_allowsSorting rv)
                   [El ''span'' (class_when [(rv_isHovered rv, ''bg-secondary-fg/10'')])
                      [El ''ChevronDown'' (class_when [(rv_sortDirection rv = Some ''ascending'', ''rotate-180'')]) []]]
               @ vwhen isResizable [ColumnResizer []])])"

text \<open>
  \<open>inner\<close> gives the render values of the primitives inside: the selection check boxes and the cells.
\<close>

definition extra_column :: "kit_env \<Rightarrow> 'a view list \<Rightarrow> 'a view" where
  "extra_column e vs =
     El ''Column'' ((''data-slot'', PS ''table-column'') # class_when [(\<not> ke_bleed e, ''sm:last:pe-1 sm:first:ps-1'')]) vs"

definition selection_checkbox :: "(string \<Rightarrow> render_values) \<Rightarrow> 'a view" where
  "selection_checkbox inner = Checkbox (inner ''Checkbox'') [(''slot'', PS ''selection'')] []"

definition TableHeader :: "kit_env \<Rightarrow> (string \<Rightarrow> render_values) \<Rightarrow> 'a props \<Rightarrow> 'a view list \<Rightarrow> 'a view" where
  "TableHeader e inner ps vs =
     (let opts = ke_table e
      in slotted ''TableHeaderPrimitive'' ''table-header'' [''children'', ''ref'', ''columns'', ''className''] ps
           (vwhen (to_allowsDragging opts) [extra_column e []]
            @ vwhen (to_selectionBehavior opts = Some ''toggle'')
                [extra_column e (vwhen (to_selectionMode opts = ''multiple'') [selection_checkbox inner])]
            @ [El ''Collection'' [] vs]))"

text \<open>The padding of a cell in the tree column, in pixels.\<close>

definition tree_padding :: "render_values \<Rightarrow> int option" where
  "tree_padding rv =
     (if rv_isTreeColumn rv then Some (4 + (if rv_hasChildItems rv then 0 else 24) + (rv_level rv - 1) * 20) else None)"

definition TableCell :: "kit_env \<Rightarrow> render_values \<Rightarrow> 'a props \<Rightarrow> 'a view list \<Rightarrow> 'a view" where
  "TableCell e rv ps vs =
     El ''Cell''
       (spread
          (spread [(''data-slot'', PS ''table-cell'')] (omit [''className'', ''ref''] ps))
          (class_when
             [(\<not> ke_striped e, ''border-b''), (ke_grid e, ''border-l first:border-l-0''),
              (\<not> ke_bleed e, ''sm:last:pe-1 sm:first:ps-1''), (ke_allowResize e, ''overflow-hidden truncate'')]
           @ (case tree_padding rv of Some n \<Rightarrow> [(''paddingInlineStart'', PI n)] | None \<Rightarrow> [])))
       [El ''div'' []
          (vwhen (rv_hasChildItems rv \<and> rv_isTreeColumn rv)
             [El ''PrimitiveButton'' ((''slot'', PS ''chevron'') # class_when [(rv_isDisabled rv, ''opacity-50'')])
                [El ''ChevronRight'' (class_when [(rv_isExpanded rv, ''rotate-90'')]) []]]
           @ vs)]"

definition row_reacts :: "render_values \<Rightarrow> 'a props \<Rightarrow> bool" where
  "row_reacts rv ps \<longleftrightarrow>
     opt_str (text_prop ''href'' ps) \<noteq> [] \<or> ''onAction'' \<in> fst ` set ps \<or> rv_selectionMode rv = ''multiple''"

definition TableRow :: "kit_env \<Rightarrow> render_values \<Rightarrow> (string \<Rightarrow> render_values) \<Rightarrow> 'a props \<Rightarrow> 'a view list \<Rightarrow> 'a view" where
  "TableRow e rv inner ps vs =
     (let opts = ke_table e
      in El ''Row''
           (spread
              (spread [(''data-slot'', PS ''table-row'')] (omit [''children'', ''className'', ''columns'', ''ref''] ps))
              (class_when
                 [(rv_isFocusVisible rv, ''ring-3''), (rv_isDragging rv, ''cursor-grabbing''),
                  (rv_isSelected rv, ''bg-(--table-selected-bg)''), (ke_striped e, ''even:bg-muted''),
                  (row_reacts rv ps, ''hover:bg-(--table-selected-bg)''),
                  (row_reacts rv ps \<and> rv_isFocusVisibleWithin rv, ''bg-(--table-selected-bg)/50''),
                  (rv_isDisabled rv, ''opacity-50'')]))
           (vwhen (to_allowsDragging opts)
              [TableCell e (inner ''Cell'') []
                 [El ''PrimitiveButton'' [(''slot'', PS ''drag'')] [El ''svg'' [(''aria-hidden'', PB True)] (replicate 6 (El ''circle'' [] []))]]]
            @ vwhen (to_selectionBehavior opts = Some ''toggle'') [TableCell e (inner ''Cell'') [] [selection_checkbox inner]]
            @ [El ''Collection'' [] vs]))"

section \<open>The contract\<close>

lemma below_replicate [simp]: "offered v = {} \<Longrightarrow> below (replicate n v) = {}"
  by (auto simp: below_def)

lemma offered_no_data [simp]: "offered no_data_view = {}"
  by (simp add: no_data_view_def empty_state_art_def empty_state_circles_def no_data_text_def component_simps card_title.shows_children
      card_description.shows_children)

lemma below_extra_column: "offered (extra_column e vs) = below vs"
  by (simp add: extra_column_def component_simps)

lemma below_selection_checkbox: "offered (selection_checkbox inner) = {}"
  by (simp add: selection_checkbox_def checkbox.shows_children gates_def)

interpretation table: transparent_component Table
  by (rule transparentI) (simp add: Table_def Root_def Let_def component_simps)

interpretation table_body: transparent_component "TableBody None"
  by (rule transparentI) (simp add: TableBody_def component_simps split: if_split)

interpretation table_column: transparent_component "TableColumn e rv" for e rv
  by (rule transparentI) (simp add: TableColumn_def ColumnResizer_def omit_def [of "[''className'']" "[]"] Let_def component_simps)

interpretation table_header: transparent_component "TableHeader e inner" for e inner
  by (rule transparentI)
    (simp add: TableHeader_def Let_def below_extra_column below_selection_checkbox component_simps)

interpretation table_cell: transparent_component "TableCell e rv" for e rv
  by (rule transparentI) (simp add: TableCell_def component_simps split: option.split)

interpretation table_row: transparent_component "TableRow e rv inner" for e rv inner
  by (rule transparentI)
    (simp add: TableRow_def Let_def table_cell.shows_children below_selection_checkbox component_simps)

text \<open>
  Header and rows agree on the columns in front: what a header adds before its columns is as long as
  what a row adds before its cells, whatever the table allows.
\<close>

lemma header_and_rows_aligned:
  "\<exists>hp hs rp rs. TableHeader e inner ps vs = El ''TableHeaderPrimitive'' hp (hs @ [El ''Collection'' [] vs])
     \<and> TableRow e rv inner' qs ws = El ''Row'' rp (rs @ [El ''Collection'' [] ws])
     \<and> length hs = length rs"
  by (simp add: TableHeader_def TableRow_def Let_def vwhen_def)

text \<open>A body never renders nothing: without rows and without an empty state of the caller it says so.\<close>

lemma empty_body_says_so:
  "text_of (TableBody None [] []) = [''No data found'', ''No information is currently available in this section.'']"
  by (simp add: TableBody_def no_data_view_def empty_state_art_def empty_state_circles_def no_data_text_def CardTitle_def CardDescription_def
      spread_def omit_def prop_is_def)

end
