(* ===== verification/UI_Menus.thy ===== *)
theory UI_Menus
  imports UI_Overlays
begin

text \<open>
  Menus: \<^verbatim>\<open>ui/dropdown.tsx\<close>, \<^verbatim>\<open>menu.tsx\<close> and \<^verbatim>\<open>context-menu.tsx\<close>. A menu item shows a check mark when
  it is selected and an arrow when it has a submenu; the context menu keeps the offset of the pointer
  from its trigger while it is open.
\<close>

section \<open>Dropdown\<close>

definition Keyboard :: "'a props \<Rightarrow> 'a view list \<Rightarrow> 'a view" where
  "Keyboard ps vs = El ''KeyboardPrimitive'' (spread [(''data-slot'', PS ''keyboard'')] (omit [''className''] ps)) vs"

definition DropdownLabel :: "'a props \<Rightarrow> 'a view list \<Rightarrow> 'a view" where
  "DropdownLabel ps vs = El ''Text'' (spread [(''slot'', PS ''label'')] (omit [''className''] ps)) vs"

definition DropdownDescription :: "'a props \<Rightarrow> 'a view list \<Rightarrow> 'a view" where
  "DropdownDescription ps vs = El ''Text'' (spread [(''slot'', PS ''description'')] (omit [''className''] ps)) vs"

definition DropdownSeparator :: "'a props \<Rightarrow> 'a view list \<Rightarrow> 'a view" where
  "DropdownSeparator ps vs =
     El ''SeparatorPrimitive'' (spread [(''orientation'', PS ''horizontal'')] (omit [''className''] ps)) vs"

definition DropdownKeyboard :: "'a props \<Rightarrow> 'a view list \<Rightarrow> 'a view" where
  "DropdownKeyboard ps vs = Keyboard (omit [''className''] ps) vs"

text \<open>\<open>DropdownSection\<close> hands no prop on to the section it renders.\<close>

definition DropdownSection :: "'a props \<Rightarrow> 'a view list \<Rightarrow> 'a view" where
  "DropdownSection ps vs =
     El ''ListBoxSection'' []
       (vwhen (''title'' \<in> fst ` set ps) [El ''Header'' [] [Txt (opt_str (text_prop ''title'' ps))]]
        @ [El ''Collection'' [] vs])"

definition DropdownItem :: "render_values \<Rightarrow> 'a props \<Rightarrow> 'a view list \<Rightarrow> 'a view" where
  "DropdownItem rv ps vs =
     El ''ListBoxItemPrimitive''
       (spread (case string_child vs of Some s \<Rightarrow> [(''textValue'', PS s)] | None \<Rightarrow> [])
          (omit [''className'', ''children'', ''intent''] ps))
       (vwhen (rv_isSelected rv) [El ''Check'' [(''data-slot'', PS ''check-indicator'')] []]
        @ (case string_child vs of Some s \<Rightarrow> [DropdownLabel [] [Txt s]] | None \<Rightarrow> vs))"

section \<open>Menu\<close>

definition Menu :: "'a props \<Rightarrow> 'a view list \<Rightarrow> 'a view" where
  "Menu ps vs = El ''MenuTriggerPrimitive'' ps vs"

definition MenuSubMenu :: "'a props \<Rightarrow> 'a view list \<Rightarrow> 'a view" where
  "MenuSubMenu ps vs =
     El ''SubmenuTriggerPrimitive''
       (spread (omit [''delay''] ps) [(''delay'', PN (opt_or (number_prop ''delay'' ps) (Fin 0)))]) vs"

definition MenuTrigger :: "'a props \<Rightarrow> 'a view list \<Rightarrow> 'a view" where
  "MenuTrigger ps vs =
     El ''PrimitiveButton'' (spread [(''data-slot'', PS ''menu-trigger'')] (omit [''className'', ''ref''] ps)) vs"

text \<open>\<open>popover\<close> is the object of that prop.\<close>

definition MenuContent :: "'a props \<Rightarrow> 'a props \<Rightarrow> 'a view list \<Rightarrow> 'a view" where
  "MenuContent popover ps vs =
     PopoverContent (spread (copy_text ''placement'' ps) popover)
       [El ''MenuPrimitive''
          (spread [(''data-slot'', PS ''menu-content'')] (omit [''className'', ''placement'', ''popover''] ps)) vs]"

definition menu_text_value :: "'a props \<Rightarrow> 'a view list \<Rightarrow> string option" where
  "menu_text_value ps vs =
     (case opt_str (text_prop ''textValue'' ps) of [] \<Rightarrow> string_child vs | t \<Rightarrow> Some t)"

definition MenuItem :: "render_values \<Rightarrow> 'a props \<Rightarrow> 'a view list \<Rightarrow> 'a view" where
  "MenuItem rv ps vs =
     (let intent = text_prop ''intent'' ps
      in El ''MenuItemPrimitive''
           (spread
              ((''data-slot'', PS ''menu-item'')
               # class_when
                   [(rv_hasSubmenu rv \<and> intent = Some ''danger'', ''open:bg-danger-subtle open:text-danger-subtle-fg''),
                    (rv_hasSubmenu rv \<and> intent = Some ''warning'', ''open:bg-warning-subtle open:text-warning-subtle-fg''),
                    (rv_hasSubmenu rv \<and> intent = None, ''open:bg-accent open:text-accent-fg'')]
               @ (case menu_text_value ps vs of Some t \<Rightarrow> [(''textValue'', PS t)] | None \<Rightarrow> []))
              (omit [''className'', ''intent'', ''children''] ps))
           (vwhen (rv_isSelected rv \<and> rv_selectionMode rv \<in> {''single'', ''multiple''}) [El ''Check'' [] []]
            @ vs
            @ vwhen (rv_hasSubmenu rv) [El ''ChevronRight'' [(''data-slot'', PS ''chevron'')] []]))"

definition MenuHeader :: "'a props \<Rightarrow> 'a view list \<Rightarrow> 'a view" where
  "MenuHeader ps vs =
     El ''Header''
       (spread (class_when [(flag ''separator'' False ps, ''-mx-1 border-b sm:px-3 sm:pb-2.5'')])
          (omit [''className'', ''separator''] ps)) vs"

definition MenuSection :: "'a props \<Rightarrow> 'a view list \<Rightarrow> 'a view" where
  "MenuSection ps vs =
     El ''MenuSectionPrimitive''
       (spread [(''data-slot'', PS ''menu-section'')] (omit [''className'', ''children'', ''ref''] ps))
       (vwhen (''label'' \<in> fst ` set ps) [El ''Header'' [] [Txt (opt_str (text_prop ''label'' ps))]]
        @ [El ''Collection'' [] vs])"

interpretation keyboard: transparent_component Keyboard
  by (rule transparentI) (simp add: Keyboard_def component_simps)

interpretation dropdown_label: transparent_component DropdownLabel
  by (rule transparentI) (simp add: DropdownLabel_def component_simps)

interpretation dropdown_description: transparent_component DropdownDescription
  by (rule transparentI) (simp add: DropdownDescription_def component_simps)

interpretation dropdown_separator: transparent_component DropdownSeparator
  by (rule transparentI) (simp add: DropdownSeparator_def component_simps)

interpretation dropdown_keyboard: transparent_component DropdownKeyboard
  by (rule transparentI) (simp add: DropdownKeyboard_def Keyboard_def component_simps)

interpretation dropdown_section: frame_component DropdownSection
  by unfold_locales (simp add: DropdownSection_def component_simps)

interpretation dropdown_item: transparent_component "DropdownItem rv" for rv
  by (rule transparentI)
    (simp add: DropdownItem_def component_simps below_string_child dropdown_label.shows_children split: option.split)

interpretation menu_kit: transparent_component Menu
  by (rule transparentI) (simp add: Menu_def component_simps)

interpretation menu_submenu: transparent_component MenuSubMenu
  by (rule transparentI) (simp add: MenuSubMenu_def component_simps)

interpretation menu_trigger: transparent_component MenuTrigger
  by (rule transparentI) (simp add: MenuTrigger_def component_simps)

interpretation menu_content: transparent_component "MenuContent []"
  by (rule transparentI)
    (simp add: MenuContent_def spread_def [of "copy_text k ps" "[]" for k ps] omit_def [of "[]"] popover_kit.shows_children component_simps)

interpretation menu_item: transparent_component "MenuItem rv" for rv
  by (rule transparentI) (simp add: MenuItem_def Let_def component_simps split: option.split)

interpretation menu_header: transparent_component MenuHeader
  by (rule transparentI) (simp add: MenuHeader_def component_simps)

interpretation menu_section: transparent_component MenuSection
  by (rule transparentI) (simp add: MenuSection_def component_simps)

section \<open>Context menu\<close>

text \<open>
  \<open>ContextMenu\<close> holds the offset of the open menu from its trigger. The trigger's child is cloned
  with the handler, which runs before the child's own; the handler reads the rectangle of the
  element and the pointer.
\<close>

record menu_offset =
  mo_offset :: int
  mo_crossOffset :: int

record client_rect =
  cr_left :: int
  cr_bottom :: int

definition trigger_offset :: "client_rect \<Rightarrow> int \<times> int \<Rightarrow> menu_offset" where
  "trigger_offset rect e = \<lparr>mo_offset = snd e - cr_bottom rect, mo_crossOffset = fst e - cr_left rect\<rparr>"

datatype menu_event = Context_Menu client_rect "int \<times> int" | Open_Change bool | Menu_Close | Item_Action

definition setContextMenuOffset :: "menu_event \<Rightarrow> menu_offset option \<Rightarrow> menu_offset option" where
  "setContextMenuOffset e s = (case e of Context_Menu rect pt \<Rightarrow> Some (trigger_offset rect pt) | _ \<Rightarrow> None)"

definition ContextMenuTrigger :: "'a \<Rightarrow> 'a list view \<Rightarrow> 'a list view" where
  "ContextMenuTrigger open_menu child =
     (case child of
        Txt s \<Rightarrow> Txt s
      | El t ps vs \<Rightarrow>
          El t
            (spread ps
               [(''onContextMenu'',
                 Act (open_menu # (case map_of ps ''onContextMenu'' of Some (Act own) \<Rightarrow> own | _ \<Rightarrow> []))),
                (''aria-haspopup'', PS ''menu'')]) vs)"

definition context_menu_content :: "menu_offset option \<Rightarrow> (int \<times> int) option \<Rightarrow> 'a \<Rightarrow> 'a props \<Rightarrow> 'a view list \<Rightarrow> 'a view list" where
  "context_menu_content contextMenuOffset point close ps vs =
     (case point of
        Some pt \<Rightarrow>
          [El ''div'' [(''left'', PI (fst pt)), (''top'', PI (snd pt))]
             [El ''div'' [(''onClick'', Act close)] [El ''MenuPrimitive'' [(''onAction'', Act close)] vs]]]
      | None \<Rightarrow>
          (case contextMenuOffset of
             None \<Rightarrow> []
           | Some m \<Rightarrow>
               [MenuContent
                  [(''isOpen'', PB True), (''shouldFlip'', PB False), (''onOpenChange'', ActB (\<lambda>b. close)),
                   (''placement'', PS ''bottom left''), (''offset'', PI (mo_offset m)), (''crossOffset'', PI (mo_crossOffset m))]
                  (spread [(''onClose'', Act close)] ps) vs]))"

text \<open>
  The corner of a popover placed at the bottom left of its trigger: \<open>offset\<close> below its bottom edge,
  \<open>crossOffset\<close> right of its left edge (as react-aria documents these props). The menu opens at the
  pointer, and every way of closing it closes it.
\<close>

definition menu_corner :: "client_rect \<Rightarrow> menu_offset \<Rightarrow> int \<times> int" where
  "menu_corner rect m = (cr_left rect + mo_crossOffset m, cr_bottom rect + mo_offset m)"

lemma menu_opens_at_pointer: "menu_corner rect (trigger_offset rect e) = e"
  by (simp add: menu_corner_def trigger_offset_def)

lemma menu_open_iff_last_event:
  "foldl (\<lambda>s e. setContextMenuOffset e s) None es =
     (case rev es of Context_Menu rect pt # _ \<Rightarrow> Some (trigger_offset rect pt) | _ \<Rightarrow> None)"
  by (induction es rule: rev_induct) (auto simp: setContextMenuOffset_def split: menu_event.split)

lemma context_menu_shown:
  "context_menu_content m point close ps vs = [] \<longleftrightarrow> m = None \<and> point = None"
  by (simp add: context_menu_content_def split: option.split)

lemma trigger_keeps_own_handler:
  assumes "map_of ps ''onContextMenu'' = Some (Act own)"
  shows "\<exists>qs. ContextMenuTrigger open_menu (El t ps vs) = El t qs vs
    \<and> map_of qs ''onContextMenu'' = Some (Act (open_menu # own))
    \<and> (\<forall>k. k \<noteq> ''onContextMenu'' \<and> k \<noteq> ''aria-haspopup'' \<longrightarrow> map_of qs k = map_of ps k)"
  using assms by (auto simp: ContextMenuTrigger_def map_of_spread)

end
