(* ===== verification/UI_Kit.thy ===== *)
theory UI_Kit
  imports UI_Table UI_Menus VMs_Page Navigation
begin

text \<open>
  The rest of the component library (the parts of \<^verbatim>\<open>ui/navbar.tsx\<close>, \<^verbatim>\<open>ui/sonner.tsx\<close>, the layout of
  \<^verbatim>\<open>components/AppLayout.tsx\<close>) and the library as a whole: \<open>kit\<close> replaces every library element in a
  page's view by what the component renders, handing the contexts down. Its main fact is that a page
  offers the same actions before and after, so that what the page theories prove of their views holds
  of the elements the browser is given.
\<close>

section \<open>Navigation bar parts\<close>

definition NavbarProvider :: "bool option \<Rightarrow> 'a props \<Rightarrow> 'a view list \<Rightarrow> 'a view list" where
  "NavbarProvider isMobile ps vs =
     (case isMobile of
        None \<Rightarrow> []
      | Some _ \<Rightarrow> [El ''div'' (omit [''isOpen'', ''onOpenChange'', ''defaultOpen'', ''className''] ps) vs])"

definition NavbarSection :: "'a props \<Rightarrow> 'a view list \<Rightarrow> 'a view" where
  "NavbarSection ps vs = El ''LayoutGroup'' [] [slotted ''div'' ''navbar-section'' [''className''] ps vs]"

definition NavbarItem :: "render_values \<Rightarrow> 'a props \<Rightarrow> 'a view list \<Rightarrow> 'a view" where
  "NavbarItem rv ps vs =
     (let isCurrent = flag ''isCurrent'' False ps; props = omit [''className'', ''isCurrent''] ps
      in Link
           (spread
              ((''data-slot'', PS ''navbar-item'')
               # vwhen isCurrent [(''aria-current'', PS ''page'')]
               @ class_when [(''href'' \<in> fst ` set props, ''cursor-pointer''), (''href'' \<notin> fst ` set props, ''cursor-default'')])
              props)
           (vs
            @ vwhen (isCurrent \<or> rv_isCurrent rv) [El ''motion.span'' [(''data-slot'', PS ''current-indicator'')] []]))"

definition NavbarSpacer :: "'a props \<Rightarrow> 'a view list \<Rightarrow> 'a view" where
  "NavbarSpacer ps vs = El ''div'' (omit [''className'', ''ref''] ps) vs"

definition NavbarStart :: "'a props \<Rightarrow> 'a view list \<Rightarrow> 'a view" where
  "NavbarStart ps vs = El ''div'' (omit [''className'', ''ref''] ps) vs"

definition NavbarGap :: "'a props \<Rightarrow> 'a view list \<Rightarrow> 'a view" where
  "NavbarGap ps vs = El ''div'' (omit [''className'', ''ref''] ps) vs"

definition NavbarSeparator :: "'a props \<Rightarrow> 'a view list \<Rightarrow> 'a view" where
  "NavbarSeparator ps vs = Separator (spread [(''orientation'', PS ''vertical'')] (omit [''className''] ps)) vs"

definition NavbarMobile :: "'a props \<Rightarrow> 'a view list \<Rightarrow> 'a view" where
  "NavbarMobile ps vs = slotted ''div'' ''navbar-mobile'' [''className'', ''ref''] ps vs"

definition NavbarInset :: "'a props \<Rightarrow> 'a view list \<Rightarrow> 'a view" where
  "NavbarInset ps vs =
     El ''div'' (spread [(''data-navbar-inset'', PB True)] (omit [''className'', ''ref'', ''children''] ps))
       [El ''div'' [] [El ''div'' [] vs]]"

definition NavbarLabel :: "'a props \<Rightarrow> 'a view list \<Rightarrow> 'a view" where
  "NavbarLabel ps vs = slotted ''span'' ''navbar-label'' [''className''] ps vs"

text \<open>The trigger runs the caller's handler, then toggles.\<close>

definition NavbarTrigger :: "'a \<Rightarrow> 'a list props \<Rightarrow> 'a list view" where
  "NavbarTrigger toggle ps =
     Button
       (spread
          [(''data-slot'', PS ''navbar-trigger''), (''intent'', PS ''plain''),
           (''aria-label'', PS (str_or (opt_str (text_prop ''aria-label'' ps)) ''Toggle Navbar'')), (''size'', PS ''sq-sm''),
           (''onPress'', Act ((case map_of ps ''onPress'' of Some (Act own) \<Rightarrow> own | _ \<Rightarrow> []) @ [toggle]))]
          (omit [''className'', ''onPress'', ''ref''] ps))
       [El ''MenuIcon'' [] [], El ''span'' [] [Txt ''Toggle Navbar'']]"

lemma offered_press_button:
  assumes "plain base" "plain ps"
  shows "offered (Button (spread (base @ [(''onPress'', Act a)]) ps) vs) = {a} \<union> below vs"
proof -
  let ?qs = "spread (base @ [(''onPress'', Act a)]) ps"
  have "''onPress'' \<notin> fst ` set ps"
    using assms(2) by (force simp: plain_def styling_def)
  then have qs: "?qs = omit (map fst ps) base @ [(''onPress'', Act a)] @ ps"
    by (simp add: spread_def omit_def)
  have "acts (omit (map fst ps) base) = {}"
    using acts_omit [of "map fst ps" base] acts_plain [OF assms(1)] by simp
  then have "acts ?qs = {a}" by (simp add: qs acts_plain [OF assms(2)])
  moreover have "map_of ?qs g = None" if "g \<in> set gates" for g
    using plain_no_gate [OF assms(1) that] plain_no_gate [OF assms(2) that] that
    by (auto simp: map_of_spread gates_def)
  moreover have "handlers_only ?qs"
    unfolding qs using handlers_only_omit [OF handlers_only_plain [OF assms(1)]] handlers_only_plain [OF assms(2)] by simp
  ultimately show ?thesis
    using button_kit.offers_the_same [of ?qs vs "[]"]
    by (simp add: offered_below prop_is_def inert_def gates_def)
qed

lemma navbar_trigger_toggles:
  assumes "plain ps"
  shows "offered (NavbarTrigger toggle ps) = {[toggle]}"
proof -
  have none: "map_of ps ''onPress'' = None"
    using assms by (force simp: plain_def styling_def map_of_eq_None_iff)
  show ?thesis
    unfolding NavbarTrigger_def none
    using offered_press_button [OF _ plain_omit [OF assms], of "[(''data-slot'', PS ''navbar-trigger''), (''intent'', PS ''plain''),
       (''aria-label'', PS (str_or (opt_str (text_prop ''aria-label'' ps)) ''Toggle Navbar'')), (''size'', PS ''sq-sm'')]"]
    by (simp add: gates_def)
qed

interpretation navbar_section: transparent_component NavbarSection
  by (rule transparentI) (simp add: NavbarSection_def component_simps)

interpretation navbar_item: transparent_component "NavbarItem rv" for rv
  by (rule transparentI) (simp add: NavbarItem_def Link_def Let_def component_simps)

interpretation navbar_spacer: transparent_component NavbarSpacer
  by (rule transparentI) (simp add: NavbarSpacer_def component_simps)

interpretation navbar_start: transparent_component NavbarStart
  by (rule transparentI) (simp add: NavbarStart_def component_simps)

interpretation navbar_gap: transparent_component NavbarGap
  by (rule transparentI) (simp add: NavbarGap_def component_simps)

interpretation navbar_separator: transparent_component NavbarSeparator
  by (rule transparentI) (simp add: NavbarSeparator_def Separator_def Let_def component_simps)

interpretation navbar_mobile: transparent_component NavbarMobile
  by (rule transparentI) (simp add: NavbarMobile_def component_simps)

interpretation navbar_inset: transparent_component NavbarInset
  by (rule transparentI) (simp add: NavbarInset_def component_simps)

interpretation navbar_label: transparent_component NavbarLabel
  by (rule transparentI) (simp add: NavbarLabel_def component_simps)

section \<open>Layout of the application\<close>

definition toast_icons :: "(string \<times> string) list" where
  "toast_icons =
     [(''success'', ''CheckCircle''), (''info'', ''Info''), (''warning'', ''AlertTriangle''), (''error'', ''XCircle''),
      (''loading'', ''RefreshCw'')]"

definition Toaster :: "'a props \<Rightarrow> 'a view" where
  "Toaster ps =
     El ''Sonner'' (spread ((''theme'', PS ''dark'') # map (\<lambda>i. (''icons.'' @ fst i, PS (snd i))) toast_icons) ps) []"

definition AppLayout :: "'a view \<Rightarrow> 'a view list \<Rightarrow> 'a view" where
  "AppLayout bar outlet =
     El ''div'' [] [bar, El ''motion.main'' [] outlet, Toaster [(''richColors'', PB True), (''theme'', PS ''system'')]]"

text \<open>The theme the layout asks for replaces the dark one of \<open>Toaster\<close>; every kind of toast has an icon.\<close>

lemma layout_toaster_theme:
  "\<exists>qs. Toaster [(''richColors'', PB True), (''theme'', PS ''system'')] = El ''Sonner'' qs []
     \<and> map_of qs ''theme'' = Some (PS ''system'')
     \<and> (\<forall>k \<in> {''success'', ''info'', ''warning'', ''error'', ''loading''}. map_of qs (''icons.'' @ k) \<noteq> None)"
  by (simp add: Toaster_def toast_icons_def map_of_spread)

lemma layout_offers: "offered (AppLayout bar outlet) = offered bar \<union> below outlet"
  by (simp add: AppLayout_def Toaster_def toast_icons_def spread_def omit_def component_simps)

section \<open>The library\<close>

text \<open>
  The components by name. The transparent ones hand every event handler on, the frames only show
  their children, the others take no children. \<open>rv\<close> are the render values of the element's
  primitive, \<open>inner\<close> those of primitives inside.
\<close>

definition transparent_parts ::
  "kit_env \<Rightarrow> render_values \<Rightarrow> (string \<Rightarrow> render_values) \<Rightarrow> (string \<times> ('a props \<Rightarrow> 'a view list \<Rightarrow> 'a view)) list"
where
  "transparent_parts e rv inner =
     [(''Button'', Button), (''Dialog'', Dialog), (''DialogTrigger'', DialogTrigger),
      (''ModalTitle'', DialogTitle), (''SheetTitle'', DialogTitle), (''ModalDescription'', DialogDescription),
      (''ModalBody'', DialogBody), (''SheetBody'', DialogBody), (''ModalFooter'', DialogFooter), (''SheetFooter'', DialogFooter),
      (''ModalClose'', DialogClose), (''SheetClose'', DialogClose), (''Modal'', Modal), (''Sheet'', Modal),
      (''ModalContent'', ModalContent), (''SheetContent'', SheetContent), (''PopoverContent'', PopoverContent),
      (''TooltipContent'', TooltipContent),
      (''Menu'', Menu), (''MenuSubMenu'', MenuSubMenu), (''MenuTrigger'', MenuTrigger), (''MenuContent'', MenuContent []),
      (''MenuItem'', MenuItem rv), (''ContextMenuItem'', MenuItem rv), (''MenuHeader'', MenuHeader),
      (''MenuSection'', MenuSection), (''MenuSeparator'', DropdownSeparator), (''MenuShortcut'', DropdownKeyboard),
      (''MenuLabel'', DropdownLabel), (''MenuDescription'', DropdownDescription), (''DropdownItem'', DropdownItem rv),
      (''Card'', Card), (''CardHeader'', CardHeader), (''CardTitle'', CardTitle), (''CardDescription'', CardDescription),
      (''CardAction'', CardAction), (''CardContent'', CardContent), (''CardFooter'', CardFooter),
      (''Label'', Label), (''Input'', Input), (''InputGroup'', InputGroup), (''SearchField'', SearchField),
      (''SearchInput'', SearchInput), (''Checkbox'', Checkbox rv), (''Switch'', Switch rv), (''Toggle'', Toggle),
      (''Separator'', Separator), (''ProgressBar'', ProgressBar), (''Skeleton'', Skeleton), (''Link'', Link), (''Badge'', Badge),
      (''Heading'', Heading), (''Container'', Container), (''DescriptionList'', DescriptionList),
      (''DescriptionTerm'', DescriptionTerm), (''DescriptionDetails'', DescriptionDetails),
      (''Table'', Table), (''TableBody'', TableBody None), (''TableColumn'', TableColumn e rv),
      (''TableHeader'', TableHeader e inner), (''TableRow'', TableRow e rv inner), (''TableCell'', TableCell e rv),
      (''NavbarSection'', NavbarSection), (''NavbarItem'', NavbarItem rv), (''NavbarSpacer'', NavbarSpacer),
      (''NavbarStart'', NavbarStart), (''NavbarGap'', NavbarGap), (''NavbarSeparator'', NavbarSeparator),
      (''NavbarMobile'', NavbarMobile), (''NavbarInset'', NavbarInset), (''NavbarLabel'', NavbarLabel)]"

definition frame_parts :: "(string \<times> ('a props \<Rightarrow> 'a view list \<Rightarrow> 'a view)) list" where
  "frame_parts =
     [(''DialogHeader'', DialogHeader), (''ModalHeader'', DialogHeader), (''SheetHeader'', DialogHeader),
      (''DropdownSection'', DropdownSection)]"

definition leaf_parts :: "(string \<times> ('a props \<Rightarrow> 'a view list \<Rightarrow> 'a view)) list" where
  "leaf_parts = [(''StatusDot'', StatusDot), (''Avatar'', Avatar)]"

text \<open>The contexts an element provides to what is inside; \<open>opts\<close> are the options of a table with these props.\<close>

definition provide :: "('a props \<Rightarrow> table_options) \<Rightarrow> string \<Rightarrow> 'a props \<Rightarrow> kit_env \<Rightarrow> kit_env" where
  "provide opts t ps e =
     (if t = ''Table'' then table_env ps (opts ps) e
      else if t = ''Toolbar'' then toolbar_env ps e
      else if t = ''ToolbarGroup'' then toolbar_group_env ps e
      else e)"

definition render_element ::
  "kit_env \<Rightarrow> render_values \<Rightarrow> (string \<Rightarrow> render_values) \<Rightarrow> string \<Rightarrow> 'a props \<Rightarrow> 'a view list \<Rightarrow> 'a view"
where
  "render_element e rv inner t =
     (case map_of (transparent_parts e rv inner @ frame_parts @ leaf_parts) t of Some render \<Rightarrow> render | None \<Rightarrow> El t)"

fun kit ::
  "(string \<Rightarrow> 'a props \<Rightarrow> render_values) \<Rightarrow> ('a props \<Rightarrow> table_options) \<Rightarrow> kit_env \<Rightarrow> 'a view \<Rightarrow> 'a view"
where
  "kit rvals opts e (Txt s) = Txt s"
| "kit rvals opts e (El t ps vs) =
     render_element e (rvals t ps) (\<lambda>p. rvals p []) t ps (map (kit rvals opts (provide opts t ps e)) vs)"

text \<open>
  What a page may write: actions only in event handlers; no handlers on the headers that drop them;
  a status dot takes clicks only, it and an avatar have no children.
\<close>

definition clicks_only :: "'a props \<Rightarrow> bool" where
  "clicks_only ps \<longleftrightarrow> distinct (map fst ps)
     \<and> (\<forall>p \<in> set ps. fst p \<notin> set gates \<and> (is_action (snd p) \<longrightarrow> fst p = ''onClick''))"

fun wired :: "'a view \<Rightarrow> bool" where
  "wired (Txt s) \<longleftrightarrow> True"
| "wired (El t ps vs) \<longleftrightarrow>
     handlers_only ps
     \<and> (t \<in> {''DialogHeader'', ''ModalHeader'', ''SheetHeader'', ''DropdownSection''} \<longrightarrow> plain ps)
     \<and> (t = ''Avatar'' \<longrightarrow> plain ps \<and> vs = [])
     \<and> (t = ''StatusDot'' \<longrightarrow> clicks_only ps \<and> vs = [])
     \<and> (\<forall>v \<in> set vs. wired v)"

lemma wired_parts:
  assumes "wired (El t ps vs)"
  shows "t \<in> {''DialogHeader'', ''ModalHeader'', ''SheetHeader'', ''DropdownSection''} \<Longrightarrow> plain ps"
    and "t = ''Avatar'' \<Longrightarrow> plain ps \<and> vs = []" and "t = ''StatusDot'' \<Longrightarrow> clicks_only ps \<and> vs = []"
  using assms by (simp_all only: wired.simps simp_thms)

section \<open>Nothing is added or lost\<close>

lemmas transparent_kit =
  button_kit.transparent_component_axioms dialog_kit.transparent_component_axioms dialog_trigger.transparent_component_axioms
  dialog_title.transparent_component_axioms dialog_description.transparent_component_axioms
  dialog_body.transparent_component_axioms dialog_footer.transparent_component_axioms dialog_close.transparent_component_axioms
  modal_trigger.transparent_component_axioms modal_kit.transparent_component_axioms sheet_kit.transparent_component_axioms
  popover_kit.transparent_component_axioms tooltip_kit.transparent_component_axioms
  menu_kit.transparent_component_axioms menu_submenu.transparent_component_axioms menu_trigger.transparent_component_axioms
  menu_content.transparent_component_axioms menu_item.transparent_component_axioms menu_header.transparent_component_axioms
  menu_section.transparent_component_axioms dropdown_separator.transparent_component_axioms
  dropdown_keyboard.transparent_component_axioms dropdown_label.transparent_component_axioms
  dropdown_description.transparent_component_axioms dropdown_item.transparent_component_axioms
  card.transparent_component_axioms card_header.transparent_component_axioms card_title.transparent_component_axioms
  card_description.transparent_component_axioms card_action.transparent_component_axioms
  card_content.transparent_component_axioms card_footer.transparent_component_axioms
  label.transparent_component_axioms input.transparent_component_axioms input_group.transparent_component_axioms
  search_field.transparent_component_axioms search_input.transparent_component_axioms
  checkbox.transparent_component_axioms switch.transparent_component_axioms toggle.transparent_component_axioms
  separator.transparent_component_axioms progress_bar.transparent_component_axioms skeleton.transparent_component_axioms
  link.transparent_component_axioms badge.transparent_component_axioms heading.transparent_component_axioms
  container.transparent_component_axioms description_list.transparent_component_axioms
  description_term.transparent_component_axioms description_details.transparent_component_axioms
  table.transparent_component_axioms table_body.transparent_component_axioms table_column.transparent_component_axioms
  table_header.transparent_component_axioms table_row.transparent_component_axioms table_cell.transparent_component_axioms
  navbar_section.transparent_component_axioms navbar_item.transparent_component_axioms
  navbar_spacer.transparent_component_axioms navbar_start.transparent_component_axioms navbar_gap.transparent_component_axioms
  navbar_separator.transparent_component_axioms navbar_mobile.transparent_component_axioms
  navbar_inset.transparent_component_axioms navbar_label.transparent_component_axioms

lemma transparent_parts_ok:
  assumes "(t, render) \<in> set (transparent_parts e rv inner)"
  shows "transparent_component render"
proof -
  have "list_all (\<lambda>p. transparent_component (snd p)) (transparent_parts e rv inner)"
    by (simp add: transparent_parts_def transparent_kit)
  with assms show ?thesis by (force simp: list_all_iff)
qed

lemma frame_parts_ok:
  assumes "(t, render) \<in> set frame_parts"
  shows "frame_component render" "t \<in> {''DialogHeader'', ''ModalHeader'', ''SheetHeader'', ''DropdownSection''}"
proof -
  have "list_all (\<lambda>p. frame_component (snd p)) frame_parts"
    by (simp add: frame_parts_def dialog_header.frame_component_axioms dropdown_section.frame_component_axioms)
  with assms show "frame_component render" by (force simp: list_all_iff)
  show "t \<in> {''DialogHeader'', ''ModalHeader'', ''SheetHeader'', ''DropdownSection''}"
    using assms by (auto simp: frame_parts_def)
qed

lemma status_dot_offers:
  assumes "clicks_only ps"
  shows "offered (StatusDot ps vs) = acts ps" "offered (El t ps []) = acts ps"
proof -
  have gates: "map_of ps g = None" if "g \<in> set gates" for g
    using assms that by (force simp: clicks_only_def map_of_eq_None_iff)
  show "offered (El t ps []) = acts ps"
    using gates by (simp add: offered_below prop_is_def inert_def gates_def)
  have "acts ps = (case map_of ps ''onClick'' of Some a \<Rightarrow> set_attr a | None \<Rightarrow> {})"
  proof -
    have "x \<in> acts ps \<longleftrightarrow> (\<exists>a. (''onClick'', a) \<in> set ps \<and> x \<in> set_attr a)" for x
      using assms by (force simp: acts_def clicks_only_def set_attr_empty [symmetric])
    moreover have "(''onClick'', a) \<in> set ps \<longleftrightarrow> map_of ps ''onClick'' = Some a" for a
      using assms by (simp add: clicks_only_def)
    ultimately show ?thesis by (auto split: option.split)
  qed
  then show "offered (StatusDot ps vs) = acts ps"
    by (auto simp: StatusDot_def offered_below prop_is_def inert_def split: option.split)
qed

lemma avatar_offers: "plain ps \<Longrightarrow> offered (Avatar ps vs) = {}"
  by (simp add: Avatar_def Let_def offered_plain_props gates_def)

text \<open>One element: around content that offers the same, the component offers the same.\<close>

lemma render_leaf_offers:
  assumes "(t, render) \<in> set leaf_parts" "wired (El t ps vs)"
  shows "offered (render ps []) = offered (El t ps [])" "vs = []"
proof -
  consider "t = ''StatusDot''" "render = StatusDot" | "t = ''Avatar''" "render = Avatar"
    using assms(1) by (auto simp: leaf_parts_def)
  then have "offered (render ps []) = offered (El t ps []) \<and> vs = []"
  proof cases
    case 1
    with wired_parts(3) [OF assms(2)] have "clicks_only ps" "vs = []" by blast+
    then show ?thesis by (simp only: 1(2) status_dot_offers)
  next
    case 2
    with wired_parts(2) [OF assms(2)] have "plain ps" "vs = []" by blast+
    then show ?thesis by (simp only: 2(2) avatar_offers offered_plain_props below_simps)
  qed
  then show "offered (render ps []) = offered (El t ps [])" "vs = []" by blast+
qed

lemma render_element_offers:
  fixes vs ws :: "'v view list"
  assumes "wired (El t ps vs)" "below ws = below vs" "vs = [] \<Longrightarrow> ws = []"
  shows "offered (render_element e rv inner t ps ws) = offered (El t ps vs)"
proof -
  let ?parts = "transparent_parts e rv inner @ frame_parts @ leaf_parts
    :: (string \<times> ('v props \<Rightarrow> 'v view list \<Rightarrow> 'v view)) list"
  show ?thesis
  proof (cases "map_of ?parts t")
    case None
    then show ?thesis by (simp add: render_element_def offered_below assms(2) del: map_of_append)
  next
    case (Some render)
    then have element: "render_element e rv inner t ps ws = render ps ws"
      by (simp add: render_element_def del: map_of_append)
    consider "(t, render) \<in> set (transparent_parts e rv inner)" | "(t, render) \<in> set frame_parts"
      | "(t, render) \<in> set leaf_parts"
      using map_of_SomeD [OF Some] by auto
    then show ?thesis
    proof cases
      case 1
      then have "offered (render ps ws) = offered (El t ps ws)"
        by (rule transparent_component.offers_the_same [OF transparent_parts_ok])
          (rule conjunct1 [OF assms(1) [unfolded wired.simps]])
      then show ?thesis by (simp add: element offered_below assms(2))
    next
      case 2
      have "plain ps" using wired_parts(1) [OF assms(1) frame_parts_ok(2) [OF 2]] .
      then show ?thesis
        using frame_component.shows_children [OF frame_parts_ok(1) [OF 2]]
        by (simp add: element assms(2) offered_plain_props)
    next
      case 3
      note leaf = render_leaf_offers [OF 3 assms(1)]
      show ?thesis unfolding element unfolding assms(3) [OF leaf(2)] leaf(2) by (rule leaf(1))
    qed
  qed
qed

lemma kit_offered:
  assumes "wired v"
  shows "offered (kit rvals opts e v) = offered v"
  using assms
proof (induction v arbitrary: e)
  case (Txt s)
  then show ?case by simp
next
  case (El t ps vs)
  let ?ws = "map (kit rvals opts (provide opts t ps e)) vs"
  have "below ?ws = below vs"
    using El by (auto simp: below_def)
  then show ?case
    unfolding kit.simps by (intro render_element_offers El.prems) simp_all
qed

section \<open>Pages are wired\<close>

lemma wired_PageShell:
  assumes "list_all wired (ps_beforeTable p)" "list_all wired (ps_children p)"
    and "\<And>r menu. ctxRow s = Some r \<Longrightarrow> ps_contextMenu p = Some menu \<Longrightarrow> list_all wired (menu r)"
  shows "wired (PageShell p s)"
proof (cases "ps_data p")
  case None
  then show ?thesis by (simp add: PageShell_def)
next
  case (Some rows)
  have header: "wired (shell_header p d)" for d
    by (cases "d = []"; cases "ps_searchable p") (simp_all add: shell_header_def)
  have menu: "list_all wired (case (ctxRow s, ps_contextMenu p) of
      (Some r, Some menu) \<Rightarrow> Data_Table.ContextMenuContent (ctxPoint s) (menu r) | _ \<Rightarrow> [])"
    using assms(3)
    by (cases "ctxRow s"; cases "ps_contextMenu p"; cases "ctxPoint s") (simp_all add: Data_Table.ContextMenuContent_def list_all_iff)
  show ?thesis
    using assms(1,2) menu
    by (cases "rows = []"; cases "ps_emptyDescription p")
      (simp_all add: PageShell_def Some Let_def header ball_Un list_all_iff)
qed

lemma wired_vm_row: "wired (vm_row vm)"
  by (auto simp: vm_row_def vm_badge_def vm_menu_def vm_menu_item_def RowActions_def vwhen_def clicks_only_def gates_def)

lemma wired_vms_page: "list_all wired (VMsPage vms s)"
proof -
  have "wired (vms_table (opt_or vms []))"
    by (simp add: vms_table_def wired_vm_row)
  moreover have "wired (destroy_dialog c)" for c
    by (simp add: destroy_dialog_def)
  moreover have "wired (VMsPage vms s ! 0)"
    unfolding VMsPage_def nth_Cons_0 by (rule wired_PageShell) (simp_all add: calculation)
  ultimately show ?thesis by (simp add: VMsPage_def)
qed

definition idle_values :: render_values where
  "idle_values =
     \<lparr>rv_isSelected = False, rv_isIndeterminate = False, rv_isInvalid = False, rv_isHovered = False, rv_isDisabled = False,
      rv_isFocusVisible = False, rv_isFocusVisibleWithin = False, rv_isDragging = False, rv_isExpanded = False,
      rv_isCurrent = False, rv_selectionMode = ''none'', rv_hasSubmenu = False, rv_allowsSorting = False,
      rv_sortDirection = None, rv_hasChildItems = False, rv_isTreeColumn = False, rv_level = 1\<rparr>"



end
