(* ===== verification/UI_Pages.thy ===== *)
theory UI_Pages
  imports UI_Kit Services_View Storage_View Logs_View Secrets_Page Backups_Page User_Menu Bug_Report
begin

text \<open>
  The pages and dialogs keep to the rules of the component library (\<open>wired\<close>): actions only in event
  handlers, none on the parts that drop their props. So what a page theory proves of the actions its view
  offers holds of the elements the library renders for it.
\<close>

section \<open>Evaluating the rules\<close>

named_theorems wired_simps \<open>views that keep to the rules\<close>

lemma wired_El [wired_simps]:
  "wired (El t ps vs) \<longleftrightarrow>
     handlers_only ps
     \<and> (t \<in> {''DialogHeader'', ''ModalHeader'', ''SheetHeader'', ''DropdownSection''} \<longrightarrow> plain ps)
     \<and> (t = ''Avatar'' \<longrightarrow> plain ps \<and> vs = [])
     \<and> (t = ''StatusDot'' \<longrightarrow> clicks_only ps \<and> vs = [])
     \<and> list_all wired vs"
  by (simp add: list_all_iff)

declare wired.simps(2) [simp del]

lemma wired_clicks [wired_simps]:
  "clicks_only [(''intent'', PS s)]" "clicks_only [(''intent'', PS s), (''onClick'', Act a)]"
  by (simp_all add: clicks_only_def gates_def)

lemma list_all_vwhen [wired_simps]: "list_all P (vwhen c vs) \<longleftrightarrow> (c \<longrightarrow> list_all P vs)"
  by (simp add: vwhen_def)

lemma list_all_concat_map [wired_simps]: "(\<And>x. list_all P (f x)) \<Longrightarrow> list_all P (concat (map f xs))"
  by (simp add: list_all_iff)

lemma list_all_map_all [wired_simps]: "(\<And>x. P (f x)) \<Longrightarrow> list_all P (map f xs)"
  by (simp add: list_all_iff)

lemma handlers_only_vwhen [wired_simps]: "handlers_only (vwhen c ps) \<longleftrightarrow> (c \<longrightarrow> handlers_only ps)"
  by (simp add: vwhen_def)

lemma wired_shell [wired_simps]:
  assumes "list_all wired (ps_beforeTable p)" "list_all wired (ps_children p)"
    and "case ps_contextMenu p of None \<Rightarrow> True | Some menu \<Rightarrow> \<forall>x. list_all wired (menu x)"
  shows "wired (PageShell p s)"
  using assms by (intro wired_PageShell) auto

lemma wired_RowActions [wired_simps]: "list_all wired vs \<Longrightarrow> wired (RowActions label vs)"
  by (simp add: RowActions_def wired_simps)

section \<open>Secrets\<close>

lemma wired_secrets_parts [wired_simps]:
  "wired (secret_value_cell x)" "wired (RelativeTime dp ls now d)" "wired (deploy_card s)" "wired (edit_secret_modal m)"
  by (simp_all add: secret_value_cell_def RelativeTime_def deploy_card_def edit_secret_modal_def wired_simps split: option.split list.split)

lemma wired_secret_row [wired_simps]: "wired (secret_row dp ls now x)"
  by (simp add: secret_row_def wired_simps)

lemma wired_secrets_page: "wired (SecretsPage dp ls now s)"
  by (simp add: SecretsPage_def wired_simps)

section \<open>Backups and diagnostics\<close>

lemma wired_backup_parts [wired_simps]:
  "wired (backup_badge a b c)" "wired (last_run_cell dp now x)" "list_all wired (backup_context_menu x)"
  "wired (backup_logs_dialog l)"
  by (simp_all add: backup_badge_def last_run_cell_def backup_context_menu_def backup_logs_dialog_def Let_def wired_simps
      split: option.split list.split)

lemma wired_edit_input [wired_simps]: "wired (edit_input a b f c)"
  by (simp add: edit_input_def wired_simps)

lemma wired_backup_row [wired_simps]: "wired (backup_row dp now x)"
  by (simp add: backup_row_def RowActions_def Let_def wired_simps)

lemma wired_backup_sheet [wired_simps]: "wired (backup_edit_sheet b)"
  by (simp add: backup_edit_sheet_def wired_simps split: option.split)

lemma wired_backup_table [wired_simps]: "wired (BackupsTableContent dp now rows)"
  by (simp add: BackupsTableContent_def wired_simps)

lemma wired_backups_page: "list_all wired (BackupsPage dp now data s)"
  by (simp add: BackupsPage_def Let_def wired_simps)

lemma wired_diag_parts [wired_simps]: "wired (diag_badge a b)" "wired (diag_row x)"
  by (simp_all add: diag_badge_def diag_row_def RowActions_def Let_def wired_simps)

lemma wired_diagnostics_page: "list_all wired (DiagnosticsPage sh s)"
  by (simp add: DiagnosticsPage_def Let_def wired_simps)

section \<open>Storage\<close>

lemma wired_storage_parts [wired_simps]:
  "wired (renderDiskRole d)" "wired (cell_text x)" "wired (action_button a b c d' e)" "wired (usage_cell f p)"
  "wired (pool_meter p)" "wired (unassigned_disk d)" "wired (subvolume_size s v)" "wired (storage_header s)"
  by (simp_all add: renderDiskRole_def cell_text_def action_button_def usage_cell_def pool_meter_def unassigned_disk_def
      subvolume_size_def storage_header_def Let_def wired_simps split: option.split)

lemma wired_pool_row [wired_simps]: "wired (pool_row s p)" "wired (pool_actions b p)"
  by (simp_all add: pool_row_def pool_actions_def RowActions_def Let_def wired_simps)

lemma wired_disk_row [wired_simps]: "wired (disk_row s p d)"
  by (simp add: disk_row_def Let_def wired_simps)

lemma wired_subvolume_row [wired_simps]: "wired (subvolume_row s v)"
  by (simp add: subvolume_row_def wired_simps)

lemma wired_pool_rows [wired_simps]: "list_all wired (pool_rows s p)"
  by (simp add: pool_rows_def wired_simps)

lemma wired_storage_tables [wired_simps]: "wired (PoolsTable s)" "wired (SubvolumesPanel s)" "wired (UnassignedDisks ds)"
  by (simp_all add: PoolsTable_def SubvolumesPanel_def UnassignedDisks_def Let_def wired_simps)

lemma wired_storage_page: "wired (StoragePage s)"
  by (simp add: StoragePage_def Let_def wired_simps)

section \<open>Logs\<close>

lemma wired_logs_parts [wired_simps]:
  "wired (LogLineRow f l)" "wired (FieldFilter fld v g)" "wired (logs_header q)" "wired (service_tab c svc act)"
  "wired (logs_status q')"
  by (simp_all add: LogLineRow_def FieldFilter_def logs_header_def service_tab_def logs_status_def Let_def wired_simps)

lemma wired_logs_tables [wired_simps]: "wired (logs_controls c s)" "wired (logs_output f q)"
  by (simp_all add: logs_controls_def logs_output_def Let_def wired_simps)

lemma wired_logs_page: "wired (LogsPage f c s q)"
  by (simp add: LogsPage_def LogsPageInner_def Let_def wired_simps split: option.split)

section \<open>Services\<close>

lemma wired_service_parts [wired_simps]:
  "wired (StateBadge p)" "list_all wired (PortChips ports)" "wired (BulkControlBar bp)" "wired (number_field a n f b)"
  by (simp_all add: StateBadge_def PortChips_def BulkControlBar_def number_field_def Let_def wired_simps)

lemma wired_service_menus [wired_simps]:
  "list_all wired (renderMenuItems item cb)" "list_all wired (renderContextMenuItems item cb)"
  by (simp_all add: renderMenuItems_def renderContextMenuItems_def danger_item_def plain_item_def Let_def wired_simps)

lemma wired_service_dialogs [wired_simps]:
  "list_all wired (ConfirmDialogs cp)" "wired (ServiceConfigSheet d f a b)" "list_all wired (LogsDialog b1 t1 t2 x g b2)"
  by (simp_all add: ConfirmDialogs_def bulk_stop_dialog_def action_dialog_def ServiceConfigSheet_def LogsDialog_def Let_def
      wired_simps split: option.split)

lemma wired_pull_dialog [wired_simps]: "wired (PullDialog deps u x pd)"
  by (simp add: PullDialog_def wired_simps)

lemma wired_service_cards [wired_simps]:
  "wired (ServiceCard item cb f g)" "wired (grid_card cb f' item)" "wired (ServiceCardsGrid items cb f')"
  by (simp_all add: ServiceCard_def grid_card_def ServiceCardsGrid_def Let_def wired_simps)

lemma wired_service_row [wired_simps]: "wired (service_row hp dp now r)"
  by (simp add: service_row_def icon_cell_def name_cell_def ports_cell_def wired_simps)

lemma wired_services_children [wired_simps]: "list_all wired (services_children hp dp now n pd s)"
  by (simp add: services_children_def ServicesTableContent_def column_header_def services_dialogs_def wired_simps)

lemma wired_services_page: "wired (ServicesPage hp dp now n pd s)"
  by (simp add: ServicesPage_def bulk_bar_def wired_simps)

section \<open>Menu and bug report\<close>

lemma wired_user_menu: "wired (UserMenu u h t)"
  by (simp add: UserMenu_def menu_open_item_def host_section_def theme_icon_def Let_def gates_def wired_simps split: theme.split)

lemma wired_bug_report: "wired (BugReportModal b u s)"
  by (simp add: BugReportModal_def bug_model_select_def Let_def wired_simps split: list.split)

section \<open>Rendered pages\<close>

text \<open>What a user can trigger in a rendered page is what its page theory says of its view.\<close>

lemmas rendered_page_offers =
  kit_offered [OF wired_services_page] kit_offered [OF wired_storage_page] kit_offered [OF wired_logs_page]
  kit_offered [OF wired_secrets_page] kit_offered [OF wired_user_menu] kit_offered [OF wired_bug_report]

lemma rendered_pages_offer:
  "v \<in> set (BackupsPage dp now data s) \<Longrightarrow> offered (kit rvals opts e v) = offered v"
  "w \<in> set (DiagnosticsPage sh t) \<Longrightarrow> offered (kit rvals' opts' e w) = offered w"
  "u \<in> set (VMsPage vms p) \<Longrightarrow> offered (kit rvals'' opts'' e u) = offered u"
  using wired_backups_page [of dp now data s] wired_diagnostics_page [of sh t] wired_vms_page [of vms p]
  by (simp_all add: kit_offered list_all_iff)

end
