(* ===== verification/Frontend_Build.thy ===== *)
theory Frontend_Build
  imports UI_Base JS_Strings
begin

text \<open>
  The decisions of the frontend's build and start: the chunk a module goes into and the proxied paths
  (\<^verbatim>\<open>vite.config.ts\<close>), the class-name helper of \<^verbatim>\<open>lib/utils.ts\<close> and what \<^verbatim>\<open>main.tsx\<close> mounts.
\<close>

definition manualChunks :: "string \<Rightarrow> string option" where
  "manualChunks mid =
     (let has = (\<lambda>p. js_includes (''node_modules/'' @ p) mid)
      in if has ''recharts'' \<or> has ''d3-'' then Some ''vendor-charts''
         else if has ''motion'' then Some ''vendor-motion''
         else if has ''react-aria-components'' \<or> has ''@react-stately'' \<or> has ''react-aria'' \<or> has ''@react-aria''
           then Some ''vendor-aria''
         else if has ''@tanstack/'' then Some ''vendor-query''
         else if has ''react-dom'' \<or> has ''react-router'' \<or> has ''react/'' then Some ''vendor-react''
         else None)"

text \<open>The development server: the target of a path, and whether web sockets are proxied too.\<close>

definition dev_proxy :: "(string \<times> string \<times> bool) list" where
  "dev_proxy =
     [(''/api'', ''http://127.0.0.1:8081'', False), (''/events'', ''http://127.0.0.1:8081'', True),
      (''/health'', ''http://127.0.0.1:8081'', False)]"

text \<open>\<open>cn\<close> over the functions of its two packages.\<close>

definition cn :: "(string \<Rightarrow> string) \<Rightarrow> ('c list \<Rightarrow> string) \<Rightarrow> 'c list \<Rightarrow> string" where
  "cn twMerge clsx inputs = twMerge (clsx inputs)"

definition mounted :: "'a view \<Rightarrow> 'a view" where
  "mounted app = El ''StrictMode'' [] [app]"

lemma js_includes_sublist: "js_includes p s \<longleftrightarrow> (\<exists>xs ys. s = xs @ p @ ys)"
  by (simp add: js_includes_iff_sublist sublist_def)

text \<open>A module outside the installed packages stays in the application's chunk.\<close>

lemma application_modules_unchunked:
  assumes "\<not> js_includes ''node_modules/'' mid"
  shows "manualChunks mid = None"
proof -
  have "\<not> js_includes (''node_modules/'' @ p) mid" for p
    using assms unfolding js_includes_sublist by (metis append.assoc)
  then show ?thesis by (simp only: manualChunks_def Let_def if_False simp_thms)
qed

text \<open>A package whose name starts with \<open>react-aria\<close> goes with the other accessible components, never with React.\<close>

lemma aria_not_react:
  assumes "js_includes ''node_modules/react-aria'' mid"
  shows "manualChunks mid \<noteq> Some ''vendor-react''" "manualChunks mid \<noteq> None"
proof -
  have "js_includes (''node_modules/'' @ ''react-aria'') mid" using assms by simp
  then show "manualChunks mid \<noteq> Some ''vendor-react''" "manualChunks mid \<noteq> None"
    unfolding manualChunks_def Let_def by (simp_all only: simp_thms if_True split: if_split) simp_all
qed

end
