(* ===== verification/Sessions.thy ===== *)
theory Sessions
  imports Main
begin

text \<open>
  Sessions of a page. A page is a step relation with labels (what the user did, which answer
  came, which effects went out); a run is the list of its labels, the newest first. The
  locales are the ways the properties of runs are proved: an invariant of every step, and
  the origin of a state (some state that is false at the start can only come from a step
  that asks for it), from which a guarded effect is traced back to what asked for it, and a
  view of the state as a function of the labels so far.
\<close>

inductive run :: "('s \<Rightarrow> 'l \<Rightarrow> 's \<Rightarrow> bool) \<Rightarrow> 's \<Rightarrow> 'l list \<Rightarrow> 's \<Rightarrow> bool" for step init where
  run_start: "run step init [] init"
| run_step: "run step init ls s \<Longrightarrow> step s l t \<Longrightarrow> run step init (l # ls) t"

inductive_cases run_NilE: "run step init [] s"
inductive_cases run_ConsE: "run step init (l # ls) t"

lemma run_split: "run step init (ls2 @ ls1) t \<Longrightarrow> \<exists>s. run step init ls1 s"
  by (induction ls2 arbitrary: t) (auto elim: run_ConsE)

text \<open>A label in a run is the label of a step from a state that the labels before it lead to.\<close>

lemma run_at:
  assumes "run step init (ls2 @ l # ls1) t"
  obtains s s' where "run step init ls1 s" "step s l s'"
  using run_split [OF assms] by (auto elim: run_ConsE)

text \<open>A handler prop holds a list of calls; they are made in order, and the effects add up.\<close>

fun perform :: "('a \<Rightarrow> 's \<Rightarrow> 's \<times> 'e list) \<Rightarrow> 'a list \<Rightarrow> 's \<Rightarrow> 's \<times> 'e list" where
  "perform act [] s = (s, [])"
| "perform act (a # as) s = (let (s1, es1) = act a s; (s2, es2) = perform act as s1 in (s2, es1 @ es2))"

lemma perform_single [simp]: "perform act [a] s = act a s"
  by (simp add: split_beta)

section \<open>Invariants\<close>

locale session_invariant =
  fixes step :: "'s \<Rightarrow> 'l \<Rightarrow> 's \<Rightarrow> bool"
    and init :: 's
    and inv :: "'s \<Rightarrow> bool"
  assumes inv_init: "inv init"
    and inv_step: "inv s \<Longrightarrow> step s l t \<Longrightarrow> inv t"
begin

lemma run_inv: "run step init ls s \<Longrightarrow> inv s"
  by (induction rule: run.induct) (auto intro: inv_init inv_step)

end

section \<open>Tracing back\<close>

locale traceback = session_invariant step init inv
  for step :: "'s \<Rightarrow> 'l \<Rightarrow> 's \<Rightarrow> bool" and init :: 's and inv :: "'s \<Rightarrow> bool" +
  fixes holds :: "'k \<Rightarrow> 's \<Rightarrow> bool"
    and asks :: "'k \<Rightarrow> 'l \<Rightarrow> bool"
    and issues :: "'k \<Rightarrow> 'l \<Rightarrow> bool"
    and direct :: "'k \<Rightarrow> 'l \<Rightarrow> bool"
  assumes holds_init: "\<not> holds k init"
    and origin: "inv s \<Longrightarrow> step s l t \<Longrightarrow> holds k t \<Longrightarrow> holds k s \<or> asks k l"
    and guarded: "inv s \<Longrightarrow> step s l t \<Longrightarrow> issues k l \<Longrightarrow> direct k l \<or> holds k s"
begin

lemma asked_before: "run step init ls s \<Longrightarrow> holds k s \<Longrightarrow> \<exists>l \<in> set ls. asks k l"
proof (induction rule: run.induct)
  case run_start
  then show ?case by (simp add: holds_init)
next
  case (run_step ls s l t)
  with origin [OF run_inv [OF run_step.hyps(1)] run_step.hyps(2)] show ?case by auto
qed

text \<open>
  A step that issues the guarded request was asked to do so directly, or a step before it asked.
\<close>

lemma issue_traced:
  assumes "run step init (later @ l # earlier) s" "issues k l"
  shows "direct k l \<or> (\<exists>l' \<in> set earlier. asks k l')"
proof -
  obtain u t where u: "run step init earlier u" and st: "step u l t"
    using assms(1) by (rule run_at)
  from guarded [OF run_inv [OF u] st assms(2)] asked_before [OF u] show ?thesis by blast
qed

end

section \<open>One request for one question\<close>

locale one_shot = traceback +
  assumes consumed: "inv s \<Longrightarrow> step s l t \<Longrightarrow> issues k l \<Longrightarrow> direct k l \<or> \<not> holds k t"
begin

text \<open>Guarded requests never outnumber what was asked for.\<close>

lemma issues_bounded:
  "run step init ls s \<Longrightarrow>
     length (filter (\<lambda>l. issues k l \<and> \<not> direct k l) ls) + (if holds k s then 1 else 0) \<le> length (filter (asks k) ls)"
proof (induction rule: run.induct)
  case run_start
  then show ?case by (simp add: holds_init)
next
  case (run_step ls s l t)
  note inv = run_inv [OF run_step.hyps(1)]
  have "holds k t \<Longrightarrow> holds k s \<or> asks k l" using origin [OF inv run_step.hyps(2)] .
  moreover have "issues k l \<and> \<not> direct k l \<Longrightarrow> holds k s \<and> \<not> holds k t"
    using guarded [OF inv run_step.hyps(2)] consumed [OF inv run_step.hyps(2)] by blast
  ultimately show ?case using run_step.IH by (auto split: if_splits)
qed

end

section \<open>What a run shows\<close>

text \<open>
  Some view of the state (the form a dialog shows, say) is a function of what happened: each
  label changes it in its own way, whatever else the step did. Labels are newest first, so
  the changes are folded from the right.
\<close>

locale trace_view = session_invariant step init inv
  for step :: "'s \<Rightarrow> 'l \<Rightarrow> 's \<Rightarrow> bool" and init :: 's and inv :: "'s \<Rightarrow> bool" +
  fixes view :: "'s \<Rightarrow> 'v"
    and after :: "'l \<Rightarrow> 'v \<Rightarrow> 'v"
    and start :: 'v
  assumes view_init: "view init = start"
    and view_step: "inv s \<Longrightarrow> step s l t \<Longrightarrow> view t = after l (view s)"
begin

lemma view_run: "run step init ls s \<Longrightarrow> view s = foldr after ls start"
proof (induction rule: run.induct)
  case run_start
  then show ?case by (simp add: view_init)
next
  case (run_step ls s l t)
  with view_step [OF run_inv [OF run_step.hyps(1)] run_step.hyps(2)] show ?case by simp
qed

end

end
