(* ===== verification/Services_Session.thy ===== *)
theory Services_Session
  imports Services_Properties Sessions
begin

text \<open>
  A whole session on the services page: the user fires handlers the page offers, answers
  arrive in any order, timers elapse, the overview brings data or an error, the page renders,
  and the stream of the pull dialog delivers its events. A handler that awaits twice
  (stop and disable) is two requests here.
\<close>

section \<open>Requests and their continuations\<close>

datatype services_request =
    Req_Action string string
  | Req_Stop string string
  | Req_Disable string string
  | Req_Toggle string bool
  | Req_Save ServiceConfigDraft
  | Req_Bulk bulk_action
  | Req_Refetch
  | Refetch_Timer

record services_session =
  ss_page :: services_page
  ss_pull :: pull_dialog
  ss_render :: nat
  ss_pending :: "services_request list"

definition services_session_init :: "local_storage \<Rightarrow> services_session" where
  "services_session_init ls =
     \<lparr>ss_page = services_init ls, ss_pull = pull_dialog_init, ss_render = 0, ss_pending = []\<rparr>"

fun services_requests :: "services_act \<Rightarrow> services_page \<Rightarrow> services_request list" where
  "services_requests (Stop_And_Disable unit name) s = [Req_Stop unit name]"
| "services_requests (Do_Action unit act) s = [Req_Action unit act]"
| "services_requests (Toggle_AutoStart unit enabled) s = [Req_Toggle unit enabled]"
| "services_requests Save_Config s = (case sp_configDrawer s of None \<Rightarrow> [] | Some d \<Rightarrow> [Req_Save d])"
| "services_requests (Bulk b) s = [Req_Bulk b]"
| "services_requests _ s = []"

definition services_do ::
  "int \<times> int \<Rightarrow> services_act \<Rightarrow> services_session \<Rightarrow> services_session \<times> effect list" where
  "services_do pt a s =
     (let (p, es) = services_dispatch pt a (ss_page s)
      in (s\<lparr>ss_page := p, ss_pending := services_requests a (ss_page s) @ ss_pending s\<rparr>, es))"

text \<open>What the effects of a continuation leave to come: the refetch it sends or schedules.\<close>

definition follow_ups :: "effect list \<Rightarrow> services_request list" where
  "follow_ups es =
     vwhen (After 1000 ''refetchServices'' \<in> set es) [Refetch_Timer]
     @ vwhen (Fetch ''GET'' ''/api/v1/overview'' None \<in> set es) [Req_Refetch]"

text \<open>The first half of stop and disable: only a rejection ends the handler.\<close>

definition stop_settle ::
  "string \<times> string \<Rightarrow> envelope outcome \<Rightarrow> services_page \<Rightarrow> services_page \<times> effect list" where
  "stop_settle c r s =
     (case r of
        Rejected e \<Rightarrow> (s\<lparr>sp_loadingAction := None\<rparr>, [Toast Error ''Failed to stop and disable''])
      | Resolved resp \<Rightarrow> (s, [Fetch ''PATCH'' (''/api/config/'' @ fst c) (Some (JObj [(''enabled'', JBool False)]))]))"

lemma stop_then_disable:
  "stopAndDisable_settle c (r, r') s =
     (let (s1, es1) = stop_settle c r s
      in case r of Rejected e \<Rightarrow> (s1, es1)
         | Resolved resp \<Rightarrow> (let (s2, es2) = disable_settle c r' s1 in (s2, es1 @ es2)))"
  by (simp add: stopAndDisable_settle_def stop_settle_def Let_def split: outcome.split prod.split)

text \<open>
  The answer to a request: the new page, the effects, and what is outstanding instead of the request.
  The answers have different types, one constructor for each.
\<close>

datatype services_answer =
    Env_Answer "envelope outcome"
  | Bulk_Answer "bulk_result outcome"
  | Overview_Answer "(ServiceInfo list) option outcome"
  | Time_Up

fun services_answered ::
  "services_request \<Rightarrow> services_answer \<Rightarrow> services_page \<Rightarrow> (services_page \<times> effect list \<times> services_request list) option" where
  "services_answered (Req_Action unit act) (Env_Answer r) s =
     (let (p, es) = doAction_settle (unit, act) r s in Some (p, es, follow_ups es))"
| "services_answered (Req_Stop unit name) (Env_Answer r) s =
     (let (p, es) = stop_settle (unit, name) r s
      in Some (p, es, case r of Rejected e \<Rightarrow> [] | Resolved resp \<Rightarrow> [Req_Disable unit name]))"
| "services_answered (Req_Disable unit name) (Env_Answer r) s =
     (let (p, es) = disable_settle (unit, name) r s in Some (p, es, []))"
| "services_answered (Req_Toggle unit enabled) (Env_Answer r) s =
     (let (p, es) = toggleAutoStart_settle unit enabled r s in Some (p, es, []))"
| "services_answered (Req_Save draft) (Env_Answer r) s =
     (let (p, es) = saveConfig_settle draft r s in Some (p, es, follow_ups es))"
| "services_answered (Req_Bulk b) (Bulk_Answer r) s =
     (let (p, es) = doBulkAction_settle b r s in Some (p, es, follow_ups es))"
| "services_answered Req_Refetch (Overview_Answer r) s = Some (refetch_settle r s, [], [])"
| "services_answered Refetch_Timer Time_Up s = Some (s, refetch_start, [Req_Refetch])"
| "services_answered _ _ s = None"

section \<open>Steps\<close>

datatype services_label =
    Fires "services_act list" "effect list"
  | Answered services_request "effect list"
  | Overview_News
  | Failure_News "effect list"
  | Rendered "pull_out list"
  | Pull_Event "pull_out list" "effect list"

primrec services_effects :: "services_label \<Rightarrow> effect list" where
  "services_effects (Fires hs es) = es"
| "services_effects (Answered q es) = es"
| "services_effects Overview_News = []"
| "services_effects (Failure_News es) = es"
| "services_effects (Rendered outs) = []"
| "services_effects (Pull_Event outs es) = es"

text \<open>The calls of \<open>onRestart\<close> a stream event makes: \<open>doAction(unit, "restart")\<close>.\<close>

definition restart_calls :: "pull_out list \<Rightarrow> services_act list" where
  "restart_calls outs =
     concat (map (\<lambda>x. case x of Call_onRestart u \<Rightarrow> [Do_Action u ''restart''] | _ \<Rightarrow> []) outs)"

inductive services_step ::
  "(string \<Rightarrow> string option) \<Rightarrow> (string \<Rightarrow> int option) \<Rightarrow> services_session \<Rightarrow> services_label \<Rightarrow> services_session \<Rightarrow> bool"
  for url_host date_parse where
  fires: "hs \<in> offered (ServicesPage url_host date_parse now (ss_render s) (ss_pull s) (ss_page s)) \<Longrightarrow>
     perform (services_do pt) hs s = (t, es) \<Longrightarrow>
     services_step url_host date_parse s (Fires hs es) t"
| answered: "q \<in> set (ss_pending s) \<Longrightarrow> services_answered q a (ss_page s) = Some (p, es, next) \<Longrightarrow>
     services_step url_host date_parse s (Answered q es) (s\<lparr>ss_page := p, ss_pending := next @ remove1 q (ss_pending s)\<rparr>)"
| overview_data: "services_step url_host date_parse s Overview_News (s\<lparr>ss_page := on_overview_data d (ss_page s)\<rparr>)"
| overview_error: "services_step url_host date_parse s Overview_News (s\<lparr>ss_page := on_overview_error e (ss_page s)\<rparr>)"
| failure: "services_step url_host date_parse s (Failure_News [failure_toast name attempts backoff]) s"
| rendered: "pull_render (pull_props (Suc (ss_render s)) (ss_page s)) (ss_pull s) = (d, outs) \<Longrightarrow>
     services_step url_host date_parse s (Rendered outs) (s\<lparr>ss_render := Suc (ss_render s), ss_pull := d\<rparr>)"
| pull_log: "on_log line (ss_pull s) = (d, outs) \<Longrightarrow>
     services_step url_host date_parse s (Pull_Event outs []) (s\<lparr>ss_pull := d\<rparr>)"
| pull_done: "on_done (ss_pull s) = (d, outs) \<Longrightarrow>
     perform (services_do pt) (restart_calls outs) (s\<lparr>ss_pull := d\<rparr>) = (t, es) \<Longrightarrow>
     services_step url_host date_parse s (Pull_Event outs es) t"
| pull_failed: "on_pull_error msg (ss_pull s) = (d, outs) \<Longrightarrow>
     services_step url_host date_parse s (Pull_Event outs []) (s\<lparr>ss_pull := d\<rparr>)"

inductive_cases services_stepE: "services_step url_host date_parse s l t"

section \<open>What a step may do\<close>

text \<open>What the page's guards leave of the acts.\<close>

fun fair_act :: "services_page \<Rightarrow> services_act \<Rightarrow> bool" where
  "fair_act s (Do_Action unit act) =
     (act = ''start'' \<or> act = ''restart''
      \<or> (\<exists>c. sp_confirmAction s = Some c \<and> ca_unit c = unit \<and> ca_action c = act))"
| "fair_act s (Bulk b) = (if b = Bulk_Stop then sp_confirmBulkStop s else sp_bulkLoading s = None)"
| "fair_act s (Set_Confirm_Action c) = (c = None)"
| "fair_act s (Set_Confirm_Bulk b) = (sp_confirmBulkStop s \<or> sp_bulkLoading s = None)"
| "fair_act s (Set_Drawer (Some d)) = (\<exists>e. sp_configDrawer s = Some e \<and> cf_unit d = cf_unit e)"
| "fair_act s _ = True"

lemma menu_fair:
  "hs \<in> menu_actions item buildMenuCallbacks \<Longrightarrow> \<exists>a. hs = [a] \<and> fair_act s a"
  by (auto simp: menu_actions_def buildEntries_def buildMenuCallbacks_def Let_def split: if_splits)

lemma row_fair: "hs \<in> row_handlers r \<Longrightarrow> hs = [] \<or> (\<exists>a. hs = [a] \<and> fair_act s a)"
  using menu_fair unfolding row_handlers_def by fastforce

lemma handlers_fair:
  assumes "hs \<in> services_handlers s"
  shows "hs = [] \<or> (\<exists>a. hs = [a] \<and> fair_act s a)"
proof (cases "\<exists>r. hs \<in> row_handlers r")
  case True
  then show ?thesis using row_fair by blast
next
  case False
  then show ?thesis using assms by (auto simp: services_handlers_def split: if_splits option.splits)
qed

lemma fires_fair:
  assumes "hs \<in> offered (ServicesPage url_host date_parse now n pd s)"
  obtains "hs = []" | a where "hs = [a]" "fair_act s a"
  using assms offered_services_page handlers_fair by blast

text \<open>The acts leave the flags of the other handlers alone.\<close>

definition page_flags :: "services_page \<Rightarrow> ConfirmAction option \<times> bool \<times> bulk_action option \<times> string option" where
  "page_flags s = (sp_confirmAction s, sp_confirmBulkStop s, sp_bulkLoading s, sp_loadingAction s)"

lemma flags_trigger: "page_flags (triggerUpdate unit s) = page_flags s"
  by (simp add: triggerUpdate_def page_flags_def split: option.split)

lemma flags_toggle: "page_flags (toggleViewMode s) = page_flags s"
  by (simp add: toggleViewMode_def page_flags_def Let_def)

lemma flags_update: "page_flags (update_unit unit f s) = page_flags s"
  by (simp add: update_unit_def page_flags_def)

lemma flags_overview:
  "page_flags (on_overview_data d s) = page_flags s" "page_flags (on_overview_error e s) = page_flags s"
  "page_flags (refetch_settle r s) = page_flags s"
  by (simp_all add: on_overview_data_def on_overview_error_def refetch_settle_def page_flags_def
      split: option.split outcome.split)

lemmas flags_simps = flags_trigger flags_toggle flags_update flags_overview

lemma page_flags_eq:
  "page_flags p = page_flags s \<longleftrightarrow> sp_confirmAction p = sp_confirmAction s
     \<and> sp_confirmBulkStop p = sp_confirmBulkStop s \<and> sp_bulkLoading p = sp_bulkLoading s
     \<and> sp_loadingAction p = sp_loadingAction s"
  by (auto simp: page_flags_def)

section \<open>The invariant\<close>

definition is_bulk :: "services_request \<Rightarrow> bool" where
  "is_bulk q \<longleftrightarrow> (\<exists>b. q = Req_Bulk b)"

definition is_unit_request :: "services_request \<Rightarrow> bool" where
  "is_unit_request q \<longleftrightarrow> (\<exists>u n. q = Req_Action u n \<or> q = Req_Stop u n \<or> q = Req_Disable u n)"

text \<open>
  Only stops are ever confirmed. The one bulk request that can be in flight is the one the
  buttons show, and while it is the bulk dialog is closed. A busy unit has a request outstanding.
\<close>

definition flags_ok ::
  "ConfirmAction option \<times> bool \<times> bulk_action option \<times> string option \<Rightarrow> services_request list \<Rightarrow> bool" where
  "flags_ok f qs \<longleftrightarrow>
     (case f of (confirm, bulk, bulking, loading) \<Rightarrow>
       (\<forall>c. confirm = Some c \<longrightarrow> ca_action c = ''stop'')
       \<and> (bulk \<longrightarrow> bulking = None)
       \<and> filter is_bulk qs = (case bulking of None \<Rightarrow> [] | Some b \<Rightarrow> [Req_Bulk b])
       \<and> (loading \<noteq> None \<longrightarrow> (\<exists>q \<in> set qs. is_unit_request q)))"

definition services_inv :: "services_session \<Rightarrow> bool" where
  "services_inv s \<longleftrightarrow> flags_ok (page_flags (ss_page s)) (ss_pending s)"

lemma is_bulk_simps [simp]:
  "is_bulk (Req_Bulk b)" "\<not> is_bulk (Req_Action u a)" "\<not> is_bulk (Req_Stop u a)" "\<not> is_bulk (Req_Disable u a)"
  "\<not> is_bulk (Req_Toggle u e)" "\<not> is_bulk (Req_Save d)" "\<not> is_bulk Req_Refetch" "\<not> is_bulk Refetch_Timer"
  by (simp_all add: is_bulk_def)

lemma is_unit_simps [simp]:
  "\<not> is_unit_request (Req_Bulk b)" "is_unit_request (Req_Action u a)" "is_unit_request (Req_Stop u a)"
  "is_unit_request (Req_Disable u a)" "\<not> is_unit_request (Req_Toggle u e)" "\<not> is_unit_request (Req_Save d)"
  "\<not> is_unit_request Req_Refetch" "\<not> is_unit_request Refetch_Timer"
  by (simp_all add: is_unit_request_def)

lemma follow_ups_quiet [simp]:
  "filter is_bulk (follow_ups es) = []" "q \<in> set (follow_ups es) \<Longrightarrow> \<not> is_unit_request q"
  by (auto simp: follow_ups_def vwhen_def split: if_splits)

text \<open>What an act does to the flags.\<close>

fun flags_after ::
  "services_act \<Rightarrow> ConfirmAction option \<times> bool \<times> bulk_action option \<times> string option
     \<Rightarrow> ConfirmAction option \<times> bool \<times> bulk_action option \<times> string option" where
  "flags_after (Stop_Confirm u n) (c, b, k, l) = (Some \<lparr>ca_unit = u, ca_action = ''stop'', ca_label = n\<rparr>, b, k, l)"
| "flags_after (Stop_And_Disable u n) (c, b, k, l) = (c, b, k, Some (u @ '':stop-disable''))"
| "flags_after (Do_Action u act) (c, b, k, l) = (None, b, k, Some (u @ '':'' @ act))"
| "flags_after (Set_Confirm_Bulk x) (c, b, k, l) = (c, x, k, l)"
| "flags_after (Set_Confirm_Action x) (c, b, k, l) = (x, b, k, l)"
| "flags_after (Bulk x) (c, b, k, l) = (c, False, Some x, l)"
| "flags_after _ f = f"

lemma dispatch_flags: "page_flags (fst (services_dispatch pt a s)) = flags_after a (page_flags s)"
proof (cases a)
  case (Trigger_Update u)
  then show ?thesis using flags_trigger by simp
next
  case Toggle_View
  then show ?thesis using flags_toggle by simp
qed (simp_all add: page_flags_def stopAndDisable_def doAction_def doBulkAction_def)

lemma flags_ok_quiet:
  assumes "flags_ok f qs" "filter is_bulk rs = []"
  shows "flags_ok f (rs @ qs)"
  using assms by (auto simp: flags_ok_def split: prod.splits)

lemma flags_ok_after:
  assumes "fair_act s a" "flags_ok (page_flags s) qs"
  shows "flags_ok (flags_after a (page_flags s)) (services_requests a s @ qs)"
proof -
  obtain c b k l where f: "page_flags s = (c, b, k, l)" by (metis prod_cases4)
  have fields: "sp_confirmAction s = c" "sp_confirmBulkStop s = b" "sp_bulkLoading s = k"
    using f by (simp_all add: page_flags_def)
  from assms show ?thesis
    unfolding f by (cases a) (auto simp: fields flags_ok_def split: option.splits if_splits)
qed

lemma services_do_inv:
  assumes "fair_act (ss_page s) a" "services_inv s" "services_do pt a s = (t, es)"
  shows "services_inv t"
proof -
  have "ss_page t = fst (services_dispatch pt a (ss_page s))"
    and "ss_pending t = services_requests a (ss_page s) @ ss_pending s"
    using assms(3) by (auto simp: services_do_def split: prod.splits)
  then show ?thesis
    using flags_ok_after [OF assms(1)] assms(2) by (simp add: services_inv_def dispatch_flags)
qed

text \<open>What an answer does to the flags, and what it leaves to come.\<close>

lemma answered_flags:
  assumes "services_answered q a s = Some (p, es, next)" "page_flags s = (c, b, k, l)"
  shows "filter is_bulk next = []"
    and "\<exists>l'. page_flags p = (c, b, if is_bulk q then None else k, l')
      \<and> (if is_unit_request q then l' = None \<or> (\<exists>q' \<in> set next. is_unit_request q') else l' = l)"
  using assms
  by (cases "(q, a, s)" rule: services_answered.cases;
      simp add: page_flags_def doAction_settle_def stop_settle_def disable_settle_def toggleAutoStart_settle_def
        saveConfig_settle_def doBulkAction_settle_def refetch_settle_def update_unit_def Let_def
        split: outcome.splits option.splits if_splits prod.splits; fastforce)+

lemma answered_inv:
  assumes "services_inv s" "q \<in> set (ss_pending s)" "services_answered q a (ss_page s) = Some (p, es, next)"
  shows "services_inv (s\<lparr>ss_page := p, ss_pending := next @ remove1 q (ss_pending s)\<rparr>)"
proof -
  obtain c b k l where f: "page_flags (ss_page s) = (c, b, k, l)" by (metis prod_cases4)
  note ans = answered_flags [OF assms(3) f]
  have ok: "flags_ok (c, b, k, l) (ss_pending s)" using assms(1) f by (simp add: services_inv_def)
  have bulk: "filter is_bulk (next @ remove1 q (ss_pending s)) = (case if is_bulk q then None else k of None \<Rightarrow> [] | Some b \<Rightarrow> [Req_Bulk b])"
  proof (cases "is_bulk q")
    case True
    then have "q \<in> set (filter is_bulk (ss_pending s))" using assms(2) by simp
    moreover have "filter is_bulk (ss_pending s) = (case k of None \<Rightarrow> [] | Some b \<Rightarrow> [Req_Bulk b])"
      using ok by (simp add: flags_ok_def)
    ultimately have "filter is_bulk (ss_pending s) = [q]" by (simp split: option.splits)
    then show ?thesis using True ans(1) by (simp add: filter_remove1)
  next
    case False
    then have "filter is_bulk (remove1 q (ss_pending s)) = filter is_bulk (ss_pending s)"
      by (simp add: filter_remove1 remove1_idem)
    then show ?thesis using False ans(1) ok by (simp add: flags_ok_def)
  qed
  have unit: "\<exists>q' \<in> set (remove1 q (ss_pending s)). is_unit_request q'" if "\<not> is_unit_request q" "l \<noteq> None"
  proof -
    obtain q' where "q' \<in> set (ss_pending s)" "is_unit_request q'" using ok \<open>l \<noteq> None\<close> by (auto simp: flags_ok_def)
    moreover have "q' \<noteq> q" using that(1) \<open>is_unit_request q'\<close> by auto
    ultimately show ?thesis by (auto simp: in_set_remove1)
  qed
  from ans(2) obtain l' where p: "page_flags p = (c, b, if is_bulk q then None else k, l')"
    and l': "if is_unit_request q then l' = None \<or> (\<exists>q' \<in> set next. is_unit_request q') else l' = l" by blast
  show ?thesis
    unfolding services_inv_def flags_ok_def
    using ok bulk unit l' by (auto simp: p flags_ok_def split: if_splits)
qed

lemma restarts_inv:
  "services_inv s \<Longrightarrow> perform (services_do pt) (restart_calls outs) s = (t, es) \<Longrightarrow> services_inv t"
proof (induction outs arbitrary: s es)
  case Nil
  then show ?case by (simp add: restart_calls_def)
next
  case (Cons x outs)
  show ?case
  proof (cases "\<exists>u. x = Call_onRestart u")
    case True
    then obtain u where x: "x = Call_onRestart u" by blast
    obtain s1 es1 where s1: "services_do pt (Do_Action u ''restart'') s = (s1, es1)" by fastforce
    have "services_inv s1" using services_do_inv [OF _ Cons.prems(1) s1] by simp
    moreover have "\<exists>es2. perform (services_do pt) (restart_calls outs) s1 = (t, es2)"
      using Cons.prems(2) s1 by (auto simp: x restart_calls_def split: prod.splits)
    ultimately show ?thesis using Cons.IH by blast
  next
    case False
    then have "restart_calls (x # outs) = restart_calls outs"
      by (auto simp: restart_calls_def split: pull_out.splits)
    then show ?thesis using Cons by simp
  qed
qed

lemma fires_inv:
  assumes "services_inv s" "hs \<in> offered (ServicesPage url_host date_parse now n pd (ss_page s))"
    and "perform (services_do pt) hs s = (t, es)"
  shows "services_inv t"
  using assms(2)
proof (rule fires_fair)
  show "hs = [] \<Longrightarrow> services_inv t" using assms by simp
  show "\<And>a. hs = [a] \<Longrightarrow> fair_act (ss_page s) a \<Longrightarrow> services_inv t"
    using services_do_inv assms by simp
qed

lemma services_step_inv:
  assumes "services_step url_host date_parse s l t" "services_inv s"
  shows "services_inv t"
  using assms(1)
proof (rule services_stepE)
  show "\<And>hs now pt es. l = Fires hs es \<Longrightarrow>
      hs \<in> offered (ServicesPage url_host date_parse now (ss_render s) (ss_pull s) (ss_page s)) \<Longrightarrow>
      perform (services_do pt) hs s = (t, es) \<Longrightarrow> services_inv t"
    using fires_inv [OF assms(2)] by blast
  show "\<And>outs pt es d. l = Pull_Event outs es \<Longrightarrow> on_done (ss_pull s) = (d, outs) \<Longrightarrow>
      perform (services_do pt) (restart_calls outs) (s\<lparr>ss_pull := d\<rparr>) = (t, es) \<Longrightarrow> services_inv t"
  proof -
    fix outs pt es d
    have "services_inv (s\<lparr>ss_pull := d\<rparr>)" using assms(2) by (simp add: services_inv_def)
    then show "perform (services_do pt) (restart_calls outs) (s\<lparr>ss_pull := d\<rparr>) = (t, es) \<Longrightarrow> services_inv t"
      by (rule restarts_inv)
  qed
qed (use assms(2) answered_inv in \<open>auto simp: services_inv_def flags_overview\<close>)

interpretation services: session_invariant "services_step url_host date_parse" "services_session_init ls" services_inv
proof
  show "services_inv (services_session_init ls)"
    by (simp add: services_inv_def services_session_init_def services_init_def page_flags_def flags_ok_def)
  fix s l t
  show "services_inv s \<Longrightarrow> services_step url_host date_parse s l t \<Longrightarrow> services_inv t"
    using services_step_inv by blast
qed

section \<open>The requests that change a service\<close>

definition action_url :: "string \<Rightarrow> string \<Rightarrow> string" where
  "action_url act unit = ''/api/'' @ act @ ''/'' @ unit"

lemma action_url_inject:
  "CHR ''/'' \<notin> set a \<Longrightarrow> CHR ''/'' \<notin> set b \<Longrightarrow> action_url a u = action_url b v \<longleftrightarrow> a = b \<and> u = v"
  by (auto simp: action_url_def append_eq_append_conv2 Cons_eq_append_conv append_eq_Cons_conv)

text \<open>The POST an act makes.\<close>

fun act_post :: "services_act \<Rightarrow> string option" where
  "act_post (Do_Action unit act) = Some (action_url act unit)"
| "act_post (Stop_And_Disable unit name) = Some (action_url ''stop'' unit)"
| "act_post (Bulk Bulk_Stop) = Some ''/api/stop-all''"
| "act_post (Bulk Bulk_Start) = Some ''/api/start-all''"
| "act_post _ = None"

lemma do_post:
  "services_do pt a s = (t, es) \<Longrightarrow> Fetch ''POST'' url None \<in> set es \<longleftrightarrow> act_post a = Some url"
  by (cases a rule: act_post.cases)
    (auto simp: services_do_def doAction_def stopAndDisable_def doBulkAction_def toggleAutoStart_def
      saveConfig_def action_url_def split: option.splits)

lemma answered_no_post:
  "services_answered q a s = Some (p, es, next) \<Longrightarrow> Fetch ''POST'' url None \<notin> set es"
  by (cases "(q, a, s)" rule: services_answered.cases)
    (auto simp: doAction_settle_def stop_settle_def disable_settle_def toggleAutoStart_settle_def
      saveConfig_settle_def doBulkAction_settle_def refetch_start_def Let_def
      split: outcome.splits option.splits if_splits)

lemma do_page: "services_do pt a s = (t, es) \<Longrightarrow> page_flags (ss_page t) = flags_after a (page_flags (ss_page s))"
  using dispatch_flags [of pt a "ss_page s"] by (auto simp: services_do_def split: prod.splits)

text \<open>A stream event restarts at most the unit of the open stream, which asked for it.\<close>

lemma on_done_restarts:
  assumes "on_done p = (d, outs)"
  shows "restart_calls outs = [] \<or>
    (\<exists>x. pd_source p = Some x \<and> pp_autoRestart x \<and> restart_calls outs = [Do_Action (pp_unit x) ''restart''])"
  using assms by (auto simp: on_done_def restart_calls_def vwhen_def split: option.splits if_splits)

lemma post_url_eqs [simp]:
  "action_url ''restart'' u \<noteq> action_url ''stop'' v" "action_url ''start'' u \<noteq> action_url ''stop'' v"
  "action_url ''stop'' u \<noteq> action_url ''restart'' v" "action_url ''start'' u \<noteq> action_url ''restart'' v"
  "(action_url a u = action_url a v) = (u = v)"
  "action_url ''stop'' u \<noteq> ''/api/stop-all''" "action_url ''stop'' u \<noteq> ''/api/start-all''"
  "action_url ''restart'' u \<noteq> ''/api/stop-all''" "action_url ''restart'' u \<noteq> ''/api/start-all''"
  "action_url ''start'' u \<noteq> ''/api/stop-all''"
  by (simp_all add: action_url_def)

text \<open>The guards of an act for the requests that are traced.\<close>

lemma fair_stop:
  assumes "fair_act s a" "\<forall>c. sp_confirmAction s = Some c \<longrightarrow> ca_action c = ''stop''" "act_post a = Some (action_url ''stop'' u)"
  shows "(\<exists>n. a = Stop_And_Disable u n) \<or> a = Do_Action u ''stop'' \<and> (\<exists>c. sp_confirmAction s = Some c \<and> ca_unit c = u)"
  using assms by (cases a rule: act_post.cases) (auto simp: post_url_eqs(6-10) [symmetric])

lemma fair_stop_all:
  assumes "fair_act s a" "\<forall>c. sp_confirmAction s = Some c \<longrightarrow> ca_action c = ''stop''" "act_post a = Some ''/api/stop-all''"
  shows "a = Bulk Bulk_Stop \<and> sp_confirmBulkStop s"
  using assms by (cases a rule: act_post.cases) (auto simp: post_url_eqs(6-10) [symmetric])

lemma fair_restart:
  assumes "fair_act s a" "\<forall>c. sp_confirmAction s = Some c \<longrightarrow> ca_action c = ''stop''" "act_post a = Some (action_url ''restart'' u)"
  shows "a = Do_Action u ''restart''"
  using assms by (cases a rule: act_post.cases) (auto simp: post_url_eqs(6-10) [symmetric])

section \<open>Origins\<close>

definition fires_act :: "(services_act \<Rightarrow> bool) \<Rightarrow> services_label \<Rightarrow> bool" where
  "fires_act P l \<longleftrightarrow> (\<exists>hs es. l = Fires hs es \<and> (\<exists>a \<in> set hs. P a))"

definition posts :: "string \<Rightarrow> services_label \<Rightarrow> bool" where
  "posts url l \<longleftrightarrow> Fetch ''POST'' url None \<in> set (services_effects l)"

lemma fires_act_simps [simp]:
  "fires_act P (Fires hs es) \<longleftrightarrow> (\<exists>a \<in> set hs. P a)" "\<not> fires_act P (Answered q es)"
  "\<not> fires_act P Overview_News" "\<not> fires_act P (Failure_News es)" "\<not> fires_act P (Rendered outs)"
  "\<not> fires_act P (Pull_Event outs es)"
  by (auto simp: fires_act_def)

text \<open>
  Every step is one of three kinds for the flags: an act the page allows, made by the user
  or, a restart, by the stream; an answer, which sends no POST and opens no dialog; or
  anything else, which leaves flags and requests alone.
\<close>

lemma services_step_kinds:
  assumes "services_step url_host date_parse s l t" "services_inv s"
  obtains (act) a pt es where "fair_act (ss_page s) a" "services_do pt a s = (t, es)"
      "page_flags (ss_page t) = flags_after a (page_flags (ss_page s))"
      "posts url l \<longleftrightarrow> act_post a = Some url" "l = Fires [a] es"
  | (quiet) "\<not> posts url l" "sp_confirmAction (ss_page t) = sp_confirmAction (ss_page s)" "sp_confirmBulkStop (ss_page t) = sp_confirmBulkStop (ss_page s)"
  | (restart) x es outs where "pd_source (ss_pull s) = Some x" "pp_autoRestart x" "l = Pull_Event outs es"
      "posts url l \<longleftrightarrow> url = action_url ''restart'' (pp_unit x)"
      "page_flags (ss_page t) = flags_after (Do_Action (pp_unit x) ''restart'') (page_flags (ss_page s))"
  using assms(1)
proof (rule services_stepE)
  fix hs now pt es
  assume l: "l = Fires hs es"
    and off: "hs \<in> offered (ServicesPage url_host date_parse now (ss_render s) (ss_pull s) (ss_page s))"
    and p: "perform (services_do pt) hs s = (t, es)"
  from off show thesis
  proof (rule fires_fair)
    assume "hs = []"
    then show thesis using p l by (intro quiet) (auto simp: posts_def)
  next
    fix a
    assume a: "hs = [a]" "fair_act (ss_page s) a"
    with p have d: "services_do pt a s = (t, es)" by simp
    show thesis
      using a d l do_page [OF d] do_post [OF d, of url] by (intro act [of a pt es]) (auto simp: posts_def)
  qed
next
  fix q a p es nxt
  assume "l = Answered q es" "services_answered q a (ss_page s) = Some (p, es, nxt)"
    and "t = s\<lparr>ss_page := p, ss_pending := nxt @ remove1 q (ss_pending s)\<rparr>"
  moreover obtain c b k l where f: "page_flags (ss_page s) = (c, b, k, l)" by (metis prod_cases4)
  ultimately show thesis
    using answered_no_post [of q a "ss_page s"] answered_flags(2) [of q a "ss_page s" p es nxt c b k l]
    by (intro quiet) (auto simp: posts_def page_flags_def)
next
  fix pt es d outs
  assume l: "l = Pull_Event outs es" and don: "on_done (ss_pull s) = (d, outs)"
    and p: "perform (services_do pt) (restart_calls outs) (s\<lparr>ss_pull := d\<rparr>) = (t, es)"
  from on_done_restarts [OF don] show thesis
  proof (elim disjE exE conjE)
    assume "restart_calls outs = []"
    then show thesis using p l by (intro quiet) (auto simp: posts_def)
  next
    fix x
    assume x: "pd_source (ss_pull s) = Some x" "pp_autoRestart x" "restart_calls outs = [Do_Action (pp_unit x) ''restart'']"
    with p have d: "services_do pt (Do_Action (pp_unit x) ''restart'') (s\<lparr>ss_pull := d\<rparr>) = (t, es)" by simp
    show thesis
      using x l do_page [OF d] do_post [OF d, of url] by (intro restart [of x outs es]) (auto simp: posts_def)
  qed
qed (auto simp: posts_def failure_toast_def flags_overview [unfolded page_flags_eq] intro!: quiet)

lemma inv_confirms_stop: "services_inv s \<Longrightarrow> \<forall>c. sp_confirmAction (ss_page s) = Some c \<longrightarrow> ca_action c = ''stop''"
  by (auto simp: services_inv_def flags_ok_def page_flags_def)

lemma confirm_after:
  assumes "page_flags t = flags_after a (page_flags s)" "sp_confirmAction t = Some c"
  shows "sp_confirmAction s = Some c \<or> (\<exists>n. a = Stop_Confirm (ca_unit c) n) \<or> a = Set_Confirm_Action (Some c)"
  using assms by (cases a) (auto simp: page_flags_def)

lemma bulk_after:
  assumes "page_flags t = flags_after a (page_flags s)" "sp_confirmBulkStop t"
  shows "sp_confirmBulkStop s \<or> a = Set_Confirm_Bulk True"
  using assms by (cases a) (auto simp: page_flags_def)

lemma consumed_after:
  assumes "page_flags t = flags_after a (page_flags s)"
  shows "a = Do_Action u act \<Longrightarrow> sp_confirmAction t = None" "a = Bulk b \<Longrightarrow> \<not> sp_confirmBulkStop t"
  using assms by (auto simp: page_flags_def)

abbreviation confirming :: "string \<Rightarrow> services_session \<Rightarrow> bool" where
  "confirming u s \<equiv> \<exists>c. sp_confirmAction (ss_page s) = Some c \<and> ca_unit c = u"

lemma stop_step:
  assumes "services_step url_host date_parse s l t" "services_inv s"
  shows "(confirming u t \<longrightarrow> confirming u s \<or> fires_act (\<lambda>a. \<exists>n. a = Stop_Confirm u n) l)
    \<and> (posts (action_url ''stop'' u) l \<longrightarrow>
      fires_act (\<lambda>a. \<exists>n. a = Stop_And_Disable u n) l \<or> confirming u s \<and> \<not> confirming u t)"
proof (rule services_step_kinds [OF assms, of "action_url ''stop'' u"])
  fix a pt es
  assume a: "fair_act (ss_page s) a" "page_flags (ss_page t) = flags_after a (page_flags (ss_page s))"
    and l: "l = Fires [a] es" and post: "posts (action_url ''stop'' u) l \<longleftrightarrow> act_post a = Some (action_url ''stop'' u)"
  have "confirming u s \<or> (\<exists>n. a = Stop_Confirm u n)" if t: "confirming u t"
  proof -
    obtain c where c: "sp_confirmAction (ss_page t) = Some c" "ca_unit c = u" using t by blast
    have "a \<noteq> Set_Confirm_Action (Some c)" using a(1) by auto
    then show ?thesis using confirm_after [OF a(2) c(1)] c(2) by blast
  qed
  moreover have "(\<exists>n. a = Stop_And_Disable u n) \<or> confirming u s \<and> \<not> confirming u t"
    if "act_post a = Some (action_url ''stop'' u)"
    using fair_stop [OF a(1) inv_confirms_stop [OF assms(2)] that]
  proof (elim disjE conjE)
    assume "a = Do_Action u ''stop''" "confirming u s"
    then show ?thesis using consumed_after(1) [OF a(2)] by simp
  qed simp
  ultimately show ?thesis unfolding l post [unfolded l] by simp
next
  fix x es outs
  assume "page_flags (ss_page t) = flags_after (Do_Action (pp_unit x) ''restart'') (page_flags (ss_page s))"
    and "posts (action_url ''stop'' u) l \<longleftrightarrow> action_url ''stop'' u = action_url ''restart'' (pp_unit x)"
  then show ?thesis using consumed_after(1) by simp
qed simp

lemma bulk_step:
  assumes "services_step url_host date_parse s l t" "services_inv s"
  shows "(sp_confirmBulkStop (ss_page t) \<longrightarrow>
      sp_confirmBulkStop (ss_page s) \<or> fires_act (\<lambda>a. a = Set_Confirm_Bulk True) l)
    \<and> (posts ''/api/stop-all'' l \<longrightarrow> sp_confirmBulkStop (ss_page s) \<and> \<not> sp_confirmBulkStop (ss_page t))"
proof (rule services_step_kinds [OF assms, of "''/api/stop-all''"])
  fix a pt es
  assume a: "fair_act (ss_page s) a" "page_flags (ss_page t) = flags_after a (page_flags (ss_page s))"
    and l: "l = Fires [a] es" and post: "posts ''/api/stop-all'' l \<longleftrightarrow> act_post a = Some ''/api/stop-all''"
  show ?thesis
    using bulk_after [OF a(2)] fair_stop_all [OF a(1) inv_confirms_stop [OF assms(2)]] consumed_after(2) [OF a(2)] post
    by (auto simp: l)
next
  fix x es outs
  assume f: "page_flags (ss_page t) = flags_after (Do_Action (pp_unit x) ''restart'') (page_flags (ss_page s))"
    and "posts ''/api/stop-all'' l \<longleftrightarrow> ''/api/stop-all'' = action_url ''restart'' (pp_unit x)"
  then show ?thesis using bulk_after [OF f] by (auto simp: post_url_eqs(6-10) [symmetric])
qed simp

interpretation stops: one_shot "services_step url_host date_parse" "services_session_init ls" services_inv
  confirming "\<lambda>u. fires_act (\<lambda>a. \<exists>n. a = Stop_Confirm u n)" "\<lambda>u. posts (action_url ''stop'' u)"
  "\<lambda>u. fires_act (\<lambda>a. \<exists>n. a = Stop_And_Disable u n)"
proof
  show "\<not> confirming u (services_session_init ls)" for u
    by (simp add: services_session_init_def services_init_def)
qed (use stop_step in blast)+

interpretation bulk_stops: one_shot "services_step url_host date_parse" "services_session_init ls" services_inv
  "\<lambda>u::unit. \<lambda>s. sp_confirmBulkStop (ss_page s)" "\<lambda>u. fires_act (\<lambda>a. a = Set_Confirm_Bulk True)" "\<lambda>u. posts ''/api/stop-all''"
  "\<lambda>u l. False"
proof
  show "\<not> sp_confirmBulkStop (ss_page (services_session_init ls))" for u :: unit
    by (simp add: services_session_init_def services_init_def)
qed (use bulk_step in blast)+

section \<open>Automatic restarts\<close>

text \<open>A restart after a pull is armed for a unit: by the request of the page or in the stream that runs.\<close>

definition armed :: "string \<Rightarrow> services_session \<Rightarrow> bool" where
  "armed u s \<longleftrightarrow> pr_autoRestart (sp_pull (ss_page s)) \<and> pr_unit (sp_pull (ss_page s)) = u
     \<or> (\<exists>x. pd_source (ss_pull s) = Some x \<and> pp_autoRestart x \<and> pp_unit x = u)"

lemma dispatch_pull:
  assumes "pr_autoRestart (sp_pull (fst (services_dispatch pt a s)))" "pr_unit (sp_pull (fst (services_dispatch pt a s))) = u"
  shows "pr_autoRestart (sp_pull s) \<and> pr_unit (sp_pull s) = u \<or> a = Trigger_Update u"
  using assms
  by (cases a) (auto simp: stopAndDisable_def doAction_def doBulkAction_def toggleViewMode_def triggerUpdate_def
      pull_of_def Let_def split: option.splits)

lemma do_armed:
  assumes "services_do pt a s = (t, es)" "armed u t"
  shows "armed u s \<or> a = Trigger_Update u"
proof -
  have t: "ss_page t = fst (services_dispatch pt a (ss_page s))" "ss_pull t = ss_pull s"
    using assms(1) by (auto simp: services_do_def split: prod.splits)
  then show ?thesis using assms(2) dispatch_pull [of pt a "ss_page s" u] by (auto simp: armed_def)
qed

lemma answered_pull: "services_answered q a s = Some (p, es, next) \<Longrightarrow> sp_pull p = sp_pull s"
  by (cases "(q, a, s)" rule: services_answered.cases)
    (auto simp: doAction_settle_def stop_settle_def disable_settle_def toggleAutoStart_settle_def
      saveConfig_settle_def doBulkAction_settle_def refetch_settle_def update_unit_def Let_def
      split: outcome.splits option.splits if_splits)

lemma overview_pull:
  "sp_pull (on_overview_data d s) = sp_pull s" "sp_pull (on_overview_error e s) = sp_pull s"
  by (simp_all add: on_overview_data_def on_overview_error_def split: option.split)

lemma stream_source:
  "on_log line p = (d, outs) \<Longrightarrow> pd_source d = pd_source p"
  "on_done p = (d, outs) \<Longrightarrow> pd_source d = None"
  "on_pull_error msg p = (d, outs) \<Longrightarrow> pd_source d = None"
  by (auto simp: on_log_def on_done_def on_pull_error_def split: option.splits)

lemma render_source:
  "pull_render x p = (d, outs) \<Longrightarrow> pd_source d = Some y \<Longrightarrow> pd_source p = Some y \<or> y = x"
  by (auto simp: pull_render_def pull_cleanup_def pull_effect_def Let_def split: if_splits prod.splits)

lemma armed_step:
  assumes "services_step url_host date_parse s l t" "armed u t"
  shows "armed u s \<or> fires_act (\<lambda>a. a = Trigger_Update u) l"
  using assms(1)
proof (rule services_stepE)
  fix hs now pt es
  assume l: "l = Fires hs es"
    and off: "hs \<in> offered (ServicesPage url_host date_parse now (ss_render s) (ss_pull s) (ss_page s))"
    and p: "perform (services_do pt) hs s = (t, es)"
  from off show ?thesis
  proof (rule fires_fair)
    show "hs = [] \<Longrightarrow> ?thesis" using p assms(2) by simp
    fix a
    assume "hs = [a]"
    with p l do_armed [of pt a s t es, OF _ assms(2)] show ?thesis by auto
  qed
next
  fix pt es d outs
  assume don: "on_done (ss_pull s) = (d, outs)"
    and p: "perform (services_do pt) (restart_calls outs) (s\<lparr>ss_pull := d\<rparr>) = (t, es)"
  have "armed u (s\<lparr>ss_pull := d\<rparr>)"
    using on_done_restarts [OF don]
  proof (elim disjE exE conjE)
    fix x
    assume "restart_calls outs = [Do_Action (pp_unit x) ''restart'']"
    with p do_armed [of pt "Do_Action (pp_unit x) ''restart''" "s\<lparr>ss_pull := d\<rparr>" t es u] assms(2)
    show ?thesis by simp
  qed (use p assms(2) in simp)
  then show ?thesis using stream_source(2) [OF don] by (auto simp: armed_def)
next
  fix d outs
  assume "t = s\<lparr>ss_render := Suc (ss_render s), ss_pull := d\<rparr>"
    and "pull_render (pull_props (Suc (ss_render s)) (ss_page s)) (ss_pull s) = (d, outs)"
  then show ?thesis using assms(2) render_source by (fastforce simp: armed_def pull_props_def)
next
  fix line d outs
  assume "t = s\<lparr>ss_pull := d\<rparr>" "on_log line (ss_pull s) = (d, outs)"
  then show ?thesis using assms(2) stream_source(1) by (simp add: armed_def)
qed (use assms(2) in \<open>auto simp: armed_def overview_pull dest: answered_pull stream_source(2,3)\<close>)

lemma restart_step:
  assumes "services_step url_host date_parse s l t" "services_inv s" "posts (action_url ''restart'' u) l"
  shows "fires_act (\<lambda>a. a = Do_Action u ''restart'') l \<or> armed u s"
proof (rule services_step_kinds [OF assms(1,2), of "action_url ''restart'' u"])
  fix a pt es
  assume "fair_act (ss_page s) a" "posts (action_url ''restart'' u) l \<longleftrightarrow> act_post a = Some (action_url ''restart'' u)"
    and "l = Fires [a] es"
  then show ?thesis using fair_restart [OF _ inv_confirms_stop [OF assms(2)]] assms(3) by auto
qed (use assms(3) in \<open>auto simp: armed_def\<close>)

interpretation restarts: traceback "services_step url_host date_parse" "services_session_init ls" services_inv
  armed "\<lambda>u. fires_act (\<lambda>a. a = Trigger_Update u)" "\<lambda>u. posts (action_url ''restart'' u)"
  "\<lambda>u. fires_act (\<lambda>a. a = Do_Action u ''restart'')"
proof
  show "\<not> armed u (services_session_init ls)" for u
    by (simp add: armed_def services_session_init_def services_init_def pull_dialog_init_def)
qed (use armed_step restart_step in blast)+

end
