(* ===== verification/Services_Traces.thy ===== *)
theory Services_Traces
  imports Services_Session
begin

text \<open>
  The properties of a session on the services page, with a concrete session for each.
\<close>

section \<open>A concrete session\<close>

definition updatable_service :: ServiceInfo where
  "updatable_service = (sample_service ''a'' ''active'' 0)\<lparr>si_update_available := True\<rparr>"

definition shown_session :: services_session where
  "shown_session = (services_session_init empty_storage)
     \<lparr>ss_page := (services_init empty_storage)\<lparr>sp_services := Some [updatable_service]\<rparr>\<rparr>"

abbreviation sample_step :: "services_session \<Rightarrow> services_label \<Rightarrow> services_session \<Rightarrow> bool" where
  "sample_step \<equiv> services_step (\<lambda>u. None) (\<lambda>d. None)"

abbreviation sample_run :: "services_label list \<Rightarrow> services_session \<Rightarrow> bool" where
  "sample_run \<equiv> run sample_step (services_session_init empty_storage)"

lemma shown_run: "sample_run [Overview_News] shown_session"
proof -
  have "shown_session = (services_session_init empty_storage)
      \<lparr>ss_page := on_overview_data (Some [updatable_service]) (ss_page (services_session_init empty_storage))\<rparr>"
    by (simp add: shown_session_def services_session_init_def on_overview_data_def)
  then have "sample_step (services_session_init empty_storage) Overview_News shown_session"
    by (metis overview_data)
  with run_start show ?thesis by (rule run_step)
qed

lemma shown_page:
  "sp_viewMode (ss_page shown_session) = Table_View"
  "services_rows (ss_page shown_session) = Some [toRow updatable_service]"
  "services_sorted (ss_page shown_session) = [toRow updatable_service]"
  by (simp_all add: shown_session_def services_init_def loadViewMode_def empty_storage_def getItem_def
      services_rows_def services_sorted_def sorted_rows_def filtered_def table_init_def js_sort_def)

lemma row_offers:
  "menu_actions (row_menu_item r) buildMenuCallbacks \<subseteq> offered (service_row h p now r)"
  "row_update_available r \<Longrightarrow> [Trigger_Update (row_unit_name r)] \<in> offered (service_row h p now r)"
  by (auto simp: service_row_def icon_cell_def name_cell_def view_simps offered_menu)

lemma page_row_offers:
  assumes "sp_viewMode s = Table_View" "services_rows s = Some (x # xs)" "r \<in> set (services_sorted s)"
  shows "offered (service_row h p now r) \<subseteq> offered (ServicesPage h p now n pd s)"
proof -
  let ?t = "ServicesTableContent h p now (sortDescriptor (sp_table s)) (services_sorted s)"
  have "offered (service_row h p now r) \<subseteq> offered ?t"
    using assms(3) by (auto simp: ServicesTableContent_def view_simps)
  also have "\<dots> \<subseteq> offered (ServicesPage h p now n pd s)"
    unfolding ServicesPage_def
    by (rule offered_children) (simp_all add: assms(1,2) services_children_def)
  finally show ?thesis .
qed

lemma shown_offers:
  "hs \<in> offered (service_row (\<lambda>u. None) (\<lambda>d. None) 0 (toRow updatable_service)) \<Longrightarrow>
     hs \<in> offered (ServicesPage (\<lambda>u. None) (\<lambda>d. None) 0 (ss_render shown_session) (ss_pull shown_session) (ss_page shown_session))"
  by (rule subsetD [OF page_row_offers [OF shown_page(1,2)]]) (simp_all add: shown_page(3))

lemma shown_stop: "[Stop_Confirm ''a.service'' ''a''] \<in> offered (service_row h p now (toRow updatable_service))"
  by (rule subsetD [OF row_offers(1)])
    (simp add: menu_actions_def buildEntries_def buildMenuCallbacks_def row_menu_item_def card_item_def row_card_def
      toRow_def updatable_service_def ServiceActionItem.defs Let_def)

lemma shown_update: "[Trigger_Update ''a.service''] \<in> offered (service_row h p now (toRow updatable_service))"
  using row_offers(2) [of "toRow updatable_service"] by (simp add: toRow_def updatable_service_def)

definition asked_session :: services_session where
  "asked_session = fst (services_do (0, 0) (Stop_Confirm ''a.service'' ''a'') shown_session)"

definition stop_run :: "services_label list" where
  "stop_run =
     [Fires [Do_Action ''a.service'' ''stop''] [Fetch ''POST'' ''/api/stop/a.service'' None],
      Fires [Stop_Confirm ''a.service'' ''a''] [],
      Overview_News]"

lemma stop_session: "\<exists>s. sample_run stop_run s"
proof -
  have "sample_step shown_session (Fires [Stop_Confirm ''a.service'' ''a''] []) asked_session"
    using shown_offers [OF shown_stop] by (rule fires) (simp add: asked_session_def services_do_def)
  with shown_run have asked: "sample_run [Fires [Stop_Confirm ''a.service'' ''a''] [], Overview_News] asked_session"
    by (rule run_step)
  let ?d = "action_dialog
       \<lparr>cd_totalCount = totalCount (services_rows (ss_page asked_session)), cd_confirmBulkStop = sp_confirmBulkStop (ss_page asked_session),
        cd_setConfirmBulkStop = Set_Confirm_Bulk, cd_confirmAction = sp_confirmAction (ss_page asked_session),
        cd_setConfirmAction = Set_Confirm_Action, cd_onConfirmBulkStop = Bulk Bulk_Stop,
        cd_onConfirmAction = (\<lambda>a. Do_Action (ca_unit a) (ca_action a))\<rparr>"
  have "[Do_Action ''a.service'' ''stop''] \<in> offered ?d"
    by (simp add: action_dialog_def Let_def asked_session_def services_do_def view_simps)
  moreover have "offered ?d \<subseteq> offered (ServicesPage h p now n pd (ss_page asked_session))" for h p now n pd
    unfolding ServicesPage_def
    by (rule offered_children [where r = "toRow updatable_service" and rs = "[]"])
      (simp_all add: services_children_def services_dialogs_def ConfirmDialogs_def asked_session_def services_do_def
        services_rows_def shown_session_def)
  ultimately have "[Do_Action ''a.service'' ''stop'']
      \<in> offered (ServicesPage (\<lambda>u. None) (\<lambda>d. None) 0 (ss_render asked_session) (ss_pull asked_session) (ss_page asked_session))"
    by blast
  then have "sample_step asked_session (hd stop_run) (fst (services_do (0, 0) (Do_Action ''a.service'' ''stop'') asked_session))"
    unfolding stop_run_def list.sel by (rule fires) (simp add: services_do_def doAction_def)
  with asked show ?thesis unfolding stop_run_def list.sel by (blast intro: run_step)
qed

section \<open>Stops were asked for\<close>

text \<open>C8. In any session on the services page, whatever the user fires, however answers, timers, polls and
  stream events fall: a request to stop a unit goes out only in a Stop and Disable of that unit, or after the user
  chose its Stop entry, and then no more often than the entry was chosen; a request to stop all goes
  out only after the user asked for the bulk dialog, no more often than asked.\<close>

theorem stop_was_asked:
  assumes "run (services_step url_host date_parse) (services_session_init ls) (later @ l # earlier) s"
  shows "(posts (action_url ''stop'' u) l \<longrightarrow>
      fires_act (\<lambda>a. \<exists>n. a = Stop_And_Disable u n) l
      \<or> (\<exists>l' \<in> set earlier. fires_act (\<lambda>a. \<exists>n. a = Stop_Confirm u n) l'))
    \<and> length (filter (\<lambda>l. posts (action_url ''stop'' u) l \<and> \<not> fires_act (\<lambda>a. \<exists>n. a = Stop_And_Disable u n) l) (later @ l # earlier))
      \<le> length (filter (fires_act (\<lambda>a. \<exists>n. a = Stop_Confirm u n)) (later @ l # earlier))
    \<and> (posts ''/api/stop-all'' l \<longrightarrow> (\<exists>l' \<in> set earlier. fires_act (\<lambda>a. a = Set_Confirm_Bulk True) l'))
    \<and> length (filter (posts ''/api/stop-all'') (later @ l # earlier))
      \<le> length (filter (fires_act (\<lambda>a. a = Set_Confirm_Bulk True)) (later @ l # earlier))"
  using stops.issue_traced [OF assms, of u] stops.issues_bounded [OF assms, of u]
    bulk_stops.issue_traced [OF assms] bulk_stops.issues_bounded [OF assms]
  by simp

theorem stop_was_asked_witness:
  "\<exists>l' \<in> set (tl stop_run). fires_act (\<lambda>a. \<exists>n. a = Stop_Confirm ''a.service'' n) l'"
proof -
  obtain s where "sample_run ([] @ hd stop_run # tl stop_run) s"
    using stop_session by (auto simp: stop_run_def)
  from stop_was_asked [OF this, of "''a.service''"] show ?thesis
    by (simp add: stop_run_def posts_def action_url_def)
qed

section \<open>Restarts were asked for\<close>

text \<open>C9. In any session a request to restart a unit goes out only when the user fires its Restart entry or,
  from the stream of a pull, after the user clicked the update marker of that unit.\<close>

theorem restart_was_asked:
  assumes "run (services_step url_host date_parse) (services_session_init ls) (later @ l # earlier) s"
    and "posts (action_url ''restart'' u) l"
  shows "fires_act (\<lambda>a. a = Do_Action u ''restart'') l
    \<or> (\<exists>outs es. l = Pull_Event outs es) \<and> (\<exists>l' \<in> set earlier. fires_act (\<lambda>a. a = Trigger_Update u) l')"
proof -
  obtain s1 t where s1: "run (services_step url_host date_parse) (services_session_init ls) earlier s1"
    and st: "services_step url_host date_parse s1 l t"
    using assms(1) by (rule run_at)
  have "fires_act (\<lambda>a. a = Do_Action u ''restart'') l \<or> (\<exists>outs es. l = Pull_Event outs es)"
  proof (rule services_step_kinds [OF st services.run_inv [OF s1], of "action_url ''restart'' u"])
    fix a pt es
    assume "fair_act (ss_page s1) a" "posts (action_url ''restart'' u) l \<longleftrightarrow> act_post a = Some (action_url ''restart'' u)"
      and "l = Fires [a] es"
    then show ?thesis using fair_restart [OF _ inv_confirms_stop [OF services.run_inv [OF s1]]] assms(2) by auto
  qed (use assms(2) in auto)
  then show ?thesis using restarts.issue_traced [OF assms] by blast
qed

definition restart_run :: "services_label list" where
  "restart_run =
     [Pull_Event [Close_Stream, Pull_Toast Success ''Pull complete: a'', Call_onRestart ''a.service'']
        [Fetch ''POST'' ''/api/restart/a.service'' None],
      Rendered [Open_Stream ''/api/services/a.service/pull-stream''],
      Fires [Trigger_Update ''a.service''] [],
      Overview_News]"

lemma restart_session: "\<exists>s. sample_run restart_run s"
proof -
  let ?a = "fst (services_do (0, 0) (Trigger_Update ''a.service'') shown_session)"
  let ?x = "pull_props (Suc (ss_render ?a)) (ss_page ?a)"
  let ?b = "?a\<lparr>ss_render := Suc (ss_render ?a), ss_pull := fst (pull_render ?x (ss_pull ?a))\<rparr>"
  let ?c = "?b\<lparr>ss_pull := fst (on_done (ss_pull ?b))\<rparr>"
  have name: "short_name ''a.service'' = ''a''"
    using strip_suffix_append [of "''.service''" "''a''"] by (simp add: short_name_def strip_prefix_def)
  have pull: "sp_pull (ss_page ?a) = \<lparr>pr_open = True, pr_unit = ''a.service'', pr_name = ''a'', pr_image = [], pr_autoRestart = True\<rparr>"
    by (simp add: services_do_def triggerUpdate_def find_service_def shown_session_def updatable_service_def name)
  have a_pull: "ss_pull ?a = pull_dialog_init"
    by (simp add: services_do_def shown_session_def services_session_init_def)
  have a: "sample_run [Fires [Trigger_Update ''a.service''] [], Overview_News] ?a"
  proof (rule run_step [OF shown_run])
    show "sample_step shown_session (Fires [Trigger_Update ''a.service''] []) ?a"
      using shown_offers [OF shown_update] by (rule fires) (simp add: services_do_def)
  qed
  have "pull_render ?x (ss_pull ?a) = (ss_pull ?b, [Open_Stream ''/api/services/a.service/pull-stream''])"
    using pull by (simp add: a_pull pull_defs pull_dialog_init_def pull_props_def pull_url_def Let_def)
  then have "sample_step ?a (Rendered [Open_Stream ''/api/services/a.service/pull-stream'']) ?b"
    by (metis (no_types) rendered fst_conv)
  with a have b: "sample_run (tl restart_run) ?b" unfolding restart_run_def list.sel by (rule run_step)
  have src: "pd_source (ss_pull ?b) = Some ?x" and auto: "pp_autoRestart ?x" "pp_unit ?x = ''a.service''" "pp_name ?x = ''a''"
    using pull by (simp_all add: a_pull pull_defs pull_dialog_init_def pull_props_def Let_def)
  have "on_done (ss_pull ?b) = (ss_pull ?c, [Close_Stream, Pull_Toast Success ''Pull complete: a'', Call_onRestart ''a.service''])"
    using src auto by (simp add: on_done_def)
  then have "sample_step ?b (hd restart_run) (fst (services_do (0, 0) (Do_Action ''a.service'' ''restart'') ?c))"
    unfolding restart_run_def list.sel
    by (rule pull_done) (simp add: restart_calls_def services_do_def doAction_def)
  with b have "sample_run (hd restart_run # tl restart_run) (fst (services_do (0, 0) (Do_Action ''a.service'' ''restart'') ?c))"
    by (rule run_step)
  then show ?thesis unfolding restart_run_def list.sel by (rule exI)
qed

theorem restart_was_asked_witness:
  "\<exists>l' \<in> set (tl restart_run). fires_act (\<lambda>a. a = Trigger_Update ''a.service'') l'"
proof -
  obtain s where "sample_run ([] @ hd restart_run # tl restart_run) s"
    using restart_session by (auto simp: restart_run_def)
  from restart_was_asked [OF this, of "''a.service''"] show ?thesis
    by (simp add: restart_run_def posts_def action_url_def)
qed

section \<open>Busy flags\<close>

text \<open>C10. In any session at most one bulk request is in flight and it is the one the buttons show, the bulk
  dialog is closed while it is, and a unit is busy only while a request of a unit handler is outstanding: once
  every answer is in, no spinner is left.\<close>

theorem busy_while_outstanding:
  assumes "run (services_step url_host date_parse) (services_session_init ls) trace s"
  shows "filter is_bulk (ss_pending s) = (case sp_bulkLoading (ss_page s) of None \<Rightarrow> [] | Some b \<Rightarrow> [Req_Bulk b])
    \<and> (sp_confirmBulkStop (ss_page s) \<longrightarrow> sp_bulkLoading (ss_page s) = None)
    \<and> (sp_loadingAction (ss_page s) \<noteq> None \<longrightarrow> (\<exists>q \<in> set (ss_pending s). is_unit_request q))
    \<and> (ss_pending s = [] \<longrightarrow> sp_bulkLoading (ss_page s) = None \<and> sp_loadingAction (ss_page s) = None)"
  using services.run_inv [OF assms]
  by (auto simp: services_inv_def flags_ok_def page_flags_def split: option.splits)

definition bulk_session :: services_session where
  "bulk_session = fst (services_do (0, 0) (Bulk Bulk_Start) shown_session)"

lemma bulk_session_run: "sample_run [Fires [Bulk Bulk_Start] [Fetch ''POST'' ''/api/start-all'' None], Overview_News] bulk_session"
proof (rule run_step [OF shown_run])
  let ?p = "ss_page shown_session"
  have "[Bulk Bulk_Start] \<in> offered (bulk_bar ?p)"
    by (simp add: bulk_bar_def offered_BulkControlBar shown_session_def services_init_def)
  also have "offered (bulk_bar ?p) \<subseteq> offered (ServicesPage (\<lambda>u. None) (\<lambda>d. None) 0 n pd ?p)" for n pd
    by (auto simp: ServicesPage_def PageShell_def shown_page(2) Let_def view_simps)
  finally show "sample_step shown_session (Fires [Bulk Bulk_Start] [Fetch ''POST'' ''/api/start-all'' None]) bulk_session"
    by (rule fires [where pt = "(0, 0)"]) (simp add: bulk_session_def services_do_def doBulkAction_def)
qed

theorem busy_while_outstanding_witness:
  "filter is_bulk (ss_pending bulk_session) = [Req_Bulk Bulk_Start] \<and> \<not> sp_confirmBulkStop (ss_page bulk_session)"
proof -
  have "sp_bulkLoading (ss_page bulk_session) = Some Bulk_Start"
    by (simp add: bulk_session_def services_do_def doBulkAction_def)
  then show ?thesis using busy_while_outstanding [OF bulk_session_run] by auto
qed

end
