(* ===== verification/Services_Forms.thy ===== *)
theory Services_Forms
  imports Services_Traces
begin

text \<open>
  The configuration sheet in a session on the services page: what it shows is a function of
  what the user did, and what is saved is what it shows.
\<close>

section \<open>The form\<close>

fun config_act :: "services_act \<Rightarrow> ServiceConfigDraft option \<Rightarrow> ServiceConfigDraft option" where
  "config_act (Configure item) f = Some (draft_of item)"
| "config_act (Set_Drawer d) f = d"
| "config_act _ f = f"

definition config_saved_note :: "ServiceConfigDraft \<Rightarrow> effect" where
  "config_saved_note d = Toast Success (''Configuration saved for '' @ cf_name d)"

fun config_after :: "services_label \<Rightarrow> ServiceConfigDraft option \<Rightarrow> ServiceConfigDraft option" where
  "config_after (Fires hs es) f = fold config_act hs f"
| "config_after (Answered (Req_Save d) es) f = (if config_saved_note d \<in> set es then None else f)"
| "config_after _ f = f"

abbreviation shown_config :: "services_session \<Rightarrow> ServiceConfigDraft option" where
  "shown_config s \<equiv> sp_configDrawer (ss_page s)"

lemma do_config: "services_do pt a s = (t, es) \<Longrightarrow> shown_config t = config_act a (shown_config s)"
  by (cases a) (auto simp: services_do_def stopAndDisable_def doAction_def doBulkAction_def toggleViewMode_def
      triggerUpdate_def Let_def split: option.splits)

lemma update_config: "sp_configDrawer (update_unit u f s) = sp_configDrawer s"
  by (simp add: update_unit_def)

lemma answered_config:
  assumes "services_answered q a s = Some (p, es, next)"
  shows "sp_configDrawer p = config_after (Answered q es) (sp_configDrawer s)"
  using assms
  by (cases "(q, a, s)" rule: services_answered.cases)
    (auto simp: doAction_settle_def stop_settle_def disable_settle_def toggleAutoStart_settle_def
      saveConfig_settle_def doBulkAction_settle_def refetch_settle_def update_config config_saved_note_def Let_def
      split: outcome.splits option.splits if_splits)

lemma overview_config:
  "sp_configDrawer (on_overview_data d s) = sp_configDrawer s" "sp_configDrawer (on_overview_error e s) = sp_configDrawer s"
  by (simp_all add: on_overview_data_def on_overview_error_def split: option.split)

lemma perform_config: "perform (services_do pt) hs s = (t, es) \<Longrightarrow> shown_config t = fold config_act hs (shown_config s)"
proof (induction hs arbitrary: s t es)
  case (Cons a hs)
  then show ?case by (auto simp: Let_def split: prod.splits dest: do_config)
qed simp

lemma restarts_keep_config: "fold config_act (restart_calls outs) f = f"
proof -
  have "\<forall>a \<in> set (restart_calls outs). \<forall>f. config_act a f = f"
    by (auto simp: restart_calls_def split: pull_out.splits)
  moreover have "\<forall>a \<in> set as. \<forall>f. config_act a f = f \<Longrightarrow> fold config_act as f = f" for as
    by (induction as arbitrary: f) auto
  ultimately show ?thesis by blast
qed

interpretation config_form: trace_view "services_step url_host date_parse" "services_session_init ls" services_inv
  shown_config config_after None
proof
  show "shown_config (services_session_init ls) = None"
    by (simp add: services_session_init_def services_init_def)
  fix s l t
  assume st: "services_step url_host date_parse s l t"
  then show "shown_config t = config_after l (shown_config s)"
  proof (rule services_stepE)
    fix pt es d outs
    assume "perform (services_do pt) (restart_calls outs) (s\<lparr>ss_pull := d\<rparr>) = (t, es)" "l = Pull_Event outs es"
    then show ?thesis by (simp add: perform_config restarts_keep_config)
  next
    fix q a p es nx
    assume "services_answered q a (ss_page s) = Some (p, es, nx)" "l = Answered q es"
      and "t = s\<lparr>ss_page := p, ss_pending := nx @ remove1 q (ss_pending s)\<rparr>"
    then show ?thesis using answered_config by simp
  qed (auto simp: overview_config perform_config)
qed

section \<open>What is saved\<close>

definition config_request :: "ServiceConfigDraft \<Rightarrow> effect" where
  "config_request d =
     Fetch ''PATCH'' (''/api/config/'' @ cf_unit d)
       (Some (JObj [(''order'', JNum (cf_boot_order d)), (''boot_delay'', JNum (cf_boot_delay d)),
          (''restart_delay'', JNum (cf_restart_delay d)),
          (''depends_on'', JArr (map JStr (parse_depends (cf_depends_on d))))]))"

definition is_config_request :: "effect \<Rightarrow> bool" where
  "is_config_request e \<longleftrightarrow> (\<exists>url x fs. e = Fetch ''PATCH'' url (Some (JObj ((''order'', x) # fs))))"

lemma is_config_request_simps [simp]:
  "is_config_request (config_request d)" "\<not> is_config_request (Toast k t)"
  "\<not> is_config_request (ToastDesc k t desc)" "\<not> is_config_request (After n t)"
  "\<not> is_config_request (Navigate p)" "\<not> is_config_request (Fetch ''POST'' url b)" "\<not> is_config_request (Fetch ''GET'' url b)"
  "\<not> is_config_request (Fetch m url (Some (JObj ((''enabled'', x) # fs))))"
  by (auto simp: is_config_request_def config_request_def)

lemma do_saves:
  assumes "services_do pt a s = (t, es)" "e \<in> set es" "is_config_request e"
  shows "a = Save_Config \<and> (\<exists>d. shown_config s = Some d \<and> e = config_request d)"
  using assms
  by (cases a) (auto simp: services_do_def stopAndDisable_def doAction_def doBulkAction_def toggleAutoStart_def saveConfig_def
      config_request_def split: option.splits)

lemma answered_saves: "services_answered q a s = Some (p, es, nx) \<Longrightarrow> e \<in> set es \<Longrightarrow> \<not> is_config_request e"
  by (cases "(q, a, s)" rule: services_answered.cases)
    (auto simp: doAction_settle_def stop_settle_def disable_settle_def toggleAutoStart_settle_def refetch_start_def
      saveConfig_settle_def doBulkAction_settle_def Let_def split: outcome.splits option.splits if_splits)

lemma step_saves:
  assumes "services_step url_host date_parse s l t" "e \<in> set (services_effects l)" "is_config_request e"
  shows "\<exists>d. shown_config s = Some d \<and> e = config_request d"
  using assms(1)
proof (rule services_stepE)
  fix hs now pt es
  assume "hs \<in> offered (ServicesPage url_host date_parse now (ss_render s) (ss_pull s) (ss_page s))"
    and "perform (services_do pt) hs s = (t, es)" "l = Fires hs es"
  then show ?thesis using assms(2,3) by (elim fires_fair) (auto dest: do_saves)
next
  fix pt es d outs
  assume "on_done (ss_pull s) = (d, outs)"
    and "perform (services_do pt) (restart_calls outs) (s\<lparr>ss_pull := d\<rparr>) = (t, es)" "l = Pull_Event outs es"
  then show ?thesis using assms(2,3) on_done_restarts [of "ss_pull s" d outs] by (auto dest: do_saves)
qed (use assms(2,3) answered_saves in \<open>auto simp: failure_toast_def\<close>)

lemma config_request_unit: "config_request d = config_request e \<Longrightarrow> cf_unit d = cf_unit e"
  by (simp add: config_request_def)

definition shows_unit :: "string \<Rightarrow> services_session \<Rightarrow> bool" where
  "shows_unit u s \<longleftrightarrow> (\<exists>d. shown_config s = Some d \<and> cf_unit d = u)"

definition configures :: "string \<Rightarrow> services_act \<Rightarrow> bool" where
  "configures u a \<longleftrightarrow> (\<exists>item. a = Configure item \<and> sa_unit_name item = u)"

lemma step_shows_unit:
  assumes "services_step url_host date_parse s l t" "services_inv s" "shows_unit u t"
  shows "shows_unit u s \<or> fires_act (configures u) l"
proof -
  have view: "shown_config t = config_after l (shown_config s)"
    using config_form.view_step [OF assms(2,1)] .
  show ?thesis
    using assms(1)
  proof (rule services_stepE)
    fix hs now pt es
    assume "hs \<in> offered (ServicesPage url_host date_parse now (ss_render s) (ss_pull s) (ss_page s))"
      and l: "l = Fires hs es"
    then show ?thesis
    proof (elim fires_fair)
      fix a
      assume "hs = [a]" "fair_act (ss_page s) a"
      then show ?thesis
        using view assms(3) l by (cases "(a, shown_config s)" rule: config_act.cases)
          (auto simp: shows_unit_def configures_def draft_of_def)
    qed (use view assms(3) l in \<open>simp add: shows_unit_def\<close>)
  next
    fix q a p es nx
    assume "l = Answered q es"
    then show ?thesis using view assms(3) by (cases q) (auto simp: shows_unit_def split: if_splits)
  qed (use view assms(3) in \<open>auto simp: shows_unit_def\<close>)
qed

interpretation config_units: traceback "services_step url_host date_parse" "services_session_init ls" services_inv
  shows_unit "\<lambda>u. fires_act (configures u)" "\<lambda>u l. \<exists>d. cf_unit d = u \<and> config_request d \<in> set (services_effects l)"
  "\<lambda>u l. False"
proof
  show "\<not> shows_unit u (services_session_init ls)" for u
    by (simp add: shows_unit_def services_session_init_def services_init_def)
  fix s l t u
  show "services_inv s \<Longrightarrow> services_step url_host date_parse s l t \<Longrightarrow> shows_unit u t \<Longrightarrow>
      shows_unit u s \<or> fires_act (configures u) l"
    using step_shows_unit by blast
  show "services_inv s \<Longrightarrow> services_step url_host date_parse s l t \<Longrightarrow>
      \<exists>d. cf_unit d = u \<and> config_request d \<in> set (services_effects l) \<Longrightarrow> False \<or> shows_unit u s"
    using step_saves [of url_host date_parse s l t] by (metis is_config_request_simps(1) config_request_unit shows_unit_def)
qed

text \<open>C14. In any session on the services page a configuration is saved only as the sheet shows it, which is as the
  user left it, for the unit whose Configure entry the user chose.\<close>

theorem saved_config_was_edited:
  assumes "run (services_step url_host date_parse) (services_session_init ls) (later @ l # earlier) s"
    and "e \<in> set (services_effects l)" "is_config_request e"
  shows "\<exists>d. foldr config_after earlier None = Some d \<and> e = config_request d
    \<and> (\<exists>l' \<in> set earlier. fires_act (configures (cf_unit d)) l')"
proof -
  obtain r t where r: "run (services_step url_host date_parse) (services_session_init ls) earlier r"
    and st: "services_step url_host date_parse r l t"
    using assms(1) by (rule run_at)
  obtain d where d: "shown_config r = Some d" "e = config_request d"
    using step_saves [OF st assms(2,3)] by blast
  then show ?thesis
    using config_form.view_run [OF r] config_units.asked_before [OF r, of "cf_unit d"] by (auto simp: shows_unit_def)
qed

definition configured_item :: ServiceActionItem where
  "configured_item = row_menu_item (toRow updatable_service)"

definition sheet_session :: services_session where
  "sheet_session = fst (services_do (0, 0) (Configure configured_item) shown_session)"

definition config_run :: "services_label list" where
  "config_run =
     [Fires [Save_Config] [config_request (draft_of configured_item)],
      Fires [Configure configured_item] [],
      Overview_News]"

lemma shown_configure: "[Configure configured_item] \<in> offered (service_row h p now (toRow updatable_service))"
  by (rule subsetD [OF row_offers(1)])
    (simp add: menu_actions_def buildEntries_def buildMenuCallbacks_def configured_item_def row_menu_item_def card_item_def
      row_card_def toRow_def updatable_service_def ServiceActionItem.defs Let_def)

lemma sheet_run: "sample_run (tl config_run) sheet_session"
  unfolding config_run_def list.sel
proof (rule run_step [OF shown_run])
  show "sample_step shown_session (Fires [Configure configured_item] []) sheet_session"
    using shown_offers [OF shown_configure] by (rule fires) (simp add: sheet_session_def services_do_def)
qed

lemma config_session: "sample_run config_run (fst (services_do (0, 0) Save_Config sheet_session))"
proof -
  let ?d = "ServiceConfigSheet (sp_configDrawer (ss_page sheet_session)) (\<lambda>d. Set_Drawer (Some d)) (Set_Drawer None) Save_Config"
  have "[Save_Config] \<in> offered ?d"
    by (simp add: sheet_session_def services_do_def ServiceConfigSheet_def view_simps)
  moreover have "offered ?d \<subseteq> offered (ServicesPage h p now n pd (ss_page sheet_session))" for h p now n pd
    unfolding ServicesPage_def
    by (rule offered_children [where r = "toRow updatable_service" and rs = "[]"])
      (simp_all add: services_children_def services_dialogs_def sheet_session_def services_do_def
        services_rows_def shown_session_def)
  ultimately have "[Save_Config]
      \<in> offered (ServicesPage (\<lambda>u. None) (\<lambda>d. None) 0 (ss_render sheet_session) (ss_pull sheet_session) (ss_page sheet_session))"
    by blast
  then have "sample_step sheet_session (hd config_run) (fst (services_do (0, 0) Save_Config sheet_session))"
    unfolding config_run_def list.sel
    by (rule fires) (simp add: services_do_def sheet_session_def saveConfig_def config_request_def)
  with sheet_run have "sample_run (hd config_run # tl config_run) (fst (services_do (0, 0) Save_Config sheet_session))"
    by (rule run_step)
  then show ?thesis by (simp add: config_run_def)
qed

theorem saved_config_was_edited_witness:
  "\<exists>d. foldr config_after (tl config_run) None = Some d \<and> config_request (draft_of configured_item) = config_request d
    \<and> (\<exists>l' \<in> set (tl config_run). fires_act (configures (cf_unit d)) l')"
proof -
  have "sample_run ([] @ hd config_run # tl config_run) (fst (services_do (0, 0) Save_Config sheet_session))"
    using config_session by (simp add: config_run_def)
  then show ?thesis by (rule saved_config_was_edited) (simp_all add: config_run_def)
qed

end
