(* ===== verification/Storage_Session.thy ===== *)
theory Storage_Session
  imports Storage_View Sessions
begin

text \<open>
  A whole session on the storage page: the user's handlers, the poll every 3 s, answers in any
  order. An answered poll is followed by the effect that computes the rates.
\<close>

datatype storage_request =
    Req_Change storage_action
  | Req_Delete string
  | Req_Usage
  | Req_Status

datatype storage_answer =
    Change_Answer "envelope outcome"
  | Delete_Answer "unit outcome"
  | Usage_Answer "usage_body outcome"
  | Status_Answer "StorageStatus outcome"

record storage_session =
  to_page :: storage_page
  to_pending :: "storage_request list"

definition storage_session_init :: storage_session where
  "storage_session_init = \<lparr>to_page = storage_init, to_pending = [Req_Status]\<rparr>"

fun storage_requests :: "storage_act \<Rightarrow> storage_page \<Rightarrow> storage_request list" where
  "storage_requests Refresh_Storage s = [Req_Status]"
| "storage_requests (Toggle_Expand uuid) s = []"
| "storage_requests (Mount_Pool p) s = [Req_Change (onMount p)]"
| "storage_requests (Unmount_Pool p) s = [Req_Change (onUnmount p)]"
| "storage_requests (Init_Folders p) s = [Req_Change (onInitFolders p)]"
| "storage_requests Create_Subvolume s = [Req_Change onCreateSubvolume]"
| "storage_requests (Delete_Subvolume path) s = [Req_Delete path]"
| "storage_requests Calculate_Usage s = (if status_subvolumes s = [] then [] else [Req_Usage])"

definition storage_do :: "storage_act \<Rightarrow> storage_session \<Rightarrow> storage_session \<times> effect list" where
  "storage_do a s =
     (let (p, es) = storage_dispatch a (to_page s)
      in (s\<lparr>to_page := p, to_pending := storage_requests a (to_page s) @ to_pending s\<rparr>, es))"

definition storage_follow :: "effect list \<Rightarrow> storage_request list" where
  "storage_follow es = vwhen (Fetch ''GET'' ''/api/storage'' None \<in> set es) [Req_Status]"

text \<open>The effect on \<open>status\<close> runs when a poll has stored a new one.\<close>

fun storage_answered ::
  "string \<Rightarrow> int \<Rightarrow> storage_request \<Rightarrow> storage_answer \<Rightarrow> storage_page \<Rightarrow> (storage_page \<times> effect list) option" where
  "storage_answered msg now (Req_Change a) (Change_Answer r) s = Some (execAction_settle a r s)"
| "storage_answered msg now (Req_Delete path) (Delete_Answer r) s = Some (deleteSubvolume_settle path r s)"
| "storage_answered msg now Req_Usage (Usage_Answer r) s = Some (calculateUsage_settle () r s)"
| "storage_answered msg now Req_Status (Status_Answer r) s =
     (let (p, es) = fetchStorage_settle msg r s
      in Some (case r of
          Resolved resp \<Rightarrow> if resp_ok resp \<and> r_json resp \<noteq> None then io_effect now p else p
        | Rejected e \<Rightarrow> p, es))"
| "storage_answered msg now _ _ s = None"

datatype storage_label =
    Storage_Fires "storage_act list" "effect list"
  | Storage_Answered storage_request "effect list"
  | Storage_Poll

inductive storage_step :: "string \<Rightarrow> storage_session \<Rightarrow> storage_label \<Rightarrow> storage_session \<Rightarrow> bool" for msg where
  storage_fires: "hs \<in> offered (StoragePage (to_page s)) \<Longrightarrow> perform storage_do hs s = (t, es) \<Longrightarrow>
     storage_step msg s (Storage_Fires hs es) t"
| storage_answer: "q \<in> set (to_pending s) \<Longrightarrow> storage_answered msg now q a (to_page s) = Some (p, es) \<Longrightarrow>
     storage_step msg s (Storage_Answered q es) (s\<lparr>to_page := p, to_pending := storage_follow es @ remove1 q (to_pending s)\<rparr>)"
| storage_poll: "storage_step msg s Storage_Poll (s\<lparr>to_pending := Req_Status # to_pending s\<rparr>)"

inductive_cases storage_stepE: "storage_step msg s l t"

section \<open>One change at a time\<close>

definition is_change :: "storage_request \<Rightarrow> bool" where
  "is_change q \<longleftrightarrow> (\<exists>a. q = Req_Change a) \<or> (\<exists>path. q = Req_Delete path)"

lemma is_change_simps [simp]:
  "is_change (Req_Change a)" "is_change (Req_Delete path)" "\<not> is_change Req_Usage" "\<not> is_change Req_Status"
  by (simp_all add: is_change_def)

definition flight_ok :: "bool \<Rightarrow> bool \<Rightarrow> storage_request list \<Rightarrow> bool" where
  "flight_ok loading calculating qs \<longleftrightarrow>
     length (filter is_change qs) = of_bool loading \<and> length (filter ((=) Req_Usage) qs) = of_bool calculating"

definition storage_inv :: "storage_session \<Rightarrow> bool" where
  "storage_inv s \<longleftrightarrow> flight_ok (sg_actionLoading (to_page s)) (sg_calculatingUsage (to_page s)) (to_pending s)"

text \<open>What a handler needs of the flags to be offered.\<close>

fun storage_fair :: "storage_page \<Rightarrow> storage_act \<Rightarrow> bool" where
  "storage_fair s Refresh_Storage = True"
| "storage_fair s (Toggle_Expand u) = True"
| "storage_fair s Calculate_Usage = (\<not> sg_calculatingUsage s)"
| "storage_fair s _ = (\<not> sg_actionLoading s)"

lemma storage_offers:
  assumes "hs \<in> offered (StoragePage s)"
  obtains a where "hs = [a]" "storage_fair s a"
  using assms unfolding offered_StoragePage offered_SubvolumesPanel pool_handlers_def
  by (fastforce split: if_splits)

lemma storage_do_inv:
  assumes "storage_fair (to_page s) a" "storage_inv s" "storage_do a s = (t, es)"
  shows "storage_inv t"
  using assms
  by (cases a)
    (auto simp: storage_do_def storage_inv_def flight_ok_def execAction_def onDeleteSubvolume_def onCalculateUsage_def
      toggle_expanded_def split: if_splits)

lemma io_disk_flags: "sg_actionLoading (io_disk now d s) = sg_actionLoading s \<and> sg_calculatingUsage (io_disk now d s) = sg_calculatingUsage s"
  by (auto simp: io_disk_def Let_def split: option.splits prod.splits)

lemma io_disks_flags:
  "sg_actionLoading (fold (io_disk now) ds s) = sg_actionLoading s
     \<and> sg_calculatingUsage (fold (io_disk now) ds s) = sg_calculatingUsage s"
  by (induction ds arbitrary: s) (simp_all add: io_disk_flags)

lemma io_effect_flags:
  "sg_actionLoading (io_effect now s) = sg_actionLoading s" "sg_calculatingUsage (io_effect now s) = sg_calculatingUsage s"
  by (simp_all add: io_effect_def io_disks_flags split: option.split)

lemma storage_follow_quiet [simp]: "filter is_change (storage_follow es) = []" "filter ((=) Req_Usage) (storage_follow es) = []"
  by (simp_all add: storage_follow_def vwhen_def)

lemma storage_answered_flags:
  assumes "storage_answered msg now q a s = Some (p, es)"
  shows "sg_actionLoading p = (sg_actionLoading s \<and> \<not> is_change q)"
    and "sg_calculatingUsage p = (sg_calculatingUsage s \<and> q \<noteq> Req_Usage)"
  using assms
  by (cases "(msg, now, q, a, s)" rule: storage_answered.cases;
      auto simp: execAction_settle_def deleteSubvolume_settle_def calculateUsage_settle_def fetchStorage_settle_def
        io_effect_flags Let_def split: outcome.splits option.splits if_splits prod.splits)+

lemma flight_answered:
  assumes "flight_ok l c qs" "q \<in> set qs" "filter is_change rs = []" "filter ((=) Req_Usage) rs = []"
  shows "flight_ok (l \<and> \<not> is_change q) (c \<and> q \<noteq> Req_Usage) (rs @ remove1 q qs)"
proof -
  have "is_change q \<Longrightarrow> q \<in> set (filter is_change qs)" "q = Req_Usage \<Longrightarrow> q \<in> set (filter ((=) Req_Usage) qs)"
    using assms(2) by simp_all
  then have "is_change q \<Longrightarrow> l" "q = Req_Usage \<Longrightarrow> c"
    using assms(1) by (cases l; cases c; auto simp: flight_ok_def)+
  then show ?thesis
    using assms by (auto simp: flight_ok_def filter_remove1 length_remove1 remove1_idem)
qed

interpretation storage: session_invariant "storage_step msg" storage_session_init storage_inv
proof
  show "storage_inv storage_session_init"
    by (simp add: storage_inv_def flight_ok_def storage_session_init_def storage_init_def)
  fix s l t
  assume inv: "storage_inv s" and st: "storage_step msg s l t"
  from st show "storage_inv t"
  proof (rule storage_stepE)
    fix hs es
    assume "hs \<in> offered (StoragePage (to_page s))" and p: "perform storage_do hs s = (t, es)"
    then obtain a where "hs = [a]" "storage_fair (to_page s) a" using storage_offers by blast
    then show ?thesis using storage_do_inv inv p by simp
  next
    fix q now a p es
    assume "q \<in> set (to_pending s)" "storage_answered msg now q a (to_page s) = Some (p, es)"
      and "t = s\<lparr>to_page := p, to_pending := storage_follow es @ remove1 q (to_pending s)\<rparr>"
    then show ?thesis
      using inv flight_answered [of _ _ "to_pending s" q "storage_follow es"] storage_answered_flags
      by (simp add: storage_inv_def)
  qed (use inv in \<open>simp add: storage_inv_def flight_ok_def\<close>)
qed

text \<open>C19. In any session on the storage page at most one change (mount, unmount, folders, create, delete) and at
  most one usage calculation is in flight, and the two busy flags are on exactly while theirs is.\<close>

theorem one_change_in_flight:
  assumes "run (storage_step msg) storage_session_init trace s"
  shows "length (filter is_change (to_pending s)) = of_bool (sg_actionLoading (to_page s))
    \<and> length (filter ((=) Req_Usage) (to_pending s)) = of_bool (sg_calculatingUsage (to_page s))"
  using storage.run_inv [OF assms] by (simp add: storage_inv_def flight_ok_def)

definition unmounting_session :: storage_session where
  "unmounting_session = fst (storage_do (Unmount_Pool sample_pool)
     \<lparr>to_page = sample_storage\<lparr>sg_queryLoading := False\<rparr>, to_pending = []\<rparr>)"

lemma unmounting_run: "\<exists>trace. run (storage_step msg) storage_session_init trace unmounting_session"
proof -
  let ?st = "\<lparr>ss_pools = [sample_pool], ss_unassigned = [], ss_subvolumes = []\<rparr>"
  let ?r = "Resolved \<lparr>r_status = 200, r_status_text = [], r_text = [], r_json = Some ?st\<rparr>"
  let ?s = "\<lparr>to_page = sample_storage\<lparr>sg_queryLoading := False\<rparr>, to_pending = []\<rparr>"
  have ans: "storage_answered msg 0 Req_Status (Status_Answer ?r) storage_init = Some (sample_storage\<lparr>sg_queryLoading := False\<rparr>, [])"
    by (simp add: fetchStorage_settle_def resp_ok_def sample_storage_def storage_init_def io_effect_def
        status_disks_def sample_pool_def)
  have "storage_step msg storage_session_init (Storage_Answered Req_Status [])
      (storage_session_init\<lparr>to_page := sample_storage\<lparr>sg_queryLoading := False\<rparr>,
         to_pending := storage_follow [] @ remove1 Req_Status (to_pending storage_session_init)\<rparr>)"
    by (rule storage_answer [where now = 0 and a = "Status_Answer ?r"])
      (simp add: storage_session_init_def, use ans in \<open>simp add: storage_session_init_def\<close>)
  then have "storage_step msg storage_session_init (Storage_Answered Req_Status []) ?s"
    by (simp add: storage_session_init_def storage_follow_def)
  with run_start have first: "run (storage_step msg) storage_session_init [Storage_Answered Req_Status []] ?s"
    by (rule run_step)
  have "[Unmount_Pool sample_pool] \<in> offered (StoragePage (to_page ?s))"
    by (simp add: offered_StoragePage pool_handlers_def status_pools_def sample_storage_def storage_init_def sample_pool_def)
  then have "storage_step msg ?s (Storage_Fires [Unmount_Pool sample_pool] (snd (storage_do (Unmount_Pool sample_pool) ?s)))
      unmounting_session"
    by (rule storage_fires) (simp add: unmounting_session_def)
  from run_step [OF first this] show ?thesis by (rule exI)
qed

theorem one_change_in_flight_witness:
  "length (filter is_change (to_pending unmounting_session)) = 1"
proof -
  obtain trace where "run (storage_step []) storage_session_init trace unmounting_session"
    using unmounting_run by blast
  from one_change_in_flight [OF this] show ?thesis
    by (simp add: unmounting_session_def storage_do_def execAction_def)
qed

end
