(* ===== verification/Logs_Session.thy ===== *)
theory Logs_Session
  imports Logs_View Sessions
begin

text \<open>
  A whole session on the logs page: its state in the URL, the debounced search and the query
  hook put together. After a render React compares the dependencies of the hook's effect
  with those of its last run: when they differ the request in flight is aborted and a new one
  is sent, and when the service differs the lines are cleared. The history of the session (which
  request was sent for which dependencies, which body came back) says what the lines are.
\<close>

section \<open>The effect of the query hook\<close>

text \<open>What \<open>useLogQuery\<close> is called with, and what the closure of \<open>fetchLogs\<close> holds.\<close>

record query_deps =
  qd_service :: Log_Service
  qd_filters :: "(string \<times> string) list"
  qd_text :: string
  qd_window :: string
  qd_maxLines :: nat

definition page_deps :: "Log_Config \<Rightarrow> logs_page \<Rightarrow> query_deps" where
  "page_deps config s =
     \<lparr>qd_service = activeService config (lp_params s), qd_filters = fieldFilters config (lp_params s),
      qd_text = lp_debouncedQuery s, qd_window = windowPreset config (lp_params s),
      qd_maxLines = lv_maxLines config\<rparr>"

text \<open>The comparison looks at the service's id only.\<close>

definition same_deps :: "query_deps \<Rightarrow> query_deps \<Rightarrow> bool" where
  "same_deps d e \<longleftrightarrow> lc_id (qd_service d) = lc_id (qd_service e) \<and> qd_filters d = qd_filters e
     \<and> qd_text d = qd_text e \<and> qd_window d = qd_window e \<and> qd_maxLines d = qd_maxLines e"

definition deps_url :: "(int \<Rightarrow> string) \<Rightarrow> int \<Rightarrow> int \<Rightarrow> query_deps \<Rightarrow> string" where
  "deps_url iso_text now1 now2 d =
     query_url (query_params (log_query_text (lc_selector (qd_service d)) (qd_filters d) (qd_text d))
       (qd_maxLines d) (windowToRange iso_text now1 now2 (qd_window d)))"

section \<open>State\<close>

text \<open>
  \<open>gs_deps\<close> are the dependencies of the effect that runs, \<open>None\<close> before the first. \<open>gs_sent\<close> and
  \<open>gs_body\<close> are the history, by the number of the request's controller.
\<close>

record logs_session =
  gs_page :: logs_page
  gs_query :: "LogLine log_query"
  gs_deps :: "query_deps option"
  gs_sent :: "nat \<rightharpoonup> query_deps"
  gs_body :: "nat \<rightharpoonup> string"

definition logs_session_init :: "Log_Config \<Rightarrow> search_params \<Rightarrow> logs_session" where
  "logs_session_init config ps =
     \<lparr>gs_page = logs_init config ps, gs_query = log_query_init, gs_deps = None,
      gs_sent = Map.empty, gs_body = Map.empty\<rparr>"

text \<open>\<open>now\<close>, \<open>now1\<close> and \<open>now2\<close> are the readings of the clock in \<open>fetchLogs\<close>.\<close>

definition send_query ::
  "(int \<Rightarrow> string) \<Rightarrow> int \<times> int \<times> int \<Rightarrow> query_deps \<Rightarrow> logs_session \<Rightarrow> logs_session \<times> effect list" where
  "send_query iso_text clock d s =
     (case clock of (now1, now2, now) \<Rightarrow>
       (let (q, es) = fetchLogs now (deps_url iso_text now1 now2 d) (gs_query s)
        in (s\<lparr>gs_query := q, gs_sent := (gs_sent s)(lq_next (gs_query s) \<mapsto> d)\<rparr>, es)))"

text \<open>A render has been committed: cleanups first, then the two effects of the hook.\<close>

definition commit_render ::
  "Log_Config \<Rightarrow> (int \<Rightarrow> string) \<Rightarrow> int \<times> int \<times> int \<Rightarrow> logs_session \<Rightarrow> logs_session \<times> effect list" where
  "commit_render config iso_text clock s =
     (let d = page_deps config (gs_page s);
          clean = s\<lparr>gs_query := abort_current (gs_query s)\<rparr>;
          clear = (\<lambda>t. t\<lparr>gs_query := (gs_query t)\<lparr>lq_lines := []\<rparr>\<rparr>)
      in case gs_deps s of
          None \<Rightarrow> (let (t, es) = send_query iso_text clock d s in (clear t\<lparr>gs_deps := Some d\<rparr>, es))
        | Some e \<Rightarrow>
            if same_deps e d then (s, [])
            else (let (t, es) = send_query iso_text clock d clean
              in (if lc_id (qd_service e) = lc_id (qd_service d) then t\<lparr>gs_deps := Some d\<rparr>
                  else clear t\<lparr>gs_deps := Some d\<rparr>, es)))"

section \<open>Steps\<close>

text \<open>The calls of the handlers: a refetch is the \<open>fetchLogs\<close> of the effect that runs.\<close>

definition logs_do ::
  "Log_Config \<Rightarrow> (LogLine \<Rightarrow> string) \<Rightarrow> (int \<Rightarrow> string) \<Rightarrow> int \<times> int \<times> int \<Rightarrow> log_act \<Rightarrow> logs_session \<Rightarrow> logs_session \<times> effect list" where
  "logs_do config stringify iso_text clock a s =
     (case a of
        Log_Refetch \<Rightarrow> (case gs_deps s of None \<Rightarrow> (s, []) | Some d \<Rightarrow> send_query iso_text clock d s)
      | Log_Download \<Rightarrow>
          (s, handleDownload stringify (fst clock) (activeService config (lp_params (gs_page s))) (lq_lines (gs_query s)))
      | _ \<Rightarrow> (s\<lparr>gs_page := logs_dispatch a (gs_page s)\<rparr>, []))"

definition logs_answered ::
  "(string \<Rightarrow> LogLine option) \<Rightarrow> int \<Rightarrow> nat \<Rightarrow> unit outcome \<Rightarrow> logs_session \<Rightarrow> logs_session" where
  "logs_answered parse now c r s =
     s\<lparr>gs_query := log_settle parse now c r (gs_query s),
       gs_body := (case r of
          Resolved resp \<Rightarrow> if resp_ok resp \<and> c \<notin> lq_aborted (gs_query s) then (gs_body s)(c \<mapsto> r_text resp) else gs_body s
        | Rejected e \<Rightarrow> gs_body s)\<rparr>"

datatype logs_label =
    Logs_Fires "log_act list" "effect list"
  | Logs_Url
  | Logs_Debounced
  | Logs_Committed "effect list"
  | Logs_Interval "effect list"
  | Logs_Answered nat
  | Logs_Timer

inductive logs_step ::
  "Log_Config \<Rightarrow> (string \<Rightarrow> LogLine option) \<Rightarrow> (LogLine \<Rightarrow> string) \<Rightarrow> (int \<Rightarrow> string) \<Rightarrow> (string \<Rightarrow> string)
     \<Rightarrow> logs_session \<Rightarrow> logs_label \<Rightarrow> logs_session \<Rightarrow> bool"
  for config parse stringify iso_text format_time where
  logs_fires: "hs \<in> offered (LogsPageInner format_time config (gs_page s) (gs_query s)) \<Longrightarrow>
     perform (logs_do config stringify iso_text clock) hs s = (t, es) \<Longrightarrow>
     logs_step config parse stringify iso_text format_time s (Logs_Fires hs es) t"
| logs_url: "logs_step config parse stringify iso_text format_time s Logs_Url
     (s\<lparr>gs_page := (gs_page s)\<lparr>lp_params := ps\<rparr>\<rparr>)"
| logs_debounced: "lp_debouncing (gs_page s) \<Longrightarrow>
     logs_step config parse stringify iso_text format_time s Logs_Debounced (s\<lparr>gs_page := debounce_fires (gs_page s)\<rparr>)"
| logs_committed: "commit_render config iso_text clock s = (t, es) \<Longrightarrow>
     logs_step config parse stringify iso_text format_time s (Logs_Committed es) t"
| logs_interval: "gs_deps s = Some d \<Longrightarrow> send_query iso_text clock d s = (t, es) \<Longrightarrow>
     logs_step config parse stringify iso_text format_time s (Logs_Interval es) t"
| logs_answer: "c \<in> lq_pending (gs_query s) \<Longrightarrow>
     logs_step config parse stringify iso_text format_time s (Logs_Answered c) (logs_answered parse now c r s)"
| logs_timer: "0 < lq_timers (gs_query s) \<Longrightarrow>
     logs_step config parse stringify iso_text format_time s Logs_Timer (s\<lparr>gs_query := loading_timer (gs_query s)\<rparr>)"

inductive_cases logs_stepE: "logs_step config parse stringify iso_text format_time s l t"

section \<open>The invariant\<close>

text \<open>The request a session waits for, when there is one.\<close>

definition live :: "'l log_query \<Rightarrow> nat set" where
  "live q = lq_pending q - lq_aborted q"

text \<open>
  The newest request is never aborted and was sent for the dependencies of the effect. Once it
  is answered without an error the lines are its body. Any lines are those of a request for
  the same service. The loading state has a request or a timer to end it.
\<close>

definition answer_ok :: "(string \<Rightarrow> LogLine option) \<Rightarrow> LogLine log_query \<Rightarrow> string option \<Rightarrow> bool" where
  "answer_ok parse q answer \<longleftrightarrow>
     (case lq_error q of
        None \<Rightarrow> (\<exists>body. answer = Some body \<and> lq_lines q = parse_lines parse body)
      | Some e \<Rightarrow> answer = None)"

definition newest_ok :: "(string \<Rightarrow> LogLine option) \<Rightarrow> logs_session \<Rightarrow> query_deps \<Rightarrow> bool" where
  "newest_ok parse s d \<longleftrightarrow>
     (\<exists>c. lq_controller (gs_query s) = Some c \<and> c \<notin> lq_aborted (gs_query s) \<and> gs_sent s c = Some d
       \<and> (if c \<in> lq_pending (gs_query s) then lq_error (gs_query s) = None \<and> gs_body s c = None
          else answer_ok parse (gs_query s) (gs_body s c)))"

definition lines_ok :: "(string \<Rightarrow> LogLine option) \<Rightarrow> logs_session \<Rightarrow> query_deps \<Rightarrow> bool" where
  "lines_ok parse s d \<longleftrightarrow>
     lq_lines (gs_query s) = []
     \<or> (\<exists>c e body. gs_sent s c = Some e \<and> gs_body s c = Some body \<and> lq_lines (gs_query s) = parse_lines parse body
          \<and> lc_id (qd_service e) = lc_id (qd_service d))"

definition logs_inv :: "Log_Config \<Rightarrow> (string \<Rightarrow> LogLine option) \<Rightarrow> logs_session \<Rightarrow> bool" where
  "logs_inv config parse s \<longleftrightarrow>
     log_inv (gs_query s)
     \<and> (\<forall>c. gs_sent s c \<noteq> None \<or> gs_body s c \<noteq> None \<longrightarrow> c < lq_next (gs_query s))
     \<and> (lq_isLoading (gs_query s) \<longrightarrow> 0 < lq_timers (gs_query s) \<or> live (gs_query s) \<noteq> {})
     \<and> (case gs_deps s of
          None \<Rightarrow> lq_pending (gs_query s) = {} \<and> lq_lines (gs_query s) = []
        | Some d \<Rightarrow> (\<exists>p. d = page_deps config p) \<and> newest_ok parse s d \<and> lines_ok parse s d)"

text \<open>What every request needs of the history: the numbers used so far are below the next one.\<close>

definition history_ok :: "logs_session \<Rightarrow> bool" where
  "history_ok s \<longleftrightarrow> log_inv (gs_query s)
     \<and> (\<forall>c. gs_sent s c \<noteq> None \<or> gs_body s c \<noteq> None \<longrightarrow> c < lq_next (gs_query s))"

lemma send_query_eq:
  "send_query iso_text (now1, now2, now) d s =
     (s\<lparr>gs_query := fst (fetchLogs now (deps_url iso_text now1 now2 d) (gs_query s)),
        gs_sent := (gs_sent s)(lq_next (gs_query s) \<mapsto> d)\<rparr>,
      snd (fetchLogs now (deps_url iso_text now1 now2 d) (gs_query s)))"
  by (simp add: send_query_def split_beta)

lemma send_inv:
  assumes "history_ok s" "send_query iso_text clock d s = (t, es)"
  shows "history_ok t" "newest_ok parse t d" "live (gs_query t) \<noteq> {}"
    "lq_lines (gs_query t) = lq_lines (gs_query s)" "gs_body t = gs_body s" "gs_page t = gs_page s" "gs_deps t = gs_deps s"
    "gs_sent t = (gs_sent s)(lq_next (gs_query s) \<mapsto> d)"
proof -
  obtain now1 now2 now where clock: "clock = (now1, now2, now)" by (metis prod_cases3)
  let ?q = "gs_query s" and ?f = "fetchLogs now (deps_url iso_text now1 now2 d) (gs_query s)"
  have t: "t = s\<lparr>gs_query := fst ?f, gs_sent := (gs_sent s)(lq_next ?q \<mapsto> d)\<rparr>"
    using assms(2) by (simp add: clock send_query_eq)
  have inv: "log_inv ?q" using assms(1) by (simp add: history_ok_def)
  have fresh: "lq_next ?q \<notin> lq_aborted ?q" "gs_body s (lq_next ?q) = None"
    "lq_controller ?q \<noteq> Some (lq_next ?q)"
    using assms(1) by (auto simp: history_ok_def log_inv_def)
  have q: "lq_controller (fst ?f) = Some (lq_next ?q)" "lq_next (fst ?f) = Suc (lq_next ?q)"
    "lq_pending (fst ?f) = insert (lq_next ?q) (lq_pending ?q)" "lq_error (fst ?f) = None"
    "lq_aborted (fst ?f) = set_option (lq_controller ?q) \<union> lq_aborted ?q" "lq_lines (fst ?f) = lq_lines ?q"
    by (simp_all add: fetchLogs_def abort_current_def Let_def)
  have "log_inv (fst ?f)" by (rule log_inv_fetch [OF inv prod.collapse [symmetric]])
  then show "history_ok t" using assms(1) by (auto simp: history_ok_def t q less_Suc_eq)
  show "newest_ok parse t d" using fresh by (auto simp: newest_ok_def t q)
  show "live (gs_query t) \<noteq> {}" using fresh by (auto simp: live_def t q)
  show "lq_lines (gs_query t) = lq_lines ?q" "gs_body t = gs_body s" "gs_page t = gs_page s" "gs_deps t = gs_deps s"
    "gs_sent t = (gs_sent s)(lq_next ?q \<mapsto> d)"
    by (simp_all add: t q)
qed

text \<open>Lines that were explained before a request stay explained by the same answer.\<close>

lemma lines_ok_send:
  assumes "history_ok s" "lines_ok parse s e" "gs_sent t = (gs_sent s)(lq_next (gs_query s) \<mapsto> d)"
    "gs_body t = gs_body s" "lq_lines (gs_query t) = lq_lines (gs_query s)" "lc_id (qd_service e) = lc_id (qd_service d')"
  shows "lines_ok parse t d'"
  using assms(2) unfolding lines_ok_def
proof (elim disjE exE conjE)
  fix c x body
  assume "gs_sent s c = Some x" "gs_body s c = Some body" "lq_lines (gs_query s) = parse_lines parse body"
    and "lc_id (qd_service x) = lc_id (qd_service e)"
  moreover from this have "c \<noteq> lq_next (gs_query s)" using assms(1) by (auto simp: history_ok_def)
  ultimately show "lq_lines (gs_query t) = []
      \<or> (\<exists>c e body. gs_sent t c = Some e \<and> gs_body t c = Some body \<and> lq_lines (gs_query t) = parse_lines parse body
          \<and> lc_id (qd_service e) = lc_id (qd_service d'))"
    using assms(3-6) by (intro disjI2 exI [of _ c] exI [of _ x] exI [of _ body]) auto
qed (use assms(5) in simp)

lemma inv_history: "logs_inv config parse s \<Longrightarrow> history_ok s"
  by (simp add: logs_inv_def history_ok_def)

lemma logs_inv_sent:
  assumes "logs_inv config parse s" "gs_deps s = Some d" "send_query iso_text clock d s = (t, es)"
  shows "logs_inv config parse t"
proof -
  note sent = send_inv [OF inv_history [OF assms(1)] assms(3)]
  have "lines_ok parse t d"
    using lines_ok_send [OF inv_history [OF assms(1)], of parse d t d d] sent assms(1,2) by (simp add: logs_inv_def)
  then show ?thesis using sent assms(1,2) by (simp add: logs_inv_def history_ok_def)
qed

lemma newest_ok_clear:
  assumes "newest_ok parse t d" "live (gs_query t) \<noteq> {}" "history_ok t"
  shows "newest_ok parse (t\<lparr>gs_query := (gs_query t)\<lparr>lq_lines := []\<rparr>\<rparr>) d"
proof -
  obtain c where "c \<in> lq_pending (gs_query t)" "c \<notin> lq_aborted (gs_query t)" using assms(2) by (auto simp: live_def)
  moreover from this have "lq_controller (gs_query t) = Some c"
    using assms(3) by (simp add: history_ok_def log_inv_def)
  ultimately show ?thesis using assms(1) by (simp add: newest_ok_def)
qed

lemma newest_ok_deps [simp]: "newest_ok parse (t\<lparr>gs_deps := x\<rparr>) d = newest_ok parse t d"
  by (simp add: newest_ok_def)

lemma lines_ok_deps [simp]: "lines_ok parse (t\<lparr>gs_deps := x\<rparr>) d = lines_ok parse t d"
  by (simp add: lines_ok_def)

lemma same_query [simp]: "t\<lparr>gs_query := gs_query t, gs_deps := x\<rparr> = t\<lparr>gs_deps := x\<rparr>"
  by (cases t) simp

lemma logs_inv_restart:
  assumes "history_ok s" "send_query iso_text clock d s = (t, es)" "d = page_deps config p"
    and "lq_lines u = [] \<or> u = gs_query t \<and> lines_ok parse t d" "u = gs_query t \<or> u = (gs_query t)\<lparr>lq_lines := []\<rparr>"
  shows "logs_inv config parse (t\<lparr>gs_query := u, gs_deps := Some d\<rparr>)"
proof -
  note sent = send_inv [OF assms(1,2)]
  have new: "newest_ok parse (t\<lparr>gs_query := u, gs_deps := Some d\<rparr>) d"
    using assms(5)
  proof
    assume "u = gs_query t"
    then show ?thesis using sent(2) by simp
  next
    assume "u = (gs_query t)\<lparr>lq_lines := []\<rparr>"
    then show ?thesis using newest_ok_clear [OF sent(2,3,1)] by simp
  qed
  have "live u \<noteq> {}" using sent(3) assms(5) by (auto simp: live_def)
  moreover have "log_inv u" "lq_next u = lq_next (gs_query t)"
    using sent(1) assms(5) by (auto simp: history_ok_def log_inv_def)
  moreover have "lines_ok parse (t\<lparr>gs_query := u, gs_deps := Some d\<rparr>) d" using assms(4) by (auto simp: lines_ok_def)
  moreover have "\<forall>c. gs_sent t c \<noteq> None \<or> gs_body t c \<noteq> None \<longrightarrow> c < lq_next (gs_query t)"
    using sent(1) by (simp add: history_ok_def)
  ultimately show ?thesis
    using new assms(3) by (auto simp: logs_inv_def)
qed

lemma logs_inv_commit:
  assumes "logs_inv config parse s" "commit_render config iso_text clock s = (t, es)"
  shows "logs_inv config parse t"
proof -
  let ?d = "page_deps config (gs_page s)"
  let ?clean = "s\<lparr>gs_query := abort_current (gs_query s)\<rparr>"
  have hist: "history_ok s" by (rule inv_history [OF assms(1)])
  have clean: "history_ok ?clean" using hist log_inv_abort by (auto simp: history_ok_def abort_current_def)
  show ?thesis
  proof (cases "gs_deps s")
    case None
    obtain u es' where u: "send_query iso_text clock ?d s = (u, es')" by fastforce
    have "t = u\<lparr>gs_query := (gs_query u)\<lparr>lq_lines := []\<rparr>, gs_deps := Some ?d\<rparr>"
      using assms(2) None u by (simp add: commit_render_def Let_def)
    then show ?thesis using logs_inv_restart [OF hist u refl, of "(gs_query u)\<lparr>lq_lines := []\<rparr>"] by simp
  next
    case (Some e)
    show ?thesis
    proof (cases "same_deps e ?d")
      case True
      then show ?thesis using assms Some by (simp add: commit_render_def)
    next
      case False
      obtain u es' where u: "send_query iso_text clock ?d ?clean = (u, es')" by fastforce
      note sent = send_inv [OF clean u]
      have "lines_ok parse ?clean e" using assms(1) Some by (simp add: logs_inv_def lines_ok_def abort_current_def)
      then have same: "lines_ok parse u ?d" if "lc_id (qd_service e) = lc_id (qd_service ?d)"
        using lines_ok_send [OF clean] sent(8,5,4) that by simp
      have "t = (if lc_id (qd_service e) = lc_id (qd_service ?d) then u\<lparr>gs_deps := Some ?d\<rparr>
          else u\<lparr>gs_query := (gs_query u)\<lparr>lq_lines := []\<rparr>, gs_deps := Some ?d\<rparr>)"
        using assms(2) Some False u by (simp add: commit_render_def Let_def)
      then show ?thesis
        using logs_inv_restart [OF clean u refl, of "gs_query u"] same
          logs_inv_restart [OF clean u refl, of "(gs_query u)\<lparr>lq_lines := []\<rparr>"] by (simp split: if_splits)
    qed
  qed
qed

text \<open>The answer of an aborted request only ends its wait; any other is the newest one's.\<close>

lemma logs_inv_answer:
  assumes "logs_inv config parse s" "c \<in> lq_pending (gs_query s)"
  shows "logs_inv config parse (logs_answered parse now c r s)"
proof -
  let ?q = "gs_query s" and ?t = "logs_answered parse now c r s"
  obtain d where d: "gs_deps s = Some d" using assms by (cases "gs_deps s") (auto simp: logs_inv_def)
  have inv: "log_inv ?q" and new: "newest_ok parse s d" and lines: "lines_ok parse s d"
    using assms(1) d by (simp_all add: logs_inv_def)
  have query: "gs_query ?t = log_settle parse now c r ?q" and frame: "gs_deps ?t = Some d" "gs_sent ?t = gs_sent s"
    by (simp_all add: logs_answered_def d)
  have settled: "lq_next (log_settle parse now c r ?q) = lq_next ?q" "lq_controller (log_settle parse now c r ?q) = lq_controller ?q"
    "lq_aborted (log_settle parse now c r ?q) = lq_aborted ?q" "lq_pending (log_settle parse now c r ?q) = lq_pending ?q - {c}"
    by (simp_all add: log_settle_def Let_def split: outcome.split)
  have log: "log_inv (gs_query ?t)" unfolding query by (rule log_inv_settle [OF inv])
  have bound: "c < lq_next ?q" using inv assms(2) by (auto simp: log_inv_def)
  have hist: "\<forall>k. gs_sent ?t k \<noteq> None \<or> gs_body ?t k \<noteq> None \<longrightarrow> k < lq_next (gs_query ?t)"
    using assms(1) bound by (auto simp: logs_inv_def logs_answered_def settled split: outcome.splits if_splits)
  show ?thesis
  proof (cases "c \<in> lq_aborted ?q")
    case True
    have body: "gs_body ?t = gs_body s" using True by (simp add: logs_answered_def split: outcome.split)
    have q: "log_settle parse now c r ?q = ?q\<lparr>lq_pending := lq_pending ?q - {c}\<rparr>"
      using True by (simp add: log_settle_def)
    have ans: "answer_ok parse (?q\<lparr>lq_pending := x\<rparr>) a = answer_ok parse ?q a" for x a
      by (cases "lq_error ?q") (simp_all add: answer_ok_def)
    obtain k where k: "lq_controller ?q = Some k" "k \<notin> lq_aborted ?q" "gs_sent s k = Some d"
        "if k \<in> lq_pending ?q then lq_error ?q = None \<and> gs_body s k = None else answer_ok parse ?q (gs_body s k)"
      using new unfolding newest_ok_def by blast
    moreover from this have "k \<noteq> c" using True by auto
    ultimately have "newest_ok parse ?t d"
      unfolding newest_ok_def by (intro exI [of _ k]) (simp add: query frame body q ans)
    moreover have "lines_ok parse ?t d" using lines by (simp add: lines_ok_def query frame body q)
    moreover have "live (gs_query ?t) = live ?q" using True by (auto simp: live_def query q)
    ultimately show ?thesis
      using assms(1) log hist d by (auto simp: logs_inv_def frame query q)
  next
    case False
    then have ctl: "lq_controller ?q = Some c" using inv assms(2) by (simp add: log_inv_def)
    then have sent: "gs_sent s c = Some d" and pend: "lq_error ?q = None" "gs_body s c = None"
      using new assms(2) by (auto simp: newest_ok_def)
    have idle: "lq_isLoading (log_settle parse now c r ?q) \<longrightarrow> 0 < lq_timers (log_settle parse now c r ?q)"
      using False by (auto simp: log_settle_def doneLoading_def Let_def split: outcome.splits if_splits)
    have ans: "answer_ok parse (log_settle parse now c r ?q) (gs_body ?t c)"
      using False pend by (auto simp: answer_ok_def log_settle_def logs_answered_def Let_def split: outcome.splits)
    then have "newest_ok parse ?t d" using ctl sent False by (simp add: newest_ok_def query frame settled)
    moreover have "lines_ok parse ?t d"
    proof (cases "lq_error (log_settle parse now c r ?q)")
      case None
      then show ?thesis using ans sent by (auto simp: answer_ok_def lines_ok_def query frame)
    next
      case (Some e)
      then have "gs_body ?t = gs_body s" "lq_lines (log_settle parse now c r ?q) = lq_lines ?q"
        using False pend by (auto simp: log_settle_def logs_answered_def Let_def split: outcome.splits if_splits)
      then show ?thesis using lines by (simp add: lines_ok_def query frame)
    qed
    ultimately show ?thesis
      using assms(1) log hist idle d by (auto simp: logs_inv_def frame query)
  qed
qed

lemma logs_inv_page: "logs_inv config parse (s\<lparr>gs_page := p\<rparr>) = logs_inv config parse s"
  by (simp add: logs_inv_def newest_ok_def lines_ok_def cong: option.case_cong)

lemma timer_frame:
  "lq_lines (loading_timer q) = lq_lines q" "lq_error (loading_timer q) = lq_error q"
  "lq_pending (loading_timer q) = lq_pending q" "lq_aborted (loading_timer q) = lq_aborted q"
  "lq_controller (loading_timer q) = lq_controller q" "lq_next (loading_timer q) = lq_next q"
  "\<not> lq_isLoading (loading_timer q)" "answer_ok parse (loading_timer q) x = answer_ok parse q x"
  by (cases "lq_error q"; simp add: loading_timer_def answer_ok_def)+

lemma logs_inv_timer:
  assumes "logs_inv config parse s"
  shows "logs_inv config parse (s\<lparr>gs_query := loading_timer (gs_query s)\<rparr>)"
proof -
  have "newest_ok parse (s\<lparr>gs_query := loading_timer (gs_query s)\<rparr>) d = newest_ok parse s d"
    "lines_ok parse (s\<lparr>gs_query := loading_timer (gs_query s)\<rparr>) d = lines_ok parse s d" for d
    by (simp_all add: newest_ok_def lines_ok_def timer_frame)
  then show ?thesis using assms by (cases "gs_deps s") (simp_all add: logs_inv_def log_inv_def timer_frame)
qed

lemma logs_inv_do:
  assumes "logs_inv config parse s" "logs_do config stringify iso_text clock a s = (t, es)"
  shows "logs_inv config parse t"
  using assms logs_inv_sent
  by (auto simp: logs_do_def logs_inv_page split: log_act.splits option.splits)

lemma logs_inv_perform:
  "logs_inv config parse s \<Longrightarrow> perform (logs_do config stringify iso_text clock) hs s = (t, es) \<Longrightarrow> logs_inv config parse t"
proof (induction hs arbitrary: s es)
  case (Cons a hs)
  obtain u es1 where u: "logs_do config stringify iso_text clock a s = (u, es1)" by fastforce
  obtain es2 where "perform (logs_do config stringify iso_text clock) hs u = (t, es2)"
    using Cons.prems(2) u by (auto split: prod.splits)
  then show ?case using Cons.IH logs_inv_do [OF Cons.prems(1) u] by blast
qed simp

interpretation logs: session_invariant "logs_step config parse stringify iso_text format_time"
  "logs_session_init config ps" "logs_inv config parse"
proof
  show "logs_inv config parse (logs_session_init config ps)"
    by (simp add: logs_inv_def logs_session_init_def log_query_init_def log_inv_def)
  fix s l t
  assume inv: "logs_inv config parse s" and st: "logs_step config parse stringify iso_text format_time s l t"
  from st show "logs_inv config parse t"
  proof (rule logs_stepE)
    show "\<And>hs clock es. perform (logs_do config stringify iso_text clock) hs s = (t, es) \<Longrightarrow> ?thesis"
      using logs_inv_perform [OF inv] by blast
    show "\<And>clock es. commit_render config iso_text clock s = (t, es) \<Longrightarrow> ?thesis"
      using logs_inv_commit [OF inv] by blast
    show "\<And>d clock es. gs_deps s = Some d \<Longrightarrow> send_query iso_text clock d s = (t, es) \<Longrightarrow> ?thesis"
      using logs_inv_sent [OF inv] by blast
  qed (use inv in \<open>simp_all add: logs_inv_page logs_inv_answer logs_inv_timer\<close>)
qed

section \<open>Properties\<close>

text \<open>The active service is determined by its id, which is all the effect compares.\<close>

lemma activeService_find:
  "activeService config ps = opt_or (find (\<lambda>s. lc_id s = lc_id (activeService config ps)) (lv_services config)) (hd (lv_services config))"
proof (cases "find (\<lambda>s. lc_id s = active_service_id config ps) (lv_services config)")
  case None
  then have "activeService config ps = hd (lv_services config)" by (simp add: activeService_def)
  then show ?thesis by (cases "lv_services config") simp_all
next
  case (Some svc)
  then have "activeService config ps = svc" by (simp add: activeService_def)
  moreover have "lc_id svc = active_service_id config ps" using find_SomeD [OF Some] by simp
  ultimately show ?thesis using Some by simp
qed

lemma activeService_id: "lc_id (activeService config ps) = lc_id (activeService config qs) \<Longrightarrow> activeService config ps = activeService config qs"
  by (metis activeService_find)

lemma same_deps_page: "same_deps (page_deps config p) (page_deps config q) \<longleftrightarrow> page_deps config p = page_deps config q"
  using activeService_id by (auto simp: same_deps_def page_deps_def)



section \<open>A concrete session\<close>

definition sample_line :: LogLine where
  "sample_line = \<lparr>ll_time = None, ll_level = Some ''info'', ll_module = None, ll_kind = None, ll_msg = Some ''up'', ll_unit = None\<rparr>"

definition loading_session :: logs_session where
  "loading_session = fst (commit_render sample_log_config (\<lambda>t. []) (0, 0, 0) (logs_session_init sample_log_config []))"

definition answered_session :: logs_session where
  "answered_session = logs_answered (\<lambda>t. Some sample_line) 1000 0
     (Resolved \<lparr>r_status = 200, r_status_text = [], r_text = ''x'', r_json = None\<rparr>) loading_session"

abbreviation sample_logs_run :: "logs_label list \<Rightarrow> logs_session \<Rightarrow> bool" where
  "sample_logs_run \<equiv> run (logs_step sample_log_config (\<lambda>t. Some sample_line) (\<lambda>l. []) (\<lambda>t. []) (\<lambda>t. t))
     (logs_session_init sample_log_config [])"

lemmas sample_logs_defs = loading_session_def answered_session_def commit_render_def send_query_def fetchLogs_def
  abort_current_def logs_session_init_def log_query_init_def logs_answered_def log_settle_def doneLoading_def
  resp_ok_def Let_def

lemma answered_run: "\<exists>trace. sample_logs_run trace answered_session"
proof -
  let ?es = "snd (commit_render sample_log_config (\<lambda>t. []) (0, 0, 0) (logs_session_init sample_log_config []))"
  have "logs_step sample_log_config (\<lambda>t. Some sample_line) (\<lambda>l. []) (\<lambda>t. []) (\<lambda>t. t)
      (logs_session_init sample_log_config []) (Logs_Committed ?es) loading_session"
    by (rule logs_committed [of _ _ "(0, 0, 0)"]) (simp add: loading_session_def)
  with run_start have "sample_logs_run [Logs_Committed ?es] loading_session" by (rule run_step)
  moreover have "0 \<in> lq_pending (gs_query loading_session)" by (simp add: sample_logs_defs)
  ultimately have "sample_logs_run [Logs_Answered 0, Logs_Committed ?es] answered_session"
    unfolding answered_session_def by (blast intro: run_step logs_answer)
  then show ?thesis by blast
qed

lemma answered_state:
  "gs_deps answered_session = Some (page_deps sample_log_config (gs_page answered_session))"
  "live (gs_query answered_session) = {}" "lq_error (gs_query answered_session) = None"
  "lq_lines (gs_query answered_session) = [sample_line]" "lq_timers (gs_query answered_session) = 0"
  by (simp_all add: sample_logs_defs live_def parse_lines_def nonempty_lines_def js_trim_def is_ws_def)



end
