(* ===== verification/VMs_Session.thy ===== *)
theory VMs_Session
  imports VMs_Page Sessions
begin

text \<open>
  A whole session on the machines page: the user fires handlers the page offers, the overview
  brings new machines, answers arrive in any order. What is shown is traced back: a machine
  is destroyed only after the user asked for the confirmation of that machine.
\<close>

record vms_session =
  vs_page :: vms_page
  vs_vms :: "VMInfo list option"
  vs_pending :: "(string \<times> string) list"

datatype vms_label =
    VM_Fires "vm_act list" "effect list"
  | VM_Answered "string \<times> string" "effect list"
  | VM_Overview

primrec vms_label_effects :: "vms_label \<Rightarrow> effect list" where
  "vms_label_effects (VM_Fires hs es) = es"
| "vms_label_effects (VM_Answered c es) = es"
| "vms_label_effects VM_Overview = []"

definition vms_session_init :: vms_session where
  "vms_session_init = \<lparr>vs_page = vms_init, vs_vms = None, vs_pending = []\<rparr>"

primrec vm_requests :: "vm_act \<Rightarrow> (string \<times> string) list" where
  "vm_requests (VM_Action name action) = [(name, action)]"
| "vm_requests (Confirm_Destroy c) = []"

definition vms_do :: "vm_act \<Rightarrow> vms_session \<Rightarrow> vms_session \<times> effect list" where
  "vms_do a s =
     (let (p, es) = vms_dispatch a (vs_page s)
      in (s\<lparr>vs_page := p, vs_pending := vm_requests a @ vs_pending s\<rparr>, es))"

inductive vms_step :: "vms_session \<Rightarrow> vms_label \<Rightarrow> vms_session \<Rightarrow> bool" where
  vm_fires: "v \<in> set (VMsPage (vs_vms s) (vs_page s)) \<Longrightarrow> hs \<in> offered v \<Longrightarrow> perform vms_do hs s = (t, es) \<Longrightarrow>
     vms_step s (VM_Fires hs es) t"
| vm_answered: "c \<in> set (vs_pending s) \<Longrightarrow> vm_doAction_settle c r (vs_page s) = (p, es) \<Longrightarrow>
     vms_step s (VM_Answered c es) (s\<lparr>vs_page := p, vs_pending := remove1 c (vs_pending s)\<rparr>)"
| vm_overview: "vms_step s VM_Overview (s\<lparr>vs_vms := d\<rparr>)"

inductive_cases vms_stepE: "vms_step s l t"

abbreviation vms_run :: "vms_label list \<Rightarrow> vms_session \<Rightarrow> bool" where
  "vms_run \<equiv> run vms_step vms_session_init"

section \<open>What the user fires\<close>

definition vm_url :: "string \<Rightarrow> string \<Rightarrow> string" where
  "vm_url name action = ''/api/vms/'' @ name @ ''/'' @ action"

lemma vm_url_inject:
  "CHR ''/'' \<notin> set a \<Longrightarrow> CHR ''/'' \<notin> set b \<Longrightarrow> vm_url n a = vm_url m b \<longleftrightarrow> n = m \<and> a = b"
  by (auto simp: vm_url_def append_eq_append_conv2 Cons_eq_append_conv append_eq_Cons_conv)

lemma vms_fires_handlers:
  assumes "v \<in> set (VMsPage vms s)" "hs \<in> offered v"
  obtains "hs = []" | d where "hs = [Confirm_Destroy d]"
    | n action where "hs = [VM_Action n action]" "CHR ''/'' \<notin> set action" "action = ''destroy'' \<longrightarrow> vp_confirmDestroy s = Some n"
proof -
  have "hs \<in> vms_handlers (opt_or vms []) (vp_confirmDestroy s)"
    using offered_vms_page [OF assms(1)] assms(2) by blast
  then show ?thesis using that by (fastforce simp: vms_handlers_def state_allows_def)
qed

section \<open>Properties\<close>

text \<open>A spinning page has a request outstanding.\<close>

definition vms_inv :: "vms_session \<Rightarrow> bool" where
  "vms_inv s \<longleftrightarrow> (vp_loadingAction (vs_page s) \<noteq> None \<longrightarrow> vs_pending s \<noteq> [])"

definition asks_destroy :: "string \<Rightarrow> vms_label \<Rightarrow> bool" where
  "asks_destroy n l \<longleftrightarrow> (\<exists>hs es. l = VM_Fires hs es \<and> Confirm_Destroy (Some n) \<in> set hs)"

definition issues_destroy :: "string \<Rightarrow> vms_label \<Rightarrow> bool" where
  "issues_destroy n l \<longleftrightarrow> Fetch ''POST'' (vm_url n ''destroy'') None \<in> set (vms_label_effects l)"

lemma vms_step_fires:
  assumes "v \<in> set (VMsPage (vs_vms s) (vs_page s))" "hs \<in> offered v" "perform vms_do hs s = (t, es)"
  shows "vms_inv s \<Longrightarrow> vms_inv t"
    and "vp_confirmDestroy (vs_page t) = Some n \<Longrightarrow>
      vp_confirmDestroy (vs_page s) = Some n \<or> Confirm_Destroy (Some n) \<in> set hs"
    and "Fetch ''POST'' (vm_url n ''destroy'') None \<in> set es \<Longrightarrow>
      vp_confirmDestroy (vs_page s) = Some n \<and> vp_confirmDestroy (vs_page t) = None"
proof -
  have do_confirm: "vms_do (Confirm_Destroy d) s = (s\<lparr>vs_page := (vs_page s)\<lparr>vp_confirmDestroy := d\<rparr>\<rparr>, [])" for d
    by (simp add: vms_do_def)
  have do_action: "vms_do (VM_Action m action) s =
      (s\<lparr>vs_page := fst (vm_doAction (m, action) (vs_page s)), vs_pending := (m, action) # vs_pending s\<rparr>,
       [Fetch ''POST'' (vm_url m action) None])" for m action
    by (simp add: vms_do_def vm_doAction_def vm_url_def)
  have none: "vp_confirmDestroy (fst (vm_doAction c p)) = None" for c p
    by (simp add: vm_doAction_def split_beta)
  have same: "vm_url n ''destroy'' = vm_url m action \<longleftrightarrow> n = m \<and> ''destroy'' = action"
    if "CHR ''/'' \<notin> set action" for m action
    using that by (intro vm_url_inject) simp_all
  note cases = vms_fires_handlers [OF assms(1,2)]
  show "vms_inv s \<Longrightarrow> vms_inv t"
    using assms(3) by (rule_tac cases) (auto simp: do_confirm do_action vms_inv_def)
  show "vp_confirmDestroy (vs_page t) = Some n \<Longrightarrow>
      vp_confirmDestroy (vs_page s) = Some n \<or> Confirm_Destroy (Some n) \<in> set hs"
    using assms(3) by (rule_tac cases) (auto simp: do_confirm do_action none)
  show "Fetch ''POST'' (vm_url n ''destroy'') None \<in> set es \<Longrightarrow>
      vp_confirmDestroy (vs_page s) = Some n \<and> vp_confirmDestroy (vs_page t) = None"
    using assms(3) by (rule_tac cases) (auto simp: do_confirm do_action same none)
qed

lemma vm_answer_page:
  "vm_doAction_settle c r s = (p, es) \<Longrightarrow>
     vp_loadingAction p = None \<and> vp_confirmDestroy p = vp_confirmDestroy s \<and> Fetch m u b \<notin> set es"
  by (auto simp: vm_doAction_settle_def split: outcome.splits option.splits if_splits)

interpretation destroy: one_shot vms_step vms_session_init vms_inv
  "\<lambda>n s. vp_confirmDestroy (vs_page s) = Some n" asks_destroy issues_destroy "\<lambda>n l. False"
proof
  show "vms_inv vms_session_init" by (simp add: vms_inv_def vms_session_init_def vms_init_def)
  show "vp_confirmDestroy (vs_page vms_session_init) \<noteq> Some n" for n
    by (simp add: vms_session_init_def vms_init_def)
  fix s l t n
  assume st: "vms_step s l t"
  show "vms_inv s \<Longrightarrow> vms_inv t"
    using st by (rule vms_stepE) (auto simp: vms_inv_def dest: vms_step_fires(1) vm_answer_page)
  show "vms_inv s \<Longrightarrow> vp_confirmDestroy (vs_page t) = Some n \<Longrightarrow>
      vp_confirmDestroy (vs_page s) = Some n \<or> asks_destroy n l"
    using st by (rule vms_stepE) (auto simp: asks_destroy_def dest: vms_step_fires(2) vm_answer_page)
  show "vms_inv s \<Longrightarrow> issues_destroy n l \<Longrightarrow> False \<or> vp_confirmDestroy (vs_page s) = Some n"
    using st by (rule vms_stepE) (auto simp: issues_destroy_def dest: vms_step_fires(3) vm_answer_page)
  show "vms_inv s \<Longrightarrow> issues_destroy n l \<Longrightarrow> False \<or> vp_confirmDestroy (vs_page t) \<noteq> Some n"
    using st by (rule vms_stepE) (auto simp: issues_destroy_def dest: vms_step_fires(3) vm_answer_page)
qed

text \<open>C33. In any session on the machines page, whatever the user fires and in whatever order answers and
  news arrive, a request to destroy a machine goes out only after the user asked for the confirmation
  of exactly that machine, no more often than asked; and the page is busy only while an answer is
  outstanding.\<close>

theorem destroy_was_asked:
  assumes "run vms_step vms_session_init (later @ l # earlier) s"
  shows "(issues_destroy n l \<longrightarrow> (\<exists>l' \<in> set earlier. asks_destroy n l'))
    \<and> length (filter (issues_destroy n) (later @ l # earlier)) \<le> length (filter (asks_destroy n) (later @ l # earlier))
    \<and> (vp_loadingAction (vs_page s) \<noteq> None \<longrightarrow> vs_pending s \<noteq> [])"
  using destroy.issue_traced [OF assms] destroy.issues_bounded [OF assms, of n] destroy.run_inv [OF assms]
  by (auto simp: vms_inv_def)

definition sample_destroy_run :: "vms_label list" where
  "sample_destroy_run =
     [VM_Fires [VM_Action ''win'' ''destroy''] [Fetch ''POST'' ''/api/vms/win/destroy'' None],
      VM_Fires [Confirm_Destroy (Some ''win'')] [],
      VM_Overview]"

lemma sample_destroy_session: "\<exists>s. vms_run sample_destroy_run s"
proof -
  let ?v = "vms_session_init\<lparr>vs_vms := Some [sample_vm]\<rparr>"
  let ?c = "?v\<lparr>vs_page := vms_init\<lparr>vp_confirmDestroy := Some ''win''\<rparr>\<rparr>"
  have "vms_step vms_session_init VM_Overview ?v" by (rule vm_overview)
  with run_start have "vms_run [VM_Overview] ?v" by (rule run_step)
  moreover have "vms_step ?v (VM_Fires [Confirm_Destroy (Some ''win'')] []) ?c"
  proof (rule vm_fires)
    show "VMsPage (Some [sample_vm]) vms_init ! 0 \<in> set (VMsPage (vs_vms ?v) (vs_page ?v))"
      by (simp add: VMsPage_def vms_session_init_def)
    have "[Confirm_Destroy (Some ''win'')] \<in> offered (vm_row sample_vm)"
      by (simp add: offered_vm_row sample_vm_def)
    then show "[Confirm_Destroy (Some ''win'')] \<in> offered (VMsPage (Some [sample_vm]) vms_init ! 0)"
      by (rule subsetD [OF vm_row_offered, rotated]) simp
  qed (simp add: vms_do_def vms_session_init_def)
  ultimately have two: "vms_run [VM_Fires [Confirm_Destroy (Some ''win'')] [], VM_Overview] ?c"
    by (rule run_step)
  have "vms_step ?c (VM_Fires [VM_Action ''win'' ''destroy''] [Fetch ''POST'' ''/api/vms/win/destroy'' None])
      (fst (vms_do (VM_Action ''win'' ''destroy'') ?c))"
  proof (rule vm_fires)
    show "destroy_dialog (Some ''win'') \<in> set (VMsPage (vs_vms ?c) (vs_page ?c))" by (simp add: VMsPage_def)
    show "[VM_Action ''win'' ''destroy''] \<in> offered (destroy_dialog (Some ''win''))"
      by (simp add: destroy_dialog_def view_simps)
  qed (simp add: vms_do_def vm_doAction_def)
  with two have "vms_run sample_destroy_run (fst (vms_do (VM_Action ''win'' ''destroy'') ?c))"
    unfolding sample_destroy_run_def by (rule run_step)
  then show ?thesis by (rule exI)
qed

theorem destroy_was_asked_witness:
  "\<exists>l' \<in> set (tl sample_destroy_run). asks_destroy ''win'' l'"
proof -
  obtain s where "vms_run ([] @ hd sample_destroy_run # tl sample_destroy_run) s"
    using sample_destroy_session by (auto simp: sample_destroy_run_def)
  moreover have "issues_destroy ''win'' (hd sample_destroy_run)"
    by (simp add: issues_destroy_def sample_destroy_run_def vm_url_def)
  ultimately show ?thesis using destroy_was_asked by blast
qed

end
