(* ===== verification/Secrets_Session.thy ===== *)
theory Secrets_Session
  imports Secrets_Page Sessions
begin

text \<open>
  A whole session on the secrets page: the user's handlers and the answers in any order. A
  deployment is two requests here, the start and the reading of the response's body.
\<close>

section \<open>Requests and their continuations\<close>

datatype secrets_request =
    Req_List
  | Req_Put edit_modal
  | Req_Deploy
  | Req_Reads

datatype secrets_answer =
    List_Answer "secrets_body outcome"
  | Put_Answer "envelope outcome"
  | Deploy_Answer "unit outcome" bool
  | Reads_Answer "stream_read list"

record secrets_session =
  xs_page :: secrets_page
  xs_pending :: "secrets_request list"

definition secrets_session_init :: secrets_session where
  "secrets_session_init = \<lparr>xs_page = secrets_init, xs_pending = [Req_List]\<rparr>"

fun secrets_requests :: "secrets_act \<Rightarrow> secrets_page \<Rightarrow> secrets_request list" where
  "secrets_requests Refresh_Secrets s = [Req_List]"
| "secrets_requests Deploy_Now s = [Req_Deploy]"
| "secrets_requests Submit_Secret s =
     (if js_trim (em_value (sx_editModal s)) = [] then [] else [Req_Put (sx_editModal s)])"
| "secrets_requests _ s = []"

definition secrets_do :: "secrets_act \<Rightarrow> secrets_session \<Rightarrow> secrets_session \<times> effect list" where
  "secrets_do a s =
     (let (p, es) = secrets_dispatch a (xs_page s)
      in (s\<lparr>xs_page := p, xs_pending := secrets_requests a (xs_page s) @ xs_pending s\<rparr>, es))"

text \<open>The response to the deployment request; \<open>body\<close> tells whether it has one to read.\<close>

definition deploy_started ::
  "unit outcome \<Rightarrow> bool \<Rightarrow> secrets_page \<Rightarrow> secrets_page \<times> effect list \<times> secrets_request list" where
  "deploy_started r body s =
     (case r of
        Rejected e \<Rightarrow> (s\<lparr>sx_deploying := False\<rparr>, [Toast Error ''Deploy encountered an error''], [])
      | Resolved resp \<Rightarrow>
          if \<not> resp_ok resp then (s\<lparr>sx_deploying := False\<rparr>, [Toast Error ''Deploy failed to start''], [])
          else (let info = Toast Info (''Deploy started '' @ em_dash @ '' activating system configuration'' @ ellipsis)
            in if body then (s, [info], [Req_Reads]) else (s\<lparr>sx_deploying := False\<rparr>, [info], [])))"

text \<open>The reading has come to its end; \<open>None\<close> while it goes on.\<close>

definition deploy_finished ::
  "stream_read list \<Rightarrow> secrets_page \<Rightarrow> (secrets_page \<times> effect list) option" where
  "deploy_finished rs s =
     (case deploy_loop rs of
        Deploy_Done \<Rightarrow>
          Some (s\<lparr>sx_deploying := False, sx_deployPending := False\<rparr>,
                Toast Success ''Deploy completed successfully!'' # fetchSecrets_start)
      | Deploy_Failed \<Rightarrow> Some (s\<lparr>sx_deploying := False\<rparr>, [Toast Error ''Deploy failed!''])
      | Deploy_Ended \<Rightarrow> Some (s\<lparr>sx_deploying := False\<rparr>, [])
      | Deploy_Broken \<Rightarrow> Some (s\<lparr>sx_deploying := False\<rparr>, [Toast Error ''Deploy encountered an error''])
      | Deploy_Reading \<Rightarrow> None)"

text \<open>Both parts together are the continuation of the handler.\<close>

lemma deploy_in_two:
  "handleDeploy_settle r reads s =
     (let (s1, es1, next) = deploy_started r (reads \<noteq> None) s
      in case reads of
           None \<Rightarrow> (s1, es1)
         | Some rs \<Rightarrow>
             if next = [] then (s1, es1)
             else (case deploy_finished rs s1 of None \<Rightarrow> (s1, es1) | Some (s2, es2) \<Rightarrow> (s2, es1 @ es2)))"
  by (simp add: handleDeploy_settle_def deploy_started_def deploy_finished_def Let_def
      split: outcome.split option.split deploy_result.split)

definition secrets_follow :: "effect list \<Rightarrow> secrets_request list" where
  "secrets_follow es = vwhen (Fetch ''GET'' ''/api/secrets'' None \<in> set es) [Req_List]"

fun secrets_answered ::
  "secrets_request \<Rightarrow> secrets_answer \<Rightarrow> secrets_page \<Rightarrow> (secrets_page \<times> effect list \<times> secrets_request list) option" where
  "secrets_answered Req_List (List_Answer r) s = (let (p, es) = fetchSecrets_settle r s in Some (p, es, []))"
| "secrets_answered (Req_Put m) (Put_Answer r) s =
     (let (p, es) = handleSave_settle m r s in Some (p, es, secrets_follow es))"
| "secrets_answered Req_Deploy (Deploy_Answer r body) s = Some (deploy_started r body s)"
| "secrets_answered Req_Reads (Reads_Answer rs) s =
     map_option (\<lambda>(p, es). (p, es, secrets_follow es)) (deploy_finished rs s)"
| "secrets_answered _ _ s = None"

section \<open>Steps\<close>

datatype secrets_label =
    Secrets_Fires "secrets_act list" "effect list"
  | Secrets_Answered secrets_request "effect list"

primrec secrets_effects :: "secrets_label \<Rightarrow> effect list" where
  "secrets_effects (Secrets_Fires hs es) = es"
| "secrets_effects (Secrets_Answered q es) = es"

inductive secrets_step ::
  "(string \<Rightarrow> int option) \<Rightarrow> (string \<Rightarrow> string) \<Rightarrow> secrets_session \<Rightarrow> secrets_label \<Rightarrow> secrets_session \<Rightarrow> bool"
  for date_parse locale_string where
  secrets_fires: "hs \<in> offered (SecretsPage date_parse locale_string now (xs_page s)) \<Longrightarrow>
     perform secrets_do hs s = (t, es) \<Longrightarrow>
     secrets_step date_parse locale_string s (Secrets_Fires hs es) t"
| secrets_answer: "q \<in> set (xs_pending s) \<Longrightarrow> secrets_answered q a (xs_page s) = Some (p, es, next) \<Longrightarrow>
     secrets_step date_parse locale_string s (Secrets_Answered q es)
       (s\<lparr>xs_page := p, xs_pending := next @ remove1 q (xs_pending s)\<rparr>)"

inductive_cases secrets_stepE: "secrets_step date_parse locale_string s l t"

section \<open>What is offered\<close>

fun secrets_fair :: "secrets_page \<Rightarrow> secrets_act \<Rightarrow> bool" where
  "secrets_fair s Deploy_Now = (\<not> sx_deploying s \<and> sx_deployPending s)"
| "secrets_fair s Submit_Secret = em_open (sx_editModal s)"
| "secrets_fair s (Edit_Value v) = em_open (sx_editModal s)"
| "secrets_fair s Close_Edit = em_open (sx_editModal s)"
| "secrets_fair s (Edit_Secret x) = (x \<in> set (sx_secrets s))"
| "secrets_fair s Refresh_Secrets = True"

lemma offered_secret_row: "offered (secret_row date_parse locale_string now x) = {[Edit_Secret x]}"
  by (auto simp: secret_row_def secret_value_cell_def RelativeTime_def vwhen_def view_simps split: option.split list.split)

lemma offered_deploy_card: "offered (deploy_card s) = (if sx_deploying s then {} else {[Deploy_Now]})"
  by (simp add: deploy_card_def view_simps)

lemma offered_edit_modal:
  "hs \<in> offered (edit_secret_modal m) \<Longrightarrow>
     em_open m \<and> (hs = [] \<or> hs = [Close_Edit] \<or> hs = [Submit_Secret] \<or> (\<exists>v. hs = [Edit_Value v]))"
  by (auto simp: edit_secret_modal_def view_simps split: if_splits)

lemma secrets_offers:
  assumes "hs \<in> offered (SecretsPage date_parse locale_string now s)"
  obtains "hs = []" | a where "hs = [a]" "secrets_fair s a"
proof -
  have "hs = [Refresh_Secrets] \<or> (sx_deployPending s \<and> hs \<in> offered (deploy_card s))
      \<or> (\<exists>x \<in> set (sx_secrets s). hs \<in> offered (secret_row date_parse locale_string now x))
      \<or> hs \<in> offered (edit_secret_modal (sx_editModal s))"
    using assms by (auto simp: SecretsPage_def vwhen_def view_simps split: if_splits)
  then show ?thesis
    using that by (auto simp: offered_secret_row offered_deploy_card dest: offered_edit_modal split: if_splits)
qed

section \<open>One deployment at a time\<close>

definition is_deploy :: "secrets_request \<Rightarrow> bool" where
  "is_deploy q \<longleftrightarrow> q = Req_Deploy \<or> q = Req_Reads"

lemma is_deploy_simps [simp]:
  "is_deploy Req_Deploy" "is_deploy Req_Reads" "\<not> is_deploy Req_List" "\<not> is_deploy (Req_Put m)"
  by (simp_all add: is_deploy_def)

definition secrets_inv :: "secrets_session \<Rightarrow> bool" where
  "secrets_inv s \<longleftrightarrow>
     length (filter is_deploy (xs_pending s)) = of_bool (sx_deploying (xs_page s))
     \<and> (sx_loading (xs_page s) \<longrightarrow> Req_List \<in> set (xs_pending s))"

lemma secrets_follow_quiet [simp]: "filter is_deploy (secrets_follow es) = []"
  by (simp add: secrets_follow_def vwhen_def)

lemma secrets_do_inv:
  assumes "secrets_fair (xs_page s) a" "secrets_inv s" "secrets_do a s = (t, es)"
  shows "secrets_inv t"
  using assms by (cases a) (auto simp: secrets_do_def secrets_inv_def handleDeploy_def)

text \<open>An answer ends its request; only the start of a deployment leaves another one to come.\<close>

lemma secrets_answered_flags:
  assumes "secrets_answered q a s = Some (p, es, next)"
  shows "is_deploy q \<Longrightarrow> sx_deploying s \<Longrightarrow> length (filter is_deploy next) = of_bool (sx_deploying p)"
    and "\<not> is_deploy q \<Longrightarrow> sx_deploying p = sx_deploying s \<and> filter is_deploy next = []"
    and "sx_loading p = (sx_loading s \<and> q \<noteq> Req_List)"
  using assms
  by (cases "(q, a, s)" rule: secrets_answered.cases;
      auto simp: fetchSecrets_settle_def handleSave_settle_def deploy_started_def deploy_finished_def Let_def
        split: outcome.splits option.splits if_splits prod.splits deploy_result.splits)+

lemma secrets_answer_inv:
  assumes "secrets_inv s" "q \<in> set (xs_pending s)" "secrets_answered q a (xs_page s) = Some (p, es, next)"
  shows "secrets_inv (s\<lparr>xs_page := p, xs_pending := next @ remove1 q (xs_pending s)\<rparr>)"
proof -
  have "is_deploy q \<Longrightarrow> q \<in> set (filter is_deploy (xs_pending s))" using assms(2) by simp
  then have "is_deploy q \<Longrightarrow> sx_deploying (xs_page s)"
    using assms(1) by (cases "sx_deploying (xs_page s)") (auto simp: secrets_inv_def filter_empty_conv)
  then show ?thesis
    using assms(1,2) secrets_answered_flags [OF assms(3)]
    by (cases "is_deploy q") (auto simp: secrets_inv_def filter_remove1 length_remove1 remove1_idem)
qed

interpretation secrets: session_invariant "secrets_step date_parse locale_string" secrets_session_init secrets_inv
proof
  show "secrets_inv secrets_session_init"
    by (simp add: secrets_inv_def secrets_session_init_def secrets_init_def)
  fix s l t
  assume inv: "secrets_inv s" and st: "secrets_step date_parse locale_string s l t"
  from st show "secrets_inv t"
  proof (rule secrets_stepE)
    fix hs now es
    assume off: "hs \<in> offered (SecretsPage date_parse locale_string now (xs_page s))"
      and p: "perform secrets_do hs s = (t, es)"
    from off show ?thesis by (rule secrets_offers) (use p inv secrets_do_inv in auto)
  qed (use inv secrets_answer_inv in blast)
qed

section \<open>The form of the edit dialog\<close>

text \<open>
  What the form shows, as the user made it: a name and a text. Opening starts it empty, typing
  replaces the text, closing ends it, and so does the answer to a save, whichever form is open.
\<close>

fun form_act :: "secrets_act \<Rightarrow> (string \<times> string) option \<Rightarrow> (string \<times> string) option" where
  "form_act (Edit_Secret x) f = Some (sec_name x, [])"
| "form_act Close_Edit f = None"
| "form_act (Edit_Value v) f = map_option (\<lambda>(n, w). (n, v)) f"
| "form_act _ f = f"

definition saved_note :: "string \<Rightarrow> effect" where
  "saved_note n = Toast Success (''Secret '' @ n @ '' updated'')"

fun form_after :: "secrets_label \<Rightarrow> (string \<times> string) option \<Rightarrow> (string \<times> string) option" where
  "form_after (Secrets_Fires hs es) f = fold form_act hs f"
| "form_after (Secrets_Answered (Req_Put m) es) f = (if saved_note (em_name m) \<in> set es then None else f)"
| "form_after (Secrets_Answered q es) f = f"

definition shown_form :: "secrets_page \<Rightarrow> (string \<times> string) option" where
  "shown_form s = (let m = sx_editModal s in if em_open m then Some (em_name m, em_value m) else None)"

lemma do_form: "secrets_do a s = (t, es) \<Longrightarrow> shown_form (xs_page t) = form_act a (shown_form (xs_page s))"
  by (cases a) (auto simp: secrets_do_def shown_form_def handleDeploy_def Let_def)

lemma answered_form:
  assumes "secrets_answered q a s = Some (p, es, next)"
  shows "shown_form p = form_after (Secrets_Answered q es) (shown_form s)"
  using assms
  by (cases "(q, a, s)" rule: secrets_answered.cases)
    (auto simp: fetchSecrets_settle_def handleSave_settle_def deploy_started_def deploy_finished_def shown_form_def
      saved_note_def Let_def split: outcome.splits option.splits if_splits prod.splits deploy_result.splits)

interpretation secret_form: trace_view "secrets_step date_parse locale_string" secrets_session_init secrets_inv
  "\<lambda>s. shown_form (xs_page s)" form_after None
proof
  show "shown_form (xs_page secrets_session_init) = None"
    by (simp add: shown_form_def secrets_session_init_def secrets_init_def)
  fix s l t
  assume st: "secrets_step date_parse locale_string s l t"
  then show "shown_form (xs_page t) = form_after l (shown_form (xs_page s))"
  proof (rule secrets_stepE)
    fix hs now es
    assume "hs \<in> offered (SecretsPage date_parse locale_string now (xs_page s))"
      and "perform secrets_do hs s = (t, es)" "l = Secrets_Fires hs es"
    then show ?thesis by (elim secrets_offers) (auto dest: do_form)
  qed (auto dest: answered_form)
qed

text \<open>A form on \<open>n\<close> with the text \<open>v\<close> was opened on \<open>n\<close>, and \<open>v\<close> was typed.\<close>

definition opens_secret :: "string \<Rightarrow> secrets_label \<Rightarrow> bool" where
  "opens_secret n l \<longleftrightarrow> (\<exists>hs es x. l = Secrets_Fires hs es \<and> Edit_Secret x \<in> set hs \<and> sec_name x = n)"

definition types_value :: "string \<Rightarrow> secrets_label \<Rightarrow> bool" where
  "types_value v l \<longleftrightarrow> (\<exists>hs es. l = Secrets_Fires hs es \<and> Edit_Value v \<in> set hs)"

lemma fold_form:
  "fold form_act hs f = Some (n, v) \<Longrightarrow>
     ((\<exists>w. f = Some (n, w)) \<or> (\<exists>x. Edit_Secret x \<in> set hs \<and> sec_name x = n))
     \<and> (v = [] \<or> (\<exists>m. f = Some (m, v)) \<or> Edit_Value v \<in> set hs)"
proof (induction hs arbitrary: n v rule: rev_induct)
  case (snoc a hs)
  then show ?case by (cases a) auto
qed simp

lemma form_origin:
  "foldr form_after ls None = Some (n, v) \<Longrightarrow>
     (\<exists>l \<in> set ls. opens_secret n l) \<and> (v = [] \<or> (\<exists>l \<in> set ls. types_value v l))"
proof (induction ls arbitrary: n v)
  case (Cons l ls)
  show ?case
  proof (cases l)
    case (Secrets_Fires hs es)
    with fold_form [of hs "foldr form_after ls None" n v] Cons show ?thesis
      by (auto simp: opens_secret_def types_value_def)
  next
    case (Secrets_Answered q es)
    with Cons show ?thesis by (cases q) (auto split: if_splits)
  qed
qed simp

section \<open>Properties\<close>

lemma fires_put:
  assumes "hs \<in> offered (SecretsPage date_parse locale_string now (xs_page s))" "perform secrets_do hs s = (t, es)"
    and "Fetch ''PUT'' url body \<in> set es"
  shows "\<exists>n v. shown_form (xs_page s) = Some (n, v) \<and> js_trim v \<noteq> [] \<and> url = ''/api/secrets/'' @ encodeURIComponent n
    \<and> body = Some (JObj [(''value'', JStr v)])"
  using assms(1)
proof (rule secrets_offers)
  fix a
  assume "hs = [a]" "secrets_fair (xs_page s) a"
  then show ?thesis using assms(2,3)
    by (cases a) (auto simp: secrets_do_def shown_form_def handleSave_def handleDeploy_def fetchSecrets_start_def
        Let_def split: if_splits)
qed (use assms in simp)

lemma answered_no_put: "secrets_answered q a s = Some (p, es, next) \<Longrightarrow> Fetch ''PUT'' url body \<notin> set es"
  by (cases "(q, a, s)" rule: secrets_answered.cases)
    (auto simp: fetchSecrets_settle_def handleSave_settle_def deploy_started_def deploy_finished_def fetchSecrets_start_def
      Let_def split: outcome.splits option.splits if_splits prod.splits deploy_result.splits)

text \<open>C27. In any session on the secrets page, in whatever order answers arrive, the value that is sent for a secret is the
  one the user typed into the form after opening it on that secret, and it is not blank.\<close>

theorem saved_secret_was_typed:
  assumes "run (secrets_step date_parse locale_string) secrets_session_init (later @ l # earlier) s"
    and "Fetch ''PUT'' url body \<in> set (secrets_effects l)"
  shows "\<exists>n v. foldr form_after earlier None = Some (n, v) \<and> js_trim v \<noteq> []
    \<and> url = ''/api/secrets/'' @ encodeURIComponent n \<and> body = Some (JObj [(''value'', JStr v)])
    \<and> (\<exists>l' \<in> set earlier. opens_secret n l') \<and> (\<exists>l' \<in> set earlier. types_value v l')"
proof -
  obtain u t where u: "run (secrets_step date_parse locale_string) secrets_session_init earlier u"
    and st: "secrets_step date_parse locale_string u l t"
    using assms(1) by (rule run_at)
  have "\<exists>n v. shown_form (xs_page u) = Some (n, v) \<and> js_trim v \<noteq> [] \<and> url = ''/api/secrets/'' @ encodeURIComponent n
      \<and> body = Some (JObj [(''value'', JStr v)])"
    using st assms(2) by (elim secrets_stepE) (auto dest: fires_put answered_no_put)
  then obtain n v where f: "foldr form_after earlier None = Some (n, v)" and v: "js_trim v \<noteq> []"
    and "url = ''/api/secrets/'' @ encodeURIComponent n" "body = Some (JObj [(''value'', JStr v)])"
    using secret_form.view_run [OF u] by auto
  moreover have "v \<noteq> []" using v by (auto simp: js_trim_def)
  ultimately show ?thesis using form_origin [OF f] by blast
qed

definition sample_secret :: Secret where
  "sample_secret = \<lparr>sec_name = ''db'', sec_description = [], sec_services = [], sec_runPath = [], sec_present = True,
     sec_modified_at = None, sec_preview = None\<rparr>"

definition listed_page :: secrets_page where
  "listed_page = secrets_init\<lparr>sx_loading := False, sx_secrets := [sample_secret], sx_deployPending := True\<rparr>"

definition listed_session :: secrets_session where
  "listed_session = \<lparr>xs_page = listed_page, xs_pending = []\<rparr>"

definition form_session :: "string \<Rightarrow> secrets_session" where
  "form_session v = \<lparr>xs_page = listed_page\<lparr>sx_editModal := \<lparr>em_open = True, em_name = ''db'', em_description = [], em_value = v\<rparr>\<rparr>,
     xs_pending = []\<rparr>"

abbreviation sample_secrets_step :: "secrets_session \<Rightarrow> secrets_label \<Rightarrow> secrets_session \<Rightarrow> bool" where
  "sample_secrets_step \<equiv> secrets_step (\<lambda>d. None) (\<lambda>d. d)"

abbreviation sample_secrets_run :: "secrets_label list \<Rightarrow> secrets_session \<Rightarrow> bool" where
  "sample_secrets_run \<equiv> run sample_secrets_step secrets_session_init"

lemma listed_run: "sample_secrets_run [Secrets_Answered Req_List []] listed_session"
proof -
  let ?r = "Resolved \<lparr>r_status = 200, r_status_text = [], r_text = [],
      r_json = Some \<lparr>sy_secrets = Some [sample_secret], sy_deploy_pending = Some True\<rparr>\<rparr>"
  have "sample_secrets_step secrets_session_init (Secrets_Answered Req_List [])
      (secrets_session_init\<lparr>xs_page := listed_page, xs_pending := [] @ remove1 Req_List (xs_pending secrets_session_init)\<rparr>)"
    by (rule secrets_answer [where a = "List_Answer ?r"])
      (simp_all add: secrets_session_init_def fetchSecrets_settle_def listed_page_def Let_def)
  then have "sample_secrets_step secrets_session_init (Secrets_Answered Req_List []) listed_session"
    by (simp add: secrets_session_init_def listed_session_def)
  with run_start show ?thesis by (rule run_step)
qed

lemma offered_listed: "hs = [Edit_Secret sample_secret] \<or> hs = [Deploy_Now] \<Longrightarrow>
     hs \<in> offered (SecretsPage (\<lambda>d. None) (\<lambda>d. d) 0 listed_page)"
  by (auto simp: SecretsPage_def listed_page_def secrets_init_def offered_secret_row offered_deploy_card vwhen_def view_simps)

lemma offered_form:
  "hs = [Edit_Value w] \<or> hs = [Submit_Secret] \<Longrightarrow>
     hs \<in> offered (SecretsPage (\<lambda>d. None) (\<lambda>d. d) 0 (xs_page (form_session v)))"
  by (auto simp: SecretsPage_def form_session_def listed_page_def secrets_init_def edit_secret_modal_def view_simps)

definition save_run :: "secrets_label list" where
  "save_run =
     [Secrets_Fires [Submit_Secret]
        [Fetch ''PUT'' (''/api/secrets/'' @ encodeURIComponent ''db'') (Some (JObj [(''value'', JStr ''pw'')]))],
      Secrets_Fires [Edit_Value ''pw''] [],
      Secrets_Fires [Edit_Secret sample_secret] [],
      Secrets_Answered Req_List []]"

lemma save_session: "\<exists>s. sample_secrets_run save_run s"
proof -
  have "sample_secrets_step listed_session (Secrets_Fires [Edit_Secret sample_secret] []) (form_session [])"
    by (rule secrets_fires [where now = 0])
      (simp_all add: listed_session_def offered_listed form_session_def secrets_do_def sample_secret_def)
  with listed_run have "sample_secrets_run (tl (tl save_run)) (form_session [])"
    unfolding save_run_def list.sel by (rule run_step)
  moreover have "sample_secrets_step (form_session []) (Secrets_Fires [Edit_Value ''pw''] []) (form_session ''pw'')"
    by (rule secrets_fires [where now = 0]) (simp add: offered_form, simp add: form_session_def secrets_do_def)
  ultimately have "sample_secrets_run (tl save_run) (form_session ''pw'')"
    unfolding save_run_def list.sel by (rule run_step)
  moreover have "sample_secrets_step (form_session ''pw'') (hd save_run) (fst (secrets_do Submit_Secret (form_session ''pw'')))"
    unfolding save_run_def list.sel
    by (rule secrets_fires [where now = 0])
      (simp add: offered_form, simp add: form_session_def secrets_do_def handleSave_def js_trim_def is_ws_def Let_def)
  ultimately have "sample_secrets_run (hd save_run # tl save_run) (fst (secrets_do Submit_Secret (form_session ''pw'')))"
    by (rule run_step)
  then show ?thesis unfolding save_run_def list.sel by (rule exI)
qed

theorem saved_secret_was_typed_witness:
  "\<exists>n v. foldr form_after (tl save_run) None = Some (n, v)
    \<and> ''/api/secrets/'' @ encodeURIComponent ''db'' = ''/api/secrets/'' @ encodeURIComponent n
    \<and> (\<exists>l' \<in> set (tl save_run). types_value v l')"
proof -
  obtain s where "sample_secrets_run ([] @ hd save_run # tl save_run) s"
    using save_session by (auto simp: save_run_def)
  from saved_secret_was_typed [OF this, of "''/api/secrets/'' @ encodeURIComponent ''db''"
      "Some (JObj [(''value'', JStr ''pw'')])"]
  show ?thesis by (auto simp: save_run_def)
qed

text \<open>In any session on the secrets page at most one deployment runs, from its request to the end of its
  events, and the button that starts it is busy exactly as long; the page is blank only while a list is
  outstanding.\<close>

lemma one_deploy_at_a_time:
  assumes "run (secrets_step date_parse locale_string) secrets_session_init trace s"
  shows "length (filter is_deploy (xs_pending s)) = of_bool (sx_deploying (xs_page s))
    \<and> (sx_loading (xs_page s) \<longrightarrow> Req_List \<in> set (xs_pending s))"
  using secrets.run_inv [OF assms] by (simp add: secrets_inv_def)


definition deploying_session :: secrets_session where
  "deploying_session = fst (secrets_do Deploy_Now listed_session)"

lemma deploying_run:
  "sample_secrets_run [Secrets_Fires [Deploy_Now] [Fetch ''POST'' ''/api/secrets/deploy'' None], Secrets_Answered Req_List []] deploying_session"
proof (rule run_step [OF listed_run])
  show "sample_secrets_step listed_session (Secrets_Fires [Deploy_Now] [Fetch ''POST'' ''/api/secrets/deploy'' None]) deploying_session"
    by (rule secrets_fires [where now = 0])
      (simp_all add: listed_session_def offered_listed deploying_session_def secrets_do_def handleDeploy_def)
qed

lemma one_deploy_at_a_time_witness:
  "length (filter is_deploy (xs_pending deploying_session)) = 1 \<and> sx_deploying (xs_page deploying_session)"
proof -
  have "sx_deploying (xs_page deploying_session)"
    by (simp add: deploying_session_def secrets_do_def handleDeploy_def)
  then show ?thesis using one_deploy_at_a_time [OF deploying_run] by simp
qed

end
