(* ===== verification/Backups_Session.thy ===== *)
theory Backups_Session
  imports Backups_Page Sessions
begin

text \<open>
  A whole session on the backups page: the user's handlers, the jobs the poller brings, the
  answers in any order.
\<close>

section \<open>Requests and their continuations\<close>

datatype backups_request =
    Req_Run string
  | Req_Logs string
  | Req_Save_Job BackupStatus
  | Req_Copy

datatype backups_answer =
    Job_Answer "envelope outcome"
  | Log_Answer "(string option) outcome"
  | Copy_Answer bool

record backups_session =
  ks_page :: backups_page
  ks_jobs :: "BackupStatus list option"
  ks_pending :: "backups_request list"

definition backups_session_init :: backups_session where
  "backups_session_init = \<lparr>ks_page = backups_init, ks_jobs = None, ks_pending = []\<rparr>"

fun backups_requests :: "backups_act \<Rightarrow> backups_page \<Rightarrow> backups_request list" where
  "backups_requests (Backup_Run n) s = [Req_Run n]"
| "backups_requests (Backup_Logs n) s = [Req_Logs n]"
| "backups_requests (Backup_Copy c) s = [Req_Copy]"
| "backups_requests Backup_Save s = (case bp_editingJob s of None \<Rightarrow> [] | Some j \<Rightarrow> [Req_Save_Job j])"
| "backups_requests _ s = []"

definition backups_do :: "int \<times> int \<Rightarrow> backups_act \<Rightarrow> backups_session \<Rightarrow> backups_session \<times> effect list" where
  "backups_do pt a s =
     (let (p, es) = backups_dispatch pt a (ks_page s)
      in (s\<lparr>ks_page := p, ks_pending := backups_requests a (ks_page s) @ ks_pending s\<rparr>, es))"

fun backups_answered ::
  "backups_request \<Rightarrow> backups_answer \<Rightarrow> backups_page \<Rightarrow> (backups_page \<times> effect list) option" where
  "backups_answered (Req_Run n) (Job_Answer r) s = Some (runJob_settle n r s)"
| "backups_answered (Req_Logs n) (Log_Answer r) s = Some (backup_logs_settle r s, [])"
| "backups_answered (Req_Save_Job j) (Job_Answer r) s = Some (saveJob_settle j r s)"
| "backups_answered Req_Copy (Copy_Answer ok) s = Some (s, handleCopy_settle ok)"
| "backups_answered _ _ s = None"

section \<open>Steps\<close>

datatype backups_label =
    Backups_Fires "backups_act list" "effect list"
  | Backups_Answered backups_request "effect list"
  | Backups_News "BackupStatus list option"
  | Backups_Click

primrec backups_effects :: "backups_label \<Rightarrow> effect list" where
  "backups_effects (Backups_Fires hs es) = es"
| "backups_effects (Backups_Answered q es) = es"
| "backups_effects (Backups_News jobs) = []"
| "backups_effects Backups_Click = []"

inductive backups_step ::
  "(string \<Rightarrow> int option) \<Rightarrow> backups_session \<Rightarrow> backups_label \<Rightarrow> backups_session \<Rightarrow> bool" for date_parse where
  backups_fires: "v \<in> set (BackupsPage date_parse now (ks_jobs s) (ks_page s)) \<Longrightarrow> hs \<in> offered v \<Longrightarrow>
     perform (backups_do pt) hs s = (t, es) \<Longrightarrow>
     backups_step date_parse s (Backups_Fires hs es) t"
| backups_answer: "q \<in> set (ks_pending s) \<Longrightarrow> backups_answered q a (ks_page s) = Some (p, es) \<Longrightarrow>
     backups_step date_parse s (Backups_Answered q es) (s\<lparr>ks_page := p, ks_pending := remove1 q (ks_pending s)\<rparr>)"
| backups_news: "backups_step date_parse s (Backups_News jobs) (s\<lparr>ks_jobs := jobs\<rparr>)"
| backups_click: "backups_step date_parse s Backups_Click
     (s\<lparr>ks_page := (ks_page s)\<lparr>bp_shell := document_click (bp_shell (ks_page s))\<rparr>\<rparr>)"

inductive_cases backups_stepE: "backups_step date_parse s l t"

section \<open>What is offered\<close>

text \<open>A unit the page knows: in the rows, in the form, or in the row menu.\<close>

definition known_unit :: "string \<Rightarrow> BackupStatus list option \<Rightarrow> backups_page \<Rightarrow> bool" where
  "known_unit u jobs s \<longleftrightarrow>
     (\<exists>j \<in> set (opt_or jobs []). bs_unit j = u)
     \<or> (\<exists>j. bp_editingJob s = Some j \<and> bs_unit j = u)
     \<or> (\<exists>j. ctxRow (bp_shell s) = Some j \<and> bs_unit j = u)"

fun backups_fair :: "BackupStatus list option \<Rightarrow> backups_page \<Rightarrow> backups_act \<Rightarrow> bool" where
  "backups_fair jobs s (Backup_Edit (Some j)) = known_unit (bs_unit j) jobs s"
| "backups_fair jobs s (Backup_Run n) = known_unit n jobs s"
| "backups_fair jobs s (Backup_Logs n) = known_unit n jobs s"
| "backups_fair jobs s (Backup_Row_Menu j) = known_unit (bs_unit j) jobs s"
| "backups_fair jobs s _ = True"

lemma offered_backup_row:
  "offered (backup_row date_parse now job) =
     {[Backup_Row_Menu job], [Backup_Edit (Some job)], [Backup_Run (bs_unit job)], [Backup_Logs (bs_unit job)]}"
  by (auto simp: backup_row_def last_run_cell_def backup_badge_def Let_def view_simps)

lemma offered_backup_menu:
  "v \<in> set (backup_context_menu item) \<Longrightarrow>
     offered v \<subseteq> {[Backup_Edit (Some item)], [Backup_Run (bs_unit item)], [Backup_Logs (bs_unit item)]}"
  by (auto simp: backup_context_menu_def view_simps)

lemma offered_backup_sheet:
  "hs \<in> offered (backup_edit_sheet e) \<Longrightarrow>
     hs = [] \<or> hs = [Backup_Edit None] \<or> hs = [Backup_Save]
     \<or> (\<exists>j k. e = Some j \<and> hs = [Backup_Edit (Some k)] \<and> bs_unit k = bs_unit j)"
  by (auto simp: backup_edit_sheet_def edit_input_def view_simps split: option.splits if_splits)

definition backups_single :: "BackupStatus list option \<Rightarrow> backups_page \<Rightarrow> backups_act list set" where
  "backups_single jobs s = {hs. hs = [] \<or> (\<exists>a. hs = [a] \<and> backups_fair jobs s a)}"

lemma backups_single_in [simp]:
  "[] \<in> backups_single jobs s"
  "[a] \<in> backups_single jobs s \<longleftrightarrow> backups_fair jobs s a"
  by (auto simp: backups_single_def)

lemma offered_backups_table:
  "offered (BackupsTableContent date_parse now (backup_rows s jobs)) \<subseteq> backups_single jobs s"
proof -
  have "known_unit (bs_unit j) jobs s" if "j \<in> set (backup_rows s jobs)" for j
  proof -
    have "j \<in> set (opt_or jobs [])"
      using that sorted_rows_subset [of backup_field "Some ''unit''" "bp_table s" "Some (opt_or jobs [])"]
      unfolding backup_rows_def by auto
    then show ?thesis by (auto simp: known_unit_def)
  qed
  then show ?thesis by (auto simp: BackupsTableContent_def offered_backup_row view_simps)
qed

lemma offered_backups_shell: "offered (hd (BackupsPage date_parse now jobs s)) \<subseteq> backups_single jobs s"
  unfolding BackupsPage_def list.sel
proof (rule offered_PageShell_in, goal_cases)
  case (4 r menu v)
  then have "v \<in> set (backup_context_menu r)" "known_unit (bs_unit r) jobs s" by (auto simp: known_unit_def)
  then show ?case using offered_backup_menu by fastforce
qed (use offered_backups_table in auto)

lemma offered_backup_dialogs:
  "offered (backup_logs_dialog l) \<subseteq> backups_single jobs s"
  "offered (backup_edit_sheet (bp_editingJob s)) \<subseteq> backups_single jobs s"
proof -
  show "offered (backup_logs_dialog l) \<subseteq> backups_single jobs s"
    by (auto simp: backup_logs_dialog_def view_simps)
  show "offered (backup_edit_sheet (bp_editingJob s)) \<subseteq> backups_single jobs s"
    by (auto dest!: offered_backup_sheet) (auto simp: known_unit_def)
qed

lemma offered_bug_modal: "v \<in> set (drop 3 (BackupsPage date_parse now jobs s)) \<Longrightarrow> offered v \<subseteq> backups_single jobs s"
  by (auto simp: BackupsPage_def view_simps)

lemma backups_offers:
  assumes "v \<in> set (BackupsPage date_parse now jobs s)" "hs \<in> offered v"
  obtains "hs = []" | a where "hs = [a]" "backups_fair jobs s a"
proof -
  have "BackupsPage date_parse now jobs s =
      hd (BackupsPage date_parse now jobs s) # backup_logs_dialog (bp_logs s) # backup_edit_sheet (bp_editingJob s)
        # drop 3 (BackupsPage date_parse now jobs s)"
    by (simp add: BackupsPage_def)
  then have "v = hd (BackupsPage date_parse now jobs s) \<or> v = backup_logs_dialog (bp_logs s)
      \<or> v = backup_edit_sheet (bp_editingJob s) \<or> v \<in> set (drop 3 (BackupsPage date_parse now jobs s))"
    using assms(1) by (metis set_ConsD)
  then have "offered v \<subseteq> backups_single jobs s"
    using offered_backups_shell offered_backup_dialogs offered_bug_modal by blast
  then show ?thesis using assms(2) that by (auto simp: backups_single_def)
qed

section \<open>Units come from the overview\<close>

definition backups_inv :: "backups_session \<Rightarrow> bool" where
  "backups_inv s \<longleftrightarrow> (bp_loadingAction (ks_page s) \<noteq> None \<longrightarrow> (\<exists>n. Req_Run n \<in> set (ks_pending s)))"

definition known :: "string \<Rightarrow> backups_session \<Rightarrow> bool" where
  "known u s \<longleftrightarrow> known_unit u (ks_jobs s) (ks_page s)"

definition lists_unit :: "string \<Rightarrow> backups_label \<Rightarrow> bool" where
  "lists_unit u l \<longleftrightarrow> (\<exists>jobs. l = Backups_News (Some jobs) \<and> (\<exists>j \<in> set jobs. bs_unit j = u))"

definition request_for :: "string \<Rightarrow> effect \<Rightarrow> bool" where
  "request_for u e \<longleftrightarrow>
     (\<exists>body. e = Fetch ''PATCH'' (''/api/backups/'' @ u) body)
     \<or> e = Fetch ''POST'' (''/api/backups/'' @ u @ ''/run'') None
     \<or> e = Fetch ''GET'' (''/api/backups/'' @ u @ ''/logs'') None"

lemma request_for_simps [simp]: "\<not> request_for u (Toast k t)" "\<not> request_for u (Clipboard c)"
  by (auto simp: request_for_def)

definition issues_request :: "string \<Rightarrow> backups_label \<Rightarrow> bool" where
  "issues_request u l \<longleftrightarrow> (\<exists>e \<in> set (backups_effects l). request_for u e)"

lemma backups_do_known:
  assumes "backups_fair (ks_jobs s) (ks_page s) a" "backups_do pt a s = (t, es)"
  shows "known u t \<Longrightarrow> known u s"
    and "e \<in> set es \<Longrightarrow> request_for u e \<Longrightarrow> known u s"
    and "backups_inv s \<Longrightarrow> backups_inv t"
proof -
  show "known u t \<Longrightarrow> known u s"
    using assms by (cases "(ks_jobs s, ks_page s, a)" rule: backups_fair.cases)
      (auto simp: backups_do_def known_def known_unit_def runJob_def backup_showLogs_def onRowContextMenu_def)
  show "e \<in> set es \<Longrightarrow> request_for u e \<Longrightarrow> known u s"
    using assms by (cases "(ks_jobs s, ks_page s, a)" rule: backups_fair.cases)
      (auto simp: backups_do_def known_def known_unit_def runJob_def backup_logs_url_def saveJob_def
        request_for_def split: option.splits)
  show "backups_inv s \<Longrightarrow> backups_inv t"
    using assms(2) by (cases a) (auto simp: backups_do_def backups_inv_def runJob_def backup_showLogs_def)
qed

lemma backups_answered_page:
  assumes "backups_answered q a s = Some (p, es)"
  shows "known_unit u jobs p \<Longrightarrow> known_unit u jobs s"
    and "e \<in> set es \<Longrightarrow> \<not> request_for u e"
    and "bp_loadingAction p \<noteq> None \<Longrightarrow> bp_loadingAction s \<noteq> None \<and> (\<forall>n. q \<noteq> Req_Run n)"
  using assms
  by (cases "(q, a, s)" rule: backups_answered.cases;
      auto simp: runJob_settle_def backup_logs_settle_def saveJob_settle_def handleCopy_settle_def known_unit_def Let_def
        split: outcome.splits option.splits if_splits)+

lemma backups_answer_inv:
  assumes "backups_inv s" "backups_answered q a (ks_page s) = Some (p, es)"
  shows "backups_inv (s\<lparr>ks_page := p, ks_pending := remove1 q (ks_pending s)\<rparr>)"
proof -
  have "(\<exists>n. Req_Run n \<in> set (ks_pending s)) \<Longrightarrow> \<forall>n. q \<noteq> Req_Run n \<Longrightarrow> \<exists>n. Req_Run n \<in> set (remove1 q (ks_pending s))"
    by (metis in_set_remove1)
  then show ?thesis
    using assms(1) backups_answered_page(3) [OF assms(2)] by (auto simp: backups_inv_def)
qed

lemma news_known:
  "known u (s\<lparr>ks_jobs := jobs\<rparr>) \<Longrightarrow> known u s \<or> lists_unit u (Backups_News jobs)"
  by (cases jobs) (auto simp: known_def known_unit_def lists_unit_def)

lemma click_known:
  "known u (s\<lparr>ks_page := (ks_page s)\<lparr>bp_shell := document_click (bp_shell (ks_page s))\<rparr>\<rparr>) \<longleftrightarrow> known u s"
  by (simp add: known_def known_unit_def document_click_def)

interpretation backup_units: traceback "backups_step date_parse" backups_session_init backups_inv
  known lists_unit issues_request "\<lambda>u l. False"
proof
  show "backups_inv backups_session_init" by (simp add: backups_inv_def backups_session_init_def backups_init_def)
  show "\<not> known u backups_session_init" for u
    by (simp add: known_def known_unit_def backups_session_init_def backups_init_def shell_init_def)
  fix s l t u
  assume st: "backups_step date_parse s l t"
  show "backups_inv s \<Longrightarrow> backups_inv t"
    using st
  proof (rule backups_stepE)
    fix v now hs pt es
    assume "backups_inv s" "v \<in> set (BackupsPage date_parse now (ks_jobs s) (ks_page s))" "hs \<in> offered v"
      and p: "perform (backups_do pt) hs s = (t, es)"
    then show ?thesis by (elim backups_offers) (auto dest: backups_do_known(3))
  qed (use backups_answer_inv in \<open>auto simp: backups_inv_def\<close>)
  show "known u t \<Longrightarrow> known u s \<or> lists_unit u l"
    using st
  proof (rule backups_stepE)
    fix v now hs pt es
    assume "known u t" "v \<in> set (BackupsPage date_parse now (ks_jobs s) (ks_page s))" "hs \<in> offered v"
      and p: "perform (backups_do pt) hs s = (t, es)"
    then show ?thesis by (elim backups_offers) (auto dest: backups_do_known(1))
  next
    fix q a p es
    assume "known u t" "backups_answered q a (ks_page s) = Some (p, es)"
      and "t = s\<lparr>ks_page := p, ks_pending := remove1 q (ks_pending s)\<rparr>"
    then show ?thesis by (auto simp: known_def dest: backups_answered_page(1))
  qed (auto dest: news_known simp: click_known)
  show "issues_request u l \<Longrightarrow> False \<or> known u s"
    using st
  proof (rule backups_stepE)
    fix v now hs pt es
    assume "issues_request u l" "v \<in> set (BackupsPage date_parse now (ks_jobs s) (ks_page s))" "hs \<in> offered v"
      and "perform (backups_do pt) hs s = (t, es)" "l = Backups_Fires hs es"
    then show ?thesis by (elim backups_offers) (auto simp: issues_request_def dest: backups_do_known(2))
  qed (auto simp: issues_request_def dest: backups_answered_page(2))
qed

section \<open>The form of the edit sheet\<close>

fun edit_act :: "backups_act \<Rightarrow> BackupStatus option \<Rightarrow> BackupStatus option" where
  "edit_act (Backup_Edit j) f = j"
| "edit_act _ f = f"

definition job_saved_note :: "BackupStatus \<Rightarrow> effect" where
  "job_saved_note j = Toast Success (''Backup '' @ quote @ bs_unit j @ quote @ '' updated'')"

fun edit_after :: "backups_label \<Rightarrow> BackupStatus option \<Rightarrow> BackupStatus option" where
  "edit_after (Backups_Fires hs es) f = fold edit_act hs f"
| "edit_after (Backups_Answered (Req_Save_Job j) es) f = (if job_saved_note j \<in> set es then None else f)"
| "edit_after _ f = f"

lemma do_edit: "backups_do pt a s = (t, es) \<Longrightarrow> bp_editingJob (ks_page t) = edit_act a (bp_editingJob (ks_page s))"
  by (cases a) (auto simp: backups_do_def runJob_def backup_showLogs_def)

lemma answered_edit:
  assumes "backups_answered q a s = Some (p, es)"
  shows "bp_editingJob p = edit_after (Backups_Answered q es) (bp_editingJob s)"
  using assms
  by (cases "(q, a, s)" rule: backups_answered.cases)
    (auto simp: runJob_settle_def backup_logs_settle_def saveJob_settle_def handleCopy_settle_def job_saved_note_def
      Let_def split: outcome.splits option.splits if_splits)

interpretation backup_form: trace_view "backups_step date_parse" backups_session_init backups_inv
  "\<lambda>s. bp_editingJob (ks_page s)" edit_after None
proof
  show "bp_editingJob (ks_page backups_session_init) = None" by (simp add: backups_session_init_def backups_init_def)
  fix s l t
  assume st: "backups_step date_parse s l t"
  then show "bp_editingJob (ks_page t) = edit_after l (bp_editingJob (ks_page s))"
  proof (rule backups_stepE)
    fix v now hs pt es
    assume "v \<in> set (BackupsPage date_parse now (ks_jobs s) (ks_page s))" "hs \<in> offered v"
      and "perform (backups_do pt) hs s = (t, es)" "l = Backups_Fires hs es"
    then show ?thesis by (elim backups_offers) (auto dest: do_edit)
  qed (auto dest: answered_edit)
qed

section \<open>Properties\<close>

definition save_request :: "BackupStatus \<Rightarrow> effect" where
  "save_request j =
     Fetch ''PATCH'' (''/api/backups/'' @ bs_unit j)
       (Some (JObj [(''enabled'', JBool (bs_enabled j)), (''schedule'', JStr (bs_schedule j)),
          (''healthcheck_uuid'', JStr (bs_healthcheck_uuid j)), (''pause_service'', JStr (bs_pause_service j))]))"

lemma do_patch:
  "backups_do pt a s = (t, es) \<Longrightarrow> Fetch ''PATCH'' url body \<in> set es \<Longrightarrow>
     \<exists>j. bp_editingJob (ks_page s) = Some j \<and> Fetch ''PATCH'' url body = save_request j"
  by (cases a) (auto simp: backups_do_def runJob_def backup_logs_url_def saveJob_def save_request_def split: option.splits)

lemma answered_no_fetch: "backups_answered q a s = Some (p, es) \<Longrightarrow> Fetch m url body \<notin> set es"
  by (cases "(q, a, s)" rule: backups_answered.cases)
    (auto simp: runJob_settle_def saveJob_settle_def handleCopy_settle_def Let_def split: outcome.splits option.splits if_splits)

text \<open>C31. In any session on the backups page a request goes out only for a unit that an overview listed, and what
  is saved is the form as the user left it: the job it was opened on, with the fields the user changed.\<close>

theorem saved_job_was_edited:
  assumes "run (backups_step date_parse) backups_session_init (later @ l # earlier) s"
  shows "(issues_request u l \<longrightarrow> (\<exists>l' \<in> set earlier. lists_unit u l'))
    \<and> (Fetch ''PATCH'' url body \<in> set (backups_effects l) \<longrightarrow>
        (\<exists>j. foldr edit_after earlier None = Some j \<and> Fetch ''PATCH'' url body = save_request j))"
proof -
  obtain r t where r: "run (backups_step date_parse) backups_session_init earlier r"
    and st: "backups_step date_parse r l t"
    using assms by (rule run_at)
  have "\<exists>j. bp_editingJob (ks_page r) = Some j \<and> Fetch ''PATCH'' url body = save_request j"
    if e: "Fetch ''PATCH'' url body \<in> set (backups_effects l)"
    using st
  proof (rule backups_stepE)
    fix v now hs pt es
    assume "v \<in> set (BackupsPage date_parse now (ks_jobs r) (ks_page r))" "hs \<in> offered v"
      and "perform (backups_do pt) hs r = (t, es)" "l = Backups_Fires hs es"
    then show ?thesis using e by (elim backups_offers) (auto dest: do_patch)
  qed (use e answered_no_fetch in auto)
  then show ?thesis
    using backup_units.issue_traced [OF assms, of u] backup_form.view_run [OF r] by auto
qed

definition sample_backup :: "string \<Rightarrow> BackupStatus" where
  "sample_backup u = \<lparr>bs_unit = u, bs_enabled = True, bs_schedule = ''0 4 * * *'', bs_depends_on = [], bs_requires_mount = [],
     bs_healthcheck_uuid = [], bs_pause_service = [], bs_active_state = ''inactive'', bs_result = ''success'',
     bs_last_run_start = [], bs_last_run_end = [], bs_next_run = []\<rparr>"

abbreviation sample_backups_step :: "backups_session \<Rightarrow> backups_label \<Rightarrow> backups_session \<Rightarrow> bool" where
  "sample_backups_step \<equiv> backups_step (\<lambda>d. None)"

abbreviation sample_backups_run :: "backups_label list \<Rightarrow> backups_session \<Rightarrow> bool" where
  "sample_backups_run \<equiv> run sample_backups_step backups_session_init"

definition editing_session :: "BackupStatus option \<Rightarrow> backups_request list \<Rightarrow> backups_session" where
  "editing_session j qs =
     \<lparr>ks_page = backups_init\<lparr>bp_editingJob := j\<rparr>, ks_jobs = Some [sample_backup ''a'', sample_backup ''b''], ks_pending = qs\<rparr>"

lemma news_run: "sample_backups_run [Backups_News (Some [sample_backup ''a'', sample_backup ''b''])] (editing_session None [])"
proof -
  have "editing_session None [] = backups_session_init\<lparr>ks_jobs := Some [sample_backup ''a'', sample_backup ''b'']\<rparr>"
    by (simp add: editing_session_def backups_session_init_def backups_init_def)
  then have "sample_backups_step backups_session_init (Backups_News (Some [sample_backup ''a'', sample_backup ''b''])) (editing_session None [])"
    by (metis backups_news)
  with run_start show ?thesis by (rule run_step)
qed

lemma step_edit:
  assumes "u = ''a'' \<or> u = ''b''"
  shows "sample_backups_step (editing_session e qs) (Backups_Fires [Backup_Edit (Some (sample_backup u))] [])
    (editing_session (Some (sample_backup u)) qs)"
proof (rule backups_fires [where pt = "(0, 0)"])
  let ?p = "backups_init\<lparr>bp_editingJob := e\<rparr>" and ?jobs = "Some [sample_backup ''a'', sample_backup ''b'']"
  show "hd (BackupsPage (\<lambda>d. None) 0 ?jobs ?p) \<in> set (BackupsPage (\<lambda>d. None) 0 (ks_jobs (editing_session e qs)) (ks_page (editing_session e qs)))"
    by (simp add: BackupsPage_def editing_session_def)
  have "set (backup_rows ?p ?jobs) = {sample_backup ''a'', sample_backup ''b''}"
    unfolding backup_rows_def sorted_rows_set by (auto simp: backups_init_def table_init_def)
  then show "[Backup_Edit (Some (sample_backup u))] \<in> offered (hd (BackupsPage (\<lambda>d. None) 0 ?jobs ?p))"
    using assms by (auto simp: BackupsPage_def PageShell_def BackupsTableContent_def offered_backup_row Let_def view_simps)
qed (simp add: editing_session_def backups_do_def)

lemma step_save:
  "sample_backups_step (editing_session (Some j) qs) (Backups_Fires [Backup_Save] [save_request j])
     (editing_session (Some j) (Req_Save_Job j # qs))"
proof (rule backups_fires [where pt = "(0, 0)"])
  show "backup_edit_sheet (Some j) \<in> set (BackupsPage (\<lambda>d. None) 0 (ks_jobs (editing_session (Some j) qs)) (ks_page (editing_session (Some j) qs)))"
    by (simp add: BackupsPage_def editing_session_def)
  show "[Backup_Save] \<in> offered (backup_edit_sheet (Some j))"
    by (simp add: backup_edit_sheet_def view_simps)
qed (simp add: editing_session_def backups_do_def saveJob_def save_request_def)

lemma step_close:
  "sample_backups_step (editing_session (Some j) qs) (Backups_Fires [Backup_Edit None] []) (editing_session None qs)"
proof (rule backups_fires [where pt = "(0, 0)"])
  show "backup_edit_sheet (Some j) \<in> set (BackupsPage (\<lambda>d. None) 0 (ks_jobs (editing_session (Some j) qs)) (ks_page (editing_session (Some j) qs)))"
    by (simp add: BackupsPage_def editing_session_def)
  show "[Backup_Edit None] \<in> offered (backup_edit_sheet (Some j))"
    by (simp add: backup_edit_sheet_def view_simps)
qed (simp add: editing_session_def backups_do_def)

definition backup_save_run :: "backups_label list" where
  "backup_save_run =
     [Backups_Fires [Backup_Save] [save_request (sample_backup ''a'')],
      Backups_Fires [Backup_Edit (Some (sample_backup ''a''))] [],
      Backups_News (Some [sample_backup ''a'', sample_backup ''b''])]"

lemma backup_save_session:
  "sample_backups_run backup_save_run (editing_session (Some (sample_backup ''a'')) [Req_Save_Job (sample_backup ''a'')])"
  unfolding backup_save_run_def by (rule run_step [OF run_step [OF news_run step_edit] step_save]) simp

theorem saved_job_was_edited_witness:
  "(\<exists>l' \<in> set (tl backup_save_run). lists_unit ''a'' l')
   \<and> (\<exists>j. foldr edit_after (tl backup_save_run) None = Some j \<and> save_request (sample_backup ''a'') = save_request j)"
proof -
  have "sample_backups_run ([] @ hd backup_save_run # tl backup_save_run)
      (editing_session (Some (sample_backup ''a'')) [Req_Save_Job (sample_backup ''a'')])"
    using backup_save_session by (simp add: backup_save_run_def)
  from saved_job_was_edited [OF this, of "''a''"] show ?thesis
    by (simp add: backup_save_run_def issues_request_def save_request_def request_for_def sample_backup_def)
qed

end
