(* ===== verification/Services_Feed.thy ===== *)
theory Services_Feed
  imports Services_Session Overview_Properties
begin

text \<open>
  The services page with its feed: the shared poller, the listener of the page's
  \<open>useOverview\<close>, and the two effects that copy what it returns into the page's state. An
  effect runs when a value it depends on is a new object, so the objects have identities
  here: each response and each error makes one. The render that a delivery causes is
  committed before the next timer or response.
\<close>

section \<open>State\<close>

record feed =
  fd_page :: services_session
  fd_world :: poll_world
  fd_version :: nat
  fd_errors :: nat
  fd_hook :: overview_hook
  fd_data_id :: "nat option"
  fd_error_id :: "nat option"

text \<open>A delivery to the listener \<open>l\<close>; the objects delivered have the identities \<open>version\<close> and \<open>errid\<close>.\<close>

fun hear_data :: "nat \<Rightarrow> nat \<Rightarrow> poll_out \<Rightarrow> nat option \<Rightarrow> nat option" where
  "hear_data l version (OnData l' d) i = (if l' = l then Some version else i)"
| "hear_data l version (OnError l' e c) i = (if l' = l \<and> c \<noteq> None then Some version else i)"
| "hear_data l version (ServiceFailure n k b) i = i"

fun hear_error :: "nat \<Rightarrow> nat \<Rightarrow> poll_out \<Rightarrow> nat option \<Rightarrow> nat option" where
  "hear_error l errid (OnData l' d) i = (if l' = l then None else i)"
| "hear_error l errid (OnError l' e c) i = (if l' = l then Some errid else i)"
| "hear_error l errid (ServiceFailure n k b) i = i"

text \<open>The effects of the page on \<open>overview.data\<close> and on \<open>overview.error\<close>, in this order.\<close>

definition page_effects :: "bool \<Rightarrow> bool \<Rightarrow> overview_hook \<Rightarrow> services_page \<Rightarrow> services_page" where
  "page_effects data_changed error_changed h p =
     (let p1 = (if data_changed then on_overview_data (useOverview (\<lambda>d. Some (od_Services d)) h) p else p)
      in if error_changed then on_overview_error (h_error h) p1 else p1)"

definition feed_deliver :: "nat \<Rightarrow> nat \<Rightarrow> nat \<Rightarrow> poll_world \<times> poll_out list \<Rightarrow> feed \<Rightarrow> feed" where
  "feed_deliver l version errid wo s =
     (let h = fold (hook_event l) (snd wo) (fd_hook s);
          di = fold (hear_data l version) (snd wo) (fd_data_id s);
          ei = fold (hear_error l errid) (snd wo) (fd_error_id s);
          p = page_effects (di \<noteq> fd_data_id s) (ei \<noteq> fd_error_id s) h (ss_page (fd_page s))
      in s\<lparr>fd_page := (fd_page s)\<lparr>ss_page := p\<rparr>, fd_world := fst wo, fd_version := version, fd_errors := errid,
           fd_hook := h, fd_data_id := di, fd_error_id := ei\<rparr>)"

text \<open>The page is mounted: its listener subscribes, and the page's effects copy what that delivered at the next render.\<close>

definition feed_mount :: "local_storage \<Rightarrow> bool \<Rightarrow> local_storage \<Rightarrow> nat \<Rightarrow> poll_world \<Rightarrow> feed" where
  "feed_mount ls hidden ls' l w =
     feed_deliver l 0 0 (subscribe hidden ls' l w)
       \<lparr>fd_page = services_session_init ls, fd_world = w, fd_version = 0, fd_errors = 0, fd_hook = hook_init,
        fd_data_id = None, fd_error_id = None\<rparr>"

section \<open>Steps\<close>

text \<open>The toasts that the window events of a response raise.\<close>

definition failure_news :: "poll_out list \<Rightarrow> effect list" where
  "failure_news outs =
     concat (map (\<lambda>x. case x of ServiceFailure n k b \<Rightarrow> [failure_toast n k b] | _ \<Rightarrow> []) outs)"

datatype feed_label =
    Page_Step services_label
  | Poll_Ok "effect list"
  | Poll_Failed
  | Poll_Quiet

definition is_news :: "services_label \<Rightarrow> bool" where
  "is_news l \<longleftrightarrow> l = Overview_News \<or> (\<exists>es. l = Failure_News es)"

inductive feed_step ::
  "(string \<Rightarrow> string option) \<Rightarrow> (string \<Rightarrow> int option) \<Rightarrow> nat \<Rightarrow> feed \<Rightarrow> feed_label \<Rightarrow> feed \<Rightarrow> bool"
  for url_host date_parse l where
  feed_page: "services_step url_host date_parse (fd_page s) lab p \<Longrightarrow> \<not> is_news lab \<Longrightarrow>
     feed_step url_host date_parse l s (Page_Step lab) (s\<lparr>fd_page := p\<rparr>)"
| feed_timer: "(i, d) \<in> set (timers (fd_world s)) \<Longrightarrow>
     feed_step url_host date_parse l s Poll_Quiet
       (feed_deliver l (fd_version s) (fd_errors s) (timer_fires hidden ls i (fd_world s)) s)"
| feed_join: "l' \<notin> set (subscribers (fd_world s)) \<Longrightarrow>
     feed_step url_host date_parse l s Poll_Quiet
       (feed_deliver l (fd_version s) (fd_errors s) (subscribe hidden ls l' (fd_world s)) s)"
| feed_leave: "l' \<noteq> l \<Longrightarrow>
     feed_step url_host date_parse l s Poll_Quiet
       (feed_deliver l (fd_version s) (fd_errors s) (unsubscribe l' (fd_world s), []) s)"
| feed_ok: "iv \<in> set (in_flight (fd_world s)) \<Longrightarrow> poll_result msg r = Inr d \<Longrightarrow>
     fetch_settles msg iv r (fd_world s) = wo \<Longrightarrow>
     feed_step url_host date_parse l s (Poll_Ok (failure_news (snd wo)))
       (feed_deliver l (Suc (fd_version s)) (fd_errors s) wo s)"
| feed_failed: "iv \<in> set (in_flight (fd_world s)) \<Longrightarrow> poll_result msg r = Inl e \<Longrightarrow>
     feed_step url_host date_parse l s Poll_Failed
       (feed_deliver l (fd_version s) (Suc (fd_errors s)) (fetch_settles msg iv r (fd_world s)) s)"

inductive_cases feed_stepE: "feed_step url_host date_parse l s lab t"

section \<open>What the listener hears\<close>

text \<open>Deliveries of the cached object only.\<close>

definition data_only :: "OverviewData option \<Rightarrow> poll_out list \<Rightarrow> bool" where
  "data_only c outs \<longleftrightarrow>
     (\<forall>x \<in> set outs. (\<exists>l d. x = OnData l d \<and> c = Some d) \<or> (\<exists>n k b. x = ServiceFailure n k b))"

lemma data_only_Cons: "data_only c (x # xs) \<longleftrightarrow> data_only c [x] \<and> data_only c xs"
  by (simp add: data_only_def)

definition heard :: "nat \<Rightarrow> poll_out list \<Rightarrow> bool" where
  "heard l outs \<longleftrightarrow> (\<exists>d. OnData l d \<in> set outs)"

lemma hear_data_only:
  "data_only (Some d) outs \<Longrightarrow>
     fold (hook_event l) outs h = (if heard l outs then onData d h else h)
     \<and> fold (hear_data l v) outs di = (if heard l outs then Some v else di)
     \<and> fold (hear_error l k) outs ei = (if heard l outs then None else ei)"
proof (induction outs arbitrary: h di ei)
  case (Cons x xs)
  have xs: "data_only (Some d) xs" and x: "data_only (Some d) [x]" using Cons.prems data_only_Cons by blast+
  have "onData d (onData d h) = onData d h" for h by (simp add: onData_def)
  with Cons.IH [OF xs] x show ?case by (cases x) (auto simp: heard_def data_only_def)
qed (simp add: heard_def)

lemma hear_fresh:
  assumes "data_only (Some d) outs" "heard l outs"
  shows "fold (hook_event l) outs h = onData d h" "fold (hear_data l v) outs di = Some v"
    "fold (hear_error l k) outs ei = None"
  using hear_data_only [OF assms(1)] assms(2) by simp_all

lemma hear_nothing: "data_only None outs \<Longrightarrow> \<not> heard l outs
    \<and> fold (hook_event l) outs h = h \<and> fold (hear_data l v) outs di = di \<and> fold (hear_error l k) outs ei = ei"
proof (induction outs arbitrary: h di ei)
  case (Cons x xs)
  have xs: "data_only None xs" and x: "data_only None [x]" using Cons.prems data_only_Cons by blast+
  from Cons.IH [OF xs] x show ?case by (cases x) (auto simp: heard_def data_only_def)
qed (simp add: heard_def)

text \<open>A failure is told to every listener once.\<close>

lemma hear_failure:
  assumes "l \<in> set ls"
  shows "fold (hook_event l) (map (\<lambda>l. OnError l e c) ls) h = onError e c h"
    and "fold (hear_data l v) (map (\<lambda>l. OnError l e c) ls) di = (if c = None then di else Some v)"
    and "fold (hear_error l k) (map (\<lambda>l. OnError l e c) ls) ei = Some k"
proof -
  have twice: "onError e c (onError e c h) = onError e c h" for h by (simp add: onError_def split: option.split)
  have again: "fold (hook_event l) (map (\<lambda>l. OnError l e c) ls) (onError e c h) = onError e c h" for h ls
    by (induction ls) (auto simp: twice)
  show "fold (hook_event l) (map (\<lambda>l. OnError l e c) ls) h = onError e c h"
    using assms by (induction ls arbitrary: h) (auto simp: again)
  have "fold (hear_data l v) (map (\<lambda>l. OnError l e c) ls) (if c = None then di else Some v) = (if c = None then di else Some v)"
    for di ls by (induction ls) auto
  then show "fold (hear_data l v) (map (\<lambda>l. OnError l e c) ls) di = (if c = None then di else Some v)"
    using assms by (induction ls arbitrary: di) (auto split: if_splits)
  have "fold (hear_error l k) (map (\<lambda>l. OnError l e c) ls) (Some k) = Some k" for ls by (induction ls) auto
  then show "fold (hear_error l k) (map (\<lambda>l. OnError l e c) ls) ei = Some k"
    using assms by (induction ls arbitrary: ei) auto
qed

lemma data_only_simps:
  "tick h ls s = (t, outs) \<Longrightarrow> data_only (cached s) outs"
  "subscribe h ls l s = (t, outs) \<Longrightarrow> data_only (cached s) outs"
  "timer_fires h ls i s = (t, outs) \<Longrightarrow> data_only (cached s) outs"
  "data_only c []"
proof -
  have deliver: "data_only (cached s) (deliverCached s)" for s
    by (auto simp: data_only_def deliverCached_def split: option.split)
  show tick: "data_only (cached s) outs" if "tick h ls s = (t, outs)" for h ls s t outs
    using that deliver [of s] tick_outs by (metis empty_iff empty_set data_only_def)
  show "timer_fires h ls i s = (t, outs) \<Longrightarrow> data_only (cached s) outs"
    unfolding timer_fires_def by (drule tick) simp
  show "subscribe h ls l s = (t, outs) \<Longrightarrow> data_only (cached s) outs"
    by (auto simp: subscribe_def data_only_def Let_def split: if_splits prod.splits option.splits dest!: tick) blast
qed (simp add: data_only_def)

section \<open>The invariant\<close>

definition feed_inv :: "nat \<Rightarrow> feed \<Rightarrow> bool" where
  "feed_inv l s \<longleftrightarrow>
     poll_inv (fd_world s) \<and> l \<in> set (subscribers (fd_world s)) \<and> h_data (fd_hook s) = cached (fd_world s)
     \<and> fd_data_id s = (if cached (fd_world s) = None then None else Some (fd_version s))
     \<and> (\<forall>k. fd_error_id s = Some k \<longrightarrow> k \<le> fd_errors s)"

abbreviation shown_services :: "feed \<Rightarrow> ServiceInfo list option" where
  "shown_services s \<equiv> sp_services (ss_page (fd_page s))"

lemma deliver_quiet:
  assumes "feed_inv l s" "data_only (cached (fd_world s)) outs" "cached w = cached (fd_world s)"
    and "poll_inv w" "l \<in> set (subscribers w)"
  shows "feed_inv l (feed_deliver l (fd_version s) (fd_errors s) (w, outs) s)"
    and "fd_page (feed_deliver l (fd_version s) (fd_errors s) (w, outs) s) = fd_page s"
proof (atomize (full), cases "cached (fd_world s)")
  case None
  with assms hear_nothing [of outs] show "feed_inv l (feed_deliver l (fd_version s) (fd_errors s) (w, outs) s)
      \<and> fd_page (feed_deliver l (fd_version s) (fd_errors s) (w, outs) s) = fd_page s"
    by (simp add: feed_inv_def feed_deliver_def page_effects_def Let_def)
next
  case (Some d)
  with assms hear_data_only [of d outs] show "feed_inv l (feed_deliver l (fd_version s) (fd_errors s) (w, outs) s)
      \<and> fd_page (feed_deliver l (fd_version s) (fd_errors s) (w, outs) s) = fd_page s"
    by (simp add: feed_inv_def feed_deliver_def page_effects_def onData_def on_overview_error_def Let_def)
qed

lemma new_failures_data_only: "data_only c (new_failures p fresh)"
  by (auto simp: new_failures_def data_only_def split: option.splits if_splits)

lemma data_only_append: "data_only c (xs @ ys) \<longleftrightarrow> data_only c xs \<and> data_only c ys"
  by (auto simp: data_only_def)

lemma deliver_ok:
  assumes "feed_inv l s" "iv \<in> set (in_flight (fd_world s))" "poll_result msg r = Inr d"
  shows "feed_inv l (feed_deliver l (Suc (fd_version s)) (fd_errors s) (fetch_settles msg iv r (fd_world s)) s)"
    and "shown_services (feed_deliver l (Suc (fd_version s)) (fd_errors s) (fetch_settles msg iv r (fd_world s)) s)
      = Some (od_Services d)"
    and "cached (fd_world (feed_deliver l (Suc (fd_version s)) (fd_errors s) (fetch_settles msg iv r (fd_world s)) s)) = Some d"
proof -
  let ?outs = "new_failures (cached (fd_world s)) d @ map (\<lambda>l. OnData l d) (subscribers (fd_world s))"
  obtain w where settles: "fetch_settles msg iv r (fd_world s) = (w, ?outs)"
    using assms(3) by (simp add: fetch_settles_def fetch_ok_def Let_def)
  have w: "poll_inv w" "cached w = Some d" "subscribers w = subscribers (fd_world s)"
    using settle_inv [of "fd_world s" iv msg r] assms settles
    by (auto simp: feed_inv_def fetch_settles_def fetch_ok_def set_timeout_def Let_def)
  have "data_only (Some d) ?outs"
    by (simp add: data_only_append new_failures_data_only) (simp add: data_only_def)
  moreover have "heard l ?outs" using assms(1) by (auto simp: heard_def feed_inv_def)
  ultimately have "data_only (Some d) ?outs" "heard l ?outs" .
  note hear = hear_fresh [OF this]
  have "fd_data_id s \<noteq> Some (Suc (fd_version s))" using assms(1) by (simp add: feed_inv_def)
  then show "feed_inv l (feed_deliver l (Suc (fd_version s)) (fd_errors s) (fetch_settles msg iv r (fd_world s)) s)"
      "shown_services (feed_deliver l (Suc (fd_version s)) (fd_errors s) (fetch_settles msg iv r (fd_world s)) s) = Some (od_Services d)"
      "cached (fd_world (feed_deliver l (Suc (fd_version s)) (fd_errors s) (fetch_settles msg iv r (fd_world s)) s)) = Some d"
    using assms(1) w unfolding settles feed_deliver_def snd_conv hear
    by (simp_all add: feed_inv_def page_effects_def onData_def on_overview_error_def on_overview_data_def useOverview_def Let_def)
qed

lemma deliver_failed:
  assumes "feed_inv l s" "iv \<in> set (in_flight (fd_world s))" "poll_result msg r = Inl e"
  shows "feed_inv l (feed_deliver l (fd_version s) (Suc (fd_errors s)) (fetch_settles msg iv r (fd_world s)) s)"
    and "shown_services (feed_deliver l (fd_version s) (Suc (fd_errors s)) (fetch_settles msg iv r (fd_world s)) s) = None"
proof -
  let ?c = "cached (fd_world s)"
  let ?outs = "map (\<lambda>l. OnError l e ?c) (subscribers (fd_world s))"
  obtain w where settles: "fetch_settles msg iv r (fd_world s) = (w, ?outs)"
    using assms(3) by (simp add: fetch_settles_def fetch_fail_def Let_def)
  have w: "poll_inv w" "cached w = ?c" "subscribers w = subscribers (fd_world s)"
    using settle_inv [of "fd_world s" iv msg r] assms settles
    by (auto simp: feed_inv_def fetch_settles_def fetch_fail_def set_timeout_def Let_def)
  have "l \<in> set (subscribers (fd_world s))" using assms(1) by (simp add: feed_inv_def)
  note hear = hear_failure [OF this]
  have "fd_error_id s \<noteq> Some (Suc (fd_errors s))" using assms(1) by (auto simp: feed_inv_def)
  then show "feed_inv l (feed_deliver l (fd_version s) (Suc (fd_errors s)) (fetch_settles msg iv r (fd_world s)) s)"
      "shown_services (feed_deliver l (fd_version s) (Suc (fd_errors s)) (fetch_settles msg iv r (fd_world s)) s) = None"
    using assms(1) w unfolding settles feed_deliver_def snd_conv hear
    by (simp_all add: feed_inv_def page_effects_def onError_def on_overview_error_def Let_def split: option.split)
qed

lemma mount_inv:
  assumes "poll_inv w" "l \<notin> set (subscribers w)"
  shows "feed_inv l (feed_mount ls hidden ls' l w)"
    and "shown_services (feed_mount ls hidden ls' l w) = map_option od_Services (cached (fd_world (feed_mount ls hidden ls' l w)))"
proof -
  obtain t outs where sub: "subscribe hidden ls' l w = (t, outs)" by fastforce
  have t: "poll_inv t" "l \<in> set (subscribers t)" "cached t = cached w" "data_only (cached w) outs"
    using subscribe_inv [OF assms, of hidden ls'] subscribe_frame [OF sub] data_only_simps(2) [OF sub] sub by auto
  have "feed_inv l (feed_mount ls hidden ls' l w)
      \<and> shown_services (feed_mount ls hidden ls' l w) = map_option od_Services (cached (fd_world (feed_mount ls hidden ls' l w)))"
  proof (cases "cached w")
    case None
    with t hear_nothing [of outs] show ?thesis
      by (simp add: feed_inv_def feed_mount_def feed_deliver_def sub page_effects_def hook_init_def services_session_init_def
          services_init_def Let_def)
  next
    case (Some d)
    then have "heard l outs" using subscribe_delivers [OF sub] by (auto simp: heard_def)
    with Some t hear_data_only [of d outs] show ?thesis
      by (simp add: feed_inv_def feed_mount_def feed_deliver_def sub page_effects_def onData_def on_overview_error_def
          on_overview_data_def useOverview_def Let_def)
  qed
  then show "feed_inv l (feed_mount ls hidden ls' l w)"
    "shown_services (feed_mount ls hidden ls' l w) = map_option od_Services (cached (fd_world (feed_mount ls hidden ls' l w)))"
    by blast+
qed

section \<open>What the page shows\<close>

text \<open>The answers to the page's own requests that change the list it shows.\<close>

fun changes_services :: "services_label \<Rightarrow> bool" where
  "changes_services (Answered q es) \<longleftrightarrow>
     q = Req_Refetch \<or> (\<exists>u b. q = Req_Toggle u b) \<or> (\<exists>u n. q = Req_Disable u n)"
| "changes_services l \<longleftrightarrow> False"

fun calm :: "feed_label \<Rightarrow> bool" where
  "calm (Page_Step lab) \<longleftrightarrow> \<not> changes_services lab"
| "calm _ \<longleftrightarrow> True"

text \<open>Whether the last response was a failure.\<close>

fun failing :: "feed_label list \<Rightarrow> bool" where
  "failing [] \<longleftrightarrow> False"
| "failing (Poll_Failed # ls) \<longleftrightarrow> True"
| "failing (Poll_Ok es # ls) \<longleftrightarrow> False"
| "failing (_ # ls) \<longleftrightarrow> failing ls"

lemma do_services: "services_do pt a s = (t, es) \<Longrightarrow> sp_services (ss_page t) = sp_services (ss_page s)"
  by (cases a) (auto simp: services_do_def stopAndDisable_def doAction_def doBulkAction_def toggleViewMode_def
      triggerUpdate_def Let_def split: option.splits)

lemma perform_services:
  "perform (services_do pt) hs s = (t, es) \<Longrightarrow> sp_services (ss_page t) = sp_services (ss_page s)"
proof (induction hs arbitrary: s t es)
  case (Cons a hs)
  then show ?case by (auto simp: Let_def split: prod.splits dest: do_services)
qed simp

lemma answered_services:
  "services_answered q a s = Some (p, es, nx) \<Longrightarrow> \<not> changes_services (Answered q es) \<Longrightarrow> sp_services p = sp_services s"
  by (cases "(q, a, s)" rule: services_answered.cases)
    (auto simp: doAction_settle_def stop_settle_def saveConfig_settle_def doBulkAction_settle_def Let_def
      split: outcome.splits option.splits if_splits)

lemma page_step_services:
  assumes "services_step url_host date_parse s lab t" "\<not> is_news lab" "\<not> changes_services lab"
  shows "sp_services (ss_page t) = sp_services (ss_page s)"
  using assms(1)
proof (rule services_stepE)
  fix q a p es nx
  assume "services_answered q a (ss_page s) = Some (p, es, nx)" "lab = Answered q es"
    and "t = s\<lparr>ss_page := p, ss_pending := nx @ remove1 q (ss_pending s)\<rparr>"
  then show ?thesis using assms(3) answered_services by simp
qed (use assms(2) in \<open>auto simp: is_news_def dest: perform_services\<close>)

text \<open>The kinds of steps: most deliveries of the poller bring nothing new.\<close>

lemma unsubscribe_frame:
  "cached (unsubscribe l s) = cached s" "set (subscribers (unsubscribe l s)) = set (subscribers s) - {l}"
proof -
  have "subscribers (unsubscribe l s) = removeAll l (subscribers s)" by (simp add: unsubscribe_def Let_def)
  then show "set (subscribers (unsubscribe l s)) = set (subscribers s) - {l}" by simp
qed (simp add: unsubscribe_def Let_def)

lemma feed_step_kinds:
  assumes "feed_step url_host date_parse l s lab t" "feed_inv l s"
  obtains (page) labp p where "lab = Page_Step labp" "t = s\<lparr>fd_page := p\<rparr>" "\<not> is_news labp"
      "services_step url_host date_parse (fd_page s) labp p"
  | (quiet) w outs where "lab = Poll_Quiet" "t = feed_deliver l (fd_version s) (fd_errors s) (w, outs) s"
      "data_only (cached (fd_world s)) outs" "cached w = cached (fd_world s)" "poll_inv w" "l \<in> set (subscribers w)"
  | (response) iv msg r d wo where "lab = Poll_Ok (failure_news (snd wo))" "iv \<in> set (in_flight (fd_world s))"
      "poll_result msg r = Inr d" "wo = fetch_settles msg iv r (fd_world s)"
      "t = feed_deliver l (Suc (fd_version s)) (fd_errors s) wo s"
  | (failure) iv msg r e where "lab = Poll_Failed" "iv \<in> set (in_flight (fd_world s))" "poll_result msg r = Inl e"
      "t = feed_deliver l (fd_version s) (Suc (fd_errors s)) (fetch_settles msg iv r (fd_world s)) s"
  using assms(1)
proof (rule feed_stepE)
  have inv: "poll_inv (fd_world s)" "l \<in> set (subscribers (fd_world s))" using assms(2) by (simp_all add: feed_inv_def)
  {
    fix i d hidden ls
    assume t: "t = feed_deliver l (fd_version s) (fd_errors s) (timer_fires hidden ls i (fd_world s)) s" "lab = Poll_Quiet"
      and i: "(i, d) \<in> set (timers (fd_world s))"
    obtain w outs where w: "timer_fires hidden ls i (fd_world s) = (w, outs)" by fastforce
    then have "cached w = cached (fd_world s)" "subscribers w = subscribers (fd_world s)"
      by (auto simp: timer_fires_def dest!: tick_frame)
    then show thesis
      using t w inv timer_inv [OF inv(1) i, of hidden ls] data_only_simps(3) [OF w] by (intro quiet [of w outs]) simp_all
  next
    fix l' hidden ls
    assume t: "t = feed_deliver l (fd_version s) (fd_errors s) (subscribe hidden ls l' (fd_world s)) s" "lab = Poll_Quiet"
      and l': "l' \<notin> set (subscribers (fd_world s))"
    obtain w outs where w: "subscribe hidden ls l' (fd_world s) = (w, outs)" by fastforce
    then show thesis
      using t inv subscribe_inv [OF inv(1) l', of hidden ls] data_only_simps(2) [OF w] subscribe_frame [OF w]
      by (intro quiet [of w outs]) simp_all
  next
    fix l'
    assume "t = feed_deliver l (fd_version s) (fd_errors s) (unsubscribe l' (fd_world s), []) s" "lab = Poll_Quiet" "l' \<noteq> l"
    then show thesis
      using inv unsubscribe_inv [OF inv(1), of l'] by (intro quiet [of "unsubscribe l' (fd_world s)" "[]"]) (simp_all add: unsubscribe_frame data_only_simps(4))
  }
qed (use page response failure in auto)

lemma feed_step_inv: "feed_step url_host date_parse l s lab t \<Longrightarrow> feed_inv l s \<Longrightarrow> feed_inv l t"
proof (erule feed_step_kinds)
  assume inv: "feed_inv l s"
  show "t = s\<lparr>fd_page := p\<rparr> \<Longrightarrow> feed_inv l t" for p using inv by (simp add: feed_inv_def)
qed (use deliver_quiet(1) deliver_ok(1) deliver_failed(1) in auto)

definition page_shows :: "bool \<Rightarrow> feed \<Rightarrow> bool" where
  "page_shows failed s \<longleftrightarrow>
     shown_services s = (if failed then None else map_option od_Services (cached (fd_world s)))"

lemma feed_step_shows:
  assumes "feed_step url_host date_parse l s lab t" "feed_inv l s" "calm lab" "page_shows (failing ls) s"
  shows "page_shows (failing (lab # ls)) t"
  using assms(1,2)
proof (cases rule: feed_step_kinds)
  case (page labp p)
  then show ?thesis using assms(3,4) page_step_services by (simp add: page_shows_def)
next
  case (quiet w outs)
  then have "fd_page t = fd_page s" "fd_world t = w"
    using deliver_quiet(2) [OF assms(2) quiet(3-6)] by (simp_all add: feed_deliver_def Let_def)
  then show ?thesis using assms(4) quiet(1,4) by (simp add: page_shows_def)
next
  case (response iv msg r d wo)
  then show ?thesis using deliver_ok(2,3) [OF assms(2) response(2,3)] by (simp add: page_shows_def)
next
  case (failure iv msg r e)
  then show ?thesis using deliver_failed(2) [OF assms(2) failure(2,3)] by (simp add: page_shows_def)
qed

lemma feed_run_shows:
  assumes "poll_inv w" "l \<notin> set (subscribers w)"
    and "run (feed_step url_host date_parse l) (feed_mount ls hidden ls' l w) trace s"
  shows "feed_inv l s \<and> ((\<forall>lab \<in> set trace. calm lab) \<longrightarrow> page_shows (failing trace) s)"
  using assms(3)
proof (induction rule: run.induct)
  case run_start
  then show ?case using mount_inv [OF assms(1,2)] by (simp add: page_shows_def)
next
  case (run_step trace s lab t)
  then show ?case using feed_step_inv feed_step_shows [of url_host date_parse l s lab t trace] by auto
qed


section \<open>A session of the page\<close>

primrec page_part :: "feed_label \<Rightarrow> services_label list" where
  "page_part (Page_Step lab) = [lab]"
| "page_part (Poll_Ok es) = []"
| "page_part Poll_Failed = []"
| "page_part Poll_Quiet = []"

primrec feed_effects :: "feed_label \<Rightarrow> effect list" where
  "feed_effects (Page_Step lab) = services_effects lab"
| "feed_effects (Poll_Ok es) = es"
| "feed_effects Poll_Failed = []"
| "feed_effects Poll_Quiet = []"

abbreviation page_session :: "(string \<Rightarrow> string option) \<Rightarrow> (string \<Rightarrow> int option) \<Rightarrow> local_storage \<Rightarrow> services_label list \<Rightarrow> services_session \<Rightarrow> bool" where
  "page_session url_host date_parse ls \<equiv> run (services_step url_host date_parse) (services_session_init ls)"

text \<open>Traces are newest first: the page's own acts are the same in the same order, and so are the effects.\<close>

definition matches :: "services_label list \<Rightarrow> feed_label list \<Rightarrow> bool" where
  "matches tr trace \<longleftrightarrow>
     filter (\<lambda>l. \<not> is_news l) tr = concat (map page_part trace)
     \<and> concat (map services_effects (rev tr)) = concat (map feed_effects (rev trace))"

lemma page_effects_run:
  assumes "page_session url_host date_parse ls tr s"
  shows "page_session url_host date_parse ls (Overview_News # Overview_News # tr) (s\<lparr>ss_page := page_effects dc ec h (ss_page s)\<rparr>)"
proof -
  let ?d = "if dc then useOverview (\<lambda>d. Some (od_Services d)) h else None" and ?e = "if ec then h_error h else None"
  let ?s = "s\<lparr>ss_page := on_overview_data ?d (ss_page s)\<rparr>"
  have "services_step url_host date_parse s Overview_News ?s" by (rule overview_data)
  with assms have "page_session url_host date_parse ls (Overview_News # tr) ?s" by (rule run_step)
  moreover have "services_step url_host date_parse ?s Overview_News (?s\<lparr>ss_page := on_overview_error ?e (ss_page ?s)\<rparr>)"
    by (rule overview_error)
  ultimately have "page_session url_host date_parse ls (Overview_News # Overview_News # tr)
      (?s\<lparr>ss_page := on_overview_error ?e (ss_page ?s)\<rparr>)" by (rule run_step)
  moreover have "?s\<lparr>ss_page := on_overview_error ?e (ss_page ?s)\<rparr> = s\<lparr>ss_page := page_effects dc ec h (ss_page s)\<rparr>"
    by (cases dc; cases ec) (simp_all add: page_effects_def on_overview_data_def on_overview_error_def Let_def)
  ultimately show ?thesis by simp
qed

lemma deliver_run:
  assumes "page_session url_host date_parse ls tr (fd_page s)"
  shows "page_session url_host date_parse ls (Overview_News # Overview_News # tr) (fd_page (feed_deliver l v k wo s))"
  using page_effects_run [OF assms] by (simp add: feed_deliver_def Let_def)

text \<open>The toasts of a response come first.\<close>

lemma failures_run:
  assumes "page_session url_host date_parse ls tr s"
  shows "page_session url_host date_parse ls (rev (map (\<lambda>e. Failure_News [e]) (failure_news outs)) @ tr) s"
  using assms
proof (induction outs arbitrary: tr)
  case (Cons x outs)
  show ?case
  proof (cases x)
    case (ServiceFailure n k b)
    have "services_step url_host date_parse s (Failure_News [failure_toast n k b]) s" by (rule services_step.failure)
    with Cons.prems have "page_session url_host date_parse ls (Failure_News [failure_toast n k b] # tr) s" by (rule run_step)
    from Cons.IH [OF this] ServiceFailure show ?thesis by (simp add: failure_news_def)
  qed (use Cons in \<open>simp_all add: failure_news_def\<close>)
qed (simp add: failure_news_def)

lemma feed_run_session:
  assumes "run (feed_step url_host date_parse l) (feed_mount ls hidden ls' l w) trace s"
  shows "\<exists>tr. page_session url_host date_parse ls tr (fd_page s) \<and> matches tr trace"
  using assms
proof (induction rule: run.induct)
  case run_start
  have "page_session url_host date_parse ls [Overview_News, Overview_News] (fd_page (feed_mount ls hidden ls' l w))"
    unfolding feed_mount_def by (rule deliver_run) (simp add: run.run_start)
  then show ?case by (intro exI [of _ "[Overview_News, Overview_News]"]) (simp add: matches_def is_news_def)
next
  case (run_step trace s lab t)
  then obtain tr where tr: "page_session url_host date_parse ls tr (fd_page s)" "matches tr trace" by blast
  have quiet: ?case if "t = feed_deliver l v k wo s" "page_part lab = []" "feed_effects lab = []" for v k wo
    using deliver_run [OF tr(1), of l v k wo] tr(2) that
    by (intro exI [of _ "Overview_News # Overview_News # tr"]) (simp add: matches_def is_news_def)
  from run_step.hyps(2) show ?case
  proof (rule feed_stepE)
    fix labp p
    assume "lab = Page_Step labp" "t = s\<lparr>fd_page := p\<rparr>" "services_step url_host date_parse (fd_page s) labp p" "\<not> is_news labp"
    then show ?thesis using Sessions.run_step [OF tr(1)] tr(2) by (intro exI [of _ "labp # tr"]) (simp add: matches_def)
  next
    fix iv msg r d wo
    assume "lab = Poll_Ok (failure_news (snd wo))" "t = feed_deliver l (Suc (fd_version s)) (fd_errors s) wo s"
    then show ?thesis using deliver_run [OF failures_run [OF tr(1), of "snd wo"]] tr(2)
      by (intro exI [of _ "Overview_News # Overview_News # rev (map (\<lambda>e. Failure_News [e]) (failure_news (snd wo))) @ tr"])
        (simp add: matches_def is_news_def rev_map comp_def)
  qed (rule quiet, assumption, simp, simp)+
qed


section \<open>The list comes back\<close>

lemma feed_deliver_frame:
  "fd_world (feed_deliver l v k wo s) = fst wo" "fd_version (feed_deliver l v k wo s) = v"
  "fd_errors (feed_deliver l v k wo s) = k"
  "fd_hook (feed_deliver l v k wo s) = fold (hook_event l) (snd wo) (fd_hook s)"
  by (simp_all add: feed_deliver_def Let_def)

lemma feed_answer:
  assumes "feed_inv l s" "iv \<in> set (in_flight (fd_world s))" "poll_result msg r = Inr d"
  obtains es t where "feed_step url_host date_parse l s (Poll_Ok es) t" "shown_services t = Some (od_Services d)"
  using feed_ok [OF assms(2,3) refl] deliver_ok(2) [OF assms] by blast

lemma feed_wakes:
  assumes "feed_inv l s" "timers (fd_world s) = [(i, delay)]" "\<not> fetching (fd_world s)"
  obtains t iv where "feed_step url_host date_parse l s Poll_Quiet t" "iv \<in> set (in_flight (fd_world t))"
proof -
  let ?t = "feed_deliver l (fd_version s) (fd_errors s) (timer_fires False empty_storage i (fd_world s)) s"
  have "feed_step url_host date_parse l s Poll_Quiet ?t" by (rule feed_timer) (simp add: assms(2))
  moreover have "resolved_interval False empty_storage \<in> set (in_flight (fd_world ?t))"
    using assms by (auto simp: feed_inv_def feed_deliver_frame timer_fires_def tick_def)
  ultimately show thesis by (rule that)
qed

text \<open>C12. From every state of the composed page a good response to the request that is in flight, or to the one that the pending
  timer starts, brings the list back: at most one timer and one response away, whatever failed before.\<close>

theorem list_comes_back:
  assumes "poll_reachable w" "l \<notin> set (subscribers w)"
    and "run (feed_step url_host date_parse l) (feed_mount ls hidden ls' l w) trace s"
    and "poll_result msg r = Inr d"
  shows "\<exists>es later t. (later = [Poll_Ok es] \<and> in_flight (fd_world s) \<noteq> []
        \<or> later = [Poll_Ok es, Poll_Quiet] \<and> (\<exists>i delay. timers (fd_world s) = [(i, delay)] \<and> delay \<le> 60000))
    \<and> run (feed_step url_host date_parse l) s later t \<and> sp_services (ss_page (fd_page t)) = Some (od_Services d)"
proof -
  have inv: "feed_inv l s" using feed_run_shows [OF poll_reachable_inv [OF assms(1)] assms(2,3)] by blast
  then have "poll_inv (fd_world s)" "l \<in> set (subscribers (fd_world s))" by (simp_all add: feed_inv_def)
  from this(1) show ?thesis
  proof (cases rule: poll_inv_cases)
    case quiet
    with \<open>l \<in> set (subscribers (fd_world s))\<close> show ?thesis by simp
  next
    case (polling iv)
    then have iv: "iv \<in> set (in_flight (fd_world s))" by simp
    obtain es t where "feed_step url_host date_parse l s (Poll_Ok es) t" "shown_services t = Some (od_Services d)"
      using feed_answer [OF inv iv assms(4)] .
    moreover from this(1) have "run (feed_step url_host date_parse l) s [Poll_Ok es] t" by (rule run_step [OF run_start])
    ultimately show ?thesis using polling(1) by (intro exI [of _ es] exI [of _ "[Poll_Ok es]"] exI [of _ t]) simp
  next
    case (sleeping i delay)
    obtain u iv where u: "feed_step url_host date_parse l s Poll_Quiet u" "iv \<in> set (in_flight (fd_world u))"
      using feed_wakes [OF inv sleeping(2,3)] .
    obtain es t where t: "feed_step url_host date_parse l u (Poll_Ok es) t" "shown_services t = Some (od_Services d)"
      using feed_answer [OF feed_step_inv [OF u(1) inv] u(2) assms(4)] .
    have "run (feed_step url_host date_parse l) s [Poll_Quiet] u" using u(1) by (rule run_step [OF run_start])
    then have "run (feed_step url_host date_parse l) s [Poll_Ok es, Poll_Quiet] t" using t(1) by (rule run_step)
    then show ?thesis using t(2) sleeping
      by (intro exI [of _ es] exI [of _ "[Poll_Ok es, Poll_Quiet]"] exI [of _ t]) simp
  qed
qed

section \<open>A failed poll on the services page\<close>

abbreviation sample_feed0 :: feed where
  "sample_feed0 \<equiv> feed_mount empty_storage False empty_storage 0 poll_init"

definition sample_feed1 :: feed where
  "sample_feed1 = feed_deliver 0 1 0 (fetch_settles [] 10000 sample_reply sample_fetching) sample_feed0"

definition sample_feed2 :: feed where
  "sample_feed2 = feed_deliver 0 1 0 (timer_fires False empty_storage 1 sample_sleeping) sample_feed1"

definition sample_feed3 :: feed where
  "sample_feed3 = feed_deliver 0 1 1 (fetch_settles [] 10000 (Rejected ''offline'') sample_refetching) sample_feed2"

definition sample_feed4 :: feed where
  "sample_feed4 = feed_deliver 0 1 1 (timer_fires False empty_storage 2 sample_failed) sample_feed3"

lemma sample_feed_frames:
  "fd_world sample_feed0 = sample_fetching \<and> fd_version sample_feed0 = 0 \<and> fd_errors sample_feed0 = 0"
  "fd_world sample_feed1 = sample_sleeping \<and> fd_version sample_feed1 = 1 \<and> fd_errors sample_feed1 = 0"
  "fd_world sample_feed2 = sample_refetching \<and> fd_version sample_feed2 = 1 \<and> fd_errors sample_feed2 = 0"
  "fd_world sample_feed3 = sample_failed \<and> fd_version sample_feed3 = 1 \<and> fd_errors sample_feed3 = 1"
  by (simp_all only: feed_mount_def sample_feed1_def sample_feed2_def sample_feed3_def feed_deliver_frame
      sample_fetching_def sample_sleeping_def sample_refetching_def sample_failed_def)

lemma sample_response: "poll_result [] sample_reply = Inr (sample_overview [sample_service ''a'' ''active'' 1] 50)"
  by (simp add: sample_reply_def poll_result_def resp_ok_def)

lemma sample_feed_run:
  "run (feed_step url_host date_parse 0) sample_feed0 [Poll_Quiet, Poll_Failed, Poll_Quiet, Poll_Ok []] sample_feed4"
proof -
  let ?step = "feed_step url_host date_parse 0"
  have "failure_news (snd (fetch_settles [] 10000 sample_reply sample_fetching)) = []"
    by (simp add: fetch_settles_def sample_response fetch_ok_def sample_fetching_eq new_failures_def failure_news_def Let_def)
  then have 1: "?step sample_feed0 (Poll_Ok []) sample_feed1"
    using feed_ok [of 10000 sample_feed0 "[]" sample_reply _ "fetch_settles [] 10000 sample_reply sample_fetching"]
    by (simp add: sample_feed_frames(1) sample_response sample_feed1_def) (simp add: sample_fetching_eq)
  have 2: "?step sample_feed1 Poll_Quiet sample_feed2"
    using feed_timer [of 1 10000 sample_feed1 url_host date_parse 0 False empty_storage]
    by (simp add: sample_feed_frames(2) sample_feed2_def) (simp add: sample_sleeping_eq)
  have 3: "?step sample_feed2 Poll_Failed sample_feed3"
    using feed_failed [of 10000 sample_feed2 "[]" "Rejected ''offline''" _ url_host date_parse 0]
    by (simp add: sample_feed_frames(3) sample_feed3_def poll_result_def) (simp add: sample_refetching_eq)
  have 4: "?step sample_feed3 Poll_Quiet sample_feed4"
    using feed_timer [of 2 2000 sample_feed3 url_host date_parse 0 False empty_storage]
    by (simp add: sample_feed_frames(4) sample_feed4_def) (simp add: sample_failed_eq)
  show ?thesis
    by (rule run_step, rule run_step, rule run_step, rule run_step, rule run_start) (rule 1 2 3 4)+
qed

lemma sample_feed_hook:
  "h_data (fd_hook sample_feed4) = Some (sample_overview [sample_service ''a'' ''active'' 1] 50)"
  "h_error (fd_hook sample_feed4) = None"
proof -
  have "snd (timer_fires False empty_storage 2 sample_failed) = [OnData 0 (sample_overview [sample_service ''a'' ''active'' 1] 50)]"
    by (simp add: sample_failed_eq sample_sleeping_eq poll_ops deliverCached_def)
  then show "h_data (fd_hook sample_feed4) = Some (sample_overview [sample_service ''a'' ''active'' 1] 50)"
    "h_error (fd_hook sample_feed4) = None"
    by (simp_all add: sample_feed4_def feed_deliver_frame onData_def)
qed



theorem list_comes_back_witness:
  "\<exists>t later. run (feed_step (\<lambda>u. None) (\<lambda>d. None) 0) sample_feed4 later t
    \<and> sp_services (ss_page (fd_page t)) = Some [sample_service ''a'' ''active'' 1]"
  using list_comes_back [OF poll_reachable.start _ sample_feed_run sample_response, of "\<lambda>u. None" "\<lambda>d. None"]
  by (fastforce simp: poll_init_def sample_overview_def)

end
