(* ===== verification/Spec2Isabelle.thy ===== *)
theory Spec2Isabelle
  imports Overview_Properties Hooks Services_Properties Storage_View Logs_View Secrets_Page Backups_Page VMs_Page
    Overview_Page User_Menu Bug_Report UI_Pages Frontend_Build
    Services_Forms Storage_Session Logs_Session VMs_Session Secrets_Session Backups_Session Services_Feed
begin

text \<open>
  A verification development for the web frontend of the homelab dashboard (\<^verbatim>\<open>src/frontend/src\<close>, TypeScript
  and React). The frontend is one page application over the HTTP API of a daemon: it polls the state of the
  machine, its services, disks and virtual machines, shows them in pages, and sends the user's actions back.

  \<^bold>\<open>Parts and how they interact.\<close> One object of the module \<^verbatim>\<open>hooks/use-overview.ts\<close>, the shared poller, fetches
  the overview on an interval the user chooses and delivers it to every mounted \<open>useOverview\<close>. The pages
  (\<^verbatim>\<open>pages/\<close>) and widgets (\<^verbatim>\<open>widgets/\<close>) read what the hooks hold, keep a state of their own, and render views
  whose handlers start requests; a response continues the handler. Tables go through \<open>useTable\<close> and
  \<open>PageShell\<close> of \<^verbatim>\<open>components/data-table.tsx\<close>; links between pages carry state in the URL (the logs page). All
  views are made of the components of \<^verbatim>\<open>components/ui\<close>, which wrap the react-aria primitives.

  \<^bold>\<open>How the code is modelled.\<close>
  \<^item> A string is the list of the bytes of its UTF-8 encoding (\<open>Prelude\<close>, \<open>JS_Strings\<close>, \<open>JS_Uri\<close>); a number is an exact
    rational, \<open>NaN\<close> or an infinity (\<open>JS_Numbers\<close>), so rounding of doubles is not modelled; an optional field is an
    option, a dictionary an association list, an interface a record, a union of literals a datatype or its text.
  \<^item> A component's state is a record, named after the component with the fields of its \<open>useState\<close> calls. A handler is a
    function of the state to the new state and the list of its effects (requests, toasts, navigation, timers: the
    datatype \<open>effect\<close> in \<open>React_View\<close>). An asynchronous handler is cut at its \<open>await\<close>: one definition up to the request, a
    second one, named \<open>..._settle\<close>, for its outcome, which is a rejection, a response that is no JSON, or a body. Any
    interleaving of calls and responses is a sequence of such steps.
  \<^item> A view is a value (\<open>React_View\<close>): tags, behaviour-carrying props, children, with each handler prop holding the
    actions it performs. \<open>offered v\<close> is what a user can trigger in it: nothing under a closed overlay, nothing on a
    disabled or pending control. Static class names, sizes and pictures are left out.
  \<^item> Timers, in-flight requests and event streams belong to the state of their owner or to the list of steps; the browser
    is what chooses the next step. Dates, URL host parsing, JSON parsing, the text of a fraction, the percentage of a
    meter and the router's decoding of a path are parameters of the definitions that use them; \<open>localStorage\<close> is a value
    that may be unreadable or unwritable (\<open>Local_Storage\<close>).
  \<^item> No fuel is used: the recursions that are not structural (the base-1024 logarithm, the splitting at white space,
    decimal digits) have termination proofs. The one loop that may not end, the reading of a deployment's response, is
    a function to an option (\<open>deploy_read\<close>) with the exact condition of its return (\<open>deploy_loop_returns\<close>), and agrees with
    the loop over the list of reads so far.

  \<^bold>\<open>Theories.\<close>
  \<^item> \<open>Api_Types\<close>: the interfaces of \<^verbatim>\<open>api-types/index.ts\<close>. \<open>Samples\<close>: concrete values of them for the witnesses.
  \<^item> \<open>Overview_Poller\<close>, \<open>Overview_Feed\<close>, \<open>Overview_Properties\<close>: \<^verbatim>\<open>hooks/use-overview.ts\<close>. The poller as a step relation, its
    invariant (one of request and timer, never both, never none while someone listens), its refinement of a machine with
    three phases, the listeners' view of the cache.
  \<^item> \<open>Hooks\<close>: \<^verbatim>\<open>use-api.ts\<close>, \<^verbatim>\<open>use-json-config.ts\<close>, \<^verbatim>\<open>use-mobile.ts\<close>, \<^verbatim>\<open>use-sparkline.ts\<close>.
  \<^item> \<open>Collation\<close>, \<open>Data_Table\<close>: sorting, filtering, \<open>PageShell\<close> and its context menu.
  \<^item> \<open>Service_Parts\<close>, \<open>Service_Cards\<close>, \<open>Pull_Dialog\<close>, \<open>Services_Page\<close>, \<open>Services_View\<close>, \<open>Services_Properties\<close>:
    \<^verbatim>\<open>pages/ServicesPage.tsx\<close> and the components under \<^verbatim>\<open>pages/ServicesPage/\<close>.
  \<^item> \<open>Byte_Units\<close>, \<open>Storage_Page\<close>, \<open>Storage_View\<close>: the byte formatters and \<^verbatim>\<open>pages/StoragePage.tsx\<close> with its parts.
  \<^item> \<open>Search_Params\<close>, \<open>Logs_Page\<close>, \<open>Logs_View\<close>: \<^verbatim>\<open>pages/LogsPage.tsx\<close>. \<open>Secrets_Page\<close>, \<open>Backups_Page\<close> (with the diagnostics page)
    and \<open>VMs_Page\<close>: the other pages.
  \<^item> \<open>Charts\<close>, \<open>Widgets\<close>, \<open>Widget_Registry\<close>, \<open>Overview_Page\<close>: the charts, the fourteen widgets, their registry, and the
    overview with the packing of widgets into rows.
  \<^item> \<open>Navigation\<close>, \<open>User_Menu\<close>, \<open>Bug_Report\<close>: the bar and its links, routes and embedded services, the theme and the interval
    selector, and the report dialog with its event stream.
  \<^item> \<open>UI_Base\<close>, \<open>UI_Overlays\<close>, \<open>UI_Menus\<close>, \<open>UI_Controls\<close>, \<open>UI_Table\<close>, \<open>UI_Kit\<close>: the component library of \<^verbatim>\<open>components/ui\<close> over
    its primitives, and the rendering of a whole view. \<open>UI_Pages\<close>: every page and dialog keeps to the rules of the
    library. \<open>Frontend_Build\<close>: the few decisions of build and start.
  \<^item> \<open>Sessions\<close>: runs of a page as sequences of labelled steps, and how their properties are proved. \<open>Services_Session\<close> with
    \<open>Services_Traces\<close> and \<open>Services_Forms\<close>, \<open>Storage_Session\<close>, \<open>Logs_Session\<close>, \<open>VMs_Session\<close>, \<open>Secrets_Session\<close>, \<open>Backups_Session\<close>:
    whole sessions on six pages. A step is a handler the rendered page offers, the answer to any outstanding request, a
    timer, news from the poller, a commit of a render or an event of a stream; the state is the page's with the requests
    that are outstanding (for the logs also the query each request was sent for and the body of each answer, so that
    what is shown can be traced to its query).
  \<^item> \<open>Services_Feed\<close>: the services page composed with the poller it listens to (\<open>feed_step\<close>): polls, the hook's listener,
    the identities of the delivered objects that decide which effect of the page runs, and the page's own session.

  \<^bold>\<open>Interfaces.\<close> Where components rely on one another the contract is a locale, interpreted on the code's definitions:
  \<open>preference_store\<close> (what is saved is read back: \<open>localStorage\<close>), \<open>param_store\<close> (URL parameters), \<open>consistent_comparator\<close>
  (what a stable sort needs of \<open>localeCompare\<close> and of the row comparison), \<open>overview_feed\<close> (what a hook may assume of the
  poller), \<open>busy_handler\<close> (a flag set at the call and cleared at every outcome: nine handlers of six components),
  \<open>log_dialog\<close>, \<open>unit_format\<close> (the five byte formatters), and \<open>frame_component\<close> with its extension
  \<open>transparent_component\<close> (a library component hands every handler on and adds none: an interpretation for each).
  Of sessions: \<open>session_invariant\<close> (an invariant of every step holds in every run), its extension \<open>traceback\<close> (a guarded
  request is traced to the earlier step that asked for it) and its extension \<open>one_shot\<close> (the guard is used up, so requests
  never outnumber what was asked for), interpreted on the session pages, and \<open>trace_view\<close> (a part of the state is a
  function of the labels so far), interpreted on the forms of the services, secrets and backups pages.

  \<^bold>\<open>What the lemmas show.\<close> Of the stateful parts: invariants of all reachable states (poller, pull stream, log requests),
  single flight and progress, every branch of every handler. Of the pages: what a user can trigger, in terms of the
  state (the \<open>offered_...\<close> lemmas), from which the safety properties follow: nothing destructive without its open
  confirmation, nothing on a pool in the wrong state. Of whole sessions, in any order of user, answers and timers: a
  destructive request was asked for, as often as asked; what is saved is what was typed or edited in the form; busy
  flags tell exactly what is in flight; the lines of the logs page are the answer to the query it shows; what an answer
  does that comes late. Of the composed page: its list follows the polls (\<open>services_follow_polls\<close>), and it refines the
  page on its own (\<open>feed_refines_session\<close>), so what holds of every session holds under the poller. Of the pure parts: round trips, sortedness and stability, bounds of
  charts and formatters, the packing of the grid. Of the library: rendering a view through the components offers the same
  actions (\<open>kit_offers_the_same\<close>), so the page properties hold of what is rendered. Some properties state a
  behaviour of the code that looks unintended, because that is what the code does: a retry that hides an error, the stop
  whose failure is ignored, an event lost at the border of two chunks, a filter value that is not escaped.

  \<^bold>\<open>Not modelled.\<close> The Go daemon and command line client (\<^verbatim>\<open>cmd/\<close>, \<^verbatim>\<open>internal/\<close>, \<^verbatim>\<open>pkg/\<close>), which the frontend reaches over
  HTTP only; \<^verbatim>\<open>types.gen.ts\<close>, a copy of \<^verbatim>\<open>api-types/index.ts\<close>; the variant tables of class names (\<open>tv\<close> of
  tailwind-variants), which are styling; the react-aria primitives, React's scheduling, the router and the toaster, which
  are packages: the values they pass are inputs. Errors thrown by a library hook outside its provider are branches only
  where a part of a component reads a null context (the progress bar).
\<close>

section \<open>From a service to its logs\<close>

text \<open>C39. The logs entry of a service's menu leads to the logs page with the tab of that service active,
  found by the name in the link after it went through the URL; a name that no log service has
  shows the first one, without a word.\<close>

theorem logs_link_opens_service:
  assumes "short_name unit \<noteq> []"
  shows "services_dispatch pt (Show_Logs unit) s = (s, [Navigate (''/logs?'' @ ''service='' @ encodeURIComponent (short_name unit))])
    \<and> activeService config (lp_params (logs_init config (parse_params (''service='' @ encodeURIComponent (short_name unit)))))
        = (case find (\<lambda>svc. lc_id svc = short_name unit) (lv_services config) of
             Some svc \<Rightarrow> svc | None \<Rightarrow> hd (lv_services config))"
proof -
  have "parse_params (''service='' @ encodeURIComponent (short_name unit)) = [(''service'', short_name unit)]"
    using parse_single [of "''service''" "short_name unit"] by (simp add: is_lower_def)
  moreover have "params_get [(''service'', v)] ''service'' = Some v" for v
    by (simp add: params_get_def)
  ultimately show ?thesis
    using assms by (simp add: logs_init_def initial_params_def activeService_def active_service_id_def opt_or_def str_or_def)
qed

theorem logs_link_opens_service_witness:
  "lc_id (activeService sample_log_config
     (lp_params (logs_init sample_log_config (parse_params (''service='' @ encodeURIComponent (short_name ''podman-plex.service'')))))) = ''plex''"
proof -
  have short: "short_name ''podman-plex.service'' = ''plex''"
    using strip_suffix_append [of "''.service''" "''plex''"] by (simp add: short_name_def strip_prefix_def)
  show ?thesis
    using logs_link_opens_service [of "''podman-plex.service''" "(0, 0)" sample_page sample_log_config] short
    by (simp add: sample_log_config_def sample_log_service_def)
qed

section \<open>From the selector to the polls\<close>

lemma option_is_nat:
  assumes "(v, label) \<in> set interval_options"
  obtains n :: nat where "v = of_nat n" "2000 \<le> n" "n \<le> 60000"
proof -
  have "v \<in> of_nat ` {2000, 5000, 10000, 30000, 60000 :: nat}"
    using assms by (auto simp: interval_options_def)
  then obtain n :: nat where n: "v = of_nat n" "n \<in> {2000, 5000, 10000, 30000, 60000}" by (rule imageE)
  from n(2) have "2000 \<le> n" "n \<le> 60000" by auto
  with n(1) show ?thesis by (rule that)
qed

lemma selector_stores:
  assumes "(v, label) \<in> set interval_options" "ls_readable ls \<and> ls_writable ls"
    and "selector_change shortest (num_string shortest (Fin v)) ls = (shown, ls')"
  shows "shown = Fin v" and "getPollInterval ls' = v"
proof -
  obtain n :: nat where v: "v = of_nat n" and n: "2000 \<le> n" "n \<le> 60000" using option_is_nat [OF assms(1)] .
  have le: "of_nat n \<le> (60000 :: rat)" "2000 \<le> (of_nat n :: rat)"
    using n by (metis of_nat_le_iff of_nat_numeral)+
  then have "\<bar>of_nat n :: rat\<bar> < 10 ^ 21" by simp
  then have "num_string shortest (Fin v) = show_nat n" by (simp add: v show_int_def)
  moreover have "(of_nat n :: rat) < overflow_edge" using le by (simp add: overflow_edge_def)
  then have "js_number (show_nat n) = Fin (of_nat n)" by (rule js_number_show_nat)
  ultimately have "shown = Fin v \<and> ls' = setPollInterval shortest (Fin (of_nat n)) ls"
    using assms(3) unfolding selector_change_def v Let_def by (metis prod.inject)
  then show "shown = Fin v" "getPollInterval ls' = v"
    using interval_roundtrip [of ls shortest n] assms(2) le by (simp_all add: v clamp_interval_def)
qed

text \<open>C6. Choosing an option of the interval selector takes effect: where the store can be used the selector shows it here
  and, on the storage event, in every other tab; from the next time the poller's timer fires the polls
  follow it, at least 30 seconds apart in a hidden tab, and after a failure the next one comes after exactly 2 seconds.\<close>

theorem chosen_interval_polls:
  assumes "(v, label) \<in> set interval_options" "ls_readable ls \<and> ls_writable ls"
    and "selector_change shortest (num_string shortest (Fin v)) ls = (shown, ls')"
    and "poll_reachable s" "timers s = [(i, d)]"
    and "timer_fires hidden ls' i s = (s1, outs)" "iv = (if hidden then max v 30000 else v)"
  shows "shown = Fin v \<and> selector_storage ls' = Fin v \<and> in_flight s1 = [iv]
    \<and> (\<exists>n. timeoutId (fst (fetch_ok iv data s1)) = Some n \<and> timers (fst (fetch_ok iv data s1)) = [(n, iv)])
    \<and> (\<exists>n. timeoutId (fst (fetch_fail iv e s1)) = Some n \<and> timers (fst (fetch_fail iv e s1)) = [(n, 2000)])"
proof -
  note stored = selector_stores [OF assms(1-3)]
  have iv: "resolved_interval hidden ls' = iv" by (simp add: resolved_interval_def stored(2) assms(7))
  have "2000 \<le> v" using getPollInterval_range [of ls'] stored(2) by simp
  then have "min iv 2000 = 2000" using assms(7) by auto
  from poll_reachable_inv [OF assms(4)] show ?thesis
  proof (cases rule: poll_inv_cases)
    case (sleeping j d')
    then have "s1 = s\<lparr>timers := [], fetching := True, in_flight := [iv]\<rparr>"
      using assms(5,6) by (auto simp: timer_fires_def tick_def iv)
    then show ?thesis
      using sleeping stored \<open>min iv 2000 = 2000\<close>
      by (simp add: fetch_ok_def fetch_fail_def set_timeout_def selector_storage_def Let_def)
  qed (use assms(5) in simp_all)
qed

theorem chosen_interval_polls_witness:
  "in_flight (fst (timer_fires True (snd (selector_change (\<lambda>q. []) (num_string (\<lambda>q. []) (Fin 5000)) empty_storage)) 1 sample_sleeping)) = [30000]"
proof -
  let ?ls = "snd (selector_change (\<lambda>q. []) (num_string (\<lambda>q. []) (Fin 5000)) empty_storage)"
  have "(5000, ''Fast (5s)'') \<in> set interval_options" by (simp add: interval_options_def)
  moreover have "ls_readable empty_storage \<and> ls_writable empty_storage" by (simp add: empty_storage_def)
  moreover have "timers sample_sleeping = [(1, 10000)]" by (simp add: sample_sleeping_eq)
  ultimately show ?thesis
    using chosen_interval_polls [of 5000 "''Fast (5s)''" empty_storage "\<lambda>q. []"
        "fst (selector_change (\<lambda>q. []) (num_string (\<lambda>q. []) (Fin 5000)) empty_storage)" ?ls sample_sleeping 1 10000 True
        "fst (timer_fires True ?ls 1 sample_sleeping)" "snd (timer_fires True ?ls 1 sample_sleeping)" 30000]
      sample_reachable(2)
    by simp
qed

section \<open>Late answers\<close>

text \<open>C32. An answer that comes late acts on the dialog that is open by then: in any session on the secrets, backups and
  services pages the answer to a successful save closes whatever form is open, also one opened since on another
  item; and a log is shown under the item of the dialog that is open, on the backups and diagnostics pages.\<close>

theorem late_answers:
  "(run (secrets_step date_parse locale_string) secrets_session_init (Secrets_Answered (Req_Put m) es # tr1) s1
      \<and> saved_note (em_name m) \<in> set es \<longrightarrow> shown_form (xs_page s1) = None)
   \<and> (run (backups_step date_parse) backups_session_init (Backups_Answered (Req_Save_Job j) es # tr2) s2
      \<and> job_saved_note j \<in> set es \<longrightarrow> bp_editingJob (ks_page s2) = None)
   \<and> (run (services_step url_host date_parse) (services_session_init ls) (Answered (Req_Save d) es # tr3) s3
      \<and> config_saved_note d \<in> set es \<longrightarrow> sp_configDrawer (ss_page s3) = None)
   \<and> lw_name (bp_logs (backup_logs_settle r (backup_showLogs b (backup_showLogs a s4)))) = b
   \<and> lw_content (bp_logs (backup_logs_settle r (backup_showLogs b (backup_showLogs a s4)))) = log_content r
   \<and> lw_name (dg_logs (diag_logs_settle r (diag_showLogs b (diag_showLogs a s5)))) = diag_name b
   \<and> lw_content (dg_logs (diag_logs_settle r (diag_showLogs b (diag_showLogs a s5)))) = log_content r"
  using backup_log.shows_foreign_log [of r b a s4] diag_log.shows_foreign_log [of r b a s5]
  by (auto dest: secret_form.view_run backup_form.view_run config_form.view_run)

text \<open>The form of job \<open>b\<close> is open when the answer to the save of \<open>a\<close> comes, and is closed by it.\<close>

definition late_save_run :: "backups_label list" where
  "late_save_run =
     [Backups_Fires [Backup_Edit (Some (sample_backup ''b''))] [],
      Backups_Fires [Backup_Edit None] []] @ backup_save_run"

lemma late_save_session:
  "sample_backups_run late_save_run (editing_session (Some (sample_backup ''b'')) [Req_Save_Job (sample_backup ''a'')])"
  unfolding late_save_run_def append_Cons append_Nil
  by (rule run_step [OF run_step [OF backup_save_session step_close] step_edit]) simp

definition late_saved :: backups_session where
  "late_saved = (editing_session (Some (sample_backup ''b'')) [Req_Save_Job (sample_backup ''a'')])
     \<lparr>ks_page := backups_init, ks_pending := []\<rparr>"

lemma late_saved_step:
  "sample_backups_step (editing_session (Some (sample_backup ''b'')) [Req_Save_Job (sample_backup ''a'')])
     (Backups_Answered (Req_Save_Job (sample_backup ''a'')) [job_saved_note (sample_backup ''a'')]) late_saved"
proof -
  let ?s = "editing_session (Some (sample_backup ''b'')) [Req_Save_Job (sample_backup ''a'')]"
  let ?r = "Resolved \<lparr>r_status = 200, r_status_text = [], r_text = [],
      r_json = Some \<lparr>env_success = True, env_message = None, env_error = None\<rparr>\<rparr>"
  have "sample_backups_step ?s (Backups_Answered (Req_Save_Job (sample_backup ''a'')) [job_saved_note (sample_backup ''a'')])
      (?s\<lparr>ks_page := backups_init, ks_pending := remove1 (Req_Save_Job (sample_backup ''a'')) (ks_pending ?s)\<rparr>)"
    by (rule backups_answer [where a = "Job_Answer ?r"])
      (simp_all add: editing_session_def saveJob_settle_def job_saved_note_def backups_init_def)
  then show ?thesis by (simp add: late_saved_def editing_session_def)
qed

theorem late_answers_witness:
  "foldr edit_after late_save_run None = Some (sample_backup ''b'') \<and> bp_editingJob (ks_page late_saved) = None"
proof -
  let ?note = "job_saved_note (sample_backup ''a'')"
  have "sample_backups_run (Backups_Answered (Req_Save_Job (sample_backup ''a'')) [?note] # late_save_run) late_saved"
    using late_save_session late_saved_step by (rule run_step)
  moreover have "?note \<in> set [?note]" by simp
  ultimately have "sample_backups_run (Backups_Answered (Req_Save_Job (sample_backup ''a'')) [?note] # late_save_run) late_saved
      \<and> ?note \<in> set [?note]" by (rule conjI)
  then have "bp_editingJob (ks_page late_saved) = None"
    by (rule late_answers [THEN conjunct2, THEN conjunct1, THEN mp])
  then show ?thesis by (simp add: late_save_run_def backup_save_run_def)
qed

end
